(* ===== verification/Gateway_Prelude.thy ===== *)
theory Gateway_Prelude
  imports Main
begin

section \<open>Shared vocabulary of the development\<close>

text \<open>
  What every component uses: JavaScript strings as lists of UTF-16 code units, exceptions as
  values, method bodies as blocks of statements over an explicit state, the contract of a codec
  and of an invariant of an event loop (both as locales), and a few generic list lemmas.
\<close>

subsection \<open>Strings\<close>

text \<open>A JavaScript string is a list of UTF-16 code units. Source literals in ASCII go through
  \<open>lit\<close>; the Russian messages are written as code units.\<close>

type_synonym jsstr = "nat list"

definition lit :: "string \<Rightarrow> jsstr" where
  "lit s = map of_char s"

definition code_units :: "jsstr \<Rightarrow> bool" where
  "code_units s \<longleftrightarrow> list_all (\<lambda>c. c < 65536) s"

definition bytes_ok :: "nat list \<Rightarrow> bool" where
  "bytes_ok bs \<longleftrightarrow> list_all (\<lambda>b. b < 256) bs"

lemma lit_Nil [simp]: "lit [] = []"
  by (simp add: lit_def)

lemma lit_Cons: "lit (c # s) = of_char c # lit s"
  by (simp add: lit_def)

lemma bytes_ok_simps [simp]:
  "bytes_ok []"
  "bytes_ok (b # bs) \<longleftrightarrow> b < 256 \<and> bytes_ok bs"
  "bytes_ok (xs @ ys) \<longleftrightarrow> bytes_ok xs \<and> bytes_ok ys"
  by (simp_all add: bytes_ok_def)

lemma code_units_simps [simp]:
  "code_units []"
  "code_units (c # s) \<longleftrightarrow> c < 65536 \<and> code_units s"
  "code_units (xs @ ys) \<longleftrightarrow> code_units xs \<and> code_units ys"
  by (simp_all add: code_units_def)

lemma bytes_ok_concat: "bytes_ok (concat xss) \<longleftrightarrow> list_all bytes_ok xss"
  by (induction xss) simp_all

lemma map_mod_256_id: "bytes_ok bs \<Longrightarrow> map (\<lambda>b. b mod 256) bs = bs"
  by (induction bs) simp_all

subsection \<open>Exceptions and statements\<close>

text \<open>The exceptions the modelled code and the platform functions it calls can throw.\<close>

datatype jsexn = TypeError | SyntaxError | RangeError | InvalidStateError | InvalidCharacterError | OtherError

text \<open>
  A statement transforms the state and may throw; the effects made before the exception stay.
  A method body is a block: its statements run in order up to the first that throws.
\<close>

type_synonym 's stmt = "'s \<Rightarrow> jsexn option \<times> 's"

fun block :: "'s stmt list \<Rightarrow> 's stmt" where
  "block [] s = (None, s)"
| "block (c # cs) s =
     (case c s of (None, s') \<Rightarrow> block cs s' | (Some e, s') \<Rightarrow> (Some e, s'))"

definition assign :: "('s \<Rightarrow> 's) \<Rightarrow> 's stmt" where
  "assign f s = (None, f s)"

definition throw :: "jsexn \<Rightarrow> 's stmt" where
  "throw e s = (Some e, s)"

definition ifthen :: "('s \<Rightarrow> bool) \<Rightarrow> 's stmt list \<Rightarrow> 's stmt" where
  "ifthen b cs s = (if b s then block cs s else (None, s))"

definition ifelse :: "('s \<Rightarrow> bool) \<Rightarrow> 's stmt list \<Rightarrow> 's stmt list \<Rightarrow> 's stmt" where
  "ifelse b cs ds s = (if b s then block cs s else block ds s)"

definition try_catch :: "'s stmt list \<Rightarrow> (jsexn \<Rightarrow> 's stmt list) \<Rightarrow> 's stmt" where
  "try_catch cs h s =
     (case block cs s of (None, s') \<Rightarrow> (None, s') | (Some e, s') \<Rightarrow> block (h e) s')"

text \<open>\<open>with_val g k\<close>: evaluate an expression that may throw (\<open>const x = g\<close>), then go on.\<close>

definition with_val :: "('s \<Rightarrow> jsexn + 'a) \<Rightarrow> ('a \<Rightarrow> 's stmt list) \<Rightarrow> 's stmt" where
  "with_val g k s = (case g s of Inl e \<Rightarrow> (Some e, s) | Inr a \<Rightarrow> block (k a) s)"

lemmas stmt_defs = assign_def throw_def ifthen_def ifelse_def try_catch_def with_val_def

subsection \<open>Codecs\<close>

text \<open>The contract between a sender's encoder and a receiver's decoder: decoding gives back
  every well-formed value.\<close>

locale codec =
  fixes enc :: "'a \<Rightarrow> 'b" and dec :: "'b \<Rightarrow> 'a option" and wf :: "'a \<Rightarrow> bool"
  assumes dec_enc: "wf a \<Longrightarrow> dec (enc a) = Some a"
begin

lemma enc_inj: "wf a \<Longrightarrow> wf b \<Longrightarrow> enc a = enc b \<Longrightarrow> a = b"
  by (metis dec_enc option.inject)

end

text \<open>Two codecs in a row, the output of the first being an input of the second, are a codec.\<close>

locale codec_chain =
  first: codec enc1 dec1 wf1 + second: codec enc2 dec2 wf2
  for enc1 :: "'a \<Rightarrow> 'b" and dec1 :: "'b \<Rightarrow> 'a option" and wf1 :: "'a \<Rightarrow> bool"
    and enc2 :: "'b \<Rightarrow> 'c" and dec2 :: "'c \<Rightarrow> 'b option" and wf2 :: "'b \<Rightarrow> bool" +
  assumes wf_enc1: "wf1 a \<Longrightarrow> wf2 (enc1 a)"

sublocale codec_chain \<subseteq> chained: codec "\<lambda>a. enc2 (enc1 a)" "\<lambda>c. Option.bind (dec2 c) dec1" wf1
  by unfold_locales (simp add: wf_enc1 first.dec_enc second.dec_enc)

subsection \<open>Event loops\<close>

text \<open>
  An event loop: an initial state, the events the platform may deliver in a state, and the
  handler that runs to completion for each. \<open>reachable\<close> collects the states between two events.
\<close>

inductive reachable :: "'s \<Rightarrow> ('s \<Rightarrow> 'e \<Rightarrow> bool) \<Rightarrow> ('e \<Rightarrow> 's \<Rightarrow> 's) \<Rightarrow> 's \<Rightarrow> bool"
  for init :: 's and enabled :: "'s \<Rightarrow> 'e \<Rightarrow> bool" and step :: "'e \<Rightarrow> 's \<Rightarrow> 's" where
  reach_init: "reachable init enabled step init"
| reach_step: "reachable init enabled step s \<Longrightarrow> enabled s e \<Longrightarrow> reachable init enabled step (step e s)"

fun run_events :: "('e \<Rightarrow> 's \<Rightarrow> 's) \<Rightarrow> 'e list \<Rightarrow> 's \<Rightarrow> 's" where
  "run_events step [] s = s"
| "run_events step (e # es) s = run_events step es (step e s)"

fun all_enabled :: "('s \<Rightarrow> 'e \<Rightarrow> bool) \<Rightarrow> ('e \<Rightarrow> 's \<Rightarrow> 's) \<Rightarrow> 'e list \<Rightarrow> 's \<Rightarrow> bool" where
  "all_enabled enabled step [] s = True"
| "all_enabled enabled step (e # es) s \<longleftrightarrow> enabled s e \<and> all_enabled enabled step es (step e s)"

lemma reachable_run:
  "reachable i en st s \<Longrightarrow> all_enabled en st es s \<Longrightarrow> reachable i en st (run_events st es s)"
  by (induction es arbitrary: s) (auto intro: reach_step)

text \<open>The contract of an invariant of an event loop, and what it gives.\<close>

locale loop_invariant =
  fixes init :: 's and enabled :: "'s \<Rightarrow> 'e \<Rightarrow> bool" and step :: "'e \<Rightarrow> 's \<Rightarrow> 's"
    and inv :: "'s \<Rightarrow> bool"
  assumes inv_init: "inv init"
    and inv_step: "inv s \<Longrightarrow> enabled s e \<Longrightarrow> inv (step e s)"
begin

lemma inv_reachable: "reachable init enabled step s \<Longrightarrow> inv s"
  by (induction rule: reachable.induct) (auto intro: inv_init inv_step)

lemma inv_run: "inv s \<Longrightarrow> all_enabled enabled step es s \<Longrightarrow> inv (run_events step es s)"
  by (induction es arbitrary: s) (auto intro: inv_step)

end

end
