(* ===== verification/Js_Utf8.thy ===== *)
theory Js_Utf8
  imports Gateway_Prelude
begin

section \<open>UTF-8 as the browser does it: \<open>TextEncoder\<close> and \<open>TextDecoder\<close>\<close>

text \<open>
  The platform functions between the terminal's text and the bytes on the UART
  (src/main/flash_data/terminal/script.js, lines 253-254 and 281-282). The encoder reads UTF-16
  and replaces lone surrogates by U+FFFD; the decoder is the state machine of the Encoding
  Standard (non-fatal, byte order mark dropped), one step per byte.
\<close>

subsection \<open>UTF-16\<close>

definition high_sur :: "nat \<Rightarrow> bool" where
  "high_sur c \<longleftrightarrow> 0xD800 \<le> c \<and> c \<le> 0xDBFF"

definition low_sur :: "nat \<Rightarrow> bool" where
  "low_sur c \<longleftrightarrow> 0xDC00 \<le> c \<and> c \<le> 0xDFFF"

fun to_scalars :: "jsstr \<Rightarrow> nat list" where
  "to_scalars [] = []"
| "to_scalars (c # cs) =
     (if high_sur c then
        (case cs of
           d # ds \<Rightarrow> if low_sur d then (0x10000 + (c - 0xD800) * 1024 + (d - 0xDC00)) # to_scalars ds
                     else 0xFFFD # to_scalars cs
         | [] \<Rightarrow> [0xFFFD])
      else if low_sur c then 0xFFFD # to_scalars cs
      else c # to_scalars cs)"

definition utf16_units :: "nat \<Rightarrow> jsstr" where
  "utf16_units c = (if c < 0x10000 then [c]
     else [0xD800 + (c - 0x10000) div 1024, 0xDC00 + (c - 0x10000) mod 1024])"

definition scalar :: "nat \<Rightarrow> bool" where
  "scalar c \<longleftrightarrow> c < 0xD800 \<or> 0xE000 \<le> c \<and> c < 0x110000"

text \<open>No lone surrogates.\<close>

fun well_formed16 :: "jsstr \<Rightarrow> bool" where
  "well_formed16 [] = True"
| "well_formed16 (c # cs) =
     (if high_sur c then (case cs of d # ds \<Rightarrow> low_sur d \<and> well_formed16 ds | [] \<Rightarrow> False)
      else \<not> low_sur c \<and> c < 65536 \<and> well_formed16 cs)"

subsection \<open>Encoder\<close>

definition utf8_bytes :: "nat \<Rightarrow> nat list" where
  "utf8_bytes c =
     (if c < 0x80 then [c]
      else if c < 0x800 then [0xC0 + c div 64, 0x80 + c mod 64]
      else if c < 0x10000 then [0xE0 + c div 4096, 0x80 + c div 64 mod 64, 0x80 + c mod 64]
      else [0xF0 + c div 262144, 0x80 + c div 4096 mod 64, 0x80 + c div 64 mod 64, 0x80 + c mod 64])"

definition text_encode :: "jsstr \<Rightarrow> nat list" where
  "text_encode s = concat (map utf8_bytes (to_scalars s))"

subsection \<open>Decoder\<close>

text \<open>Code point so far, continuation bytes still needed, bounds of the next one.\<close>

record utf8_state =
  u_cp :: nat
  u_needed :: nat
  u_lower :: nat
  u_upper :: nat

definition utf8_init :: utf8_state where
  "utf8_init = \<lparr>u_cp = 0, u_needed = 0, u_lower = 0x80, u_upper = 0xBF\<rparr>"

definition utf8_start :: "nat \<Rightarrow> nat list \<times> utf8_state" where
  "utf8_start b =
     (if b \<le> 0x7F then ([b], utf8_init)
      else if 0xC2 \<le> b \<and> b \<le> 0xDF then ([], \<lparr>u_cp = b mod 32, u_needed = 1, u_lower = 0x80, u_upper = 0xBF\<rparr>)
      else if 0xE0 \<le> b \<and> b \<le> 0xEF then
        ([], \<lparr>u_cp = b mod 16, u_needed = 2, u_lower = (if b = 0xE0 then 0xA0 else 0x80),
             u_upper = (if b = 0xED then 0x9F else 0xBF)\<rparr>)
      else if 0xF0 \<le> b \<and> b \<le> 0xF4 then
        ([], \<lparr>u_cp = b mod 8, u_needed = 3, u_lower = (if b = 0xF0 then 0x90 else 0x80),
             u_upper = (if b = 0xF4 then 0x8F else 0xBF)\<rparr>)
      else ([0xFFFD], utf8_init))"

text \<open>A byte that cannot continue the sequence ends it with U+FFFD and is read again as a start.\<close>

definition utf8_step :: "utf8_state \<Rightarrow> nat \<Rightarrow> nat list \<times> utf8_state" where
  "utf8_step u b =
     (if u_needed u = 0 then utf8_start b
      else if b < u_lower u \<or> u_upper u < b then (case utf8_start b of (out, u') \<Rightarrow> (0xFFFD # out, u'))
      else let cp = u_cp u * 64 + b mod 64 in
        if u_needed u = 1 then ([cp], utf8_init)
        else ([], \<lparr>u_cp = cp, u_needed = u_needed u - 1, u_lower = 0x80, u_upper = 0xBF\<rparr>))"

fun utf8_run :: "utf8_state \<Rightarrow> nat list \<Rightarrow> nat list" where
  "utf8_run u [] = (if u_needed u = 0 then [] else [0xFFFD])"
| "utf8_run u (b # bs) = (case utf8_step u b of (out, u') \<Rightarrow> out @ utf8_run u' bs)"

definition drop_bom :: "nat list \<Rightarrow> nat list" where
  "drop_bom cs = (case cs of c # r \<Rightarrow> if c = 0xFEFF then r else cs | [] \<Rightarrow> [])"

definition text_decode :: "nat list \<Rightarrow> jsstr" where
  "text_decode bs = concat (map utf16_units (drop_bom (utf8_run utf8_init bs)))"

subsection \<open>Round trip\<close>

text \<open>One lemma per sequence length, the code point given by its base-64 digits.\<close>

lemmas utf8_machine = utf8_step_def utf8_start_def utf8_init_def Let_def

lemma mod_offset: "(k::nat) mod m = 0 \<Longrightarrow> a < m \<Longrightarrow> (k + a) mod m = a"
  by (metis add_0 mod_add_left_eq mod_less)

lemma utf8_run_2:
  assumes "2 \<le> h" "h < 32" "l < 64"
  shows "utf8_run utf8_init ((192 + h) # (128 + l) # bs) = (h * 64 + l) # utf8_run utf8_init bs"
proof -
  have "(192 + h) mod 32 = h" "(128 + l) mod 64 = l"
    using assms by (simp_all add: mod_offset)
  with assms show ?thesis by (simp add: utf8_machine)
qed

lemma utf8_run_3:
  assumes "c = (h * 64 + m) * 64 + l" "h < 16" "m < 64" "l < 64" "h = 0 \<Longrightarrow> 32 \<le> m" "h = 13 \<Longrightarrow> m < 32"
  shows "utf8_run utf8_init ((224 + h) # (128 + m) # (128 + l) # bs) = c # utf8_run utf8_init bs"
proof -
  have "(224 + h) mod 16 = h" "(128 + m) mod 64 = m" "(128 + l) mod 64 = l"
    using assms by (simp_all add: mod_offset)
  with assms show ?thesis by (auto simp: utf8_machine)
qed

lemma utf8_run_4:
  assumes "c = ((h * 64 + m) * 64 + k) * 64 + l" "h < 5" "m < 64" "k < 64" "l < 64" "h = 0 \<Longrightarrow> 16 \<le> m" "h = 4 \<Longrightarrow> m < 16"
  shows "utf8_run utf8_init ((240 + h) # (128 + m) # (128 + k) # (128 + l) # bs)
       = c # utf8_run utf8_init bs"
proof -
  have "(240 + h) mod 8 = h" "(128 + m) mod 64 = m" "(128 + k) mod 64 = k" "(128 + l) mod 64 = l"
    using assms by (simp_all add: mod_offset)
  with assms show ?thesis by (auto simp: utf8_machine)
qed

lemma digits3: "((c::nat) div 4096 * 64 + c div 64 mod 64) * 64 + c mod 64 = c"
proof -
  have "c div 4096 = c div 64 div 64" by (simp add: div_mult2_eq [symmetric])
  then show ?thesis by simp
qed

lemma digits4: "(((c::nat) div 262144 * 64 + c div 4096 mod 64) * 64 + c div 64 mod 64) * 64 + c mod 64 = c"
proof -
  have "c div 262144 = c div 4096 div 64" by (simp add: div_mult2_eq [symmetric])
  then show ?thesis using digits3 [of c] by simp
qed

lemma digits3_bounds:
  assumes "c = (h * 64 + m) * 64 + l" "m < 64" "l < 64" "2048 \<le> c" "c < 65536" "scalar c"
  shows "h < 16" "h = 0 \<Longrightarrow> 32 \<le> m" "h = 13 \<Longrightarrow> m < 32"
proof -
  have e: "c = h * 4096 + m * 64 + l" using assms(1) by (simp add: algebra_simps)
  show "h < 16" using e assms(5) by linarith
  show "32 \<le> m" if "h = 0" using e assms(3,4) that by linarith
  show "m < 32" if "h = 13" using e assms that by (auto simp: scalar_def)
qed

lemma digits4_bounds:
  assumes "c = ((h * 64 + m) * 64 + k) * 64 + l" "m < 64" "k < 64" "l < 64" "65536 \<le> c" "scalar c"
  shows "h < 5" "h = 0 \<Longrightarrow> 16 \<le> m" "h = 4 \<Longrightarrow> m < 16"
proof -
  have c: "c < 1114112" using assms(5,6) by (auto simp: scalar_def)
  have e: "c = h * 262144 + m * 4096 + k * 64 + l" using assms(1) by (simp add: algebra_simps)
  show "h < 5" using e c by linarith
  show "16 \<le> m" if "h = 0" using e assms(3-5) that by linarith
  show "m < 16" if "h = 4" using e c that by linarith
qed

lemma utf8_run_bytes:
  assumes "scalar c"
  shows "utf8_run utf8_init (utf8_bytes c @ bs) = c # utf8_run utf8_init bs"
proof -
  consider "c < 128" | "128 \<le> c \<and> c < 2048" | "2048 \<le> c \<and> c < 65536" | "65536 \<le> c"
    by linarith
  then show ?thesis
  proof cases
    case 1
    then show ?thesis by (simp add: utf8_bytes_def utf8_machine)
  next
    case 2
    then have "2 \<le> c div 64" "c div 64 < 32" by auto
    with 2 utf8_run_2 [of "c div 64" "c mod 64" bs] show ?thesis
      by (simp add: utf8_bytes_def)
  next
    case 3
    note b = digits3_bounds [OF digits3 [symmetric], of c]
    have "c div 4096 < 16" "c div 4096 = 0 \<Longrightarrow> 32 \<le> c div 64 mod 64"
      "c div 4096 = 13 \<Longrightarrow> c div 64 mod 64 < 32"
      using 3 assms b by simp_all
    with 3 utf8_run_3 [OF digits3 [symmetric], of c bs] show ?thesis
      by (simp add: utf8_bytes_def)
  next
    case 4
    note b = digits4_bounds [OF digits4 [symmetric], of c]
    have "c div 262144 < 5" "c div 262144 = 0 \<Longrightarrow> 16 \<le> c div 4096 mod 64"
      "c div 262144 = 4 \<Longrightarrow> c div 4096 mod 64 < 16"
      using 4 assms b by simp_all
    with 4 utf8_run_4 [OF digits4 [symmetric], of c bs] show ?thesis
      by (simp add: utf8_bytes_def)
  qed
qed

lemma utf8_run_all: "list_all scalar cs \<Longrightarrow> utf8_run utf8_init (concat (map utf8_bytes cs) @ bs) = cs @ utf8_run utf8_init bs"
  by (induction cs) (simp_all add: utf8_run_bytes)

lemma utf8_run_encoded: "list_all scalar cs \<Longrightarrow> utf8_run utf8_init (concat (map utf8_bytes cs)) = cs"
  using utf8_run_all [of cs "[]"] by (simp add: utf8_init_def)

lemma utf8_bytes_ok: "scalar c \<Longrightarrow> bytes_ok (utf8_bytes c)"
  by (auto simp: utf8_bytes_def scalar_def less_mult_imp_div_less)

lemma surrogate_scalar:
  assumes "high_sur c" and "low_sur d"
  shows "scalar (65536 + (c - 55296) * 1024 + (d - 56320))"
proof -
  have "c - 55296 \<le> 1023" "d - 56320 \<le> 1023"
    using assms by (auto simp: high_sur_def low_sur_def)
  then show ?thesis unfolding scalar_def by linarith
qed

lemma to_scalars_scalar: "code_units s \<Longrightarrow> list_all scalar (to_scalars s)"
proof (induction s rule: to_scalars.induct)
  case (2 c cs)
  have rep: "scalar 65533" by (simp add: scalar_def)
  have own: "scalar c" if "\<not> high_sur c" "\<not> low_sur c"
    using that 2(5) by (auto simp: scalar_def high_sur_def low_sur_def)
  show ?case
    using 2 rep own by (cases cs) (auto simp: surrogate_scalar)
qed simp

text \<open>The encoder produces bytes, for any JavaScript string.\<close>

lemma text_encode_bytes: "code_units s \<Longrightarrow> bytes_ok (text_encode s)"
proof -
  assume "code_units s"
  then have "list_all scalar (to_scalars s)" by (rule to_scalars_scalar)
  then show ?thesis
    by (auto simp: text_encode_def bytes_ok_concat list_all_iff utf8_bytes_ok)
qed

lemma utf16_surrogates:
  assumes "high_sur c" and "low_sur d"
  shows "utf16_units (65536 + (c - 55296) * 1024 + (d - 56320)) = [c, d]"
proof -
  have "d - 56320 < 1024" using assms by (auto simp: low_sur_def)
  then have "((c - 55296) * 1024 + (d - 56320)) div 1024 = c - 55296"
    "((c - 55296) * 1024 + (d - 56320)) mod 1024 = d - 56320"
    by simp_all
  with assms show ?thesis
    unfolding utf16_units_def high_sur_def low_sur_def add.assoc by simp
qed

lemma utf16_single: "c < 65536 \<Longrightarrow> utf16_units c = [c]"
  by (simp add: utf16_units_def)

lemma utf16_round_trip: "well_formed16 s \<Longrightarrow> concat (map utf16_units (to_scalars s)) = s"
proof (induction s rule: to_scalars.induct)
  case (2 c cs)
  then show ?case
    by (cases cs) (auto simp: utf16_surrogates utf16_single split: if_splits)
qed simp

lemma well_formed16_code_units: "well_formed16 s \<Longrightarrow> code_units s"
  by (induction s rule: well_formed16.induct)
     (auto simp: high_sur_def low_sur_def split: list.splits if_splits)

lemma drop_bom_id: "cs = [] \<or> hd cs \<noteq> 65279 \<Longrightarrow> drop_bom cs = cs"
  by (cases cs) (simp_all add: drop_bom_def)

definition plain_text :: "jsstr \<Rightarrow> bool" where
  "plain_text s \<longleftrightarrow> well_formed16 s \<and> (case s of [] \<Rightarrow> True | c # _ \<Rightarrow> c \<noteq> 0xFEFF)"

lemma plain_text_bytes: "plain_text s \<Longrightarrow> bytes_ok (text_encode s)"
  by (simp add: plain_text_def text_encode_bytes well_formed16_code_units)

lemma to_scalars_no_bom:
  assumes "plain_text s"
  shows "drop_bom (to_scalars s) = to_scalars s"
  using assms
  by (cases s) (auto simp: plain_text_def drop_bom_def high_sur_def low_sur_def split: list.splits if_splits)

lemma text_round_trip:
  assumes "plain_text s"
  shows "text_decode (text_encode s) = s"
proof -
  have "list_all scalar (to_scalars s)"
    using assms by (simp add: plain_text_def to_scalars_scalar well_formed16_code_units)
  then have "utf8_run utf8_init (text_encode s) = to_scalars s"
    unfolding text_encode_def by (rule utf8_run_encoded)
  with assms show ?thesis
    by (simp add: text_decode_def to_scalars_no_bom) (simp add: plain_text_def utf16_round_trip)
qed

interpretation utf8: codec text_encode "\<lambda>bs. Some (text_decode bs)" plain_text
  by unfold_locales (simp add: text_round_trip)

text \<open>ASCII text is itself.\<close>

lemma text_decode_ascii: "list_all (\<lambda>b. b < 128) bs \<Longrightarrow> text_decode bs = bs"
proof -
  assume a: "list_all (\<lambda>b. b < 128) bs"
  have "utf8_run utf8_init bs = bs"
    using a by (induction bs) (simp_all add: utf8_machine)
  moreover have "drop_bom bs = bs"
    using a by (cases bs) (simp_all add: drop_bom_def)
  moreover have "concat (map utf16_units bs) = bs"
    using a by (induction bs) (simp_all add: utf16_units_def)
  ultimately show ?thesis by (simp add: text_decode_def)
qed

end
