(* ===== verification/Js_Json.thy ===== *)
theory Js_Json
  imports Js_Utf8
begin

section \<open>JSON as the browser does it: \<open>JSON.stringify\<close> and \<open>JSON.parse\<close>\<close>

text \<open>
  The platform functions between the pages' commands and the text frames on the WebSocket
  (src/main/flash_data/terminal/script.js, lines 175, 211, 224, 266, 295, 310). A number is kept
  as its JSON lexeme. How the engine prints a number that is not a small integer is a parameter
  \<open>ns\<close> (from the lexeme to the text of the Number it denotes). The parser is a lexer and a
  push-down automaton, both structural on their input, so they need no fuel.
\<close>

subsection \<open>Values\<close>

datatype json =
    JNull
  | JBool bool
  | JNum jsstr
  | JStr jsstr
  | JArr "json list"
  | JObj "(jsstr \<times> json) list"

definition digit :: "nat \<Rightarrow> bool" where
  "digit c \<longleftrightarrow> 48 \<le> c \<and> c \<le> 57"

text \<open>Decimal text of a natural number and back.\<close>

fun show_nat :: "nat \<Rightarrow> jsstr" where
  "show_nat n = (if n < 10 then [48 + n] else show_nat (n div 10) @ [48 + n mod 10])"

declare show_nat.simps [simp del]

definition read_nat :: "jsstr \<Rightarrow> nat" where
  "read_nat s = foldl (\<lambda>v c. v * 10 + (c - 48)) 0 s"

definition JNat :: "nat \<Rightarrow> json" where
  "JNat n = JNum (show_nat n)"

subsection \<open>Number lexemes\<close>

definition exp_ok :: "jsstr \<Rightarrow> bool" where
  "exp_ok s = (case s of [] \<Rightarrow> True
     | c # r \<Rightarrow> (c = 69 \<or> c = 101) \<and>
        (let q = (case r of d # t \<Rightarrow> if d = 43 \<or> d = 45 then t else r | [] \<Rightarrow> []) in q \<noteq> [] \<and> list_all digit q))"

definition frac_ok :: "jsstr \<Rightarrow> bool" where
  "frac_ok s = (case s of [] \<Rightarrow> True
     | c # r \<Rightarrow> if c = 46 then (case r of d # q \<Rightarrow> digit d \<and> exp_ok (dropWhile digit q) | [] \<Rightarrow> False)
               else exp_ok s)"

definition unsigned_number :: "jsstr \<Rightarrow> bool" where
  "unsigned_number s = (case s of [] \<Rightarrow> False
     | d # r \<Rightarrow> if d = 48 then frac_ok r else digit d \<and> frac_ok (dropWhile digit r))"

definition json_number :: "jsstr \<Rightarrow> bool" where
  "json_number s = (case s of [] \<Rightarrow> False | c # r \<Rightarrow> if c = 45 then unsigned_number r else unsigned_number s)"

definition num_char :: "nat \<Rightarrow> bool" where
  "num_char c \<longleftrightarrow> digit c \<or> c = 43 \<or> c = 45 \<or> c = 46 \<or> c = 69 \<or> c = 101"

text \<open>A lexeme that is the text of its own Number: a decimal integer of at most 15 digits.\<close>

definition safe_unsigned :: "jsstr \<Rightarrow> bool" where
  "safe_unsigned s \<longleftrightarrow> s \<noteq> [] \<and> list_all digit s \<and> length s \<le> 15 \<and> (s = [48] \<or> hd s \<noteq> 48)"

definition safe_int :: "jsstr \<Rightarrow> bool" where
  "safe_int s \<longleftrightarrow> safe_unsigned s \<or> (s \<noteq> [] \<and> hd s = 45 \<and> safe_unsigned (tl s) \<and> tl s \<noteq> [48])"

definition num_text :: "(jsstr \<Rightarrow> jsstr) \<Rightarrow> jsstr \<Rightarrow> jsstr" where
  "num_text ns l = (if safe_int l then l else ns l)"

subsection \<open>Printing\<close>

definition hex_char :: "nat \<Rightarrow> nat" where
  "hex_char v = (if v < 10 then 48 + v else 87 + v)"

definition u_escape :: "nat \<Rightarrow> jsstr" where
  "u_escape c = [92, 117, hex_char (c div 4096), hex_char (c div 256 mod 16),
                 hex_char (c div 16 mod 16), hex_char (c mod 16)]"

definition quote_unit :: "nat \<Rightarrow> jsstr" where
  "quote_unit c =
     (if c = 34 then [92, 34] else if c = 92 then [92, 92] else if c = 8 then [92, 98]
      else if c = 12 then [92, 102] else if c = 10 then [92, 110] else if c = 13 then [92, 114]
      else if c = 9 then [92, 116] else if c < 32 \<or> high_sur c \<or> low_sur c then u_escape c else [c])"

text \<open>Surrogate pairs are copied, lone surrogates escaped.\<close>

fun quote_body :: "jsstr \<Rightarrow> jsstr" where
  "quote_body [] = []"
| "quote_body [c] = quote_unit c"
| "quote_body (c # d # cs) =
     (if high_sur c \<and> low_sur d then c # d # quote_body cs else quote_unit c @ quote_body (d # cs))"

definition quote_json :: "jsstr \<Rightarrow> jsstr" where
  "quote_json s = 34 # quote_body s @ [34]"

definition num_json :: "(jsstr \<Rightarrow> jsstr) \<Rightarrow> jsstr \<Rightarrow> jsstr" where
  "num_json ns l = (let t = num_text ns l in
     if t = lit ''Infinity'' \<or> t = lit ''-Infinity'' then lit ''null'' else t)"

fun stringify :: "(jsstr \<Rightarrow> jsstr) \<Rightarrow> json \<Rightarrow> jsstr"
  and stringify_elems :: "(jsstr \<Rightarrow> jsstr) \<Rightarrow> json list \<Rightarrow> jsstr"
  and stringify_fields :: "(jsstr \<Rightarrow> jsstr) \<Rightarrow> (jsstr \<times> json) list \<Rightarrow> jsstr" where
  "stringify ns JNull = lit ''null''"
| "stringify ns (JBool b) = (if b then lit ''true'' else lit ''false'')"
| "stringify ns (JNum l) = num_json ns l"
| "stringify ns (JStr s) = quote_json s"
| "stringify ns (JArr xs) = 91 # stringify_elems ns xs @ [93]"
| "stringify ns (JObj fs) = 123 # stringify_fields ns fs @ [125]"
| "stringify_elems ns [] = []"
| "stringify_elems ns [x] = stringify ns x"
| "stringify_elems ns (x # y # xs) = stringify ns x @ 44 # stringify_elems ns (y # xs)"
| "stringify_fields ns [] = []"
| "stringify_fields ns [(k, x)] = quote_json k @ 58 # stringify ns x"
| "stringify_fields ns ((k, x) # f # fs) = quote_json k @ 58 # stringify ns x @ 44 # stringify_fields ns (f # fs)"

text \<open>An object literal whose members may be \<open>undefined\<close>: those are left out.\<close>

definition js_object :: "(string \<times> json option) list \<Rightarrow> json" where
  "js_object fs = JObj (concat (map (\<lambda>(k, v). case v of None \<Rightarrow> [] | Some x \<Rightarrow> [(lit k, x)]) fs))"

subsection \<open>Lexer\<close>

datatype token = TLBrace | TRBrace | TLBracket | TRBracket | TColon | TComma
  | TStr jsstr | TNum jsstr | TTrue | TFalse | TNull

datatype lex_mode = LStart | LStr jsstr | LEsc jsstr | LHex jsstr nat nat | LNum jsstr | LWord jsstr

definition hex_value :: "nat \<Rightarrow> nat option" where
  "hex_value c = (if 48 \<le> c \<and> c \<le> 57 then Some (c - 48) else if 97 \<le> c \<and> c \<le> 102 then Some (c - 87)
                  else if 65 \<le> c \<and> c \<le> 70 then Some (c - 55) else None)"

definition keyword :: "jsstr \<Rightarrow> token option" where
  "keyword w = (if w = lit ''true'' then Some TTrue else if w = lit ''false'' then Some TFalse
                else if w = lit ''null'' then Some TNull else None)"

definition lower_letter :: "nat \<Rightarrow> bool" where
  "lower_letter c \<longleftrightarrow> 97 \<le> c \<and> c \<le> 122"

definition lex_start :: "nat \<Rightarrow> (token list \<times> lex_mode) option" where
  "lex_start c =
     (if c = 9 \<or> c = 10 \<or> c = 13 \<or> c = 32 then Some ([], LStart)
      else if c = 123 then Some ([TLBrace], LStart) else if c = 125 then Some ([TRBrace], LStart)
      else if c = 91 then Some ([TLBracket], LStart) else if c = 93 then Some ([TRBracket], LStart)
      else if c = 58 then Some ([TColon], LStart) else if c = 44 then Some ([TComma], LStart)
      else if c = 34 then Some ([], LStr [])
      else if c = 45 \<or> digit c then Some ([], LNum [c])
      else if lower_letter c then Some ([], LWord [c]) else None)"

definition after_token :: "token \<Rightarrow> nat \<Rightarrow> (token list \<times> lex_mode) option" where
  "after_token t c = map_option (\<lambda>(ts, m). (t # ts, m)) (lex_start c)"

definition escaped :: "nat \<Rightarrow> nat option" where
  "escaped c = (if c = 34 \<or> c = 92 \<or> c = 47 then Some c else if c = 98 then Some 8
     else if c = 102 then Some 12 else if c = 110 then Some 10 else if c = 114 then Some 13
     else if c = 116 then Some 9 else None)"

fun lex_step :: "lex_mode \<Rightarrow> nat \<Rightarrow> (token list \<times> lex_mode) option" where
  "lex_step LStart c = lex_start c"
| "lex_step (LStr acc) c =
     (if c = 34 then Some ([TStr acc], LStart) else if c = 92 then Some ([], LEsc acc)
      else if c < 32 then None else Some ([], LStr (acc @ [c])))"
| "lex_step (LEsc acc) c =
     (if c = 117 then Some ([], LHex acc 4 0)
      else map_option (\<lambda>d. ([], LStr (acc @ [d]))) (escaped c))"
| "lex_step (LHex acc k v) c =
     map_option (\<lambda>d. ([], if k = 1 then LStr (acc @ [v * 16 + d]) else LHex acc (k - 1) (v * 16 + d))) (hex_value c)"
| "lex_step (LNum acc) c =
     (if num_char c then Some ([], LNum (acc @ [c]))
      else if json_number acc then after_token (TNum acc) c else None)"
| "lex_step (LWord acc) c =
     (if lower_letter c then Some ([], LWord (acc @ [c]))
      else Option.bind (keyword acc) (\<lambda>t. after_token t c))"

fun lex_end :: "lex_mode \<Rightarrow> token list option" where
  "lex_end LStart = Some []"
| "lex_end (LNum acc) = (if json_number acc then Some [TNum acc] else None)"
| "lex_end (LWord acc) = map_option (\<lambda>t. [t]) (keyword acc)"
| "lex_end _ = None"

fun lex :: "lex_mode \<Rightarrow> jsstr \<Rightarrow> token list option" where
  "lex m [] = lex_end m"
| "lex m (c # cs) = (case lex_step m c of None \<Rightarrow> None | Some (ts, m') \<Rightarrow> map_option ((@) ts) (lex m' cs))"

subsection \<open>Parser\<close>

datatype frame = FArr "json list" | FMem "(jsstr \<times> json) list" jsstr

datatype parse_mode = NeedValue | ArrStart | ObjStart | NeedKey "(jsstr \<times> json) list"
  | NeedColon "(jsstr \<times> json) list" jsstr | Done json

fun start_value :: "frame list \<Rightarrow> token \<Rightarrow> (frame list \<times> parse_mode) option" where
  "start_value fs TLBrace = Some (fs, ObjStart)"
| "start_value fs TLBracket = Some (fs, ArrStart)"
| "start_value fs (TStr s) = Some (fs, Done (JStr s))"
| "start_value fs (TNum l) = Some (fs, Done (JNum l))"
| "start_value fs TTrue = Some (fs, Done (JBool True))"
| "start_value fs TFalse = Some (fs, Done (JBool False))"
| "start_value fs TNull = Some (fs, Done JNull)"
| "start_value fs _ = None"

fun end_value :: "frame list \<Rightarrow> json \<Rightarrow> token \<Rightarrow> (frame list \<times> parse_mode) option" where
  "end_value (FArr xs # fs) v TComma = Some (FArr (xs @ [v]) # fs, NeedValue)"
| "end_value (FArr xs # fs) v TRBracket = Some (fs, Done (JArr (xs @ [v])))"
| "end_value (FMem ms k # fs) v TComma = Some (fs, NeedKey (ms @ [(k, v)]))"
| "end_value (FMem ms k # fs) v TRBrace = Some (fs, Done (JObj (ms @ [(k, v)])))"
| "end_value _ _ _ = None"

fun parse_step :: "frame list \<Rightarrow> parse_mode \<Rightarrow> token \<Rightarrow> (frame list \<times> parse_mode) option" where
  "parse_step fs NeedValue t = start_value fs t"
| "parse_step fs ArrStart t =
     (if t = TRBracket then Some (fs, Done (JArr [])) else start_value (FArr [] # fs) t)"
| "parse_step fs ObjStart t =
     (case t of TRBrace \<Rightarrow> Some (fs, Done (JObj [])) | TStr k \<Rightarrow> Some (fs, NeedColon [] k) | _ \<Rightarrow> None)"
| "parse_step fs (NeedKey ms) t = (case t of TStr k \<Rightarrow> Some (fs, NeedColon ms k) | _ \<Rightarrow> None)"
| "parse_step fs (NeedColon ms k) t = (if t = TColon then Some (FMem ms k # fs, NeedValue) else None)"
| "parse_step fs (Done v) t = end_value fs v t"

fun parse_run :: "frame list \<Rightarrow> parse_mode \<Rightarrow> token list \<Rightarrow> json option" where
  "parse_run fs m [] = (case (fs, m) of ([], Done v) \<Rightarrow> Some v | _ \<Rightarrow> None)"
| "parse_run fs m (t # ts) =
     (case parse_step fs m t of None \<Rightarrow> None | Some (fs', m') \<Rightarrow> parse_run fs' m' ts)"

definition json_parse :: "jsstr \<Rightarrow> json option" where
  "json_parse s = Option.bind (lex LStart s) (parse_run [] NeedValue)"

end
