(* ===== verification/Js_Json_Laws.thy ===== *)
theory Js_Json_Laws
  imports Js_Json
begin

section \<open>Printing and parsing JSON are inverse\<close>

text \<open>
  What the client relies on of \<open>JSON.stringify\<close> and \<open>JSON.parse\<close>: parsing the printed text
  gives the value back. The lexer turns the text of a value into its tokens \<open>toks\<close>; the
  automaton turns these tokens into the value. The result is an interpretation of the codec
  contract, the locale \<open>codec\<close> of the prelude.
\<close>

subsection \<open>Characters\<close>

lemma hex_value_char: "v < 16 \<Longrightarrow> hex_value (hex_char v) = Some v"
  by (auto simp: hex_value_def hex_char_def)

lemma hex_digits4: "(((c::nat) div 4096 * 16 + c div 256 mod 16) * 16 + c div 16 mod 16) * 16 + c mod 16 = c"
proof -
  have "c div 256 = c div 16 div 16" "c div 4096 = c div 16 div 16 div 16"
    by (simp_all add: div_mult2_eq [symmetric])
  then show ?thesis by simp
qed

lemma map_option_append_Nil [simp]: "map_option ((@) []) x = x"
  by (cases x) simp_all

lemma lex_hex_char:
  "d < 16 \<Longrightarrow> lex (LHex acc k v) (hex_char d # r)
     = lex (if k = 1 then LStr (acc @ [v * 16 + d]) else LHex acc (k - 1) (v * 16 + d)) r"
  by (simp add: hex_value_char)

lemma lex_u_escape:
  assumes "c < 65536"
  shows "lex (LStr acc) (u_escape c @ r) = lex (LStr (acc @ [c])) r"
proof -
  have "c div 4096 < 16" using assms by (simp add: less_mult_imp_div_less)
  then have "lex (LHex acc 4 0) (tl (tl (u_escape c)) @ r)
      = lex (LStr (acc @ [(((c div 4096 * 16 + c div 256 mod 16) * 16 + c div 16 mod 16) * 16 + c mod 16)])) r"
    by (simp add: u_escape_def lex_hex_char del: lex.simps(2))
  then show ?thesis by (simp only: hex_digits4) (simp add: u_escape_def)
qed

lemma lex_plain_unit: "32 \<le> c \<Longrightarrow> c \<noteq> 34 \<Longrightarrow> c \<noteq> 92 \<Longrightarrow> lex (LStr acc) (c # r) = lex (LStr (acc @ [c])) r"
  by (simp add:)

lemma lex_escape: "escaped e = Some c \<Longrightarrow> lex (LStr acc) (92 # e # r) = lex (LStr (acc @ [c])) r"
  by (auto simp: escaped_def split: if_splits)

lemma lex_quote_unit: "lex (LStr acc) (quote_unit c @ r) = lex (LStr (acc @ [c])) r"
proof -
  have u: "c < 32 \<or> high_sur c \<or> low_sur c \<Longrightarrow> lex (LStr acc) (u_escape c @ r) = lex (LStr (acc @ [c])) r"
    by (rule lex_u_escape) (auto simp: high_sur_def low_sur_def)
  show ?thesis
    by (simp add: quote_unit_def escaped_def lex_escape lex_plain_unit u del: lex.simps(2))
qed

lemma lex_quote_body:
  "lex (LStr acc) (quote_body s @ 34 # r) = map_option ((#) (TStr (acc @ s))) (lex LStart r)"
proof (induction s arbitrary: acc rule: quote_body.induct)
  case 1
  show ?case by (cases "lex LStart r") simp_all
next
  case (2 c)
  show ?case by (simp add: lex_quote_unit del: lex.simps(2)) (cases "lex LStart r"; simp)
next
  case (3 c d cs)
  show ?case
  proof (cases "high_sur c \<and> low_sur d")
    case True
    then have "32 \<le> c" "c \<noteq> 34" "c \<noteq> 92" "32 \<le> d" "d \<noteq> 34" "d \<noteq> 92"
      by (auto simp: high_sur_def low_sur_def)
    with True 3 show ?thesis by (simp add: lex_plain_unit del: lex.simps(2))
  next
    case False
    with 3 show ?thesis by (auto simp: lex_quote_unit simp del: lex.simps(2))
  qed
qed

lemma lex_quote_json: "lex LStart (quote_json s @ r) = map_option ((#) (TStr s)) (lex LStart r)"
  using lex_quote_body [of "[]" s r] by (simp add: quote_json_def lex_start_def)


subsection \<open>Numbers and words\<close>

text \<open>A number or a word ends where the text ends or at a structural character.\<close>

definition ends_token :: "jsstr \<Rightarrow> bool" where
  "ends_token r \<longleftrightarrow> (case r of [] \<Rightarrow> True | c # _ \<Rightarrow> c = 44 \<or> c = 58 \<or> c = 93 \<or> c = 125)"

lemma ends_token_simps [simp]:
  "ends_token []" "ends_token (44 # r)" "ends_token (58 # r)" "ends_token (93 # r)" "ends_token (125 # r)"
  by (simp_all add: ends_token_def)

lemma ends_token_plain:
  "ends_token (c # r) \<Longrightarrow> \<not> num_char c \<and> \<not> lower_letter c"
  by (auto simp: ends_token_def num_char_def digit_def lower_letter_def)

lemma append_fun:
  "(@) (t # ts) = (\<lambda>r. t # ts @ r)" "(@) (us @ ts) = (\<lambda>r. us @ ts @ r)" "(@) [] = (\<lambda>r. r)"
  by (simp_all add: fun_eq_iff)

lemma lex_after_token:
  "(case after_token t c of None \<Rightarrow> None | Some (ts, m) \<Rightarrow> map_option ((@) ts) (lex m r))
     = map_option ((#) t) (lex LStart (c # r))"
  by (cases "lex_start c") (auto simp: after_token_def option.map_comp comp_def append_fun)

lemma lex_num_end:
  "json_number l \<Longrightarrow> ends_token r \<Longrightarrow> lex (LNum l) r = map_option ((#) (TNum l)) (lex LStart r)"
  using lex_after_token [where t = "TNum l"] by (cases r) (auto dest: ends_token_plain)

lemma lex_num_chars: "list_all num_char l \<Longrightarrow> lex (LNum acc) (l @ r) = lex (LNum (acc @ l)) r"
  by (induction l arbitrary: acc) simp_all

lemma lex_word_end:
  "keyword w = Some t \<Longrightarrow> ends_token r \<Longrightarrow> lex (LWord w) r = map_option ((#) t) (lex LStart r)"
  using lex_after_token [where t = t] by (cases r) (auto dest: ends_token_plain)

lemma lex_word_chars: "list_all lower_letter l \<Longrightarrow> lex (LWord acc) (l @ r) = lex (LWord (acc @ l)) r"
  by (induction l arbitrary: acc) simp_all

lemma digit_num_char: "list_all digit l \<Longrightarrow> list_all num_char l"
  by (auto simp: list_all_iff num_char_def)

lemma unsigned_number_digits:
  assumes "safe_unsigned l"
  shows "unsigned_number l"
proof -
  obtain d r where l: "l = d # r" using assms by (cases l) (auto simp: safe_unsigned_def)
  then have "list_all digit r" using assms by (simp add: safe_unsigned_def)
  then have "dropWhile digit r = []" by (simp add: list_all_iff)
  then show ?thesis
    using assms l by (auto simp: safe_unsigned_def unsigned_number_def frac_ok_def simp del: dropWhile_eq_Nil_conv)
qed

lemma safe_int_number: "safe_int l \<Longrightarrow> json_number l"
  by (cases l) (auto simp: safe_int_def json_number_def unsigned_number_digits,
      auto simp: safe_unsigned_def digit_def)

lemma safe_int_chars:
  assumes "safe_int l"
  obtains c r where "l = c # r" "c = 45 \<or> digit c" "list_all num_char r"
proof -
  obtain c r where l: "l = c # r" using assms by (cases l) (auto simp: safe_int_def safe_unsigned_def)
  have "(c = 45 \<or> digit c) \<and> list_all digit r \<and> (c = 45 \<longrightarrow> r \<noteq> [])"
    using assms l by (auto simp: safe_int_def safe_unsigned_def digit_def)
  then show thesis
    using that [OF l] by (auto simp: digit_num_char)
qed

lemma lex_safe_int:
  assumes "safe_int l" and "ends_token r"
  shows "lex LStart (l @ r) = map_option ((#) (TNum l)) (lex LStart r)"
proof -
  obtain c k where l: "l = c # k" "c = 45 \<or> digit c" "list_all num_char k"
    using assms(1) by (rule safe_int_chars)
  have "lex LStart (l @ r) = lex (LNum l) r"
    using l lex_num_chars [of k "[c]" r] by (auto simp: lex_start_def digit_def)
  then show ?thesis using assms by (simp add: lex_num_end safe_int_number)
qed

lemma lex_keyword:
  assumes "keyword w = Some t" and "ends_token r"
  shows "lex LStart (w @ r) = map_option ((#) t) (lex LStart r)"
proof -
  have "lex LStart (w @ r) = lex (LWord w) r"
    using assms(1) by (auto simp: keyword_def lit_def lex_start_def lower_letter_def digit_def split: if_splits)
  then show ?thesis using assms by (simp add: lex_word_end)
qed


lemma num_json_safe: "safe_int l \<Longrightarrow> num_json ns l = l"
proof -
  have "\<not> safe_int (lit ''Infinity'')" "\<not> safe_int (lit ''-Infinity'')"
    by (simp_all add: lit_def safe_int_def safe_unsigned_def digit_def)
  then show "safe_int l \<Longrightarrow> num_json ns l = l"
    by (auto simp: num_json_def num_text_def Let_def)
qed

subsection \<open>Values and their tokens\<close>

fun json_wf :: "json \<Rightarrow> bool" where
  "json_wf (JNum l) \<longleftrightarrow> safe_int l"
| "json_wf (JArr xs) \<longleftrightarrow> list_all json_wf xs"
| "json_wf (JObj fs) \<longleftrightarrow> list_all (\<lambda>f. json_wf (snd f)) fs"
| "json_wf _ \<longleftrightarrow> True"

fun toks :: "json \<Rightarrow> token list"
  and toks_elems :: "json list \<Rightarrow> token list"
  and toks_fields :: "(jsstr \<times> json) list \<Rightarrow> token list" where
  "toks JNull = [TNull]"
| "toks (JBool b) = [if b then TTrue else TFalse]"
| "toks (JNum l) = [TNum l]"
| "toks (JStr s) = [TStr s]"
| "toks (JArr xs) = TLBracket # toks_elems xs @ [TRBracket]"
| "toks (JObj fs) = TLBrace # toks_fields fs @ [TRBrace]"
| "toks_elems [] = []"
| "toks_elems [x] = toks x"
| "toks_elems (x # y # xs) = toks x @ TComma # toks_elems (y # xs)"
| "toks_fields [] = []"
| "toks_fields [(k, x)] = TStr k # TColon # toks x"
| "toks_fields ((k, x) # f # fs) = TStr k # TColon # toks x @ TComma # toks_fields (f # fs)"

lemma lex_structural:
  "lex LStart (44 # r) = map_option ((#) TComma) (lex LStart r)"
  "lex LStart (58 # r) = map_option ((#) TColon) (lex LStart r)"
  "lex LStart (91 # r) = map_option ((#) TLBracket) (lex LStart r)"
  "lex LStart (93 # r) = map_option ((#) TRBracket) (lex LStart r)"
  "lex LStart (123 # r) = map_option ((#) TLBrace) (lex LStart r)"
  "lex LStart (125 # r) = map_option ((#) TRBrace) (lex LStart r)"
  by (cases "lex LStart r"; simp add: lex_start_def)+

lemma keyword_literals:
  "keyword (lit ''true'') = Some TTrue" "keyword (lit ''false'') = Some TFalse" "keyword (lit ''null'') = Some TNull"
  by (simp_all add: keyword_def lit_def)

lemmas lex_pieces = lex_structural lex_quote_json lex_safe_int num_json_safe
  lex_keyword [OF keyword_literals(1)] lex_keyword [OF keyword_literals(2)] lex_keyword [OF keyword_literals(3)]

lemma lex_stringify:
  "json_wf v \<Longrightarrow> ends_token r \<Longrightarrow> lex LStart (stringify ns v @ r) = map_option ((@) (toks v)) (lex LStart r)"
  "list_all json_wf xs \<Longrightarrow> ends_token r \<Longrightarrow>
     lex LStart (stringify_elems ns xs @ r) = map_option ((@) (toks_elems xs)) (lex LStart r)"
  "list_all (\<lambda>f. json_wf (snd f)) fs \<Longrightarrow> ends_token r \<Longrightarrow>
     lex LStart (stringify_fields ns fs @ r) = map_option ((@) (toks_fields fs)) (lex LStart r)"
  by (induction v and xs and fs arbitrary: r and r and r rule: toks_toks_elems_toks_fields.induct)
     (simp_all add: lex_pieces option.map_comp comp_def append_fun option.map_ident del: lex.simps(2))

subsection \<open>The automaton on the tokens of a value\<close>

lemma parse_first:
  "parse_run fs ArrStart (toks v @ ts) = parse_run (FArr [] # fs) NeedValue (toks v @ ts)"
  by (cases v) simp_all

lemma parse_open:
  "parse_run fs ArrStart (toks_elems xs @ TRBracket # ts) =
     (if xs = [] then parse_run fs (Done (JArr [])) ts
      else parse_run (FArr [] # fs) NeedValue (toks_elems xs @ TRBracket # ts))"
  "parse_run fs ObjStart (toks_fields ms @ TRBrace # ts) =
     (if ms = [] then parse_run fs (Done (JObj [])) ts
      else parse_run fs (NeedKey []) (toks_fields ms @ TRBrace # ts))"
  by (cases xs rule: toks_elems.cases; simp add: parse_first)
     (cases ms rule: toks_fields.cases; simp)

lemma parse_toks:
  "parse_run fs NeedValue (toks v @ ts) = parse_run fs (Done v) ts"
  "xs \<noteq> [] \<Longrightarrow> parse_run (FArr acc # fs) NeedValue (toks_elems xs @ TRBracket # ts)
     = parse_run fs (Done (JArr (acc @ xs))) ts"
  "ms \<noteq> [] \<Longrightarrow> parse_run fs (NeedKey mem) (toks_fields ms @ TRBrace # ts)
     = parse_run fs (Done (JObj (mem @ ms))) ts"
  by (induction v and xs and ms arbitrary: fs ts and fs acc ts and fs mem ts
      rule: toks_toks_elems_toks_fields.induct) (simp_all add: parse_open)

theorem json_round_trip: "json_wf v \<Longrightarrow> json_parse (stringify ns v) = Some v"
  using lex_stringify(1) [of v "[]" ns] parse_toks(1) [of "[]" v "[]"]
  by (simp add: json_parse_def)

interpretation json: codec "stringify ns" json_parse json_wf
  by unfold_locales (rule json_round_trip)

end
