(* ===== verification/Js_Number.thy ===== *)
theory Js_Number
  imports Js_Json_Laws
begin

section \<open>The numbers the pages make: random identifiers and their decimal text\<close>

text \<open>
  \<open>Math.floor(Math.random() * 0xffff) + 1\<close> (src/main/flash_data/terminal/script.js, lines 203
  and 204) with the rounding of double precision, and the text \<open>JSON.stringify\<close> prints for it.
  A value of \<open>Math.random()\<close> is a double in [0, 1), given as \<open>m / 2 ^ k\<close> with \<open>m < 2 ^ 53\<close> and
  \<open>53 \<le> k \<le> 1074\<close>: every such double has this form.
\<close>

subsection \<open>Rounding to 53 bits\<close>

type_synonym random = "nat \<times> nat"

definition random_ok :: "random \<Rightarrow> bool" where
  "random_ok r \<longleftrightarrow> fst r < 2 ^ 53 \<and> 53 \<le> snd r \<and> snd r \<le> 1074"

fun bit_size :: "nat \<Rightarrow> nat" where
  "bit_size n = (if n = 0 then 0 else Suc (bit_size (n div 2)))"

declare bit_size.simps [simp del]

text \<open>The quotient by \<open>2 ^ s\<close> rounded to nearest, ties to even.\<close>

definition round_even :: "nat \<Rightarrow> nat \<Rightarrow> nat" where
  "round_even n s =
     (let q = n div 2 ^ s; r = n mod 2 ^ s in if 2 ^ s < 2 * r \<or> 2 * r = 2 ^ s \<and> odd q then q + 1 else q)"

definition round53 :: "nat \<Rightarrow> nat" where
  "round53 n = (let s = bit_size n - 53 in round_even n s * 2 ^ s)"

definition random_sid :: "random \<Rightarrow> nat" where
  "random_sid r = round53 (fst r * 65535) div 2 ^ snd r + 1"

lemma bit_size_le: "n < 2 ^ k \<Longrightarrow> bit_size n \<le> k"
proof (induction k arbitrary: n)
  case (Suc k)
  then have "n div 2 < 2 ^ k" by (simp add: less_mult_imp_div_less)
  with Suc show ?case by (subst bit_size.simps) simp
qed (simp add: bit_size.simps)

lemma round_even_le: "2 * (round_even n s * 2 ^ s) \<le> 2 * n + 2 ^ s"
proof -
  have n: "n = n div 2 ^ s * 2 ^ s + n mod 2 ^ s" by (rule div_mult_mod_eq [symmetric])
  have up: "2 * ((n div 2 ^ s + 1) * 2 ^ s) \<le> 2 * n + 2 ^ s" if "2 ^ s \<le> 2 * (n mod 2 ^ s)"
  proof -
    have "2 * ((n div 2 ^ s + 1) * 2 ^ s) = 2 * (n div 2 ^ s * 2 ^ s) + 2 ^ s + 2 ^ s" by simp
    also have "\<dots> \<le> 2 * n + 2 ^ s" using n that by linarith
    finally show ?thesis .
  qed
  have down: "2 * (n div 2 ^ s * 2 ^ s) \<le> 2 * n + 2 ^ s"
    using n by linarith
  show ?thesis using up down by (auto simp: round_even_def Let_def)
qed

lemma round53_le:
  assumes "n < 2 ^ 69"
  shows "round53 n \<le> n + 32768"
proof -
  have "bit_size n - 53 \<le> 16" using bit_size_le [OF assms] by simp
  then have "(2::nat) ^ (bit_size n - 53) \<le> 2 ^ 16" by (intro power_increasing) simp_all
  then show ?thesis
    using round_even_le [of n "bit_size n - 53"] by (simp add: round53_def Let_def)
qed

text \<open>Rounding up never reaches the next integer, so the largest identifier is 65535.\<close>

lemma random_sid_range:
  assumes "random_ok r"
  shows "1 \<le> random_sid r" and "random_sid r \<le> 65535"
proof -
  have m: "fst r \<le> 2 ^ 53 - 1" using assms by (auto simp: random_ok_def)
  have "round53 (fst r * 65535) \<le> fst r * 65535 + 32768"
    using m by (intro round53_le) simp
  then have "round53 (fst r * 65535) < 65535 * 2 ^ 53" using m by simp
  also have "(65535::nat) * 2 ^ 53 \<le> 65535 * 2 ^ snd r"
    using assms by (intro mult_le_mono2 power_increasing) (simp_all add: random_ok_def)
  finally have "round53 (fst r * 65535) div 2 ^ snd r < 65535"
    by (simp add: less_mult_imp_div_less)
  then show "random_sid r \<le> 65535" by (simp add: random_sid_def)
qed (simp add: random_sid_def)

subsection \<open>Decimal text\<close>

lemma show_nat_less [simp]: "n < 10 \<Longrightarrow> show_nat n = [48 + n]"
  by (simp add: show_nat.simps)

lemma show_nat_ge [simp]: "10 \<le> n \<Longrightarrow> show_nat n = show_nat (n div 10) @ [48 + n mod 10]"
  by (subst show_nat.simps) simp

lemma digit_offset: "v < 10 \<Longrightarrow> digit (48 + v)"
  by (simp add: digit_def)

lemma show_nat_digits: "list_all digit (show_nat n)"
  by (induction n rule: show_nat.induct)
     (subst show_nat.simps, auto simp: digit_offset)

lemma show_nat_head: "show_nat n \<noteq> []" "show_nat n = [48] \<or> hd (show_nat n) \<noteq> 48"
proof -
  have "show_nat n \<noteq> [] \<and> (n = 0 \<or> hd (show_nat n) \<noteq> 48)"
    by (induction n rule: show_nat.induct) (subst (1 2) show_nat.simps, auto)
  then show "show_nat n \<noteq> []" "show_nat n = [48] \<or> hd (show_nat n) \<noteq> 48" by auto
qed

lemma show_nat_length: "n < 10 ^ k \<Longrightarrow> 0 < k \<Longrightarrow> length (show_nat n) \<le> k"
proof (induction k arbitrary: n)
  case (Suc k)
  show ?case
  proof (cases "n < 10")
    case False
    then have "n div 10 < 10 ^ k" "0 < k"
      using Suc.prems by (simp_all add: less_mult_imp_div_less) (cases k; simp)
    then show ?thesis using False Suc.IH [of "n div 10"] by simp
  qed simp
qed simp

lemma show_nat_safe: "n < 10 ^ 15 \<Longrightarrow> safe_int (show_nat n)"
  using show_nat_digits show_nat_head show_nat_length [of n 15]
  by (auto simp: safe_int_def safe_unsigned_def)

lemma read_show_nat: "read_nat (show_nat n) = n"
  by (induction n rule: show_nat.induct)
     (subst show_nat.simps, auto simp: read_nat_def)

lemma JNat_wf: "n < 10 ^ 15 \<Longrightarrow> json_wf (JNat n)"
  by (simp add: JNat_def show_nat_safe)

lemma JNat_inj: "JNat m = JNat n \<longleftrightarrow> m = n"
  by (metis JNat_def json.inject(2) read_show_nat)

interpretation decimal: codec show_nat "\<lambda>s. Some (read_nat s)" "\<lambda>n. True"
  by unfold_locales (simp add: read_show_nat)

end
