(* ===== verification/Browser.thy ===== *)
theory Browser
  imports Js_Number
begin

section \<open>What the pages use of the browser\<close>

text \<open>
  WebSocket objects, one-shot timers, the text and style properties of DOM elements, the
  developer console and the reporting of uncaught exceptions. These are platform objects with a
  documented interface (the WHATWG WebSockets and HTML standards); the record has one field per
  object the pages touch and the operations are the calls they make. A page's own object extends
  the record. Network, user and timer activity are events, modelled with the page.
\<close>

subsection \<open>WebSocket objects\<close>

text \<open>\<open>readyState\<close> with its numeric order CONNECTING = 0, OPEN = 1, CLOSING = 2, CLOSED = 3.\<close>

datatype ready = CONNECTING | OPEN | CLOSING | CLOSED

fun ready_code :: "ready \<Rightarrow> nat" where
  "ready_code CONNECTING = 0"
| "ready_code OPEN = 1"
| "ready_code CLOSING = 2"
| "ready_code CLOSED = 3"

lemma ready_code_inject [simp]: "ready_code a = ready_code b \<longleftrightarrow> a = b"
  by (cases a; cases b) simp_all

instantiation ready :: linorder
begin

definition less_eq_ready :: "ready \<Rightarrow> ready \<Rightarrow> bool" where
  "less_eq_ready a b \<longleftrightarrow> ready_code a \<le> ready_code b"

definition less_ready :: "ready \<Rightarrow> ready \<Rightarrow> bool" where
  "less_ready a b \<longleftrightarrow> ready_code a < ready_code b"

instance
  by standard (auto simp: less_eq_ready_def less_ready_def)

end

text \<open>A socket with the frames handed to the network, oldest first. Data arrives as a text frame
  or as a binary one (a Blob, whose string is always the same).\<close>

record socket =
  s_url :: jsstr
  s_ready :: ready
  s_sent :: "jsstr list"

datatype ws_data = Text jsstr | Binary "nat list"

definition data_text :: "ws_data \<Rightarrow> jsstr" where
  "data_text d = (case d of Text s \<Rightarrow> s | Binary _ \<Rightarrow> lit ''[object Blob]'')"

subsection \<open>The browser state and the page's environment\<close>

record 'cb timer =
  t_id :: nat
  t_delay :: nat
  t_cb :: 'cb

record 'cb browser =
  socks :: "socket list"
  timers :: "'cb timer list"
  next_timer :: nat
  doc :: "string \<times> string \<Rightarrow> jsstr"
  listeners :: "(string \<times> string) list"
  console :: "(jsstr \<times> jsexn) list"
  uncaught :: "jsexn list"

text \<open>
  What differs between engines: which URLs the WebSocket constructor takes, the \<open>message\<close> of an
  exception, the text of a number that is no small integer, and how many arguments a call takes.
\<close>

record platform =
  url_ok :: "jsstr \<Rightarrow> bool"
  exn_text :: "jsexn \<Rightarrow> jsstr"
  num_str :: "jsstr \<Rightarrow> jsstr"
  max_args :: nat

subsection \<open>Operations\<close>

definition set_dom :: "string \<Rightarrow> string \<Rightarrow> jsstr \<Rightarrow> ('cb, 'z) browser_scheme stmt" where
  "set_dom el prop v = assign (doc_update (\<lambda>d. d((el, prop) := v)))"

definition add_listener :: "string \<Rightarrow> string \<Rightarrow> ('cb, 'z) browser_scheme stmt" where
  "add_listener el ev = assign (listeners_update (\<lambda>ls. ls @ [(el, ev)]))"

definition console_error :: "jsstr \<Rightarrow> jsexn \<Rightarrow> ('cb, 'z) browser_scheme stmt" where
  "console_error m e = assign (console_update (\<lambda>c. c @ [(m, e)]))"

text \<open>The sockets by number; there is none beyond the end of the list.\<close>

definition upd_at :: "nat \<Rightarrow> (socket \<Rightarrow> socket) \<Rightarrow> socket list \<Rightarrow> socket list" where
  "upd_at i f ss = (if i < length ss then ss[i := f (ss ! i)] else ss)"

definition ready_at :: "socket list \<Rightarrow> nat \<Rightarrow> ready" where
  "ready_at ss i = (if i < length ss then s_ready (ss ! i) else CLOSED)"

definition sent_at :: "socket list \<Rightarrow> nat \<Rightarrow> jsstr list" where
  "sent_at ss i = (if i < length ss then s_sent (ss ! i) else [])"

text \<open>\<open>send\<close> throws while connecting, transmits when open and drops the data afterwards.\<close>

definition sock_send :: "nat \<Rightarrow> jsstr \<Rightarrow> ('cb, 'z) browser_scheme stmt" where
  "sock_send i txt b = (case ready_at (socks b) i of
       CONNECTING \<Rightarrow> (Some InvalidStateError, b)
     | OPEN \<Rightarrow> (None, b\<lparr>socks := upd_at i (s_sent_update (\<lambda>l. l @ [txt])) (socks b)\<rparr>)
     | _ \<Rightarrow> (None, b))"

definition sock_close :: "nat \<Rightarrow> ('cb, 'z) browser_scheme stmt" where
  "sock_close i b = (case ready_at (socks b) i of
       CLOSING \<Rightarrow> (None, b)
     | CLOSED \<Rightarrow> (None, b)
     | _ \<Rightarrow> (None, b\<lparr>socks := upd_at i (s_ready_update (\<lambda>_. CLOSING)) (socks b)\<rparr>))"

text \<open>\<open>clearTimeout\<close> of an identifier that is not pending, or of \<open>undefined\<close>, does nothing.\<close>

definition clear_timeout :: "nat option \<Rightarrow> ('cb, 'z) browser_scheme stmt" where
  "clear_timeout t = assign (timers_update (filter (\<lambda>x. Some (t_id x) \<noteq> t)))"

text \<open>\<open>setTimeout\<close>: the new timer's identifier is the old \<open>next_timer\<close>.\<close>

definition set_timeout :: "'cb \<Rightarrow> nat \<Rightarrow> ('cb, 'z) browser_scheme \<Rightarrow> ('cb, 'z) browser_scheme" where
  "set_timeout cb d b = b\<lparr>timers := timers b @ [\<lparr>t_id = next_timer b, t_delay = d, t_cb = cb\<rparr>],
                          next_timer := Suc (next_timer b)\<rparr>"

text \<open>The loop reports an exception that a handler lets escape, and goes on.\<close>

definition report :: "('cb, 'z) browser_scheme stmt \<Rightarrow> ('cb, 'z) browser_scheme \<Rightarrow> ('cb, 'z) browser_scheme" where
  "report c b = (case c b of (None, b') \<Rightarrow> b' | (Some e, b') \<Rightarrow> b'\<lparr>uncaught := uncaught b' @ [e]\<rparr>)"

subsection \<open>Properties of parsed JSON values\<close>

text \<open>
  \<open>v.k\<close> for a parsed value: an exception on null, undefined (None) where there is no such member,
  the last of several members of one name. Only names that no prototype has are looked up.
\<close>

definition get_prop :: "string \<Rightarrow> json \<Rightarrow> jsexn + json option" where
  "get_prop k v = (case v of
       JNull \<Rightarrow> Inl TypeError
     | JObj fs \<Rightarrow> Inr (map_of (rev fs) (lit k))
     | _ \<Rightarrow> Inr None)"

definition truthy :: "(jsstr \<Rightarrow> jsstr) \<Rightarrow> json option \<Rightarrow> bool" where
  "truthy ns v = (case v of
       None \<Rightarrow> False
     | Some JNull \<Rightarrow> False
     | Some (JBool b) \<Rightarrow> b
     | Some (JNum l) \<Rightarrow> num_text ns l \<noteq> lit ''0''
     | Some (JStr s) \<Rightarrow> s \<noteq> []
     | Some (JArr _) \<Rightarrow> True
     | Some (JObj _) \<Rightarrow> True)"

text \<open>
  \<open>String(v)\<close>: arrays join the texts of their elements, an object is \<open>[object Object]\<close> unless a
  member of its own hides \<open>toString\<close>, which leaves no way to a primitive.
\<close>

fun to_js_string :: "(jsstr \<Rightarrow> jsstr) \<Rightarrow> json \<Rightarrow> jsexn + jsstr"
  and join_elems :: "(jsstr \<Rightarrow> jsstr) \<Rightarrow> json list \<Rightarrow> jsexn + jsstr" where
  "to_js_string ns JNull = Inr (lit ''null'')"
| "to_js_string ns (JBool b) = Inr (if b then lit ''true'' else lit ''false'')"
| "to_js_string ns (JNum l) = Inr (num_text ns l)"
| "to_js_string ns (JStr s) = Inr s"
| "to_js_string ns (JArr xs) = join_elems ns xs"
| "to_js_string ns (JObj fs) =
     (if lit ''toString'' \<in> set (map fst fs) then Inl TypeError else Inr (lit ''[object Object]''))"
| "join_elems ns [] = Inr []"
| "join_elems ns (x # xs) =
     (case (if x = JNull then Inr [] else to_js_string ns x) of
        Inl e \<Rightarrow> Inl e
      | Inr a \<Rightarrow> (case xs of [] \<Rightarrow> Inr a
                | _ \<Rightarrow> (case join_elems ns xs of Inl e \<Rightarrow> Inl e | Inr r \<Rightarrow> Inr (a @ 44 # r))))"

end
