(* ===== verification/Js_Base64.thy ===== *)
theory Js_Base64
  imports Gateway_Prelude
begin

section \<open>Base64 as the browser does it: \<open>btoa\<close> and \<open>atob\<close>\<close>

text \<open>
  The two platform functions the terminal uses to put bytes into a JSON string
  (src/main/flash_data/terminal/script.js, lines 247, 283 and 308). A binary string is a
  JavaScript string of code units below 256. \<open>btoa\<close> refuses larger code units; \<open>atob\<close> is the
  forgiving decoder: it drops ASCII white space, one or two padding characters when the length
  is a multiple of four, and the unused low bits of the last group.
\<close>

subsection \<open>Encoder\<close>

definition b64_char :: "nat \<Rightarrow> nat" where
  "b64_char v = (if v < 26 then 65 + v else if v < 52 then 71 + v else if v < 62 then v - 4
                 else if v = 62 then 43 else 47)"

fun btoa_bytes :: "nat list \<Rightarrow> jsstr" where
  "btoa_bytes [] = []"
| "btoa_bytes [a] = [b64_char (a div 4), b64_char (a mod 4 * 16), 61, 61]"
| "btoa_bytes [a, b] =
     [b64_char (a div 4), b64_char (a mod 4 * 16 + b div 16), b64_char (b mod 16 * 4), 61]"
| "btoa_bytes (a # b # c # bs) =
     b64_char (a div 4) # b64_char (a mod 4 * 16 + b div 16)
     # b64_char (b mod 16 * 4 + c div 64) # b64_char (c mod 64) # btoa_bytes bs"

definition btoa :: "jsstr \<Rightarrow> jsexn + jsstr" where
  "btoa s = (if list_all (\<lambda>c. c < 256) s then Inr (btoa_bytes s) else Inl InvalidCharacterError)"

subsection \<open>Decoder\<close>

definition b64_value :: "nat \<Rightarrow> nat option" where
  "b64_value c = (if 65 \<le> c \<and> c \<le> 90 then Some (c - 65)
                  else if 97 \<le> c \<and> c \<le> 122 then Some (c - 71)
                  else if 48 \<le> c \<and> c \<le> 57 then Some (c + 4)
                  else if c = 43 then Some 62 else if c = 47 then Some 63 else None)"

definition ascii_space :: "nat \<Rightarrow> bool" where
  "ascii_space c \<longleftrightarrow> c = 9 \<or> c = 10 \<or> c = 12 \<or> c = 13 \<or> c = 32"

fun b64_values :: "jsstr \<Rightarrow> nat list option" where
  "b64_values [] = Some []"
| "b64_values (c # cs) =
     (case b64_value c of None \<Rightarrow> None | Some v \<Rightarrow> map_option ((#) v) (b64_values cs))"

fun b64_groups :: "nat list \<Rightarrow> nat list option" where
  "b64_groups [] = Some []"
| "b64_groups [p] = None"
| "b64_groups [p, q] = Some [p * 4 + q div 16]"
| "b64_groups [p, q, r] = Some [p * 4 + q div 16, q mod 16 * 16 + r div 4]"
| "b64_groups (p # q # r # t # vs) =
     map_option (\<lambda>bs. (p * 4 + q div 16) # (q mod 16 * 16 + r div 4) # (r mod 4 * 64 + t) # bs)
       (b64_groups vs)"

definition strip_padding :: "jsstr \<Rightarrow> jsstr" where
  "strip_padding s =
     (if length s mod 4 = 0 \<and> s \<noteq> [] \<and> last s = 61
      then (let t = butlast s in if t \<noteq> [] \<and> last t = 61 then butlast t else t)
      else s)"

definition atob_opt :: "jsstr \<Rightarrow> nat list option" where
  "atob_opt s = Option.bind (b64_values (strip_padding (filter (\<lambda>c. \<not> ascii_space c) s))) b64_groups"

definition atob :: "jsstr \<Rightarrow> jsexn + jsstr" where
  "atob s = (case atob_opt s of None \<Rightarrow> Inl InvalidCharacterError | Some bs \<Rightarrow> Inr bs)"

subsection \<open>The alphabet\<close>

lemma b64_value_char: "v < 64 \<Longrightarrow> b64_value (b64_char v) = Some v"
  by (auto simp: b64_value_def b64_char_def)

lemma b64_char_plain: "\<not> ascii_space (b64_char v)" "b64_char v \<noteq> 61"
  by (auto simp: ascii_space_def b64_char_def)

lemma b64_char_unit: "v < 64 \<Longrightarrow> b64_char v < 128"
  by (auto simp: b64_char_def)

text \<open>The six-bit values \<open>btoa_bytes\<close> writes, before the alphabet and the padding.\<close>

fun sextets :: "nat list \<Rightarrow> nat list" where
  "sextets [] = []"
| "sextets [a] = [a div 4, a mod 4 * 16]"
| "sextets [a, b] = [a div 4, a mod 4 * 16 + b div 16, b mod 16 * 4]"
| "sextets (a # b # c # bs) =
     a div 4 # (a mod 4 * 16 + b div 16) # (b mod 16 * 4 + c div 64) # c mod 64 # sextets bs"

fun padding :: "nat list \<Rightarrow> jsstr" where
  "padding [] = []"
| "padding [a] = [61, 61]"
| "padding [a, b] = [61]"
| "padding (a # b # c # bs) = padding bs"

lemma btoa_bytes_sextets: "btoa_bytes bs = map b64_char (sextets bs) @ padding bs"
  by (induction bs rule: btoa_bytes.induct) simp_all

lemma sextets_small: "bytes_ok bs \<Longrightarrow> list_all (\<lambda>v. v < 64) (sextets bs)"
  by (induction bs rule: sextets.induct) auto

lemma b64_groups_sextets: "bytes_ok bs \<Longrightarrow> b64_groups (sextets bs) = Some bs"
  by (induction bs rule: sextets.induct) auto

lemma b64_values_chars: "list_all (\<lambda>v. v < 64) vs \<Longrightarrow> b64_values (map b64_char vs) = Some vs"
  by (induction vs) (simp_all add: b64_value_char)

lemma length_sextets: "(length (sextets bs) + length (padding bs)) mod 4 = 0"
  by (induction bs rule: sextets.induct) (simp_all add: mod_Suc)

lemma padding_cases: "padding bs = [] \<or> padding bs = [61] \<or> padding bs = [61, 61]"
  by (induction bs rule: padding.induct) simp_all

lemma strip_padding_btoa: "strip_padding (map b64_char (sextets bs) @ padding bs) = map b64_char (sextets bs)"
proof -
  let ?m = "map b64_char (sextets bs)"
  have last: "?m \<noteq> [] \<Longrightarrow> last ?m \<noteq> 61"
    by (simp add: last_map b64_char_plain)
  have len: "length (?m @ padding bs) mod 4 = 0"
    using length_sextets [of bs] by simp
  show ?thesis
    using padding_cases [of bs] len last
    by (auto simp: strip_padding_def Let_def butlast_append)
qed

lemma filter_space_btoa: "filter (\<lambda>c. \<not> ascii_space c) (btoa_bytes bs) = btoa_bytes bs"
  by (induction bs rule: btoa_bytes.induct) (simp_all add: b64_char_plain ascii_space_def [of 61])

subsection \<open>Round trip\<close>

lemma atob_btoa: "bytes_ok bs \<Longrightarrow> atob_opt (btoa_bytes bs) = Some bs"
  by (simp add: atob_opt_def filter_space_btoa)
     (simp add: btoa_bytes_sextets strip_padding_btoa b64_values_chars sextets_small b64_groups_sextets)

interpretation base64: codec btoa_bytes atob_opt bytes_ok
  by unfold_locales (rule atob_btoa)

lemma group_bytes:
  assumes "p < 64" and "q < 64"
  shows "p * 4 + q div 16 < (256::nat)" "p mod 16 * 16 + q div 4 < 256" "p mod 4 * 64 + q < 256"
proof -
  have "q div 16 < 4" "q div 4 < 16" "p mod 16 < 16" "p mod 4 < 4"
    using assms(2) by (simp_all add: less_mult_imp_div_less)
  with assms show "p * 4 + q div 16 < 256" "p mod 16 * 16 + q div 4 < 256" "p mod 4 * 64 + q < 256"
    by linarith+
qed

lemma b64_groups_bytes: "list_all (\<lambda>v. v < 64) vs \<Longrightarrow> b64_groups vs = Some bs \<Longrightarrow> bytes_ok bs"
  by (induction vs arbitrary: bs rule: b64_groups.induct) (auto simp: group_bytes)

lemma b64_values_small: "b64_values cs = Some vs \<Longrightarrow> list_all (\<lambda>v. v < 64) vs"
proof (induction cs arbitrary: vs)
  case (Cons c cs)
  then show ?case
    by (auto simp: b64_value_def split: option.splits if_splits)
qed simp

text \<open>Whatever it is given, \<open>atob\<close> yields bytes.\<close>

lemma atob_bytes: "atob s = Inr bs \<Longrightarrow> bytes_ok bs"
  by (auto simp: atob_def atob_opt_def bind_eq_Some_conv split: option.splits
      intro: b64_groups_bytes b64_values_small)

lemma btoa_bytes_ascii: "bytes_ok bs \<Longrightarrow> list_all (\<lambda>c. c < 128) (btoa_bytes bs)"
  by (induction bs rule: btoa_bytes.induct) (auto intro!: b64_char_unit)

lemma btoa_bytes_empty_iff [simp]: "btoa_bytes bs = [] \<longleftrightarrow> bs = []"
  by (cases bs rule: btoa_bytes.cases) simp_all

end
