(* ===== verification/Terminal_Texts.thy ===== *)
theory Terminal_Texts
  imports Gateway_Prelude
begin

section \<open>The terminal page's messages\<close>

text \<open>
  The Russian texts of src/main/flash_data/terminal/script.js as UTF-16 code units, with the
  transliteration and the line of each, and the ANSI escape sequences around them. The texts
  that tell states apart are distinct.
\<close>

definition esc :: "string \<Rightarrow> jsstr" where
  "esc s = 27 # lit s"


text \<open>Oshibka pri inicializacii terminala: (line 66)\<close>

definition ru_init_error :: jsstr where
  "ru_init_error =
    [1054, 1096, 1080, 1073, 1082, 1072, 32, 1087, 1088, 1080, 32, 1080, 1085, 1080, 1094, 1080,
    1072, 1083, 1080, 1079, 1072, 1094, 1080, 1080, 32, 1090, 1077, 1088, 1084, 1080, 1085,
    1072, 1083, 1072, 58]"

text \<open>Vvedite URL WebSocket servera (line 132)\<close>

definition ru_enter_url :: jsstr where
  "ru_enter_url =
    [1042, 1074, 1077, 1076, 1080, 1090, 1077, 32, 85, 82, 76, 32, 87, 101, 98, 83, 111, 99,
    107, 101, 116, 32, 1089, 1077, 1088, 1074, 1077, 1088, 1072]"

text \<open>Podkljuchenie... (line 136)\<close>

definition ru_connecting :: jsstr where
  "ru_connecting =
    [1055, 1086, 1076, 1082, 1083, 1102, 1095, 1077, 1085, 1080, 1077, 46, 46, 46]"

text \<open>Podkljucheno (line 143)\<close>

definition ru_connected :: jsstr where
  "ru_connected =
    [1055, 1086, 1076, 1082, 1083, 1102, 1095, 1077, 1085, 1086]"

text \<open>Otpravka registracionnoj komandy... (line 149)\<close>

definition ru_sending_reg :: jsstr where
  "ru_sending_reg =
    [1054, 1090, 1087, 1088, 1072, 1074, 1082, 1072, 32, 1088, 1077, 1075, 1080, 1089, 1090,
    1088, 1072, 1094, 1080, 1086, 1085, 1085, 1086, 1081, 32, 1082, 1086, 1084, 1072, 1085,
    1076, 1099, 46, 46, 46]"

text \<open>Otkljucheno (line 158)\<close>

definition ru_disconnected :: jsstr where
  "ru_disconnected =
    [1054, 1090, 1082, 1083, 1102, 1095, 1077, 1085, 1086]"

text \<open>(cross) Soedinenie zakryto (line 160)\<close>

definition ru_closed :: jsstr where
  "ru_closed =
    [10007, 32, 1057, 1086, 1077, 1076, 1080, 1085, 1077, 1085, 1080, 1077, 32, 1079, 1072,
    1082, 1088, 1099, 1090, 1086]"

text \<open>Oshibka WebSocket:  (line 164)\<close>

definition ru_ws_error :: jsstr where
  "ru_ws_error =
    [1054, 1096, 1080, 1073, 1082, 1072, 32, 87, 101, 98, 83, 111, 99, 107, 101, 116, 58, 32]"

text \<open>Oshibka (line 165)\<close>

definition ru_error :: jsstr where
  "ru_error =
    [1054, 1096, 1080, 1073, 1082, 1072]"

text \<open>Oshibka podkljuchenija:  (line 169)\<close>

definition ru_connect_error :: jsstr where
  "ru_connect_error =
    [1054, 1096, 1080, 1073, 1082, 1072, 32, 1087, 1086, 1076, 1082, 1083, 1102, 1095, 1077,
    1085, 1080, 1103, 58, 32]"

text \<open>(check) Registracija otpravlena (line 212)\<close>

definition ru_reg_sent :: jsstr where
  "ru_reg_sent =
    [10003, 32, 1056, 1077, 1075, 1080, 1089, 1090, 1088, 1072, 1094, 1080, 1103, 32, 1086,
    1090, 1087, 1088, 1072, 1074, 1083, 1077, 1085, 1072]"

text \<open>[Povtor registracii...] (line 216)\<close>

definition ru_retry :: jsstr where
  "ru_retry =
    [91, 1055, 1086, 1074, 1090, 1086, 1088, 32, 1088, 1077, 1075, 1080, 1089, 1090, 1088, 1072,
    1094, 1080, 1080, 46, 46, 46, 93]"

text \<open>(check) Podpiska podtverzhdena (line 233)\<close>

definition ru_confirmed :: jsstr where
  "ru_confirmed =
    [10003, 32, 1055, 1086, 1076, 1087, 1080, 1089, 1082, 1072, 32, 1087, 1086, 1076, 1090,
    1074, 1077, 1088, 1078, 1076, 1077, 1085, 1072]"

text \<open>Oshibka obrabotki soobshhenija: (line 240)\<close>

definition ru_msg_error :: jsstr where
  "ru_msg_error =
    [1054, 1096, 1080, 1073, 1082, 1072, 32, 1086, 1073, 1088, 1072, 1073, 1086, 1090, 1082,
    1080, 32, 1089, 1086, 1086, 1073, 1097, 1077, 1085, 1080, 1103, 58]"

text \<open>Oshibka dekodirovanija Base64: (line 269)\<close>

definition ru_b64_error :: jsstr where
  "ru_b64_error =
    [1054, 1096, 1080, 1073, 1082, 1072, 32, 1076, 1077, 1082, 1086, 1076, 1080, 1088, 1086,
    1074, 1072, 1085, 1080, 1103, 32, 66, 97, 115, 101, 54, 52, 58]"

text \<open>[Oshibka dekodirovanija] (line 270)\<close>

definition ru_decode_error :: jsstr where
  "ru_decode_error =
    [91, 1054, 1096, 1080, 1073, 1082, 1072, 32, 1076, 1077, 1082, 1086, 1076, 1080, 1088, 1086,
    1074, 1072, 1085, 1080, 1103, 93]"

text \<open>Ne podkljucheno k serveru (line 276)\<close>

definition ru_not_connected :: jsstr where
  "ru_not_connected =
    [1053, 1077, 32, 1087, 1086, 1076, 1082, 1083, 1102, 1095, 1077, 1085, 1086, 32, 1082, 32,
    1089, 1077, 1088, 1074, 1077, 1088, 1091]"

text \<open>Oshibka otpravki:  (line 297)\<close>

definition ru_send_error :: jsstr where
  "ru_send_error =
    [1054, 1096, 1080, 1073, 1082, 1072, 32, 1086, 1090, 1087, 1088, 1072, 1074, 1082, 1080, 58,
    32]"

text \<open>[Otpravlen Break] (line 311)\<close>

definition ru_break_sent :: jsstr where
  "ru_break_sent =
    [91, 1054, 1090, 1087, 1088, 1072, 1074, 1083, 1077, 1085, 32, 66, 114, 101, 97, 107, 93]"

text \<open>vkljuchen (line 322)\<close>

definition ru_on :: jsstr where
  "ru_on =
    [1074, 1082, 1083, 1102, 1095, 1077, 1085]"

text \<open>vykljuchen (line 322)\<close>

definition ru_off :: jsstr where
  "ru_off =
    [1074, 1099, 1082, 1083, 1102, 1095, 1077, 1085]"

text \<open>Otkljuchit'sja (line 346)\<close>

definition ru_disconnect :: jsstr where
  "ru_disconnect =
    [1054, 1090, 1082, 1083, 1102, 1095, 1080, 1090, 1100, 1089, 1103]"

text \<open>Podkljuchit'sja (line 351)\<close>

definition ru_connect :: jsstr where
  "ru_connect =
    [1055, 1086, 1076, 1082, 1083, 1102, 1095, 1080, 1090, 1100, 1089, 1103]"

text \<open>[OSHIBKA]  (line 357)\<close>

definition ru_error_tag :: jsstr where
  "ru_error_tag =
    [91, 1054, 1064, 1048, 1041, 1050, 1040, 93, 32]"

named_theorems texts "the messages, unfolded"

lemmas ru_texts [texts] =
  ru_init_error_def ru_enter_url_def ru_connecting_def ru_connected_def ru_sending_reg_def
  ru_disconnected_def ru_closed_def ru_ws_error_def ru_error_def ru_connect_error_def
  ru_reg_sent_def ru_retry_def ru_confirmed_def ru_msg_error_def ru_b64_error_def
  ru_decode_error_def ru_not_connected_def ru_send_error_def ru_break_sent_def ru_on_def
  ru_off_def ru_disconnect_def ru_connect_def ru_error_tag_def

lemma status_texts_distinct [simp]:
  "ru_connected \<noteq> ru_disconnected" "ru_connecting \<noteq> ru_connected" "ru_connecting \<noteq> ru_disconnected"
  "ru_connect \<noteq> ru_disconnect" "ru_error \<noteq> ru_connected" "ru_on \<noteq> ru_off"
  by (simp_all add: texts)

end
