(* ===== verification/Terminal.thy ===== *)
theory Terminal
  imports Browser Js_Base64 Terminal_Texts
begin

section \<open>The web terminal, class ESP32Terminal\<close>

text \<open>
  src/main/flash_data/terminal/script.js, method by method. The record \<open>world\<close> extends the
  browser by the object's fields and by what was done to the xterm.js terminal. A method is a
  block of statements in the order of the source; exceptions of the platform calls end it as they
  end the method. Calls into xterm.js and its fit add-on are recorded in \<open>term_log\<close>; what they
  return or throw comes with the event that makes them.
\<close>

subsection \<open>State\<close>

datatype callback = FitTimer | RetryTimer

datatype term_op = NewTerminal | LoadFitAddon | OpenTerm | Writeln jsstr | Write jsstr | ClearScreen
  | Fit | Focus | Refresh int int

record world = "callback browser" +
  term_log :: "term_op list"
  hasFitAddon :: bool
  socket :: "nat option"
  isConnected :: bool
  isRegistered :: bool
  packetCount :: nat
  echoEnabled :: bool
  subscriptionSid :: "nat option"
  txSid :: "nat option"
  resubscribeTimer :: "nat option"

subsection \<open>Output\<close>

definition term_do :: "term_op \<Rightarrow> world stmt" where
  "term_do x = assign (term_log_update (\<lambda>l. l @ [x]))"

definition writeln :: "jsstr \<Rightarrow> world stmt" where
  "writeln s = term_do (Writeln s)"

definition showError :: "jsstr \<Rightarrow> world stmt" where
  "showError m = writeln (esc ''[1;31m'' @ ru_error_tag @ m @ esc ''[0m'')"

definition status_color :: "string \<Rightarrow> jsstr" where
  "status_color c = (case map_of [(''green'', lit ''#4caf50''), (''red'', lit ''#f44336''),
       (''yellow'', lit ''#ffeb3b''), (''white'', lit ''#ffffff'')] c of
     Some v \<Rightarrow> v | None \<Rightarrow> lit ''#ffffff'')"

definition updateStatus :: "jsstr \<Rightarrow> string \<Rightarrow> world stmt" where
  "updateStatus message color = block
     [set_dom ''status'' ''textContent'' message,
      set_dom ''status'' ''style.color'' (status_color color),
      set_dom ''status'' ''className''
        (if color = ''green'' then lit ''status connected'' else lit ''status'')]"

definition updateConnectionStatus :: "string \<Rightarrow> world stmt" where
  "updateConnectionStatus status = ifelse (\<lambda>_. status = ''connected'')
     [set_dom ''connection-status'' ''textContent'' ru_connected,
      set_dom ''connection-status'' ''className'' (lit ''connected''),
      set_dom ''connect-btn'' ''textContent'' ru_disconnect,
      set_dom ''connect-btn'' ''style.background'' (lit ''linear-gradient(135deg, #ef5350 0%, #d32f2f 100%)'')]
     [set_dom ''connection-status'' ''textContent'' ru_disconnected,
      set_dom ''connection-status'' ''className'' [],
      set_dom ''connect-btn'' ''textContent'' ru_connect,
      set_dom ''connect-btn'' ''style.background'' (lit ''linear-gradient(135deg, #5c6bc0 0%, #3949ab 100%)'')]"

subsection \<open>Sending\<close>

text \<open>\<open>this.socket.send(JSON.stringify(command))\<close>: an exception when there is no socket.\<close>

definition send_json :: "platform \<Rightarrow> (world \<Rightarrow> json) \<Rightarrow> world stmt" where
  "send_json E command w = (case socket w of
       None \<Rightarrow> (Some TypeError, w)
     | Some i \<Rightarrow> sock_send i (stringify (num_str E) (command w)) w)"

text \<open>The three commands. A field that is still undefined leaves its member out.\<close>

definition register_command :: "world \<Rightarrow> json" where
  "register_command w = js_object
     [(''FID'', Some (JStr (lit ''0x00001021''))), (''SID'', map_option JNat (subscriptionSid w)),
      (''FLAGS'', Some (JNat 4))]"

definition unsubscribe_command :: "world \<Rightarrow> json" where
  "unsubscribe_command w = js_object
     [(''FID'', Some (JStr (lit ''0x00001021''))), (''SID'', map_option JNat (subscriptionSid w)),
      (''FLAGS'', Some (JNat 8))]"

definition data_command :: "json \<Rightarrow> world \<Rightarrow> json" where
  "data_command arg w = js_object
     [(''FID'', Some (JStr (lit ''0x00001022''))), (''SID'', map_option JNat (txSid w)),
      (''FLAGS'', Some (JNat 0)), (''ARG'', Some arg)]"

definition registerClient :: "platform \<Rightarrow> random \<Rightarrow> random \<Rightarrow> world stmt" where
  "registerClient E r1 r2 = block
     [assign (\<lambda>w. w\<lparr>subscriptionSid := Some (random_sid r1)\<rparr>),
      assign (\<lambda>w. w\<lparr>txSid := Some (random_sid r2)\<rparr>),
      send_json E register_command,
      writeln (esc ''[32m'' @ ru_reg_sent @ esc ''[0m''),
      assign (\<lambda>w. (set_timeout RetryTimer 3000 w)\<lparr>resubscribeTimer := Some (next_timer w)\<rparr>)]"

text \<open>The callback of the registration timer.\<close>

definition retry_registration :: "platform \<Rightarrow> random \<Rightarrow> random \<Rightarrow> world stmt" where
  "retry_registration E r1 r2 = ifthen (\<lambda>w. \<not> isRegistered w \<and> isConnected w)
     [writeln (esc ''[33m'' @ ru_retry @ esc ''[0m''),
      registerClient E r1 r2]"

definition unsubscribe :: "platform \<Rightarrow> world stmt" where
  "unsubscribe E = ifthen (\<lambda>w. socket w \<noteq> None \<and> isRegistered w \<and> subscriptionSid w \<noteq> None)
     [send_json E unsubscribe_command,
      assign (\<lambda>w. w\<lparr>isRegistered := False\<rparr>),
      assign (\<lambda>w. w\<lparr>subscriptionSid := None\<rparr>)]"

definition sendBreakSignal :: "platform \<Rightarrow> world stmt" where
  "sendBreakSignal E = ifthen (\<lambda>w. isConnected w \<and> socket w \<noteq> None)
     [with_val (\<lambda>_. btoa [3]) (\<lambda>a.
        [send_json E (data_command (JStr a)),
         writeln (esc ''[33m'' @ ru_break_sent @ esc ''[0m'')])]"

text \<open>
  \<open>String.fromCharCode(...encodedData)\<close> passes one argument per byte; more than the engine takes
  is a RangeError, which no handler of the method catches.
\<close>

definition from_char_codes :: "platform \<Rightarrow> nat list \<Rightarrow> jsexn + jsstr" where
  "from_char_codes E bs = (if length bs \<le> max_args E then Inr bs else Inl RangeError)"

definition handleUserInput :: "platform \<Rightarrow> jsstr \<Rightarrow> world stmt" where
  "handleUserInput E data = ifelse (\<lambda>w. \<not> isConnected w \<or> socket w = None)
     [showError ru_not_connected]
     [with_val (\<lambda>_. from_char_codes E (text_encode data)) (\<lambda>s.
        [with_val (\<lambda>_. btoa s) (\<lambda>b64.
          [try_catch [send_json E (data_command (JStr b64))]
             (\<lambda>e. [showError (ru_send_error @ exn_text E e)])])])]"


subsection \<open>Receiving\<close>

text \<open>The loop \<open>bytes[i] = binaryString.charCodeAt(i)\<close>: an element of a Uint8Array keeps a
  number modulo 256.\<close>

definition uint8_array :: "jsstr \<Rightarrow> nat list" where
  "uint8_array s = map (\<lambda>c. c mod 256) s"

definition processUARTData :: "platform \<Rightarrow> json \<Rightarrow> world stmt" where
  "processUARTData E base64Data = try_catch
     [with_val (\<lambda>_. case to_js_string (num_str E) base64Data of Inl e \<Rightarrow> Inl e | Inr s \<Rightarrow> atob s)
        (\<lambda>binaryString.
          [term_do (Write (text_decode (uint8_array binaryString))),
           ifthen (\<lambda>w. echoEnabled w \<and> isConnected w \<and> socket w \<noteq> None)
             [send_json E (data_command base64Data)]])]
     (\<lambda>e. [console_error ru_b64_error e,
           term_do (Write (esc ''[31m'' @ ru_decode_error @ esc ''[0m ''))])"

text \<open>What a frame means once it is parsed: \<open>packet.FID\<close>, \<open>packet.ARG\<close> and \<open>packet.ARG.STA\<close>.\<close>

definition handle_packet :: "platform \<Rightarrow> json \<Rightarrow> world stmt" where
  "handle_packet E packet = with_val (\<lambda>_. get_prop ''FID'' packet) (\<lambda>fid.
     [ifthen (\<lambda>_. fid = Some (JStr (lit ''0x00001021'')))
       [with_val (\<lambda>_. get_prop ''ARG'' packet) (\<lambda>arg. case arg of
          None \<Rightarrow> []
        | Some a \<Rightarrow>
           [ifthen (\<lambda>_. truthy (num_str E) (Some a))
             [with_val (\<lambda>_. get_prop ''STA'' a) (\<lambda>sta.
               [ifelse (\<lambda>_. sta = Some (JStr (lit ''0x00000005'')))
                 [assign (\<lambda>w. w\<lparr>isRegistered := True\<rparr>),
                  (\<lambda>w. clear_timeout (resubscribeTimer w) w),
                  writeln (esc ''[32m'' @ ru_confirmed @ esc ''[0m'')]
                 [ifthen isRegistered [processUARTData E a]]])]])]])"

definition handleWebSocketMessage :: "platform \<Rightarrow> ws_data \<Rightarrow> jsstr \<Rightarrow> world stmt" where
  "handleWebSocketMessage E data now = try_catch
     [with_val (\<lambda>_. case json_parse (data_text data) of None \<Rightarrow> Inl SyntaxError | Some v \<Rightarrow> Inr v)
        (\<lambda>packet.
          [assign (\<lambda>w. w\<lparr>packetCount := Suc (packetCount w)\<rparr>),
           (\<lambda>w. set_dom ''packet-count'' ''textContent'' (show_nat (packetCount w)) w),
           set_dom ''last-activity'' ''textContent'' now,
           handle_packet E packet])]
     (\<lambda>e. [console_error ru_msg_error e])"

subsection \<open>Connection\<close>

text \<open>The handlers \<open>connect\<close> installs on every socket it makes.\<close>

definition socket_onopen :: "platform \<Rightarrow> random \<Rightarrow> random \<Rightarrow> world stmt" where
  "socket_onopen E r1 r2 = block
     [assign (\<lambda>w. w\<lparr>isConnected := True\<rparr>),
      updateStatus ru_connected ''green'',
      updateConnectionStatus ''connected'',
      registerClient E r1 r2,
      writeln (esc ''[33m'' @ ru_sending_reg @ esc ''[0m'')]"

definition socket_onclose :: "world stmt" where
  "socket_onclose = block
     [assign (\<lambda>w. w\<lparr>isConnected := False\<rparr>),
      updateStatus ru_disconnected ''red'',
      updateConnectionStatus ''disconnected'',
      writeln (esc ''[1;31m'' @ ru_closed @ esc ''[0m'')]"

text \<open>The event object of an error has no \<open>message\<close>.\<close>

definition socket_onerror :: "world stmt" where
  "socket_onerror = block
     [showError (ru_ws_error @ lit ''undefined''),
      updateStatus ru_error ''red'']"

definition new_web_socket :: "platform \<Rightarrow> jsstr \<Rightarrow> world stmt" where
  "new_web_socket E url w =
     (if url_ok E url
      then (None, w\<lparr>socks := socks w @ [\<lparr>s_url = url, s_ready = CONNECTING, s_sent = []\<rparr>],
                    socket := Some (length (socks w))\<rparr>)
      else (Some SyntaxError, w))"

definition connect :: "platform \<Rightarrow> world stmt" where
  "connect E = with_val (\<lambda>w. Inr (doc w (''ws-url'', ''value''))) (\<lambda>url.
     [ifelse (\<lambda>_. url = [])
       [showError ru_enter_url]
       [updateStatus ru_connecting ''yellow'',
        try_catch [new_web_socket E url]
          (\<lambda>e. [showError (ru_connect_error @ exn_text E e)])]])"

definition close_socket :: "world stmt" where
  "close_socket w = (case socket w of
       None \<Rightarrow> (None, w)
     | Some i \<Rightarrow> block [sock_close i, assign (\<lambda>w. w\<lparr>socket := None\<rparr>)] w)"

definition disconnect :: "world stmt" where
  "disconnect = block
     [(\<lambda>w. clear_timeout (resubscribeTimer w) w),
      close_socket,
      assign (\<lambda>w. w\<lparr>isConnected := False\<rparr>),
      assign (\<lambda>w. w\<lparr>isRegistered := False\<rparr>),
      assign (\<lambda>w. w\<lparr>subscriptionSid := None\<rparr>),
      assign (\<lambda>w. w\<lparr>echoEnabled := False\<rparr>),
      set_dom ''echo-btn'' ''textContent'' (lit ''Echo: OFF''),
      set_dom ''echo-btn'' ''style.background'' [],
      updateStatus ru_disconnected ''red'',
      updateConnectionStatus ''disconnected'']"

definition toggleEcho :: "world stmt" where
  "toggleEcho = block
     [assign (\<lambda>w. w\<lparr>echoEnabled := \<not> echoEnabled w\<rparr>),
      (\<lambda>w. set_dom ''echo-btn'' ''textContent'' (if echoEnabled w then lit ''Echo: ON'' else lit ''Echo: OFF'') w),
      (\<lambda>w. set_dom ''echo-btn'' ''style.background'' (if echoEnabled w then lit ''#4caf50'' else []) w),
      (\<lambda>w. writeln (esc ''[33m'' @ lit ''[Echo '' @ (if echoEnabled w then ru_on else ru_off)
                  @ lit '']'' @ esc ''[0m'') w)]"

subsection \<open>User interface\<close>

text \<open>\<open>fit_addon x\<close>: the call \<open>fitAddon.fit()\<close>, which throws \<open>e\<close> when \<open>x = Some e\<close>.\<close>

definition fit_addon :: "jsexn option \<Rightarrow> world stmt" where
  "fit_addon x w = (x, w\<lparr>term_log := term_log w @ [Fit]\<rparr>)"

text \<open>The callback of the timer of \<open>initTerminal\<close>; \<open>rows\<close> is the terminal's row count.\<close>

definition fit_timer :: "jsexn option \<Rightarrow> nat \<Rightarrow> world stmt" where
  "fit_timer x rows = try_catch
     [fit_addon x, term_do Focus, term_do (Refresh 0 (int rows - 1))]
     (\<lambda>e. [console_error ru_init_error e])"

definition initTerminal :: "world stmt" where
  "initTerminal = block
     [term_do NewTerminal,
      assign (\<lambda>w. w\<lparr>hasFitAddon := True\<rparr>),
      term_do LoadFitAddon,
      set_dom ''terminal'' ''innerHTML'' [],
      term_do OpenTerm,
      assign (set_timeout FitTimer 100),
      add_listener ''term'' ''data'',
      writeln (esc ''[1;36m'' @ lit ''ESP32 Web Terminal v1.1'' @ esc ''[0m''),
      writeln (esc ''[33m'' @ lit ''Enter WebSocket URL and click Connect'' @ esc ''[0m'')]"

definition connect_click :: "platform \<Rightarrow> world stmt" where
  "connect_click E = ifelse isConnected [disconnect] [connect E]"

definition clear_click :: "world stmt" where
  "clear_click = term_do ClearScreen"

definition echo_click :: "world stmt" where
  "echo_click = toggleEcho"

definition url_keypress :: "platform \<Rightarrow> jsstr \<Rightarrow> world stmt" where
  "url_keypress E key = ifthen (\<lambda>_. key = lit ''Enter'')
     [ifthen (\<lambda>w. \<not> isConnected w) [connect E]]"

text \<open>The custom key handler: what it does and what it returns. xterm.js calls it for every
  keydown, keypress and keyup; it looks at the modifier and the key only.\<close>

definition key_handler :: "platform \<Rightarrow> bool \<Rightarrow> jsstr \<Rightarrow> bool \<Rightarrow> world stmt list \<times> bool" where
  "key_handler E ctrlKey key hasSelection =
     (if ctrlKey \<and> key = lit ''c'' \<and> hasSelection then ([], False)
      else if ctrlKey \<and> key = lit ''c'' then ([sendBreakSignal E], False)
      else if ctrlKey \<and> key = lit ''l'' then ([term_do ClearScreen], False)
      else ([], True))"

definition window_resize :: "jsexn option \<Rightarrow> world stmt" where
  "window_resize x = ifthen hasFitAddon [fit_addon x]"

definition bindEvents :: "world stmt" where
  "bindEvents = block
     [add_listener ''connect-btn'' ''click'',
      add_listener ''clear-btn'' ''click'',
      add_listener ''echo-btn'' ''click'',
      add_listener ''ws-url'' ''keypress'',
      add_listener ''term'' ''key'',
      add_listener ''window'' ''resize'']"

definition terminal_constructor :: "world stmt" where
  "terminal_constructor = block
     [assign (\<lambda>w. w\<lparr>socket := None\<rparr>),
      assign (\<lambda>w. w\<lparr>isConnected := False\<rparr>),
      assign (\<lambda>w. w\<lparr>isRegistered := False\<rparr>),
      assign (\<lambda>w. w\<lparr>packetCount := 0\<rparr>),
      assign (\<lambda>w. w\<lparr>echoEnabled := False\<rparr>),
      assign (\<lambda>w. w\<lparr>subscriptionSid := None\<rparr>),
      initTerminal,
      bindEvents]"

end
