(* ===== verification/Terminal_Run.thy ===== *)
theory Terminal_Run
  imports Terminal
begin

section \<open>The terminal page's event loop\<close>

text \<open>
  The page of src/main/flash_data/terminal/index.html with its object: the initial document, the
  constructor run by the \<open>load\<close> event (lines 133 to 135), and one event per listener, socket
  callback and timer. Each event runs its handler to completion; an exception that escapes is
  recorded in \<open>uncaught\<close>. Events carry what comes from outside: keys, typed data, frames, the
  random numbers and clock texts the handler reads, and what a call of the fit add-on throws.
  Timers fire in any order, which includes the order of their delays.
\<close>

subsection \<open>The page\<close>

definition initial_doc :: "string \<times> string \<Rightarrow> jsstr" where
  "initial_doc = (\<lambda>_. [])
     ((''ws-url'', ''value'') := lit ''ws://192.168.4.1:81/ws'',
      (''connect-btn'', ''textContent'') := lit ''Connect'',
      (''clear-btn'', ''textContent'') := lit ''Clear'',
      (''echo-btn'', ''textContent'') := lit ''Echo: OFF'',
      (''status'', ''textContent'') := lit ''Disconnected'',
      (''status'', ''className'') := lit ''status-indicator'',
      (''connection-status'', ''textContent'') := lit ''Disconnected'',
      (''packet-count'', ''textContent'') := lit ''0'',
      (''last-activity'', ''textContent'') := lit ''-'')"

definition blank_world :: world where
  "blank_world = \<lparr>socks = [], timers = [], next_timer = 1, doc = initial_doc, listeners = [],
     console = [], uncaught = [], term_log = [], hasFitAddon = False, socket = None,
     isConnected = False, isRegistered = False, packetCount = 0, echoEnabled = False,
     subscriptionSid = None, txSid = None, resubscribeTimer = None\<rparr>"

definition page_load :: "world stmt" where
  "page_load = block [terminal_constructor, add_listener ''window'' ''resize'']"

definition initial_world :: world where
  "initial_world = report page_load blank_world"

subsection \<open>Events\<close>

datatype key_phase = KeyDown | KeyPress | KeyUp

datatype event =
    ClickConnect
  | ClickClear
  | ClickEcho
  | SetUrl jsstr
  | UrlKey jsstr
  | TermKey key_phase bool jsstr bool
  | TermData jsstr
  | Resize "jsexn option" "jsexn option"
  | FitFires nat "jsexn option" nat
  | RetryFires nat random random
  | SockOpen nat random random
  | SockMessage nat ws_data jsstr
  | SockClosed nat bool

definition pending :: "world \<Rightarrow> callback \<Rightarrow> nat \<Rightarrow> bool" where
  "pending w cb t \<longleftrightarrow> list_ex (\<lambda>x. t_id x = t \<and> t_cb x = cb) (timers w)"

text \<open>A socket that never opened can only fail.\<close>

fun enabled :: "world \<Rightarrow> event \<Rightarrow> bool" where
  "enabled w (FitFires t x rows) \<longleftrightarrow> pending w FitTimer t"
| "enabled w (RetryFires t r1 r2) \<longleftrightarrow> pending w RetryTimer t \<and> random_ok r1 \<and> random_ok r2"
| "enabled w (SockOpen i r1 r2) \<longleftrightarrow>
     i < length (socks w) \<and> ready_at (socks w) i = CONNECTING \<and> random_ok r1 \<and> random_ok r2"
| "enabled w (SockMessage i d now) \<longleftrightarrow> i < length (socks w) \<and> ready_at (socks w) i = OPEN"
| "enabled w (SockClosed i failed) \<longleftrightarrow>
     i < length (socks w) \<and> ready_at (socks w) i \<noteq> CLOSED \<and> (ready_at (socks w) i = CONNECTING \<longrightarrow> failed)"
| "enabled w _ \<longleftrightarrow> True"

definition drop_timer :: "nat \<Rightarrow> world \<Rightarrow> world" where
  "drop_timer t w = w\<lparr>timers := filter (\<lambda>x. t_id x \<noteq> t) (timers w)\<rparr>"

definition set_ready :: "nat \<Rightarrow> ready \<Rightarrow> world \<Rightarrow> world" where
  "set_ready i r w = w\<lparr>socks := upd_at i (s_ready_update (\<lambda>_. r)) (socks w)\<rparr>"

text \<open>A resize runs the listener of \<open>bindEvents\<close> and the one of the page.\<close>

fun step :: "platform \<Rightarrow> event \<Rightarrow> world \<Rightarrow> world" where
  "step E ClickConnect w = report (connect_click E) w"
| "step E ClickClear w = report clear_click w"
| "step E ClickEcho w = report echo_click w"
| "step E (SetUrl s) w = w\<lparr>doc := (doc w)((''ws-url'', ''value'') := s)\<rparr>"
| "step E (UrlKey key) w = report (url_keypress E key) w"
| "step E (TermKey ph ctrlKey key sel) w = report (block (fst (key_handler E ctrlKey key sel))) w"
| "step E (TermData data) w = report (handleUserInput E data) w"
| "step E (Resize x y) w = report (fit_addon y) (report (window_resize x) w)"
| "step E (FitFires t x rows) w = report (fit_timer x rows) (drop_timer t w)"
| "step E (RetryFires t r1 r2) w = report (retry_registration E r1 r2) (drop_timer t w)"
| "step E (SockOpen i r1 r2) w = report (socket_onopen E r1 r2) (set_ready i OPEN w)"
| "step E (SockMessage i data now) w = report (handleWebSocketMessage E data now) w"
| "step E (SockClosed i failed) w = report socket_onclose
     (if failed then report socket_onerror (set_ready i CLOSED w) else set_ready i CLOSED w)"

abbreviation terminal_reachable :: "platform \<Rightarrow> world \<Rightarrow> bool" where
  "terminal_reachable E \<equiv> reachable initial_world enabled (step E)"

end
