(* ===== verification/Terminal_Forms.thy ===== *)
theory Terminal_Forms
  imports Terminal_Run
begin

section \<open>What each method of the terminal does, in one equation\<close>

text \<open>
  The blocks of Terminal are run once, on a symbolic state: one equation per method and branch,
  which the invariants and the protocol theorems rest on. The collection \<open>forms\<close> holds those
  that need no case distinction.
\<close>

named_theorems forms "methods as state updates"

lemmas stmt_eval = stmt_defs set_dom_def add_listener_def console_error_def clear_timeout_def
  term_do_def writeln_def

lemma writeln_form [forms]: "writeln s w = (None, w\<lparr>term_log := term_log w @ [Writeln s]\<rparr>)"
  by (simp add: stmt_eval)

lemma term_do_form [forms]: "term_do x w = (None, w\<lparr>term_log := term_log w @ [x]\<rparr>)"
  by (simp add: stmt_eval)

lemma showError_form [forms]:
  "showError m w = (None, w\<lparr>term_log := term_log w @ [Writeln (esc ''[1;31m'' @ ru_error_tag @ m @ esc ''[0m'')]\<rparr>)"
  by (simp add: showError_def forms)

lemma console_error_form [forms]: "console_error m e w = (None, w\<lparr>console := console w @ [(m, e)]\<rparr>)"
  by (simp add: stmt_eval)

lemma set_dom_form [forms]: "set_dom el p v w = (None, w\<lparr>doc := (doc w)((el, p) := v)\<rparr>)"
  by (simp add: stmt_eval)

lemma add_listener_form [forms]: "add_listener el ev w = (None, w\<lparr>listeners := listeners w @ [(el, ev)]\<rparr>)"
  by (simp add: stmt_eval)

lemma clear_timeout_form [forms]:
  "clear_timeout t w = (None, w\<lparr>timers := filter (\<lambda>x. Some (t_id x) \<noteq> t) (timers w)\<rparr>)"
  by (simp add: stmt_eval)

lemma assign_form [forms]: "assign f w = (None, f w)"
  by (simp add: assign_def)

lemma ifthen_form [forms]: "ifthen b cs w = (if b w then block cs w else (None, w))"
  by (simp add: ifthen_def)

lemma ifelse_form [forms]: "ifelse b cs ds w = (if b w then block cs w else block ds w)"
  by (simp add: ifelse_def)

text \<open>The document after the two status methods.\<close>

definition status_doc :: "jsstr \<Rightarrow> string \<Rightarrow> (string \<times> string \<Rightarrow> jsstr) \<Rightarrow> string \<times> string \<Rightarrow> jsstr" where
  "status_doc m c d = d((''status'', ''textContent'') := m, (''status'', ''style.color'') := status_color c,
     (''status'', ''className'') := (if c = ''green'' then lit ''status connected'' else lit ''status''))"

definition connection_doc :: "bool \<Rightarrow> (string \<times> string \<Rightarrow> jsstr) \<Rightarrow> string \<times> string \<Rightarrow> jsstr" where
  "connection_doc on d = d((''connection-status'', ''textContent'') := (if on then ru_connected else ru_disconnected),
     (''connection-status'', ''className'') := (if on then lit ''connected'' else []),
     (''connect-btn'', ''textContent'') := (if on then ru_disconnect else ru_connect),
     (''connect-btn'', ''style.background'') :=
       (if on then lit ''linear-gradient(135deg, #ef5350 0%, #d32f2f 100%)''
        else lit ''linear-gradient(135deg, #5c6bc0 0%, #3949ab 100%)''))"

definition echo_doc :: "bool \<Rightarrow> (string \<times> string \<Rightarrow> jsstr) \<Rightarrow> string \<times> string \<Rightarrow> jsstr" where
  "echo_doc on d = d((''echo-btn'', ''textContent'') := (if on then lit ''Echo: ON'' else lit ''Echo: OFF''),
     (''echo-btn'', ''style.background'') := (if on then lit ''#4caf50'' else []))"

lemma updateStatus_form [forms]: "updateStatus m c w = (None, w\<lparr>doc := status_doc m c (doc w)\<rparr>)"
  by (simp add: updateStatus_def forms status_doc_def)

lemma updateConnectionStatus_form [forms]:
  "updateConnectionStatus s w = (None, w\<lparr>doc := connection_doc (s = ''connected'') (doc w)\<rparr>)"
  by (simp add: updateConnectionStatus_def forms connection_doc_def)

lemma toggleEcho_form [forms]:
  "toggleEcho w = (None, w\<lparr>echoEnabled := \<not> echoEnabled w, doc := echo_doc (\<not> echoEnabled w) (doc w),
     term_log := term_log w @ [Writeln (esc ''[33m'' @ lit ''[Echo '' @ (if echoEnabled w then ru_off else ru_on)
        @ lit '']'' @ esc ''[0m'')]\<rparr>)"
  by (simp add: toggleEcho_def forms echo_doc_def)

subsection \<open>Sockets\<close>

lemma upd_at_simps [simp]:
  "length (upd_at i f ss) = length ss"
  "ready_at (upd_at i f ss) j = (if i = j \<and> j < length ss then s_ready (f (ss ! j)) else ready_at ss j)"
  "sent_at (upd_at i f ss) j = (if i = j \<and> j < length ss then s_sent (f (ss ! j)) else sent_at ss j)"
  by (auto simp: upd_at_def ready_at_def sent_at_def)

lemma ready_at_open: "ready_at ss i \<noteq> CLOSED \<Longrightarrow> i < length ss"
  by (simp add: ready_at_def split: if_splits)

lemma upd_at_nth: "i < length ss \<Longrightarrow> s_ready (ss ! i) = ready_at ss i \<and> s_sent (ss ! i) = sent_at ss i"
  by (simp add: ready_at_def sent_at_def)

lemma new_socket_simps [simp]:
  "ready_at (ss @ [s]) i = (if i = length ss then s_ready s else ready_at ss i)"
  "sent_at (ss @ [s]) i = (if i = length ss then s_sent s else sent_at ss i)"
  by (auto simp: ready_at_def sent_at_def nth_append)

text \<open>The sockets after frame \<open>txt\<close> was sent on socket \<open>so\<close>, and the exception of the send.\<close>

definition send_on :: "nat option \<Rightarrow> jsstr \<Rightarrow> socket list \<Rightarrow> socket list" where
  "send_on so txt ss = (case so of
       None \<Rightarrow> ss
     | Some i \<Rightarrow> if ready_at ss i = OPEN then upd_at i (s_sent_update (\<lambda>l. l @ [txt])) ss else ss)"

definition send_error :: "nat option \<Rightarrow> socket list \<Rightarrow> jsexn option" where
  "send_error so ss = (case so of
       None \<Rightarrow> Some TypeError
     | Some i \<Rightarrow> if ready_at ss i = CONNECTING then Some InvalidStateError else None)"

lemma send_json_form [forms]:
  "send_json E c w = (send_error (socket w) (socks w),
     w\<lparr>socks := send_on (socket w) (stringify (num_str E) (c w)) (socks w)\<rparr>)"
  by (auto simp: send_json_def sock_send_def send_error_def send_on_def split: option.splits ready.splits)

lemma send_on_simps [simp]:
  "length (send_on so x ss) = length ss"
  "ready_at (send_on so x ss) i = ready_at ss i"
  by (auto simp: send_on_def upd_at_nth split: option.splits)

lemma sent_at_send_on:
  "sent_at (send_on so x ss) i =
     (if so = Some i \<and> ready_at ss i = OPEN then sent_at ss i @ [x] else sent_at ss i)"
  by (auto simp: send_on_def upd_at_nth ready_at_open split: option.splits)

lemma send_error_None: "send_error so ss = None \<longleftrightarrow> (\<exists>i. so = Some i \<and> ready_at ss i \<noteq> CONNECTING)"
  by (auto simp: send_error_def split: option.splits)

subsection \<open>Methods that send\<close>

text \<open>\<open>registerClient\<close>: both identifiers are set even when the send throws, the rest is not done.\<close>

definition register_frame :: "platform \<Rightarrow> nat \<Rightarrow> jsstr" where
  "register_frame E sid = stringify (num_str E) (JObj
     [(lit ''FID'', JStr (lit ''0x00001021'')), (lit ''SID'', JNat sid), (lit ''FLAGS'', JNat 4)])"

definition data_frame :: "platform \<Rightarrow> nat \<Rightarrow> json \<Rightarrow> jsstr" where
  "data_frame E sid arg = stringify (num_str E) (JObj
     [(lit ''FID'', JStr (lit ''0x00001022'')), (lit ''SID'', JNat sid), (lit ''FLAGS'', JNat 0), (lit ''ARG'', arg)])"

lemma register_command_form:
  "subscriptionSid w = Some sid \<Longrightarrow> stringify (num_str E) (register_command w) = register_frame E sid"
  by (simp add: register_command_def js_object_def register_frame_def)

lemma data_command_form:
  "txSid w = Some sid \<Longrightarrow> stringify (num_str E) (data_command arg w) = data_frame E sid arg"
  by (simp add: data_command_def js_object_def data_frame_def)

lemma registerClient_fail:
  "send_error (socket w) (socks w) = Some e \<Longrightarrow> registerClient E r1 r2 w = (Some e,
     w\<lparr>subscriptionSid := Some (random_sid r1), txSid := Some (random_sid r2)\<rparr>)"
  by (auto simp: registerClient_def forms send_error_def send_on_def split: option.splits if_splits)

lemma registerClient_form:
  "send_error (socket w) (socks w) = None \<Longrightarrow> registerClient E r1 r2 w = (None,
     w\<lparr>subscriptionSid := Some (random_sid r1), txSid := Some (random_sid r2),
       socks := send_on (socket w) (register_frame E (random_sid r1)) (socks w),
       term_log := term_log w @ [Writeln (esc ''[32m'' @ ru_reg_sent @ esc ''[0m'')],
       timers := timers w @ [\<lparr>t_id = next_timer w, t_delay = 3000, t_cb = RetryTimer\<rparr>],
       next_timer := Suc (next_timer w), resubscribeTimer := Some (next_timer w)\<rparr>)"
  by (simp add: registerClient_def forms register_command_form set_timeout_def)


lemma retry_registration_form:
  "retry_registration E r1 r2 w = (if \<not> isRegistered w \<and> isConnected w
     then registerClient E r1 r2 (w\<lparr>term_log := term_log w @ [Writeln (esc ''[33m'' @ ru_retry @ esc ''[0m'')]\<rparr>)
     else (None, w))"
  by (auto simp: retry_registration_def forms split: option.splits prod.splits)

lemma unsubscribe_form:
  "unsubscribe E w = (if socket w \<noteq> None \<and> isRegistered w \<and> subscriptionSid w \<noteq> None
     then (case send_error (socket w) (socks w) of
         Some e \<Rightarrow> (Some e, w)
       | None \<Rightarrow> (None, w\<lparr>socks := send_on (socket w) (stringify (num_str E) (unsubscribe_command w)) (socks w),
                         isRegistered := False, subscriptionSid := None\<rparr>))
     else (None, w))"
  by (auto simp: unsubscribe_def forms send_error_def send_on_def split: option.splits)

text \<open>The frame a statement sends when the send throws: none.\<close>

lemma send_on_error [simp]: "send_error so ss = Some e \<Longrightarrow> send_on so x ss = ss"
  by (auto simp: send_error_def send_on_def split: option.splits if_splits)

lemma sendBreakSignal_form:
  "sendBreakSignal E w = (if isConnected w \<and> socket w \<noteq> None
     then (case send_error (socket w) (socks w) of
         Some e \<Rightarrow> (Some e, w)
       | None \<Rightarrow> (None, w\<lparr>socks := send_on (socket w) (stringify (num_str E) (data_command (JStr (lit ''Aw=='')) w)) (socks w),
                         term_log := term_log w @ [Writeln (esc ''[33m'' @ ru_break_sent @ esc ''[0m'')]\<rparr>))
     else (None, w))"
proof -
  have "btoa [3] = Inr (lit ''Aw=='')" by (simp add: btoa_def b64_char_def lit_def)
  then show ?thesis by (auto simp: sendBreakSignal_def forms with_val_def split: option.splits)
qed

text \<open>Typed text as it goes out: UTF-8, then Base64.\<close>

definition payload :: "jsstr \<Rightarrow> jsstr" where
  "payload s = btoa_bytes (text_encode s)"

lemma btoa_payload: "code_units s \<Longrightarrow> btoa (text_encode s) = Inr (payload s)"
  using text_encode_bytes [of s] by (simp add: btoa_def payload_def bytes_ok_def)

lemma handleUserInput_offline:
  "\<not> isConnected w \<or> socket w = None \<Longrightarrow> handleUserInput E s w = showError ru_not_connected w"
  by (simp add: handleUserInput_def forms)

lemma handleUserInput_online:
  assumes "isConnected w" and "socket w = Some i" and "code_units s" and "length (text_encode s) \<le> max_args E"
  shows "handleUserInput E s w = (case send_error (socket w) (socks w) of
      Some e \<Rightarrow> showError (ru_send_error @ exn_text E e) w
    | None \<Rightarrow> (None, w\<lparr>socks := send_on (socket w) (stringify (num_str E) (data_command (JStr (payload s)) w)) (socks w)\<rparr>))"
  using assms
  by (auto simp: handleUserInput_def forms with_val_def from_char_codes_def btoa_payload try_catch_def
      split: option.splits)

lemma handleUserInput_too_long:
  assumes "isConnected w" and "socket w = Some i" and "\<not> length (text_encode s) \<le> max_args E"
  shows "handleUserInput E s w = (Some RangeError, w)"
  using assms by (simp add: handleUserInput_def forms with_val_def from_char_codes_def)

subsection \<open>What a frame from the server means\<close>

text \<open>The protocol's view of a parsed frame: an exception, nothing for the terminal, the
  confirmation of the subscription, or data from the serial line.\<close>

datatype message = Bad jsexn | Ignored | Confirmation | Data json

definition classify :: "(jsstr \<Rightarrow> jsstr) \<Rightarrow> json \<Rightarrow> message" where
  "classify ns v = (case v of
       JNull \<Rightarrow> Bad TypeError
     | JObj fs \<Rightarrow>
        (if map_of (rev fs) (lit ''FID'') = Some (JStr (lit ''0x00001021''))
            \<and> truthy ns (map_of (rev fs) (lit ''ARG''))
         then (case map_of (rev fs) (lit ''ARG'') of
                 Some (JObj gs) \<Rightarrow>
                   if map_of (rev gs) (lit ''STA'') = Some (JStr (lit ''0x00000005'')) then Confirmation
                   else Data (JObj gs)
               | Some a \<Rightarrow> Data a
               | None \<Rightarrow> Ignored)
         else Ignored)
     | _ \<Rightarrow> Ignored)"

definition frame_message :: "platform \<Rightarrow> ws_data \<Rightarrow> message" where
  "frame_message E d = (case json_parse (data_text d) of
       None \<Rightarrow> Bad SyntaxError | Some v \<Rightarrow> classify (num_str E) v)"

text \<open>The text of serial data, or the exception of decoding it.\<close>

definition uart_text :: "platform \<Rightarrow> json \<Rightarrow> jsexn + jsstr" where
  "uart_text E v = (case to_js_string (num_str E) v of
       Inl e \<Rightarrow> Inl e
     | Inr s \<Rightarrow> (case atob s of Inl e \<Rightarrow> Inl e | Inr bs \<Rightarrow> Inr (text_decode bs)))"

definition echo_on :: "world \<Rightarrow> bool" where
  "echo_on w \<longleftrightarrow> echoEnabled w \<and> isConnected w \<and> socket w \<noteq> None"

definition data_error :: "jsexn \<Rightarrow> world \<Rightarrow> world" where
  "data_error e w = w\<lparr>console := console w @ [(ru_b64_error, e)],
     term_log := term_log w @ [Write (esc ''[31m'' @ ru_decode_error @ esc ''[0m '')]\<rparr>"

definition show_data :: "platform \<Rightarrow> json \<Rightarrow> jsstr \<Rightarrow> world \<Rightarrow> world" where
  "show_data E v t w = (let w' = w\<lparr>term_log := term_log w @ [Write t]\<rparr> in
     if \<not> echo_on w then w'
     else case send_error (socket w) (socks w) of
         Some e \<Rightarrow> data_error e w'
       | None \<Rightarrow> w'\<lparr>socks := send_on (socket w) (stringify (num_str E) (data_command v w)) (socks w)\<rparr>)"

lemma data_command_frame [simp]:
  "data_command v (w\<lparr>term_log := x\<rparr>) = data_command v w"
  by (simp add: data_command_def)

lemma processUARTData_form:
  "processUARTData E v w = (None, case uart_text E v of Inl e \<Rightarrow> data_error e w | Inr t \<Rightarrow> show_data E v t w)"
proof (cases "case to_js_string (num_str E) v of Inl e \<Rightarrow> Inl e | Inr s \<Rightarrow> atob s")
  case (Inl e)
  then show ?thesis
    by (auto simp: processUARTData_def try_catch_def with_val_def uart_text_def forms data_error_def split: sum.splits)
next
  case (Inr bs)
  then have "bytes_ok bs" by (auto dest: atob_bytes split: sum.splits)
  then have "uint8_array bs = bs" by (simp add: uint8_array_def map_mod_256_id)
  moreover have "uart_text E v = Inr (text_decode bs)"
    using Inr by (auto simp: uart_text_def split: sum.splits)
  ultimately show ?thesis
    using Inr by (auto simp: processUARTData_def try_catch_def with_val_def forms show_data_def data_error_def
        echo_on_def split: option.splits)
qed

definition confirm :: "world \<Rightarrow> world" where
  "confirm w = w\<lparr>isRegistered := True,
     timers := filter (\<lambda>x. Some (t_id x) \<noteq> resubscribeTimer w) (timers w),
     term_log := term_log w @ [Writeln (esc ''[32m'' @ ru_confirmed @ esc ''[0m'')]\<rparr>"

lemma handle_packet_form:
  "handle_packet E v w = (case classify (num_str E) v of
       Bad e \<Rightarrow> (Some e, w)
     | Ignored \<Rightarrow> (None, w)
     | Confirmation \<Rightarrow> (None, confirm w)
     | Data a \<Rightarrow> if isRegistered w then processUARTData E a w else (None, w))"
  by (cases v)
     (auto simp: handle_packet_def classify_def get_prop_def with_val_def forms confirm_def truthy_def
        processUARTData_form split: option.splits json.splits)


text \<open>A frame that parses is counted before it is understood.\<close>

definition count_packet :: "jsstr \<Rightarrow> world \<Rightarrow> world" where
  "count_packet now w = w\<lparr>packetCount := Suc (packetCount w),
     doc := (doc w)((''packet-count'', ''textContent'') := show_nat (Suc (packetCount w)),
                    (''last-activity'', ''textContent'') := now)\<rparr>"

definition message_error :: "jsexn \<Rightarrow> world \<Rightarrow> world" where
  "message_error e w = w\<lparr>console := console w @ [(ru_msg_error, e)]\<rparr>"

lemma handleWebSocketMessage_form:
  "handleWebSocketMessage E d now w = (None, case json_parse (data_text d) of
       None \<Rightarrow> message_error SyntaxError w
     | Some v \<Rightarrow> (case classify (num_str E) v of
           Bad e \<Rightarrow> message_error e (count_packet now w)
         | Ignored \<Rightarrow> count_packet now w
         | Confirmation \<Rightarrow> confirm (count_packet now w)
         | Data a \<Rightarrow> if isRegistered w then snd (processUARTData E a (count_packet now w))
                     else count_packet now w))"
  by (auto simp: handleWebSocketMessage_def try_catch_def with_val_def forms handle_packet_form
      message_error_def count_packet_def processUARTData_form simp del: show_nat_ge split: option.splits message.splits)

subsection \<open>Connection\<close>

lemma socket_onclose_form [forms]:
  "socket_onclose w = (None, w\<lparr>isConnected := False,
     doc := connection_doc False (status_doc ru_disconnected ''red'' (doc w)),
     term_log := term_log w @ [Writeln (esc ''[1;31m'' @ ru_closed @ esc ''[0m'')]\<rparr>)"
  by (simp add: socket_onclose_def forms)

lemma socket_onerror_form [forms]:
  "socket_onerror w = (None, w\<lparr>doc := status_doc ru_error ''red'' (doc w),
     term_log := term_log w @
       [Writeln (esc ''[1;31m'' @ ru_error_tag @ (ru_ws_error @ lit ''undefined'') @ esc ''[0m'')]\<rparr>)"
  by (simp add: socket_onerror_def forms)

definition connected_world :: "world \<Rightarrow> world" where
  "connected_world w = w\<lparr>isConnected := True, doc := connection_doc True (status_doc ru_connected ''green'' (doc w))\<rparr>"

lemma socket_onopen_form:
  "socket_onopen E r1 r2 w = (case registerClient E r1 r2 (connected_world w) of
       (None, w') \<Rightarrow> (None, w'\<lparr>term_log := term_log w' @ [Writeln (esc ''[33m'' @ ru_sending_reg @ esc ''[0m'')]\<rparr>)
     | (Some e, w') \<Rightarrow> (Some e, w'))"
  by (simp add: socket_onopen_def forms connected_world_def split: option.splits prod.splits)

definition url_of :: "world \<Rightarrow> jsstr" where
  "url_of w = doc w (''ws-url'', ''value'')"

definition new_socket :: "jsstr \<Rightarrow> world \<Rightarrow> world" where
  "new_socket url w = w\<lparr>socks := socks w @ [\<lparr>s_url = url, s_ready = CONNECTING, s_sent = []\<rparr>],
     socket := Some (length (socks w))\<rparr>"

lemma connect_form:
  "connect E w = (if url_of w = [] then showError ru_enter_url w
     else let w' = w\<lparr>doc := status_doc ru_connecting ''yellow'' (doc w)\<rparr> in
       if url_ok E (url_of w) then (None, new_socket (url_of w) w')
       else showError (ru_connect_error @ exn_text E SyntaxError) w')"
  by (simp add: connect_def with_val_def forms url_of_def try_catch_def new_web_socket_def new_socket_def Let_def)

definition close_on :: "nat option \<Rightarrow> socket list \<Rightarrow> socket list" where
  "close_on so ss = (case so of
       None \<Rightarrow> ss
     | Some i \<Rightarrow> if ready_at ss i < CLOSING then upd_at i (s_ready_update (\<lambda>_. CLOSING)) ss else ss)"

lemma ready_less_CLOSING: "r < CLOSING \<longleftrightarrow> r = CONNECTING \<or> r = OPEN"
  by (cases r) (simp_all add: less_ready_def)

lemma close_socket_form [forms]:
  "close_socket w = (None, w\<lparr>socks := close_on (socket w) (socks w), socket := None\<rparr>)"
  by (cases "socket w"; simp add: close_socket_def close_on_def)
     (cases "ready_at (socks w) (the (socket w))"; simp add: sock_close_def forms ready_less_CLOSING)

lemma close_on_simps [simp]:
  "length (close_on so ss) = length ss"
  "ready_at (close_on so ss) i = (if so = Some i \<and> ready_at ss i < CLOSING then CLOSING else ready_at ss i)"
  "sent_at (close_on so ss) i = sent_at ss i"
proof -
  have open_len: "ready_at ss j < CLOSING \<Longrightarrow> j < length ss" for j
    by (auto simp: ready_less_CLOSING intro: ready_at_open)
  then show "length (close_on so ss) = length ss"
    "ready_at (close_on so ss) i = (if so = Some i \<and> ready_at ss i < CLOSING then CLOSING else ready_at ss i)"
    "sent_at (close_on so ss) i = sent_at ss i"
    by (cases so; simp add: close_on_def upd_at_nth)+
qed

lemma disconnect_form [forms]:
  "disconnect w = (None, w\<lparr>timers := filter (\<lambda>x. Some (t_id x) \<noteq> resubscribeTimer w) (timers w),
     socks := close_on (socket w) (socks w), socket := None, isConnected := False, isRegistered := False,
     subscriptionSid := None, echoEnabled := False,
     doc := connection_doc False (status_doc ru_disconnected ''red'' (echo_doc False (doc w)))\<rparr>)"
  by (simp add: disconnect_def forms echo_doc_def)

subsection \<open>User interface\<close>

lemma connect_click_form:
  "connect_click E w = (if isConnected w then disconnect w else connect E w)"
  by (auto simp: connect_click_def forms split: option.splits prod.splits)

lemma url_keypress_form:
  "url_keypress E key w = (if key = lit ''Enter'' \<and> \<not> isConnected w then connect E w else (None, w))"
  by (auto simp: url_keypress_def forms split: option.splits prod.splits)

lemma clear_click_form [forms]: "clear_click w = (None, w\<lparr>term_log := term_log w @ [ClearScreen]\<rparr>)"
  by (simp add: clear_click_def forms)

lemma echo_click_form [forms]: "echo_click = toggleEcho"
  by (simp add: echo_click_def)

lemma fit_timer_form:
  "fit_timer x rows w = (None, case x of
       None \<Rightarrow> w\<lparr>term_log := term_log w @ [Fit, Focus, Refresh 0 (int rows - 1)]\<rparr>
     | Some e \<Rightarrow> w\<lparr>term_log := term_log w @ [Fit], console := console w @ [(ru_init_error, e)]\<rparr>)"
  by (simp add: fit_timer_def try_catch_def fit_addon_def forms split: option.splits)

lemma initial_world_form:
  "initial_world = blank_world\<lparr>
     hasFitAddon := True,
     term_log := [NewTerminal, LoadFitAddon, OpenTerm,
       Writeln (esc ''[1;36m'' @ lit ''ESP32 Web Terminal v1.1'' @ esc ''[0m''),
       Writeln (esc ''[33m'' @ lit ''Enter WebSocket URL and click Connect'' @ esc ''[0m'')],
     doc := initial_doc((''terminal'', ''innerHTML'') := []),
     timers := [\<lparr>t_id = 1, t_delay = 100, t_cb = FitTimer\<rparr>], next_timer := 2,
     listeners := [(''term'', ''data''), (''connect-btn'', ''click''), (''clear-btn'', ''click''),
       (''echo-btn'', ''click''), (''ws-url'', ''keypress''), (''term'', ''key''), (''window'', ''resize''),
       (''window'', ''resize'')]\<rparr>"
  by (simp add: initial_world_def report_def page_load_def terminal_constructor_def initTerminal_def
      bindEvents_def forms set_timeout_def blank_world_def)

end
