(* ===== verification/Terminal_Invariants.thy ===== *)
theory Terminal_Invariants
  imports Terminal_Forms
begin

section \<open>What holds between any two events of the terminal page\<close>

text \<open>
  Invariants of the event loop of Terminal_Run, each an interpretation of the locale
  \<open>loop_invariant\<close> of the prelude: the identifiers are assigned and in range while connected, the
  page shows the state of the object, timers and sockets are referred to consistently, and every
  frame handed to the network is one of the two commands of the protocol, a registration first.
  Nothing is assumed of the user, the server or the network beyond \<open>enabled\<close>.
\<close>

subsection \<open>One event, one state update\<close>

lemma registerClient_eq:
  "registerClient E r1 r2 w = (send_error (socket w) (socks w),
     (let w' = w\<lparr>subscriptionSid := Some (random_sid r1), txSid := Some (random_sid r2)\<rparr> in
      if send_error (socket w) (socks w) = None
      then w'\<lparr>socks := send_on (socket w) (register_frame E (random_sid r1)) (socks w),
              term_log := term_log w @ [Writeln (esc ''[32m'' @ ru_reg_sent @ esc ''[0m'')],
              timers := timers w @ [\<lparr>t_id = next_timer w, t_delay = 3000, t_cb = RetryTimer\<rparr>],
              next_timer := Suc (next_timer w), resubscribeTimer := Some (next_timer w)\<rparr>
      else w'))"
  by (cases "send_error (socket w) (socks w)") (simp_all add: registerClient_form registerClient_fail)

text \<open>The three ways \<open>handleUserInput\<close> ends.\<close>

lemma handleUserInput_cases:
  obtains m where "handleUserInput E s w = showError m w"
  | "handleUserInput E s w = (Some RangeError, w)"
  | "handleUserInput E s w = (Some InvalidCharacterError, w)"
  | i b64 where "isConnected w" "socket w = Some i" "send_error (socket w) (socks w) = None"
      "handleUserInput E s w
         = (None, w\<lparr>socks := send_on (socket w) (stringify (num_str E) (data_command (JStr b64) w)) (socks w)\<rparr>)"
proof (cases "isConnected w \<and> socket w \<noteq> None")
  case False
  then show thesis using that(1) by (auto simp: handleUserInput_offline)
next
  case True
  then obtain i where i: "isConnected w" "socket w = Some i" by blast
  show thesis
  proof (cases "length (text_encode s) \<le> max_args E")
    case False
    with i show thesis using that(2) by (simp add: handleUserInput_too_long)
  next
    case len: True
    show thesis
    proof (cases "btoa (text_encode s)")
      case (Inl e)
      then have "handleUserInput E s w = (Some e, w)" and "e = InvalidCharacterError"
        using i len by (auto simp: handleUserInput_def forms with_val_def from_char_codes_def btoa_def split: if_splits)
      then show thesis using that(3) by simp
    next
      case (Inr b64)
      show thesis
      proof (cases "send_error (socket w) (socks w)")
        case None
        show thesis
          by (rule that(4) [OF i None])
             (use Inr i len None in \<open>simp add: handleUserInput_def forms with_val_def from_char_codes_def try_catch_def\<close>)
      next
        case (Some e)
        show thesis
          by (rule that(1) [of "ru_send_error @ exn_text E e"])
             (use Inr i len Some in \<open>simp add: handleUserInput_def forms with_val_def from_char_codes_def try_catch_def\<close>)
      qed
    qed
  qed
qed


lemmas step_forms = report_def connect_click_form url_keypress_form connect_form key_handler_def
  sendBreakSignal_form retry_registration_form registerClient_eq socket_onopen_form fit_timer_form
  handleWebSocketMessage_form processUARTData_form show_data_def data_error_def confirm_def
  count_packet_def message_error_def connected_world_def new_socket_def window_resize_def fit_addon_def
  drop_timer_def set_ready_def Let_def

subsection \<open>Identifiers\<close>

definition sid_ok :: "nat option \<Rightarrow> bool" where
  "sid_ok s = (case s of None \<Rightarrow> True | Some n \<Rightarrow> 0 < n \<and> n < 65536)"

definition sids_ok :: "world \<Rightarrow> bool" where
  "sids_ok w \<longleftrightarrow> sid_ok (subscriptionSid w) \<and> sid_ok (txSid w)
     \<and> (isConnected w \<longrightarrow> subscriptionSid w \<noteq> None \<and> txSid w \<noteq> None)"

lemma sid_ok_simps [simp]: "sid_ok None" "random_ok r \<Longrightarrow> sid_ok (Some (random_sid r))"
  using random_sid_range [of r] by (auto simp: sid_ok_def)

lemma sids_ok_step:
  assumes "sids_ok w" and "enabled w e"
  shows "sids_ok (step E e w)"
proof (cases e)
  case (TermData s)
  then show ?thesis
    by (cases rule: handleUserInput_cases [of E s w]) (use assms(1) in \<open>simp_all add: report_def forms sids_ok_def\<close>)
qed (use assms in \<open>auto simp: sids_ok_def step_forms forms split: option.splits message.splits sum.splits\<close>)


lemma sids_ok_initial: "sids_ok initial_world"
  by (simp add: initial_world_form blank_world_def sids_ok_def)

interpretation sids: loop_invariant initial_world enabled "step E" sids_ok
  by unfold_locales (simp_all add: sids_ok_initial sids_ok_step)

subsection \<open>The page shows the object's state\<close>

definition doc_shows :: "(string \<times> string \<Rightarrow> jsstr) \<Rightarrow> bool \<Rightarrow> nat \<Rightarrow> bool \<Rightarrow> bool" where
  "doc_shows d echo n con \<longleftrightarrow>
     d (''echo-btn'', ''textContent'') = (if echo then lit ''Echo: ON'' else lit ''Echo: OFF'')
   \<and> d (''packet-count'', ''textContent'') = show_nat n
   \<and> (d (''connect-btn'', ''textContent'') = ru_disconnect \<longleftrightarrow> con)
   \<and> (d (''connection-status'', ''textContent'') = ru_connected \<longleftrightarrow> con)
   \<and> (d (''status'', ''className'') = lit ''status connected'' \<longrightarrow> con)"

definition shows_state :: "world \<Rightarrow> bool" where
  "shows_state w \<longleftrightarrow> doc_shows (doc w) (echoEnabled w) (packetCount w) (isConnected w)"

lemma doc_words [simp]: "lit ''status'' \<noteq> lit ''status connected''"
  by (simp add: lit_def)

lemma doc_shows_status [intro]:
  "doc_shows d e n k \<Longrightarrow> c \<noteq> ''green'' \<Longrightarrow> doc_shows (status_doc m c d) e n k"
  by (simp add: doc_shows_def status_doc_def)

lemma doc_shows_connection [intro]:
  "doc_shows d e n k' \<Longrightarrow> c = ''green'' \<longrightarrow> k \<Longrightarrow> doc_shows (connection_doc k (status_doc m c d)) e n k"
  by (auto simp: status_texts_distinct [symmetric] doc_shows_def status_doc_def connection_doc_def)

lemma doc_shows_echo [intro]: "doc_shows d e' n k \<Longrightarrow> doc_shows (echo_doc e d) e n k"
  by (simp add: doc_shows_def echo_doc_def)

lemma doc_shows_count [intro]:
  "doc_shows d e n k \<Longrightarrow> doc_shows (d((''packet-count'', ''textContent'') := show_nat (Suc n),
     (''last-activity'', ''textContent'') := now)) e (Suc n) k"
  by (simp add: doc_shows_def)

lemma doc_shows_url [intro]:
  "doc_shows d e n k \<Longrightarrow> doc_shows (d((''ws-url'', ''value'') := u)) e n k"
  by (simp add: doc_shows_def)

lemma shows_state_step:
  assumes "shows_state w"
  shows "shows_state (step E e w)"
proof (cases e)
  case (TermData s)
  then show ?thesis
    by (cases rule: handleUserInput_cases [of E s w]) (use assms in \<open>simp_all add: report_def forms shows_state_def\<close>)
qed (use assms in \<open>auto simp: shows_state_def step_forms forms
       simp del: show_nat_ge show_nat_less split: option.splits message.splits sum.splits\<close>)

lemma shows_state_initial: "shows_state initial_world"
  by (simp add: initial_world_form blank_world_def initial_doc_def shows_state_def doc_shows_def lit_def texts)

interpretation page: loop_invariant initial_world enabled "step E" shows_state
  by unfold_locales (simp_all add: shows_state_initial shows_state_step)


subsection \<open>References and timers\<close>

definition refs_ok :: "world \<Rightarrow> bool" where
  "refs_ok w \<longleftrightarrow> (\<forall>i. socket w = Some i \<longrightarrow> i < length (socks w))
     \<and> distinct (map t_id (timers w)) \<and> (\<forall>x \<in> set (timers w). t_id x < next_timer w)
     \<and> (\<forall>t. resubscribeTimer w = Some t \<longrightarrow> t < next_timer w)"

lemma distinct_timers_filter: "distinct (map f xs) \<Longrightarrow> distinct (map f (filter p xs))"
  by (induction xs) auto

lemma refs_ok_step:
  assumes "refs_ok w"
  shows "refs_ok (step E e w)"
proof (cases e)
  case (TermData s)
  then show ?thesis
    by (cases rule: handleUserInput_cases [of E s w]) (use assms in \<open>simp_all add: report_def forms refs_ok_def\<close>)
qed (use assms in \<open>auto simp: refs_ok_def step_forms forms less_Suc_eq
       intro: distinct_timers_filter split: option.splits message.splits sum.splits\<close>)

lemma refs_ok_initial: "refs_ok initial_world"
  by (simp add: initial_world_form blank_world_def refs_ok_def)

subsection \<open>Frames\<close>

definition registers :: "platform \<Rightarrow> jsstr \<Rightarrow> bool" where
  "registers E f \<longleftrightarrow> (\<exists>sid. 0 < sid \<and> sid < 65536 \<and> f = register_frame E sid)"

definition carries_data :: "platform \<Rightarrow> jsstr \<Rightarrow> bool" where
  "carries_data E f \<longleftrightarrow> (\<exists>sid arg. 0 < sid \<and> sid < 65536 \<and> f = data_frame E sid arg)"

definition frames_ok :: "platform \<Rightarrow> nat option \<Rightarrow> socket list \<Rightarrow> bool" where
  "frames_ok E so ss \<longleftrightarrow> (\<forall>i.
     (\<forall>f \<in> set (sent_at ss i). registers E f \<or> carries_data E f)
   \<and> (ready_at ss i = CONNECTING \<longrightarrow> sent_at ss i = [])
   \<and> (sent_at ss i \<noteq> [] \<longrightarrow> registers E (hd (sent_at ss i)))
   \<and> (so = Some i \<and> ready_at ss i = OPEN \<longrightarrow> sent_at ss i \<noteq> []))"

lemma frames_ok_send [intro]:
  "frames_ok E so ss \<Longrightarrow> registers E f \<or> carries_data E f \<Longrightarrow> frames_ok E so (send_on so f ss)"
  by (auto simp: frames_ok_def sent_at_send_on)

lemma frames_ok_new [intro]:
  "frames_ok E so ss \<Longrightarrow> frames_ok E (Some (length ss)) (ss @ [\<lparr>s_url = u, s_ready = CONNECTING, s_sent = []\<rparr>])"
  by (auto simp: frames_ok_def)

lemma frames_ok_close [intro]: "frames_ok E so ss \<Longrightarrow> frames_ok E None (close_on so ss)"
  by (auto simp: frames_ok_def split: if_splits)

lemma frames_ok_closed [intro]:
  "frames_ok E so ss \<Longrightarrow> frames_ok E so (upd_at i (s_ready_update (\<lambda>_. CLOSED)) ss)"
  by (auto simp: frames_ok_def upd_at_nth)

lemma frames_ok_open_sent [intro]:
  assumes "frames_ok E so ss" and "registers E f" and "i < length ss"
  shows "frames_ok E so (send_on so f (upd_at i (s_ready_update (\<lambda>_. OPEN)) ss))"
  using assms by (auto simp: frames_ok_def sent_at_send_on upd_at_nth hd_append)

lemma frames_ok_open_failed [intro]:
  assumes "frames_ok E so ss" and "i < length ss"
    and "send_error so (upd_at i (s_ready_update (\<lambda>_. OPEN)) ss) = Some x"
  shows "frames_ok E so (upd_at i (s_ready_update (\<lambda>_. OPEN)) ss)"
  using assms by (auto simp: frames_ok_def upd_at_nth send_error_def split: option.splits if_splits)

lemma registers_frame [intro]: "random_ok r \<Longrightarrow> registers E (register_frame E (random_sid r))"
  unfolding registers_def by (rule exI [of _ "random_sid r"]) (use random_sid_range [of r] in simp)

lemma carries_data_command [intro]:
  "sids_ok w \<Longrightarrow> isConnected w \<Longrightarrow> carries_data E (stringify (num_str E) (data_command v w))"
  unfolding carries_data_def
  by (rule exI [of _ "the (txSid w)"], rule exI [of _ v])
     (auto simp: sids_ok_def sid_ok_def data_command_form split: option.splits)

definition client_inv :: "platform \<Rightarrow> world \<Rightarrow> bool" where
  "client_inv E w \<longleftrightarrow> sids_ok w \<and> refs_ok w \<and> frames_ok E (socket w) (socks w)"

lemma data_command_world [simp]:
  "data_command v (w\<lparr>doc := d\<rparr>) = data_command v w" "data_command v (w\<lparr>packetCount := n\<rparr>) = data_command v w"
  by (simp_all add: data_command_def)

lemma frames_ok_step:
  assumes "sids_ok w" and "frames_ok E (socket w) (socks w)" and "enabled w e"
  shows "frames_ok E (socket (step E e w)) (socks (step E e w))"
proof (cases e)
  case (TermData s)
  then show ?thesis
    by (cases rule: handleUserInput_cases [of E s w]) (use assms in \<open>auto simp: report_def forms\<close>)
qed (use assms in \<open>auto simp: step_forms forms echo_on_def split: option.splits message.splits sum.splits\<close>)

lemma client_inv_step: "client_inv E w \<Longrightarrow> enabled w e \<Longrightarrow> client_inv E (step E e w)"
  by (simp add: client_inv_def sids_ok_step refs_ok_step frames_ok_step)

lemma client_inv_initial: "client_inv E initial_world"
  by (simp add: client_inv_def sids_ok_initial refs_ok_initial)
     (simp add: initial_world_form blank_world_def frames_ok_def ready_at_def sent_at_def)

interpretation client: loop_invariant initial_world enabled "step E" "client_inv E"
  by unfold_locales (simp_all add: client_inv_initial client_inv_step)

end
