(* ===== verification/Terminal_Protocol.thy ===== *)
theory Terminal_Protocol
  imports Terminal_Invariants
begin

section \<open>What goes over the wire\<close>

text \<open>
  The methods of the terminal against the protocol: what the receiver of a frame reads in it, what
  the terminal does with each kind of frame, and which exceptions each method lets through.
  Typed text passes UTF-8, Base64 and JSON on its way; the first two codecs are put in a row by an
  interpretation of the locale \<open>codec_chain\<close>, the third reads the frame around them.
\<close>

subsection \<open>The codecs in a row\<close>

interpretation typed: codec_chain text_encode "\<lambda>bs. Some (text_decode bs)" plain_text
    btoa_bytes atob_opt bytes_ok
  by unfold_locales (rule plain_text_bytes)

text \<open>A value as the argument of a data frame, read back from the frame's text.\<close>

definition data_object :: "nat \<Rightarrow> json \<Rightarrow> json" where
  "data_object sid arg = JObj
     [(lit ''FID'', JStr (lit ''0x00001022'')), (lit ''SID'', JNat sid), (lit ''FLAGS'', JNat 0), (lit ''ARG'', arg)]"

definition register_object :: "nat \<Rightarrow> json" where
  "register_object sid = JObj
     [(lit ''FID'', JStr (lit ''0x00001021'')), (lit ''SID'', JNat sid), (lit ''FLAGS'', JNat 4)]"

lemma data_frame_parse: "sid < 65536 \<Longrightarrow> json_wf arg \<Longrightarrow> json_parse (data_frame E sid arg) = Some (data_object sid arg)"
  unfolding data_frame_def data_object_def
  by (rule json.dec_enc) (simp add: JNat_wf)

lemma register_frame_parse: "sid < 65536 \<Longrightarrow> json_parse (register_frame E sid) = Some (register_object sid)"
  unfolding register_frame_def register_object_def
  by (rule json.dec_enc) (simp add: JNat_wf)

text \<open>The text a receiver finds in the argument of a data frame.\<close>

definition typed_text :: "json \<Rightarrow> jsstr option" where
  "typed_text v = (case v of
       JStr b64 \<Rightarrow> Option.bind (atob_opt b64) (\<lambda>bs. Some (text_decode bs)) | _ \<Rightarrow> None)"

lemma typed_text_payload: "plain_text s \<Longrightarrow> typed_text (JStr (payload s)) = Some s"
  using typed.chained.dec_enc [of s] by (simp add: typed_text_def payload_def)

text \<open>What was added to socket \<open>i\<close> between two states.\<close>

definition new_frames :: "world \<Rightarrow> world \<Rightarrow> nat \<Rightarrow> jsstr list" where
  "new_frames w w' i = drop (length (sent_at (socks w) i)) (sent_at (socks w') i)"

lemma online_socket: "isConnected w \<and> socket w = Some i \<and> ready_at (socks w) i = OPEN \<Longrightarrow>
    send_error (socket w) (socks w) = None"
  by (simp add: send_error_def)

definition online :: "world \<Rightarrow> nat \<Rightarrow> bool" where
  "online w i \<longleftrightarrow> isConnected w \<and> socket w = Some i \<and> ready_at (socks w) i = OPEN"

lemma online_send [simp]:
  "online w i \<Longrightarrow> send_error (socket w) (socks w) = None"
  "online w i \<Longrightarrow> sent_at (send_on (socket w) x (socks w)) i = sent_at (socks w) i @ [x]"
  by (simp_all add: online_def send_error_def sent_at_send_on)

lemma handleUserInput_sends:
  assumes "online w i" and "code_units s" and "length (text_encode s) \<le> max_args E"
    and "txSid w = Some sid"
  shows "handleUserInput E s w
     = (None, w\<lparr>socks := send_on (socket w) (data_frame E sid (JStr (payload s))) (socks w)\<rparr>)"
  using assms handleUserInput_online [of w i s E]
  by (simp add: online_def data_command_form send_error_def)

text \<open>A connected page, for the examples.\<close>

definition demo_platform :: platform where
  "demo_platform = \<lparr>url_ok = (\<lambda>u. u \<noteq> lit ''bad''), exn_text = (\<lambda>_. lit ''error''), num_str = (\<lambda>l. l), max_args = 65535\<rparr>"

definition demo_online :: world where
  "demo_online = blank_world\<lparr>socks := [\<lparr>s_url = lit ''ws://gw/ws'', s_ready = OPEN, s_sent = []\<rparr>], socket := Some 0,
     isConnected := True, subscriptionSid := Some 5, txSid := Some 7\<rparr>"

lemma demo_online_simps [simp]:
  "online demo_online 0" "txSid demo_online = Some 7" "subscriptionSid demo_online = Some 5"
  "isRegistered demo_online = False" "echoEnabled demo_online = False" "isConnected demo_online"
  "socket demo_online = Some 0" "max_args demo_platform = 65535"
  by (simp_all add: demo_online_def blank_world_def online_def ready_at_def demo_platform_def)

lemma demo_text [simp]:
  "plain_text (lit ''ls'')" "text_encode (lit ''ls'') = lit ''ls''" "length (lit ''ls'') = 2" "code_units (lit ''ls'')"
  by (simp_all add: lit_def plain_text_def text_encode_def utf8_bytes_def high_sur_def low_sur_def)

subsection \<open>Sending\<close>

text \<open>Typed text reaches the server. While the terminal is connected and its socket is open,
  \<open>handleUserInput\<close> transmits exactly one frame, whose text is a JSON object with the function
  \<open>0x00001022\<close>, the sending identifier and flags 0, and whose argument, decoded from Base64 and UTF-8,
  is the text that was typed (well-formed UTF-16 that does not start with a byte order mark).\<close>

theorem typed_text_reaches_server:
  assumes "online w i" and "txSid w = Some sid" and "sid < 65536"
    and "plain_text s" and "length (text_encode s) \<le> max_args E"
  shows "\<exists>f arg. fst (handleUserInput E s w) = None
      \<and> new_frames w (snd (handleUserInput E s w)) i = [f]
      \<and> json_parse f = Some (data_object sid arg) \<and> typed_text arg = Some s"
proof -
  have "code_units s" using assms(4) by (simp add: plain_text_def well_formed16_code_units)
  then have h: "handleUserInput E s w
      = (None, w\<lparr>socks := send_on (socket w) (data_frame E sid (JStr (payload s))) (socks w)\<rparr>)"
    using assms by (simp add: handleUserInput_sends)
  have "new_frames w (snd (handleUserInput E s w)) i = [data_frame E sid (JStr (payload s))]"
    using assms(1) by (simp add: h new_frames_def)
  then show ?thesis
    by (intro exI [of _ "data_frame E sid (JStr (payload s))"] exI [of _ "JStr (payload s)"] conjI)
       (simp_all add: h data_frame_parse assms(3) typed_text_payload assms(4))
qed

theorem typed_text_reaches_server_witness:
  "\<exists>f arg. fst (handleUserInput demo_platform (lit ''ls'') demo_online) = None
      \<and> new_frames demo_online (snd (handleUserInput demo_platform (lit ''ls'') demo_online)) 0 = [f]
      \<and> json_parse f = Some (data_object 7 arg) \<and> typed_text arg = Some (lit ''ls'')"
  by (rule typed_text_reaches_server) simp_all

text \<open>A registration is one frame with a fresh identifier, and it is followed up. On an open
  socket \<open>registerClient\<close> transmits exactly one frame, a JSON object with the function \<open>0x00001021\<close>,
  the new subscription identifier and flags 4; it keeps both new identifiers and arms a timer of
  3000 ms with a number of its own, by which the terminal will ask again.\<close>

theorem register_client_subscribes:
  assumes "online w i" and "random_ok r1"
  shows "\<exists>f w'. registerClient E r1 r2 w = (None, w')
      \<and> new_frames w w' i = [f] \<and> json_parse f = Some (register_object (random_sid r1))
      \<and> subscriptionSid w' = Some (random_sid r1) \<and> txSid w' = Some (random_sid r2)
      \<and> timers w' = timers w @ [\<lparr>t_id = next_timer w, t_delay = 3000, t_cb = RetryTimer\<rparr>]
      \<and> resubscribeTimer w' = Some (next_timer w) \<and> next_timer w' = Suc (next_timer w)"
proof -
  have "random_sid r1 < 65536" using random_sid_range [OF assms(2)] by simp
  then show ?thesis
    using assms(1) by (simp add: registerClient_form new_frames_def register_frame_parse)
qed

theorem register_client_subscribes_witness:
  "\<exists>f w'. registerClient demo_platform (0, 53) (0, 53) demo_online = (None, w')
      \<and> new_frames demo_online w' 0 = [f] \<and> json_parse f = Some (register_object 1)"
  using register_client_subscribes [of demo_online 0 "(0, 53)" demo_platform "(0, 53)"]
  by (auto simp: random_ok_def random_sid_def round53_def bit_size.simps round_even_def)

text \<open>The retry. When its timer fires, the terminal registers again exactly when it is connected
  and not yet registered; otherwise nothing happens, so a confirmed subscription is left alone.\<close>

theorem retry_only_while_unconfirmed:
  assumes "random_ok r1"
  shows "(isRegistered w \<or> \<not> isConnected w \<longrightarrow> retry_registration E r1 r2 w = (None, w))
    \<and> (\<not> isRegistered w \<and> online w i \<longrightarrow>
        (\<exists>f w'. retry_registration E r1 r2 w = (None, w') \<and> new_frames w w' i = [f]
          \<and> json_parse f = Some (register_object (random_sid r1))
          \<and> (\<exists>x \<in> set (timers w'). t_cb x = RetryTimer)))"
proof -
  have "random_sid r1 < 65536" using random_sid_range [OF assms] by simp
  moreover have "isConnected w" if "online w i" using that by (simp add: online_def)
  ultimately show ?thesis
    by (auto simp: retry_registration_form registerClient_form new_frames_def register_frame_parse)
qed

theorem retry_only_while_unconfirmed_witness:
  "retry_registration demo_platform (0, 53) (0, 53) (demo_online\<lparr>isRegistered := True\<rparr>)
     = (None, demo_online\<lparr>isRegistered := True\<rparr>)
   \<and> (\<exists>f w'. retry_registration demo_platform (0, 53) (0, 53) demo_online = (None, w')
        \<and> new_frames demo_online w' 0 = [f])"
  using retry_only_while_unconfirmed [of "(0, 53)" "demo_online\<lparr>isRegistered := True\<rparr>" demo_platform "(0, 53)" 0]
    retry_only_while_unconfirmed [of "(0, 53)" demo_online demo_platform "(0, 53)" 0]
  by (auto simp: random_ok_def)

text \<open>The break signal. While connected on an open socket, \<open>sendBreakSignal\<close> transmits exactly one
  data frame, whose argument decodes to the one character with code 3; without a connection it does
  nothing.\<close>

theorem break_sends_ctrl_c:
  assumes "txSid w = Some sid" and "sid < 65536"
  shows "(\<not> isConnected w \<longrightarrow> sendBreakSignal E w = (None, w))
    \<and> (online w i \<longrightarrow>
        (\<exists>f arg w'. sendBreakSignal E w = (None, w') \<and> new_frames w w' i = [f]
          \<and> json_parse f = Some (data_object sid arg) \<and> typed_text arg = Some [3]))"
proof -
  have t: "typed_text (JStr (lit ''Aw=='')) = Some [3]"
    using typed_text_payload [of "[3]"]
    by (simp add: payload_def text_encode_def utf8_bytes_def b64_char_def lit_def plain_text_def
        high_sur_def low_sur_def)
  have "sendBreakSignal E w = (None, w\<lparr>socks := send_on (socket w) (data_frame E sid (JStr (lit ''Aw==''))) (socks w),
      term_log := term_log w @ [Writeln (esc ''[33m'' @ ru_break_sent @ esc ''[0m'')]\<rparr>)" if "online w i"
    using that assms(1) online_send(1) [OF that]
    by (auto simp: sendBreakSignal_form online_def data_command_form)
  then show ?thesis
    using t data_frame_parse [OF assms(2), of "JStr (lit ''Aw=='')" E]
    by (auto simp: sendBreakSignal_form new_frames_def)
qed

theorem break_sends_ctrl_c_witness:
  "\<exists>f arg w'. sendBreakSignal demo_platform demo_online = (None, w') \<and> new_frames demo_online w' 0 = [f]
      \<and> json_parse f = Some (data_object 7 arg) \<and> typed_text arg = Some [3]"
  using break_sends_ctrl_c [of demo_online 7 demo_platform 0] by simp

text \<open>One Ctrl+C, two breaks. xterm.js calls the custom key handler on keydown and on keyup, and
  the handler does not look at the phase: pressing and releasing C with Ctrl held and nothing
  selected transmits two break frames.\<close>

theorem ctrl_c_breaks_twice:
  assumes "online w i"
  shows "\<exists>f. new_frames w (step E (TermKey KeyUp True (lit ''c'') False)
      (step E (TermKey KeyDown True (lit ''c'') False) w)) i = [f, f]"
proof -
  have "step E (TermKey ph True (lit ''c'') False) v = v\<lparr>
      socks := send_on (socket v) (stringify (num_str E) (data_command (JStr (lit ''Aw=='')) v)) (socks v),
      term_log := term_log v @ [Writeln (esc ''[33m'' @ ru_break_sent @ esc ''[0m'')]\<rparr>" if "online v i" for ph v
    using that online_send(1) [OF that]
    by (auto simp: key_handler_def report_def sendBreakSignal_form online_def)
  moreover have "data_command x (v\<lparr>socks := a, term_log := b\<rparr>) = data_command x v" for x v a b
    by (simp add: data_command_def)
  ultimately show ?thesis
    using assms by (simp add: new_frames_def online_def sent_at_send_on)
qed

theorem ctrl_c_breaks_twice_witness:
  "\<exists>f. new_frames demo_online (step demo_platform (TermKey KeyUp True (lit ''c'') False)
      (step demo_platform (TermKey KeyDown True (lit ''c'') False) demo_online)) 0 = [f, f]"
  by (rule ctrl_c_breaks_twice) simp

text \<open>What keys can do. A key event changes no flag, no identifier, no timer and nothing on the page.
  It transmits only as the break of Ctrl+C with nothing selected, and only on the object's open socket
  while connected; it clears the screen exactly for Ctrl+L; any other key is left to the terminal,
  the handler returning true, and has no effect at all.\<close>

theorem key_effects:
  shows "let w' = step E (TermKey ph ctrl key sel) w in
      isConnected w' = isConnected w \<and> isRegistered w' = isRegistered w \<and> echoEnabled w' = echoEnabled w
    \<and> socket w' = socket w \<and> txSid w' = txSid w \<and> timers w' = timers w \<and> doc w' = doc w
    \<and> (socks w' \<noteq> socks w \<longrightarrow> ctrl \<and> key = lit ''c'' \<and> \<not> sel \<and> (\<exists>i. online w i))
    \<and> (term_log w' = term_log w @ [ClearScreen] \<longleftrightarrow> ctrl \<and> key = lit ''l'')
    \<and> (snd (key_handler E ctrl key sel) \<longleftrightarrow> \<not> (ctrl \<and> (key = lit ''c'' \<or> key = lit ''l'')))
    \<and> (snd (key_handler E ctrl key sel) \<longrightarrow> w' = w)"
proof -
  have lc: "lit ''c'' \<noteq> lit ''l''" by (simp add: lit_def)
  have same: "send_on so x ss = ss" if "so = None \<or> (\<exists>i. so = Some i \<and> ready_at ss i \<noteq> OPEN)" for so x ss
    using that by (auto simp: send_on_def)
  have on: "send_on (socket w) x (socks w) \<noteq> socks w \<Longrightarrow> isConnected w \<Longrightarrow> \<exists>i. online w i" for x
    using same [of "socket w" "socks w" x] by (cases "socket w") (auto simp: online_def)
  show ?thesis
    using lc by (auto simp: key_handler_def report_def forms sendBreakSignal_form Let_def on split: option.splits)
qed

theorem key_effects_witness:
  "step demo_platform (TermKey KeyDown True (lit ''x'') False) demo_online = demo_online"
  using key_effects [of demo_platform KeyDown True "lit ''x''" False demo_online]
  by (auto simp: Let_def lit_def)

text \<open>When typed text cannot be sent. Without a connection the user sees an error and nothing else
  happens; on a socket that is still connecting the exception of \<open>send\<close> is caught and shown; on one
  that is closing or closed the text is lost without a message; and text whose encoding is longer
  than a call may have arguments raises a RangeError that the method does not catch.\<close>

theorem typed_text_errors:
  assumes "code_units s"
  shows "(\<not> isConnected w \<or> socket w = None \<longrightarrow>
        handleUserInput E s w = showError ru_not_connected w)
    \<and> (isConnected w \<and> socket w = Some i \<and> length (text_encode s) \<le> max_args E \<longrightarrow>
        (ready_at (socks w) i = CONNECTING \<longrightarrow>
           handleUserInput E s w = showError (ru_send_error @ exn_text E InvalidStateError) w)
      \<and> (CLOSING \<le> ready_at (socks w) i \<longrightarrow> handleUserInput E s w = (None, w)))
    \<and> (isConnected w \<and> socket w = Some i \<and> max_args E < length (text_encode s) \<longrightarrow>
        handleUserInput E s w = (Some RangeError, w))"
proof -
  have "handleUserInput E s w = (None, w)"
    if "isConnected w" "socket w = Some i" "length (text_encode s) \<le> max_args E" "CLOSING \<le> ready_at (socks w) i"
    using that assms
    by (cases "ready_at (socks w) i") (simp_all add: handleUserInput_online send_error_def send_on_def less_eq_ready_def)
  then show ?thesis
    using assms by (auto simp: handleUserInput_offline handleUserInput_online handleUserInput_too_long send_error_def)
qed

theorem typed_text_errors_witness:
  "handleUserInput demo_platform (lit ''ls'') blank_world = showError ru_not_connected blank_world
   \<and> handleUserInput (demo_platform\<lparr>max_args := 1\<rparr>) (lit ''ls'') demo_online = (Some RangeError, demo_online)"
  using typed_text_errors [of "lit ''ls''" blank_world demo_platform 0]
    typed_text_errors [of "lit ''ls''" demo_online "demo_platform\<lparr>max_args := 1\<rparr>" 0]
  by (simp add: blank_world_def)

subsection \<open>Receiving\<close>

text \<open>What a message does is decided by its meaning. \<open>handleWebSocketMessage\<close> never throws, and its
  effect follows \<open>classify\<close>: a text that is no JSON is only reported; any other is counted, a
  confirmation registers the client and cancels the pending retry, serial data is processed when the
  client is registered and dropped otherwise, everything else is ignored, and null is reported.\<close>

theorem message_meaning:
  "handleWebSocketMessage E d now w = (None, case frame_message E d of
       Bad SyntaxError \<Rightarrow> message_error SyntaxError w
     | Bad e \<Rightarrow> message_error e (count_packet now w)
     | Ignored \<Rightarrow> count_packet now w
     | Confirmation \<Rightarrow> confirm (count_packet now w)
     | Data a \<Rightarrow> if isRegistered w then snd (processUARTData E a (count_packet now w))
                 else count_packet now w)"
proof -
  have "classify ns v \<noteq> Bad SyntaxError" for ns v
    by (auto simp: classify_def split: json.splits option.splits)
  then show ?thesis
    by (auto simp: handleWebSocketMessage_form frame_message_def split: option.splits message.splits jsexn.splits)
qed

text \<open>Serial data on the screen. \<open>processUARTData\<close> never throws; with echo off it writes exactly one
  text: the decoded data when the argument is Base64, the error mark otherwise, the exception going
  to the console; it touches nothing else.\<close>

theorem serial_data_shown:
  assumes "\<not> echoEnabled w"
  shows "processUARTData E v w = (None, case uart_text E v of
      Inr t \<Rightarrow> w\<lparr>term_log := term_log w @ [Write t]\<rparr>
    | Inl e \<Rightarrow> w\<lparr>console := console w @ [(ru_b64_error, e)],
                 term_log := term_log w @ [Write (esc ''[31m'' @ ru_decode_error @ esc ''[0m '')]\<rparr>)"
  using assms by (simp add: processUARTData_form data_error_def show_data_def echo_on_def split: sum.splits)

theorem serial_data_shown_witness:
  "processUARTData demo_platform (JStr (lit ''#'')) demo_online = (None,
     demo_online\<lparr>console := [(ru_b64_error, InvalidCharacterError)],
       term_log := [Write (esc ''[31m'' @ ru_decode_error @ esc ''[0m '')]\<rparr>)"
proof -
  have "uart_text demo_platform (JStr (lit ''#'')) = Inl InvalidCharacterError"
    by (simp add: uart_text_def atob_def atob_opt_def lit_def ascii_space_def strip_padding_def b64_value_def)
  moreover have "console demo_online = []" "term_log demo_online = []"
    by (simp_all add: demo_online_def blank_world_def)
  ultimately show ?thesis
    using serial_data_shown [of demo_online demo_platform "JStr (lit ''#'')"] by simp
qed

text \<open>Echo. With echo on and the socket open, the data that is shown goes back unchanged: the
  terminal transmits exactly one data frame whose argument is the argument it received.\<close>

theorem echo_returns_data:
  assumes "online w i" and "echoEnabled w" and "txSid w = Some sid" and "sid < 65536"
    and "json_wf v" and "uart_text E v = Inr t"
  shows "\<exists>f w'. processUARTData E v w = (None, w') \<and> term_log w' = term_log w @ [Write t]
      \<and> new_frames w w' i = [f] \<and> json_parse f = Some (data_object sid v)"
proof -
  have "echo_on w" using assms(1,2) by (simp add: echo_on_def online_def)
  then show ?thesis
    using assms by (simp add: processUARTData_form show_data_def new_frames_def data_command_form data_frame_parse)
qed

theorem echo_returns_data_witness:
  "\<exists>f w'. processUARTData demo_platform (JStr (lit ''bHM='')) (demo_online\<lparr>echoEnabled := True\<rparr>) = (None, w')
      \<and> term_log w' = [Write (lit ''ls'')]
      \<and> new_frames (demo_online\<lparr>echoEnabled := True\<rparr>) w' 0 = [f] \<and> json_parse f = Some (data_object 7 (JStr (lit ''bHM='')))"
proof -
  have "payload (lit ''ls'') = lit ''bHM=''"
    by (simp add: payload_def) (simp add: lit_def b64_char_def)
  then have "uart_text demo_platform (JStr (lit ''bHM='')) = Inr (lit ''ls'')"
    using text_round_trip [of "lit ''ls''"] atob_btoa [OF plain_text_bytes, of "lit ''ls''"]
    by (simp add: uart_text_def atob_def payload_def)
  moreover have "term_log demo_online = []" by (simp add: demo_online_def blank_world_def)
  moreover have "online (demo_online\<lparr>echoEnabled := True\<rparr>) 0"
    using demo_online_simps(1) by (simp add: online_def)
  ultimately show ?thesis
    using echo_returns_data [of "demo_online\<lparr>echoEnabled := True\<rparr>" 0 7 "JStr (lit ''bHM='')" demo_platform "lit ''ls''"]
    by simp
qed


text \<open>Data is decoded packet by packet. The text of several packets is the text of the whole when each
  packet holds whole characters: the decoder keeps nothing from one packet to the next, so that two
  packets of a text written one after the other show the two texts.\<close>

theorem whole_packets_concatenate:
  assumes "plain_text s" and "plain_text t" and "\<not> echoEnabled w"
  shows "term_log (snd (processUARTData E (JStr (payload t)) (snd (processUARTData E (JStr (payload s)) w))))
    = term_log w @ [Write s, Write t]"
proof -
  have u: "uart_text E (JStr (payload x)) = Inr x" if "plain_text x" for x
    using that text_round_trip [of x] atob_btoa [OF plain_text_bytes, of x] by (simp add: uart_text_def atob_def payload_def)
  show ?thesis
    using assms by (simp add: processUARTData_form u show_data_def echo_on_def)
qed

theorem whole_packets_concatenate_witness:
  "term_log (snd (processUARTData demo_platform (JStr (payload (lit ''ls'')))
     (snd (processUARTData demo_platform (JStr (payload (lit ''ls''))) demo_online))))
   = term_log demo_online @ [Write (lit ''ls''), Write (lit ''ls'')]"
  by (rule whole_packets_concatenate) simp_all

text \<open>A character cut by a packet boundary is lost. The two bytes D0 9F are one Cyrillic letter in
  one packet; in two packets, which the gateway makes wherever its receive buffer happens to be
  emptied, the terminal shows two replacement characters instead.\<close>

theorem split_character_lost:
  "uart_text E (JStr (btoa_bytes [0xD0, 0x9F])) = Inr [0x41F]
   \<and> uart_text E (JStr (btoa_bytes [0xD0])) = Inr [0xFFFD]
   \<and> uart_text E (JStr (btoa_bytes [0x9F])) = Inr [0xFFFD]"
  by (simp add: uart_text_def atob_def atob_btoa text_decode_def utf8_machine drop_bom_def utf16_units_def
      del: btoa_bytes.simps)

subsection \<open>Connection\<close>

text \<open>\<open>connect\<close>. An empty URL is only reported; a URL the browser refuses leaves the old socket in
  place and is reported; otherwise there is one more socket, connecting, with nothing sent, and it is
  the object's socket. The flags do not change in any case.\<close>

theorem connect_outcome:
  shows "fst (connect E w) = None
    \<and> (let w' = snd (connect E w) in
        isConnected w' = isConnected w \<and> isRegistered w' = isRegistered w
      \<and> (if url_of w \<noteq> [] \<and> url_ok E (url_of w)
         then socks w' = socks w @ [\<lparr>s_url = url_of w, s_ready = CONNECTING, s_sent = []\<rparr>]
            \<and> socket w' = Some (length (socks w)) \<and> term_log w' = term_log w
         else socks w' = socks w \<and> socket w' = socket w
            \<and> (\<exists>m. term_log w' = term_log w @ [Writeln (esc ''[1;31m'' @ ru_error_tag @ m @ esc ''[0m'')])))"
  by (auto simp: connect_form forms new_socket_def Let_def)

text \<open>\<open>disconnect\<close> ends everything: it does not throw, the socket it had is closing, no socket is
  held, the client is neither connected nor registered nor echoing, the subscription is forgotten and
  its retry no longer pending, and other sockets and what was sent are as before.\<close>

theorem disconnect_ends_all:
  assumes "disconnect w = (x, w')"
  shows "x = None \<and> socket w' = None \<and> \<not> isConnected w' \<and> \<not> isRegistered w' \<and> \<not> echoEnabled w'
    \<and> subscriptionSid w' = None
    \<and> (\<forall>i. socket w = Some i \<and> i < length (socks w) \<longrightarrow> CLOSING \<le> ready_at (socks w') i)
    \<and> (\<forall>i. socket w \<noteq> Some i \<longrightarrow> ready_at (socks w') i = ready_at (socks w) i)
    \<and> (\<forall>i. sent_at (socks w') i = sent_at (socks w) i)
    \<and> (\<forall>t. resubscribeTimer w = Some t \<longrightarrow> (\<forall>x \<in> set (timers w'). t_id x \<noteq> t))"
  using assms by (auto simp: disconnect_form less_eq_ready_def less_ready_def)

theorem disconnect_ends_all_witness:
  "socket (snd (disconnect demo_online)) = None \<and> CLOSING \<le> ready_at (socks (snd (disconnect demo_online))) 0"
proof -
  have "0 < length (socks demo_online)" by (simp add: demo_online_def)
  then show ?thesis
    using disconnect_ends_all [of demo_online "fst (disconnect demo_online)" "snd (disconnect demo_online)"] by simp
qed

text \<open>\<open>unsubscribe\<close>. On an open socket, a registered client gives up its subscription with one
  frame that carries the same identifier and flags 8, and forgets both; an unregistered one does
  nothing.\<close>

theorem unsubscribe_gives_up:
  assumes "subscriptionSid w = Some sid" and "sid < 65536" and "online w i"
  shows "(\<not> isRegistered w \<longrightarrow> unsubscribe E w = (None, w))
    \<and> (isRegistered w \<longrightarrow> (\<exists>f w'. unsubscribe E w = (None, w') \<and> new_frames w w' i = [f]
        \<and> json_parse f = Some (JObj [(lit ''FID'', JStr (lit ''0x00001021'')), (lit ''SID'', JNat sid), (lit ''FLAGS'', JNat 8)])
        \<and> \<not> isRegistered w' \<and> subscriptionSid w' = None))"
proof -
  let ?o = "JObj [(lit ''FID'', JStr (lit ''0x00001021'')), (lit ''SID'', JNat sid), (lit ''FLAGS'', JNat 8)]"
  have "json_parse (stringify (num_str E) ?o) = Some ?o"
    by (rule json.dec_enc) (use assms(2) in \<open>simp add: JNat_wf\<close>)
  moreover have "unsubscribe_command w = ?o"
    using assms(1) by (simp add: unsubscribe_command_def js_object_def)
  moreover have "socket w \<noteq> None" using assms(3) by (simp add: online_def)
  ultimately show ?thesis
    using assms by (simp add: unsubscribe_form new_frames_def)
qed

theorem unsubscribe_gives_up_witness:
  "\<exists>f w'. unsubscribe demo_platform (demo_online\<lparr>isRegistered := True\<rparr>) = (None, w')
      \<and> new_frames (demo_online\<lparr>isRegistered := True\<rparr>) w' 0 = [f] \<and> \<not> isRegistered w'"
proof -
  have "online (demo_online\<lparr>isRegistered := True\<rparr>) 0"
    using demo_online_simps(1) by (simp add: online_def)
  then show ?thesis
    using unsubscribe_gives_up [of "demo_online\<lparr>isRegistered := True\<rparr>" 5 0 demo_platform] by auto
qed

end
