(* ===== verification/Server_Frames.thy ===== *)
theory Server_Frames
  imports Js_Json_Laws "HOL-Library.Word"
begin

section \<open>The frames the gateway sends\<close>

text \<open>
  The text \<open>_bApiCallSendJson\<close> of src/ws_server/src/ws_server.c (lines 254 to 321) puts into a
  WebSocket text frame, and the status object of \<open>bApiCallSendStatus\<close> (lines 321 to 325). The
  numbers are \<open>uint32_t\<close>, the buffers are filled by \<open>sprintf\<close> and a copy; bytes are ASCII and kept as
  the numbers the browser decodes them to. Which sessions get the frame, the locking and the
  transport are not modelled here.
\<close>

subsection \<open>printf of a 32-bit number, %08lx\<close>

definition hex8 :: "32 word \<Rightarrow> jsstr" where
  "hex8 x = (let n = unat x in
     map hex_char [n div 268435456 mod 16, n div 16777216 mod 16, n div 1048576 mod 16, n div 65536 mod 16,
                   n div 4096 mod 16, n div 256 mod 16, n div 16 mod 16, n mod 16])"

definition read_hex :: "jsstr \<Rightarrow> nat" where
  "read_hex s = foldl (\<lambda>v c. v * 16 + (case hex_value c of Some d \<Rightarrow> d | None \<Rightarrow> 0)) 0 s"

lemma hex_value_hex_char [simp]: "hex_value (hex_char (n mod 16)) = Some (n mod 16)"
  by (simp add: hex_value_char)

lemma hex_digits8:
  fixes n :: nat
  assumes "n < 4294967296"
  shows "(((((((n div 268435456 mod 16 * 16 + n div 16777216 mod 16) * 16 + n div 1048576 mod 16) * 16
      + n div 65536 mod 16) * 16 + n div 4096 mod 16) * 16 + n div 256 mod 16) * 16 + n div 16 mod 16) * 16
      + n mod 16) = n"
proof -
  have top: "n div 268435456 mod 16 = n div 268435456"
    using assms by (simp add: less_mult_imp_div_less)
  have step: "m div (16 * k) * 16 + m div k mod 16 = m div k" for m k :: nat
    by (metis div_mult2_eq div_mult_mod_eq mult.commute)
  show ?thesis
    using step [of n 16777216] step [of n 1048576] step [of n 65536] step [of n 4096] step [of n 256]
      step [of n 16] step [of n 1] by (simp add: top)
qed

lemma read_hex8: "read_hex (hex8 x) = unat x"
proof -
  have "unat x < 4294967296" using unsigned_less [of x] by simp
  then show ?thesis
    using hex_digits8 [of "unat x"]
    by (simp only: read_hex_def hex8_def Let_def list.map foldl.simps hex_value_hex_char option.case mult_0 add_0)
qed

interpretation hex32: codec hex8 "\<lambda>s. Some (word_of_nat (read_hex s))" "\<lambda>x. True"
  by unfold_locales (simp add: read_hex8)

text \<open>Text that needs no escaping in a JSON string.\<close>

definition json_plain :: "jsstr \<Rightarrow> bool" where
  "json_plain s \<longleftrightarrow> list_all (\<lambda>c. 32 \<le> c \<and> c < 128 \<and> c \<noteq> 34 \<and> c \<noteq> 92) s"

lemma quote_unit_plain: "32 \<le> c \<Longrightarrow> c < 128 \<Longrightarrow> c \<noteq> 34 \<Longrightarrow> c \<noteq> 92 \<Longrightarrow> quote_unit c = [c]"
  by (simp add: quote_unit_def high_sur_def low_sur_def)

lemma quote_body_plain: "json_plain s \<Longrightarrow> quote_body s = s"
  by (induction s rule: quote_body.induct) (auto simp: json_plain_def quote_unit_plain high_sur_def)

lemma hex_char_plain: "v < 16 \<Longrightarrow> 48 \<le> hex_char v \<and> hex_char v < 128 \<and> hex_char v \<noteq> 92"
  by (auto simp: hex_char_def)

lemma hex8_plain: "json_plain (hex8 x)"
proof -
  have "list_all (\<lambda>c. 48 \<le> c \<and> c < 128 \<and> c \<noteq> 92) (hex8 x)"
    by (simp add: hex8_def Let_def hex_char_plain)
  then show ?thesis by (auto simp: json_plain_def list_all_iff)
qed

subsection \<open>Responses\<close>

definition template :: jsstr where
  "template = lit ''{\"FID\":\"0x%08lx\",\"SID\":\"0x%08lx\",\"ARG\":''"

text \<open>\<open>ulLen + sizeof(pucTemplate) + 6\<close>; the array holds the final NUL.\<close>

definition response_len :: "nat \<Rightarrow> nat" where
  "response_len ulLen = ulLen + (length template + 1) + 6"

definition response_text :: "32 word \<Rightarrow> 32 word \<Rightarrow> jsstr \<Rightarrow> jsstr" where
  "response_text fid_out sid ucJson =
     lit ''{\"FID\":\"0x'' @ hex8 fid_out @ lit ''\",\"SID\":\"0x'' @ hex8 sid @ lit ''\",\"ARG\":'' @ ucJson @ lit ''}''"

definition status_json :: "32 word \<Rightarrow> jsstr" where
  "status_json ulSta = lit ''{\"STA\":\"0x'' @ hex8 ulSta @ lit ''\"}''"

definition status_buffer_size :: nat where
  "status_buffer_size = 21"

text \<open>The status the gateway gives a call it has delivered (web_api.h, line 21).\<close>

definition STATUS_DELIVERED :: "32 word" where
  "STATUS_DELIVERED = 5"

text \<open>\<open>ESP_WS_API_UART2_RAW_RX\<close> and \<open>ESP_WS_API_UART2_RAW_TX\<close> (src/main/app.h, lines 111 and 112).\<close>

definition FID_UART_RX :: "32 word" where
  "FID_UART_RX = 0x1021"

definition FID_UART_TX :: "32 word" where
  "FID_UART_TX = 0x1022"

lemma length_hex8 [simp]: "length (hex8 x) = 8"
  by (simp add: hex8_def Let_def)

subsection \<open>Responses as JSON\<close>

definition hex_string :: "32 word \<Rightarrow> json" where
  "hex_string x = JStr (lit ''0x'' @ hex8 x)"

definition response_object :: "32 word \<Rightarrow> 32 word \<Rightarrow> json \<Rightarrow> json" where
  "response_object fid sid v = JObj
     [(lit ''FID'', hex_string fid), (lit ''SID'', hex_string sid), (lit ''ARG'', v)]"

lemma json_plain_append [simp]: "json_plain (s @ t) \<longleftrightarrow> json_plain s \<and> json_plain t"
  by (simp add: json_plain_def)

lemma quote_hex: "quote_json (lit ''0x'' @ hex8 x) = 34 # lit ''0x'' @ hex8 x @ [34]"
proof -
  have "json_plain (lit ''0x'' @ hex8 x)"
    by (simp add: hex8_plain) (simp add: json_plain_def lit_def)
  then show ?thesis by (simp add: quote_json_def quote_body_plain)
qed

lemma quote_names:
  "quote_json (lit ''FID'') = lit ''\"FID\"''" "quote_json (lit ''SID'') = lit ''\"SID\"''"
  "quote_json (lit ''ARG'') = lit ''\"ARG\"''" "quote_json (lit ''STA'') = lit ''\"STA\"''"
  by (simp_all add: quote_json_def quote_unit_def lit_def high_sur_def low_sur_def)

lemma response_text_stringify:
  "response_text fid sid (stringify ns v) = stringify ns (response_object fid sid v)"
  by (simp add: response_text_def response_object_def hex_string_def quote_hex quote_names) (simp add: lit_def)

lemma status_json_stringify: "status_json s = stringify ns (JObj [(lit ''STA'', hex_string s)])"
  by (simp add: status_json_def hex_string_def quote_hex quote_names) (simp add: lit_def)

lemma response_text_parse:
  "json_wf v \<Longrightarrow> json_parse (response_text fid sid (stringify ns v)) = Some (response_object fid sid v)"
  unfolding response_text_stringify
  by (rule json.dec_enc) (simp add: response_object_def hex_string_def)

lemma status_text_parse:
  "json_parse (response_text fid sid (status_json s))
     = Some (response_object fid sid (JObj [(lit ''STA'', hex_string s)]))"
  unfolding status_json_stringify [of s id]
  by (rule response_text_parse) (simp add: hex_string_def)

lemma hex_string_inj [simp]: "hex_string x = hex_string y \<longleftrightarrow> x = y"
  by (auto simp: hex_string_def dest: hex32.enc_inj [rotated 2])

lemma response_object_inj:
  "response_object fid sid v = response_object fid' sid' u \<longleftrightarrow> fid = fid' \<and> sid = sid' \<and> v = u"
  by (auto simp: response_object_def)

lemma hex_string_rx: "hex_string FID_UART_RX = JStr (lit ''0x00001021'')"
  by (simp add: hex_string_def hex8_def FID_UART_RX_def hex_char_def lit_def)

lemma hex_string_tx: "hex_string FID_UART_TX = JStr (lit ''0x00001022'')"
  by (simp add: hex_string_def hex8_def FID_UART_TX_def hex_char_def lit_def)

lemma hex_string_delivered: "hex_string STATUS_DELIVERED = JStr (lit ''0x00000005'')"
  by (simp add: hex_string_def hex8_def STATUS_DELIVERED_def hex_char_def lit_def)


subsection \<open>Properties\<close>

text \<open>The response buffer is filled exactly. The length \<open>_bApiCallSendJson\<close> allocates and sends is
  the length of the text it writes, header, argument and closing brace, for every function, call and
  argument; and the status text with its NUL fills the 21 bytes of its buffer.\<close>

theorem response_buffer_exact:
  "length (response_text fid sid json) = response_len (length json)
   \<and> length (status_json sta) + 1 = status_buffer_size"
  by (simp add: response_text_def response_len_def template_def status_json_def status_buffer_size_def)
     (simp add: lit_def)

text \<open>Responses can be read back. The text of a response to call \<open>sid\<close> of function \<open>fid\<close> with the
  printed argument \<open>v\<close> is JSON, and its members are the two numbers in hexadecimal and \<open>v\<close>; different
  functions or calls give different texts.\<close>

theorem response_round_trip:
  assumes "json_wf v" and "json_wf u"
  shows "json_parse (response_text fid sid (stringify ns v)) = Some (response_object fid sid v)
    \<and> (response_text fid sid (stringify ns v) = response_text fid' sid' (stringify ns u)
         \<longleftrightarrow> fid = fid' \<and> sid = sid' \<and> v = u)"
  using response_text_parse [OF assms(1), of fid sid ns] response_text_parse [OF assms(2), of fid' sid' ns]
  by (metis option.inject response_object_inj)

theorem response_round_trip_witness:
  "response_text FID_UART_RX 1 (stringify id (JStr (lit ''YQ=='')))
     \<noteq> response_text FID_UART_RX 2 (stringify id (JStr (lit ''YQ=='')))"
  using response_round_trip [of "JStr (lit ''YQ=='')" "JStr (lit ''YQ=='')" FID_UART_RX 1 id FID_UART_RX 2] by simp

end
