(* ===== verification/Terminal_Server.thy ===== *)
theory Terminal_Server
  imports Terminal_Protocol Server_Frames
begin

section \<open>The gateway's frames at the terminal\<close>

text \<open>
  How the terminal classifies the texts of Server_Frames: the status of a delivered call of
  function \<open>0x00001021\<close> confirms the subscription, a string argument is serial data, and frames of
  other functions are none of its business.
\<close>

lemma message_parses:
  "json_parse (data_text (Text (response_text fid sid (status_json sta)))) \<noteq> None"
  by (simp add: data_text_def status_text_parse)

lemma member_names [simp]:
  "lit ''FID'' \<noteq> lit ''SID''" "lit ''SID'' \<noteq> lit ''FID''" "lit ''FID'' \<noteq> lit ''ARG''" "lit ''ARG'' \<noteq> lit ''FID''"
  "lit ''SID'' \<noteq> lit ''ARG''" "lit ''ARG'' \<noteq> lit ''SID''"
  by (simp_all add: lit_def)

lemma classify_response:
  "classify ns (response_object fid sid v) =
     (if fid = FID_UART_RX \<and> truthy ns (Some v)
      then (case v of
              JObj gs \<Rightarrow> if map_of (rev gs) (lit ''STA'') = Some (hex_string STATUS_DELIVERED) then Confirmation
                         else Data v
            | _ \<Rightarrow> Data v)
      else Ignored)"
proof -
  have "hex_string fid = JStr (lit ''0x00001021'') \<longleftrightarrow> fid = FID_UART_RX"
    using hex_string_rx by (metis hex_string_inj)
  then show ?thesis
    by (auto simp: classify_def response_object_def hex_string_delivered split: json.splits)
qed

lemma confirmation_frame:
  "frame_message E (Text (response_text FID_UART_RX sid (status_json STATUS_DELIVERED))) = Confirmation"
  by (simp add: frame_message_def data_text_def status_text_parse classify_response truthy_def)

lemma serial_frame:
  "s \<noteq> [] \<Longrightarrow> frame_message E (Text (response_text FID_UART_RX sid (stringify ns (JStr s)))) = Data (JStr s)"
  using response_text_parse [of "JStr s" FID_UART_RX sid ns]
  by (simp add: frame_message_def data_text_def classify_response truthy_def)

lemma other_function:
  "fid \<noteq> FID_UART_RX \<Longrightarrow> json_wf v \<Longrightarrow>
     frame_message E (Text (response_text fid sid (stringify ns v))) = Ignored"
  by (simp add: frame_message_def data_text_def response_text_parse classify_response)

end
