(* ===== verification/Terminal_Link.thy ===== *)
theory Terminal_Link
  imports Terminal_Server
begin

section \<open>The link automaton: what the terminal page promises\<close>

text \<open>
  The abstract specification of the connection: four variables and one function per event. The
  event loop refines it step by step, for every event and state, so what the automaton forbids
  never happens on the page: registration by anything but a confirmation, serial data on the
  screen before it, a socket that comes back to life, a frame taken back.
\<close>

subsection \<open>The automaton\<close>

record link =
  l_connected :: bool
  l_registered :: bool
  l_packets :: nat
  l_echo :: bool

definition link_of :: "world \<Rightarrow> link" where
  "link_of w = \<lparr>l_connected = isConnected w, l_registered = isRegistered w,
     l_packets = packetCount w, l_echo = echoEnabled w\<rparr>"

fun link_step :: "platform \<Rightarrow> event \<Rightarrow> link \<Rightarrow> link" where
  "link_step E ClickConnect l =
     (if l_connected l then l\<lparr>l_connected := False, l_registered := False, l_echo := False\<rparr> else l)"
| "link_step E ClickEcho l = l\<lparr>l_echo := \<not> l_echo l\<rparr>"
| "link_step E (SockOpen i r1 r2) l = l\<lparr>l_connected := True\<rparr>"
| "link_step E (SockClosed i failed) l = l\<lparr>l_connected := False\<rparr>"
| "link_step E (SockMessage i d now) l =
     (if json_parse (data_text d) = None then l
      else if frame_message E d = Confirmation then l\<lparr>l_packets := Suc (l_packets l), l_registered := True\<rparr>
      else l\<lparr>l_packets := Suc (l_packets l)\<rparr>)"
| "link_step E _ l = l"

lemma link_registered: "isRegistered w = l_registered (link_of w)"
  by (simp add: link_of_def)

lemma link_of_message:
  "link_of (step E (SockMessage i d now) w) = link_step E (SockMessage i d now) (link_of w)"
  by (auto simp: link_of_def frame_message_def step_forms split: option.splits message.splits sum.splits)

lemma link_of_step: "link_of (step E e w) = link_step E e (link_of w)"
proof (cases e)
  case (TermData s)
  then show ?thesis
    by (cases rule: handleUserInput_cases [of E s w]) (simp_all add: report_def forms link_of_def)
next
  case (SockMessage i d now)
  then show ?thesis by (simp only: link_of_message)
qed (auto simp: step_forms forms link_of_def split: option.splits)

subsection \<open>Output of serial data\<close>

text \<open>The texts \<open>processUARTData\<close> writes, among all output; the other methods use \<open>writeln\<close>.\<close>

definition shown :: "world \<Rightarrow> jsstr list" where
  "shown w = concat (map (\<lambda>x. case x of Write s \<Rightarrow> [s] | _ \<Rightarrow> []) (term_log w))"

lemma shown_frame [simp]:
  "shown (w\<lparr>doc := a\<rparr>) = shown w" "shown (w\<lparr>console := c\<rparr>) = shown w" "shown (w\<lparr>uncaught := d\<rparr>) = shown w"
  "shown (w\<lparr>socks := f\<rparr>) = shown w" "shown (w\<lparr>timers := h\<rparr>) = shown w" "shown (w\<lparr>packetCount := i\<rparr>) = shown w"
  "shown (w\<lparr>isRegistered := k\<rparr>) = shown w"
  by (simp_all add: shown_def)

definition is_message :: "event \<Rightarrow> bool" where
  "is_message e = (case e of SockMessage _ _ _ \<Rightarrow> True | _ \<Rightarrow> False)"

lemma shown_step:
  assumes "\<not> (is_message e \<and> isRegistered w)"
  shows "shown (step E e w) = shown w"
proof (cases e)
  case (TermData s)
  then show ?thesis
    by (cases rule: handleUserInput_cases [of E s w]) (simp_all add: report_def forms shown_def)
qed (use assms in \<open>auto simp: shown_def is_message_def step_forms forms split: option.splits message.splits sum.splits\<close>)

subsection \<open>Sockets only grow and only age\<close>

definition sockets_grow :: "socket list \<Rightarrow> socket list \<Rightarrow> bool" where
  "sockets_grow ss ts \<longleftrightarrow> (\<forall>i < length ss. ready_at ss i \<le> ready_at ts i
     \<and> (\<exists>xs. sent_at ts i = sent_at ss i @ xs))"

lemma ready_le_simps [simp]:
  "CONNECTING \<le> r" "r \<le> CLOSED" "OPEN \<le> CLOSING"
  by (cases r; simp add: less_eq_ready_def)+

lemma sockets_grow_refl [simp]: "sockets_grow ss ss"
  by (simp add: sockets_grow_def)

lemma sockets_grow_send [simp]: "sockets_grow ss (send_on so f ss)"
  by (simp add: sockets_grow_def sent_at_send_on)

lemma sockets_grow_new [simp]: "sockets_grow ss (ss @ [s])"
  by (simp add: sockets_grow_def)

lemma sockets_grow_close [simp]: "sockets_grow ss (close_on so ss)"
  by (auto simp: sockets_grow_def less_imp_le)

lemma sockets_grow_closed [simp]: "sockets_grow ss (upd_at i (s_ready_update (\<lambda>_. CLOSED)) ss)"
  by (simp add: sockets_grow_def upd_at_nth)

lemma sockets_grow_open [simp]:
  "ready_at ss i = CONNECTING \<Longrightarrow> sockets_grow ss (send_on so f (upd_at i (s_ready_update (\<lambda>_. OPEN)) ss))"
  "ready_at ss i = CONNECTING \<Longrightarrow> sockets_grow ss (upd_at i (s_ready_update (\<lambda>_. OPEN)) ss)"
  by (auto simp: sockets_grow_def sent_at_send_on upd_at_nth)

lemma length_socks_step: "length (socks w) \<le> length (socks (step E e w))"
proof (cases e)
  case (TermData s)
  then show ?thesis
    by (cases rule: handleUserInput_cases [of E s w]) (simp_all add: report_def forms)
qed (auto simp: step_forms forms split: option.splits message.splits sum.splits)

lemma sockets_grow_step:
  assumes "enabled w e"
  shows "sockets_grow (socks w) (socks (step E e w))"
proof (cases e)
  case (TermData s)
  then show ?thesis
    by (cases rule: handleUserInput_cases [of E s w]) (simp_all add: report_def forms)
qed (use assms in \<open>auto simp: step_forms forms split: option.splits message.splits sum.splits\<close>)


subsection \<open>Properties\<close>

text \<open>C27. The page implements the link automaton. For every event in every state, the connection flag,
  the registration flag, the packet counter and the echo flag after the event are those the automaton
  computes from the ones before and the event alone.\<close>

theorem page_refines_link: "link_of (step E e w) = link_step E e (link_of w)"
  by (rule link_of_step)

text \<open>Only the gateway's confirmation registers the client. If an event makes an unregistered client
  registered, it is a message whose text is a confirmation of function \<open>0x00001021\<close>; no key, click,
  timer or connection event does.\<close>

theorem registered_by_confirmation:
  assumes "\<not> isRegistered w" and "isRegistered (step E e w)"
  shows "\<exists>i d now. e = SockMessage i d now \<and> frame_message E d = Confirmation"
proof -
  have "l_registered (link_step E e (link_of w))" and "\<not> l_registered (link_of w)"
    using assms by (simp_all add: link_registered link_of_step)
  then show ?thesis by (cases e) (auto split: if_splits)
qed

theorem registered_by_confirmation_witness:
  "isRegistered (step demo_platform (SockMessage 0 (Text (response_text FID_UART_RX 7 (status_json STATUS_DELIVERED))) []) demo_online)
   \<and> (\<exists>i d now. SockMessage 0 (Text (response_text FID_UART_RX 7 (status_json STATUS_DELIVERED))) [] = SockMessage i d now
        \<and> frame_message demo_platform d = Confirmation)"
proof -
  let ?e = "SockMessage 0 (Text (response_text FID_UART_RX 7 (status_json STATUS_DELIVERED))) []"
  have r: "isRegistered (step demo_platform ?e demo_online)"
    unfolding link_registered link_of_step by (simp add: confirmation_frame message_parses)
  then show ?thesis
    using registered_by_confirmation [of demo_online demo_platform ?e] by simp
qed

text \<open>No serial data before the registration. The texts \<open>processUARTData\<close> writes change in no event
  but a message to a registered client.\<close>

theorem nothing_shown_unregistered:
  assumes "\<not> isRegistered w"
  shows "shown (step E e w) = shown w"
  using assms by (intro shown_step) simp

theorem nothing_shown_unregistered_witness:
  "shown (step demo_platform (SockMessage 0 (Text (response_text FID_UART_RX 7 (stringify id (JStr (lit ''bHM='')))) ) []) demo_online)
     = shown demo_online"
  by (rule nothing_shown_unregistered) simp

text \<open>Sockets only age, and what is sent stays sent. Over any event, no socket disappears, none goes
  back in the order connecting, open, closing, closed, and the frames sent on it before are an
  initial part of those sent after.\<close>

theorem sockets_monotone:
  assumes "enabled w e" and "i < length (socks w)"
  shows "i < length (socks (step E e w))
    \<and> ready_at (socks w) i \<le> ready_at (socks (step E e w)) i
    \<and> (\<exists>fs. sent_at (socks (step E e w)) i = sent_at (socks w) i @ fs)"
  using sockets_grow_step [OF assms(1), of E] length_socks_step [of w E e] assms(2) by (auto simp: sockets_grow_def)

theorem sockets_monotone_witness:
  "ready_at (socks demo_online) 0 \<le> ready_at (socks (step demo_platform (SockClosed 0 False) demo_online)) 0"
proof -
  have "enabled demo_online (SockClosed 0 False)" and "0 < length (socks demo_online)"
    by (simp_all add: demo_online_def ready_at_def)
  from sockets_monotone [OF this, of demo_platform] show ?thesis by simp
qed

end
