(* ===== verification/Terminal_Calm.thy ===== *)
theory Terminal_Calm
  imports Terminal_Invariants
begin

section \<open>One connection at a time\<close>

text \<open>
  The class keeps one socket, but its handlers do not check which socket they belong to. As long
  as the user starts a connection only when every earlier socket is closed, the object's flags say
  what the socket does, no exception escapes, and the registration is retried until it is
  confirmed. Without that discipline each of these fails: the runs are in the root theory.
\<close>

fun calm :: "platform \<Rightarrow> world \<Rightarrow> event \<Rightarrow> bool" where
  "calm E w ClickConnect \<longleftrightarrow> isConnected w \<or> (\<forall>s \<in> set (socks w). s_ready s = CLOSED)"
| "calm E w (UrlKey key) \<longleftrightarrow> isConnected w \<or> (\<forall>s \<in> set (socks w). s_ready s = CLOSED)"
| "calm E w (TermData s) \<longleftrightarrow> code_units s \<and> length (text_encode s) \<le> max_args E"
| "calm E w (Resize x y) \<longleftrightarrow> x = None \<and> y = None"
| "calm E w _ \<longleftrightarrow> True"

definition calm_enabled :: "platform \<Rightarrow> world \<Rightarrow> event \<Rightarrow> bool" where
  "calm_enabled E w e \<longleftrightarrow> enabled w e \<and> calm E w e"

text \<open>The live socket, if any, is the object's; the flag says whether it is open.\<close>

definition one_socket :: "nat option \<Rightarrow> socket list \<Rightarrow> bool \<Rightarrow> bool" where
  "one_socket so ss con \<longleftrightarrow>
     (case so of
        None \<Rightarrow> \<not> con \<and> (\<forall>j. CLOSING \<le> ready_at ss j)
      | Some i \<Rightarrow> i < length ss \<and> ready_at ss i \<noteq> CLOSING \<and> (con \<longleftrightarrow> ready_at ss i = OPEN)
          \<and> (\<forall>j. j \<noteq> i \<longrightarrow> ready_at ss j = CLOSED))"

definition calm_inv :: "world \<Rightarrow> bool" where
  "calm_inv w \<longleftrightarrow> refs_ok w \<and> uncaught w = [] \<and> hasFitAddon w
     \<and> one_socket (socket w) (socks w) (isConnected w)
     \<and> (isConnected w \<and> \<not> isRegistered w \<longrightarrow> (\<exists>x \<in> set (timers w). t_cb x = RetryTimer))"

lemma all_closed: "\<forall>s \<in> set ss. s_ready s = CLOSED \<Longrightarrow> ready_at ss j = CLOSED"
  by (simp add: ready_at_def)

lemma CLOSING_le_simps [simp]:
  "CLOSING \<le> CLOSED" "\<not> CLOSING \<le> OPEN" "\<not> CLOSING \<le> CONNECTING" "CLOSING \<le> CLOSING"
  by (simp_all add: less_eq_ready_def)

lemma one_socket_send_error: "one_socket so ss True \<Longrightarrow> send_error so ss = None"
  by (auto simp: one_socket_def send_error_def split: option.splits)

lemma one_socket_send [simp]: "one_socket so (send_on so' f ss) con = one_socket so ss con"
  by (simp add: one_socket_def split: option.split)

lemma one_socket_new:
  "\<forall>s \<in> set ss. s_ready s = CLOSED \<Longrightarrow>
     one_socket (Some (length ss)) (ss @ [\<lparr>s_url = u, s_ready = CONNECTING, s_sent = []\<rparr>]) False"
  by (simp add: one_socket_def all_closed)

lemma one_socket_close: "one_socket so ss con \<Longrightarrow> one_socket None (close_on so ss) False"
  by (auto simp: one_socket_def not_less split: option.splits if_splits)

lemma one_socket_opened:
  assumes "one_socket so ss con" and "ready_at ss i = CONNECTING"
  shows "one_socket so (upd_at i (s_ready_update (\<lambda>_. OPEN)) ss) True"
proof -
  have "i < length ss" using assms(2) by (simp add: ready_at_open)
  moreover have "so \<noteq> None"
  proof
    assume "so = None"
    then have "CLOSING \<le> ready_at ss i" using assms(1) by (simp add: one_socket_def)
    then show False using assms(2) by simp
  qed
  ultimately show ?thesis
    using assms by (auto simp: one_socket_def split: option.splits if_splits)
qed

lemma one_socket_closed:
  assumes "one_socket so ss con" and "ready_at ss i \<noteq> CLOSED"
  shows "one_socket so (upd_at i (s_ready_update (\<lambda>_. CLOSED)) ss) False"
proof -
  have "i < length ss" using assms(2) by (simp add: ready_at_open)
  then show ?thesis
    using assms by (auto simp: one_socket_def less_eq_ready_def split: option.splits if_splits)
qed

lemma other_timer:
  assumes "distinct (map t_id ts)" and "list_ex (\<lambda>x. t_id x = t \<and> t_cb x = cb) ts"
    and "x \<in> set ts" and "t_cb x \<noteq> cb"
  shows "t_id x \<noteq> t"
  using assms by (auto simp: list_ex_iff distinct_map inj_on_def)

lemma calm_inv_step:
  assumes "calm_inv w" and "calm_enabled E w e"
  shows "calm_inv (step E e w)"
proof -
  have refs: "refs_ok (step E e w)"
    using assms(1) by (simp add: calm_inv_def refs_ok_step)
  have inv: "uncaught w = []" "hasFitAddon w" "one_socket (socket w) (socks w) (isConnected w)"
    "isConnected w \<and> \<not> isRegistered w \<longrightarrow> (\<exists>x \<in> set (timers w). t_cb x = RetryTimer)"
    "distinct (map t_id (timers w))"
    using assms(1) by (simp_all add: calm_inv_def refs_ok_def)
  have "uncaught (step E e w) = [] \<and> hasFitAddon (step E e w)
      \<and> one_socket (socket (step E e w)) (socks (step E e w)) (isConnected (step E e w))
      \<and> (isConnected (step E e w) \<and> \<not> isRegistered (step E e w)
           \<longrightarrow> (\<exists>x \<in> set (timers (step E e w)). t_cb x = RetryTimer))"
  proof (cases e)
    case (TermData s)
    then have s: "code_units s" "length (text_encode s) \<le> max_args E"
      using assms(2) by (simp_all add: calm_enabled_def)
    show ?thesis
    proof (cases "isConnected w \<and> socket w \<noteq> None")
      case True
      then show ?thesis
        using inv s one_socket_send_error [of "socket w" "socks w"] TermData
        by (auto simp: report_def handleUserInput_online forms)
    next
      case False
      then show ?thesis using inv TermData by (auto simp: report_def handleUserInput_offline forms)
    qed
  qed (use inv assms(2) in \<open>auto simp: calm_enabled_def step_forms forms pending_def
        one_socket_send_error one_socket_new one_socket_close one_socket_opened one_socket_closed
        dest: other_timer split: option.splits message.splits sum.splits\<close>)
  with refs show ?thesis by (simp add: calm_inv_def)
qed


lemma calm_inv_initial: "calm_inv initial_world"
  by (simp add: calm_inv_def refs_ok_initial)
     (simp add: initial_world_form blank_world_def one_socket_def ready_at_def)

interpretation calm: loop_invariant initial_world "calm_enabled E" "step E" calm_inv
  by unfold_locales (simp_all add: calm_inv_initial calm_inv_step)

end
