(* ===== verification/Terminal_Safety.thy ===== *)
theory Terminal_Safety
  imports Terminal_Link Terminal_Calm
begin

section \<open>Properties of every reachable state\<close>

text \<open>
  The invariants of Terminal_Invariants and Terminal_Calm stated of the reachable states of the
  page, with a run that connects and registers as the example they are applied to.
\<close>

subsection \<open>A run\<close>

definition hello :: "event list" where
  "hello = [ClickConnect, SockOpen 0 (0, 53) (0, 53)]"

definition confirmation :: "nat \<Rightarrow> event" where
  "confirmation i = SockMessage i (Text (response_text FID_UART_RX 1 (status_json STATUS_DELIVERED))) []"

definition connected_page :: world where
  "connected_page = run_events (step demo_platform) hello initial_world"

lemma demo_url [simp]: "initial_doc (''ws-url'', ''value'') \<noteq> []"
    "url_ok demo_platform (initial_doc (''ws-url'', ''value''))"
  by (simp_all add: initial_doc_def demo_platform_def lit_def)

lemma sid_demo [simp]: "random_sid (0, 53) = 1" "random_ok (0, 53)"
  by (simp_all add: random_sid_def round53_def bit_size.simps round_even_def random_ok_def)

lemma step_confirmation:
  "step E (confirmation i) w = confirm (count_packet [] w)"
  using confirmation_frame [of E 1]
  by (simp add: confirmation_def report_def handleWebSocketMessage_form frame_message_def split: option.splits)

lemma enabled_confirmation [simp]: "enabled w (confirmation i) \<longleftrightarrow> ready_at (socks w) i = OPEN"
  by (auto simp: confirmation_def ready_at_open)

lemma calm_confirmation [simp]: "calm E w (confirmation i)"
  by (simp add: confirmation_def)

lemma single_upd [simp]: "upd_at 0 f [s] = [f s]" "upd_at 0 f [s, t] = [f s, t]" "upd_at (Suc 0) f [s, t] = [s, f t]"
  by (simp_all add: upd_at_def)

lemma ready_at_list [simp]: "ready_at [s] 0 = s_ready s" "ready_at [s, t] 0 = s_ready s" "ready_at [s, t] (Suc 0) = s_ready t"
    "sent_at [s] 0 = s_sent s" "sent_at [s, t] 0 = s_sent s" "sent_at [s, t] (Suc 0) = s_sent t"
  by (simp_all add: ready_at_def sent_at_def)

lemmas run_forms = step_forms forms initial_world_form blank_world_def url_of_def send_on_def send_error_def
  close_on_def step_confirmation status_doc_def connection_doc_def echo_doc_def

lemma hello_enabled: "all_enabled (calm_enabled demo_platform) (step demo_platform) hello initial_world"
  by (simp add: hello_def calm_enabled_def run_forms)

lemma connected_page_facts:
  "socket connected_page = Some 0" "isConnected connected_page" "\<not> isRegistered connected_page"
  "ready_at (socks connected_page) 0 = OPEN" "length (socks connected_page) = 1"
  "sent_at (socks connected_page) 0 = [register_frame demo_platform 1]"
  "uncaught connected_page = []"
  by (simp_all add: connected_page_def hello_def run_forms)


lemma connected_page_calm: "reachable initial_world (calm_enabled demo_platform) (step demo_platform) connected_page"
  unfolding connected_page_def by (rule reachable_run [OF reach_init hello_enabled])

lemma calm_reachable:
  "reachable initial_world (calm_enabled E) (step E) w \<Longrightarrow> terminal_reachable E w"
  by (induction rule: reachable.induct) (auto simp: calm_enabled_def intro: reach_init reach_step)

lemmas connected_page_reachable = calm_reachable [OF connected_page_calm]

subsection \<open>Properties\<close>

text \<open>C26. Every frame is one of the two commands. In every reachable state, whatever the user, the server
  and the network do, each frame handed to the network on any socket is a registration or a data
  frame with an identifier between 1 and 65535, and nothing is sent on a socket before it opens.\<close>

theorem frames_are_commands:
  assumes "terminal_reachable E w"
  shows "(f \<in> set (sent_at (socks w) i) \<longrightarrow> registers E f \<or> carries_data E f)
    \<and> (ready_at (socks w) i = CONNECTING \<longrightarrow> sent_at (socks w) i = [])"
  using client.inv_reachable [OF assms] by (simp add: client_inv_def frames_ok_def)

theorem frames_are_commands_witness:
  "registers demo_platform (register_frame demo_platform 1) \<or> carries_data demo_platform (register_frame demo_platform 1)"
  using frames_are_commands [OF connected_page_reachable, of "register_frame demo_platform 1" 0]
  by (simp add: connected_page_facts)

text \<open>The registration comes first. In every reachable state the first frame of any socket that has
  sent one is a registration, and the object's own socket, once open, has sent one.\<close>

theorem registration_is_first:
  assumes "terminal_reachable E w"
  shows "(sent_at (socks w) i \<noteq> [] \<longrightarrow> registers E (hd (sent_at (socks w) i)))
    \<and> (socket w = Some i \<and> ready_at (socks w) i = OPEN \<longrightarrow> sent_at (socks w) i \<noteq> [])"
  using client.inv_reachable [OF assms] by (simp add: client_inv_def frames_ok_def)

theorem registration_is_first_witness:
  "registers demo_platform (hd (sent_at (socks connected_page) 0))"
  using registration_is_first [OF connected_page_reachable, of 0] by (simp add: connected_page_facts)

text \<open>The identifiers are always in range, and there while they are needed. In every reachable state
  both identifiers, where assigned, lie between 1 and 65535, and while the object is connected both
  are assigned; so no frame leaves its identifier out, and none uses the gateway's broadcast number 0.\<close>

theorem identifiers_assigned:
  assumes "terminal_reachable E w"
  shows "(\<forall>n. subscriptionSid w = Some n \<or> txSid w = Some n \<longrightarrow> 1 \<le> n \<and> n \<le> 65535)
    \<and> (isConnected w \<longrightarrow> subscriptionSid w \<noteq> None \<and> txSid w \<noteq> None)"
  using sids.inv_reachable [OF assms] by (auto simp: sids_ok_def sid_ok_def)

theorem identifiers_assigned_witness:
  "subscriptionSid connected_page \<noteq> None \<and> txSid connected_page \<noteq> None"
  using identifiers_assigned [OF connected_page_reachable] by (simp add: connected_page_facts)

text \<open>The page tells the truth about the object. In every reachable state the echo button, the packet
  counter, the connection label and the caption of the connect button show the object's flags, and
  the status line is marked connected only while the object is.\<close>

theorem page_shows_state:
  assumes "terminal_reachable E w"
  shows "doc w (''echo-btn'', ''textContent'') = (if echoEnabled w then lit ''Echo: ON'' else lit ''Echo: OFF'')
    \<and> doc w (''packet-count'', ''textContent'') = show_nat (packetCount w)
    \<and> (doc w (''connection-status'', ''textContent'') = ru_connected \<longleftrightarrow> isConnected w)
    \<and> (doc w (''connect-btn'', ''textContent'') = ru_disconnect \<longleftrightarrow> isConnected w)
    \<and> (doc w (''status'', ''className'') = lit ''status connected'' \<longrightarrow> isConnected w)"
  using page.inv_reachable [OF assms] by (simp add: shows_state_def doc_shows_def)

theorem page_shows_state_witness:
  "doc connected_page (''connection-status'', ''textContent'') = ru_connected"
  using page_shows_state [OF connected_page_reachable] by (simp add: connected_page_facts)



text \<open>The registration is retried until confirmed. In the same runs, whenever the object is connected
  but not registered, a retry timer is pending, and when that timer fires the page transmits another
  registration and arms the next one.\<close>

theorem retried_until_confirmed:
  assumes "reachable initial_world (calm_enabled E) (step E) w" and "isConnected w" and "\<not> isRegistered w"
    and "random_ok r1" and "random_ok r2"
  shows "\<exists>t i. pending w RetryTimer t \<and> socket w = Some i
      \<and> (let w' = step E (RetryFires t r1 r2) w in
          sent_at (socks w') i = sent_at (socks w) i @ [register_frame E (random_sid r1)]
          \<and> (\<exists>t'. pending w' RetryTimer t'))"
proof -
  have inv: "one_socket (socket w) (socks w) True" "\<exists>x \<in> set (timers w). t_cb x = RetryTimer"
    using calm.inv_reachable [OF assms(1)] assms(2,3) by (simp_all add: calm_inv_def)
  obtain t where t: "pending w RetryTimer t" using inv(2) by (auto simp: pending_def list_ex_iff)
  obtain i where i: "socket w = Some i" "ready_at (socks w) i = OPEN"
    using inv(1) by (auto simp: one_socket_def split: option.splits)
  have "let w' = step E (RetryFires t r1 r2) w in
      sent_at (socks w') i = sent_at (socks w) i @ [register_frame E (random_sid r1)]
      \<and> (\<exists>t'. pending w' RetryTimer t')"
    using i assms(2,3) by (auto simp: step_forms forms send_error_def sent_at_send_on pending_def)
  with t i show ?thesis by blast
qed

theorem retried_until_confirmed_witness:
  "\<exists>t i. pending connected_page RetryTimer t \<and> socket connected_page = Some i"
  using retried_until_confirmed [OF connected_page_calm, of "(0, 53)" "(0, 53)"] connected_page_facts by auto

text \<open>The range of a random identifier. \<open>Math.floor(Math.random() * 0xffff) + 1\<close>, rounded as double
  precision rounds, lies between 1 and 65535 for every value \<open>Math.random\<close> may return, and takes both
  bounds: its least value gives 1 and its greatest, 1 minus 2 to the power -53, gives 65535.\<close>

theorem random_sid_bounds:
  assumes "random_ok r"
  shows "random_sid r \<in> {1..65535} \<and> random_sid (0, 53) = 1 \<and> random_sid (2 ^ 53 - 1, 53) = 65535"
proof -
  have "random_sid (2 ^ 53 - 1, 53) = 65535"
    by (simp add: random_sid_def round53_def bit_size.simps round_even_def Let_def)
  then show ?thesis using random_sid_range [OF assms] by simp
qed

theorem random_sid_bounds_witness: "random_sid (2 ^ 52, 53) \<in> {1..65535}"
  using random_sid_bounds [of "(2 ^ 52, 53)"] by (simp add: random_ok_def)

subsection \<open>What the discipline is needed for\<close>

text \<open>A closed connection stays registered. When the gateway closes the connection, the registration
  flag survives (only \<open>disconnect\<close> clears it): after reconnecting, the new connection counts as registered
  before the gateway has confirmed it, so that its registration is never retried and data is shown
  at once. The run that shows it starts one connection at a time.\<close>

theorem close_keeps_registration:
  "isRegistered (step E (SockClosed i failed) w) = isRegistered w
   \<and> (let es = hello @ [confirmation 0, SockClosed 0 False, ClickConnect, SockOpen 1 (0, 53) (0, 53)];
          w' = run_events (step demo_platform) es initial_world in
       all_enabled (calm_enabled demo_platform) (step demo_platform) es initial_world
     \<and> isConnected w' \<and> socket w' = Some 1 \<and> isRegistered w'
     \<and> retry_registration demo_platform r1 r2 w' = (None, w'))"
proof -
  have "isRegistered (step E (SockClosed i failed) w) = isRegistered w"
    by (simp add: step_forms forms)
  moreover have "all_enabled (calm_enabled demo_platform) (step demo_platform)
      (hello @ [confirmation 0, SockClosed 0 False, ClickConnect, SockOpen 1 (0, 53) (0, 53)]) initial_world"
    by (simp add: hello_def calm_enabled_def run_forms)
  moreover have "let w' = run_events (step demo_platform)
      (hello @ [confirmation 0, SockClosed 0 False, ClickConnect, SockOpen 1 (0, 53) (0, 53)]) initial_world in
      isConnected w' \<and> socket w' = Some 1 \<and> isRegistered w'"
    by (simp add: hello_def run_forms)
  ultimately show ?thesis by (simp add: retry_registration_form Let_def)
qed

text \<open>The close event of an old socket hits the new connection. Disconnect and connect again before
  the old socket's close event arrives: the event resets the flag of the new, open connection, and
  the terminal then refuses typed text as not connected.\<close>

theorem old_close_hits_new_connection:
  "let es = hello @ [ClickConnect, ClickConnect, SockOpen 1 (0, 53) (0, 53), SockClosed 0 False];
       w = run_events (step demo_platform) es initial_world in
     all_enabled enabled (step demo_platform) es initial_world
   \<and> socket w = Some 1 \<and> ready_at (socks w) 1 = OPEN \<and> \<not> isConnected w
   \<and> handleUserInput demo_platform s w = showError ru_not_connected w"
proof -
  let ?es = "hello @ [ClickConnect, ClickConnect, SockOpen 1 (0, 53) (0, 53), SockClosed 0 False]"
  have "all_enabled enabled (step demo_platform) ?es initial_world"
    by (simp add: hello_def run_forms)
  moreover have "let w = run_events (step demo_platform) ?es initial_world in
      socket w = Some 1 \<and> ready_at (socks w) 1 = OPEN \<and> \<not> isConnected w"
    by (simp add: hello_def run_forms)
  ultimately show ?thesis by (simp add: handleUserInput_offline Let_def)
qed

text \<open>Two clicks on Connect. A second click while the first socket is connecting makes a second
  socket; when the first opens, its handler registers on the second, whose \<open>send\<close> throws out of the
  handler: the page shows a connection, the first socket stays open with nothing sent on it, and no
  retry is pending.\<close>

theorem double_connect_throws:
  "let es = [ClickConnect, ClickConnect, SockOpen 0 (0, 53) (0, 53)];
       w = run_events (step demo_platform) es initial_world in
     all_enabled enabled (step demo_platform) es initial_world
   \<and> isConnected w \<and> socket w = Some 1 \<and> ready_at (socks w) 0 = OPEN \<and> sent_at (socks w) 0 = []
   \<and> uncaught w = [InvalidStateError] \<and> \<not> (\<exists>t. pending w RetryTimer t)"
proof -
  let ?es = "[ClickConnect, ClickConnect, SockOpen 0 (0, 53) (0, 53)]"
  have "all_enabled enabled (step demo_platform) ?es initial_world"
    by (simp add: run_forms)
  moreover have "let w = run_events (step demo_platform) ?es initial_world in
      isConnected w \<and> socket w = Some 1 \<and> ready_at (socks w) 0 = OPEN \<and> sent_at (socks w) 0 = []
   \<and> uncaught w = [InvalidStateError] \<and> \<not> (\<exists>t. pending w RetryTimer t)"
    by (simp add: run_forms pending_def)
  ultimately show ?thesis by (simp add: Let_def)
qed

end
