(* ===== verification/Hal_Queue.thy ===== *)
theory Hal_Queue
  imports Main
begin

section \<open>Queues of the operating system\<close>

text \<open>
  The queues behind \<open>ws_hal_queue_create\<close>, \<open>ws_hal_queue_send\<close> and \<open>ws_hal_queue_receive\<close>
  (src/ws_server/src/ws_hal_freertos.c, lines 25 to 41), which hand over to FreeRTOS: first in, first
  out, with a fixed number of places; a send without waiting fails when all are taken, a receive
  when none is. The contract \<open>bounded_fifo\<close> is what the tasks on both ends rely on; its lemmas are
  about any run of sends and receives.
\<close>

record 'a queue =
  q_items :: "'a list"
  q_cap :: nat

definition queue_create :: "nat \<Rightarrow> 'a queue" where
  "queue_create depth = \<lparr>q_items = [], q_cap = depth\<rparr>"

definition queue_send :: "'a \<Rightarrow> 'a queue \<Rightarrow> 'a queue option" where
  "queue_send x q = (if length (q_items q) < q_cap q then Some (q\<lparr>q_items := q_items q @ [x]\<rparr>) else None)"

definition queue_receive :: "'a queue \<Rightarrow> ('a \<times> 'a queue) option" where
  "queue_receive q = (case q_items q of [] \<Rightarrow> None | x # xs \<Rightarrow> Some (x, q\<lparr>q_items := xs\<rparr>))"

text \<open>A send whose failure is not looked at.\<close>

definition queue_offer :: "'a \<Rightarrow> 'a queue \<Rightarrow> 'a queue" where
  "queue_offer x q = (case queue_send x q of Some q' \<Rightarrow> q' | None \<Rightarrow> q)"

subsection \<open>The contract\<close>

locale bounded_fifo =
  fixes send :: "'a \<Rightarrow> 'q \<Rightarrow> 'q option" and receive :: "'q \<Rightarrow> ('a \<times> 'q) option"
    and items :: "'q \<Rightarrow> 'a list" and cap :: "'q \<Rightarrow> nat"
  assumes send_room: "length (items q) < cap q \<Longrightarrow> \<exists>q'. send x q = Some q'"
    and send_Some: "send x q = Some q' \<Longrightarrow> length (items q) < cap q \<and> items q' = items q @ [x] \<and> cap q' = cap q"
    and receive_None: "receive q = None \<longleftrightarrow> items q = []"
    and receive_Some: "receive q = Some (x, q') \<Longrightarrow> items q = x # items q' \<and> cap q' = cap q"
begin

definition within :: "'q \<Rightarrow> bool" where
  "within q \<longleftrightarrow> length (items q) \<le> cap q"

lemma send_None: "send x q = None \<longleftrightarrow> cap q \<le> length (items q)"
  using send_room [of q x] send_Some [of x q] by (cases "send x q") fastforce+

lemma send_within: "send x q = Some q' \<Longrightarrow> within q'"
  by (auto simp: within_def dest: send_Some)

lemma receive_within: "receive q = Some (x, q') \<Longrightarrow> within q \<Longrightarrow> within q'"
  by (auto simp: within_def dest: receive_Some)

lemma receive_shrinks: "receive q = Some (x, q') \<Longrightarrow> length (items q') < length (items q)"
  by (auto dest: receive_Some)

lemma send_receive:
  assumes "send x q = Some q'" and "receive q' = Some (y, r)"
  shows "y = hd (items q @ [x]) \<and> items r = tl (items q @ [x])"
  using send_Some [OF assms(1)] receive_Some [OF assms(2)] by (metis list.sel(1,3))

end

interpretation hal: bounded_fifo queue_send queue_receive q_items q_cap
  by unfold_locales (auto simp: queue_send_def queue_receive_def split: if_splits list.splits)

lemma queue_offer_cases:
  obtains "length (q_items q) < q_cap q" "queue_offer x q = q\<lparr>q_items := q_items q @ [x]\<rparr>"
  | "q_cap q \<le> length (q_items q)" "queue_offer x q = q"
  by (cases "length (q_items q) < q_cap q") (simp_all add: queue_offer_def queue_send_def)

lemma queue_simps [simp]:
  "q_items (queue_create n) = []" "q_cap (queue_create n) = n"
  by (simp_all add: queue_create_def)

end
