(* ===== verification/Server_State.thy ===== *)
theory Server_State
  imports Server_Frames Hal_Queue
begin

section \<open>The state of the call server\<close>

text \<open>
  The data of src/ws_server/src/ws_server.c and the operations that the transport, the other tasks and
  the worker share: sessions, calls, the two lists of calls, the tables of handlers and of peripheral
  queues, and the sending of frames. An object of the heap is known by its address, a number never
  used twice; \<open>s_sessions\<close> holds what is allocated, and reading an address that has been freed sets
  \<open>s_fault\<close>. The linked lists are lists. The mutex is recursive: an operation that takes it is one step.
  Memory is taken to suffice; the log is left out.
\<close>

type_synonym u32 = "32 word"

subsection \<open>The platform\<close>

text \<open>What the transport and the operating system answer: the clock, whether a frame is accepted for a
  connection, whether a mutex is got within a time limit. Each answer may depend on how many questions
  came before, counted in \<open>s_time\<close>.\<close>

record hal =
  h_tick :: "nat \<Rightarrow> u32"
  h_accepts :: "nat \<Rightarrow> nat \<Rightarrow> bool"
  h_takes :: "nat \<Rightarrow> bool"
  h_ms_to_ticks :: "u32 \<Rightarrow> u32"

datatype ws_frame_type = WS_FRAME_CONT | WS_FRAME_TEXT | WS_FRAME_BINARY | WS_FRAME_CLOSE | WS_FRAME_PING | WS_FRAME_PONG

record ws_frame =
  f_type :: ws_frame_type
  f_payload :: jsstr

subsection \<open>Data\<close>

record session =
  ss_conn :: nat
  ss_fd :: nat
  ss_alive :: u32
  ss_ping :: u32

record call =
  call_session :: "nat option"
  call_data :: "jsstr option"
  call_id :: u32
  call_handler :: bool
  call_fid :: u32
  call_pending :: u32
  call_flags :: u32
  call_poll :: u32
  call_next :: u32

text \<open>\<open>webapi_msg_t\<close>; the length is that of the data, 0 for NULL.\<close>

record webapi_msg =
  m_fid :: u32
  m_id :: u32
  m_data :: "jsstr option"

record server =
  s_sessions :: "nat \<Rightarrow> session option"
  s_user :: "nat \<Rightarrow> nat option"
  s_next :: nat
  s_handlers :: "u32 list"
  s_routes :: "(u32 \<times> nat) list"
  s_queues :: "nat \<Rightarrow> webapi_msg queue"
  s_worker :: "webapi_msg queue"
  s_calls :: "call list"
  s_waiting :: "call list"
  s_out :: "(nat \<times> ws_frame) list"
  s_handled :: "(u32 \<times> u32) list"
  s_time :: nat
  s_fault :: bool

definition FLAG_NEW :: u32 where
  "FLAG_NEW = 1"

definition FLAG_LONG_TERM :: u32 where
  "FLAG_LONG_TERM = 4"

definition FLAG_TO_DELETE :: u32 where
  "FLAG_TO_DELETE = 8"

definition has_flag :: "u32 \<Rightarrow> call \<Rightarrow> bool" where
  "has_flag f c \<longleftrightarrow> and (call_flags c) f \<noteq> 0"

definition STATUS_BUSY :: u32 where
  "STATUS_BUSY = 3"

definition STATUS_INVALID :: u32 where
  "STATUS_INVALID = 4"

definition STATUS_BAD_REQ :: u32 where
  "STATUS_BAD_REQ = 0x80000000"

definition STATUS_NO_HANDLER :: u32 where
  "STATUS_NO_HANDLER = 0x8000000E"

definition PING_DELAY :: u32 where
  "PING_DELAY = 1000"

definition text_frame :: "jsstr \<Rightarrow> ws_frame" where
  "text_frame s = \<lparr>f_type = WS_FRAME_TEXT, f_payload = s\<rparr>"

definition ping_frame :: ws_frame where
  "ping_frame = \<lparr>f_type = WS_FRAME_PING, f_payload = []\<rparr>"

text \<open>\<open>ws_server_init\<close>: no list has an entry, the worker's queue has ten places. \<open>caps\<close> are the sizes of
  the queues the peripheral tasks create.\<close>

definition ws_server_init :: "(nat \<Rightarrow> nat) \<Rightarrow> server" where
  "ws_server_init caps = \<lparr>s_sessions = (\<lambda>_. None), s_user = (\<lambda>_. None), s_next = 0, s_handlers = [], s_routes = [],
     s_queues = (\<lambda>i. queue_create (caps i)), s_worker = queue_create 10, s_calls = [], s_waiting = [],
     s_out = [], s_handled = [], s_time = 0, s_fault = False\<rparr>"

subsection \<open>Asking the platform\<close>

definition tick :: "server \<Rightarrow> server" where
  "tick s = s\<lparr>s_time := Suc (s_time s)\<rparr>"

text \<open>\<open>ws_hal_tick\<close> is \<open>h_tick H (s_time s)\<close>, and the next question is another one (\<open>tick s\<close>).\<close>

definition ws_conn_send_async :: "hal \<Rightarrow> nat \<Rightarrow> ws_frame \<Rightarrow> server \<Rightarrow> bool \<times> server" where
  "ws_conn_send_async H conn f s =
     (if h_accepts H (s_time s) conn then (True, tick (s\<lparr>s_out := s_out s @ [(conn, f)]\<rparr>)) else (False, tick s))"

definition fault :: "server \<Rightarrow> server" where
  "fault s = s\<lparr>s_fault := True\<rparr>"

subsection \<open>Sending\<close>

text \<open>\<open>_send_to_session\<close>: the session of the call is followed to its connection.\<close>

definition send_to_session :: "hal \<Rightarrow> nat \<Rightarrow> jsstr \<Rightarrow> server \<Rightarrow> bool \<times> server" where
  "send_to_session H a text s = (case s_sessions s a of
       None \<Rightarrow> (False, fault s)
     | Some ss \<Rightarrow> ws_conn_send_async H (ss_conn ss) (text_frame text) s)"

text \<open>\<open>_bApiCallSendJson\<close> for a call; a call without a session is no target.\<close>

definition bApiCallSendJson :: "hal \<Rightarrow> call \<Rightarrow> jsstr \<Rightarrow> server \<Rightarrow> bool \<times> server" where
  "bApiCallSendJson H c json s = (case call_session c of
       None \<Rightarrow> (False, s)
     | Some a \<Rightarrow> send_to_session H a (response_text (call_fid c) (call_id c) json) s)"

definition bApiCallSendStatus :: "hal \<Rightarrow> call \<Rightarrow> u32 \<Rightarrow> server \<Rightarrow> bool \<times> server" where
  "bApiCallSendStatus H c sta s = bApiCallSendJson H c (status_json sta) s"

text \<open>\<open>_bApiCallSendJson\<close> for the subscribers of a function: those waiting first, then the active calls, under
  the call number 0. The result is that of the last frame.\<close>

definition fid_match :: "u32 \<Rightarrow> call \<Rightarrow> bool" where
  "fid_match fid c \<longleftrightarrow> call_fid c = fid \<and> call_session c \<noteq> None"

fun send_to_each :: "hal \<Rightarrow> jsstr \<Rightarrow> call list \<Rightarrow> bool \<times> server \<Rightarrow> bool \<times> server" where
  "send_to_each H text [] r = r"
| "send_to_each H text (c # cs) (_, s) = send_to_each H text cs (send_to_session H (the (call_session c)) text s)"

definition bApiCallSendJsonFidGroup :: "hal \<Rightarrow> u32 \<Rightarrow> jsstr \<Rightarrow> server \<Rightarrow> bool \<times> server" where
  "bApiCallSendJsonFidGroup H fid json s =
     (if fid = 0 then (False, s)
      else let targets = filter (fid_match fid) (s_waiting s) @ filter (fid_match fid) (s_calls s)
      in if targets = [] then (False, s) else send_to_each H (response_text fid 0 json) targets (True, s))"

subsection \<open>Breaking calls\<close>

definition break_call :: "call \<Rightarrow> call" where
  "break_call c = c\<lparr>call_session := None\<rparr>"

text \<open>The descriptor of the session a call belongs to.\<close>

definition call_fd :: "(nat \<Rightarrow> session option) \<Rightarrow> call \<Rightarrow> nat option" where
  "call_fd ses c = map_option ss_fd (Option.bind (call_session c) ses)"

definition dangling :: "(nat \<Rightarrow> session option) \<Rightarrow> call \<Rightarrow> bool" where
  "dangling ses c \<longleftrightarrow> (case call_session c of None \<Rightarrow> False | Some a \<Rightarrow> ses a = None)"

definition check_calls :: "call list \<Rightarrow> server \<Rightarrow> server" where
  "check_calls cs s = (if list_ex (dangling (s_sessions s)) cs then fault s else s)"

definition vBreakApiCallsByFd :: "nat \<Rightarrow> server \<Rightarrow> server" where
  "vBreakApiCallsByFd fd s =
     (let br = map (\<lambda>c. if call_fd (s_sessions s) c = Some fd then break_call c else c)
      in check_calls (s_calls s @ s_waiting s) s\<lparr>s_calls := br (s_calls s), s_waiting := br (s_waiting s)\<rparr>)"

definition vBreakApiCallsByFid :: "u32 \<Rightarrow> server \<Rightarrow> server" where
  "vBreakApiCallsByFid fid s =
     (let br = map (\<lambda>c. if call_fid c = fid then break_call c else c)
      in s\<lparr>s_calls := br (s_calls s), s_waiting := br (s_waiting s)\<rparr>)"

text \<open>\<open>vApiCallComplete\<close> of a call that is in one of the lists.\<close>

definition vApiCallComplete :: "call \<Rightarrow> call" where
  "vApiCallComplete c =
     (let p = (if call_pending c \<noteq> 0 then call_pending c - 1 else 0)
      in c\<lparr>call_pending := p, call_session := (if p = 0 then None else call_session c)\<rparr>)"

text \<open>\<open>vWsTransferComplete_cb\<close>: a failed transfer breaks the calls of the descriptor when the mutex is got in time.\<close>

definition vWsTransferComplete_cb :: "hal \<Rightarrow> bool \<Rightarrow> nat \<Rightarrow> server \<Rightarrow> server" where
  "vWsTransferComplete_cb H err fd s =
     (if err then (if h_takes H (s_time s) then vBreakApiCallsByFd fd (tick s) else tick s) else s)"

subsection \<open>Handlers and peripheral queues\<close>

definition bApiCallRegister :: "hal \<Rightarrow> u32 \<Rightarrow> server \<Rightarrow> bool \<times> server" where
  "bApiCallRegister H fid s =
     (if fid = 0 then (False, s)
      else if \<not> h_takes H (s_time s) then (False, tick s)
      else if fid \<in> set (s_handlers s) then (False, tick s)
      else (True, tick (s\<lparr>s_handlers := s_handlers s @ [fid]\<rparr>)))"

definition bApiCallUnregister :: "hal \<Rightarrow> u32 \<Rightarrow> server \<Rightarrow> bool \<times> server" where
  "bApiCallUnregister H fid s =
     (if fid = 0 then (False, s)
      else if \<not> h_takes H (s_time s) then (False, tick s)
      else if fid \<in> set (s_handlers s)
      then (True, tick ((vBreakApiCallsByFid fid s)\<lparr>s_handlers := remove1 fid (s_handlers s)\<rparr>))
      else (False, tick s))"

definition ws_get_fid_queue :: "u32 \<Rightarrow> server \<Rightarrow> nat option" where
  "ws_get_fid_queue fid s = map_of (s_routes s) fid"

definition ws_server_register_fid_queue :: "hal \<Rightarrow> u32 \<Rightarrow> nat \<Rightarrow> server \<Rightarrow> bool \<times> server" where
  "ws_server_register_fid_queue H fid q s =
     (if \<not> h_takes H (s_time s) then (False, tick s)
      else if ws_get_fid_queue fid s \<noteq> None then (False, tick s)
      else (True, tick (s\<lparr>s_routes := s_routes s @ [(fid, q)]\<rparr>)))"

subsection \<open>Connections\<close>

definition ws_server_on_connect :: "hal \<Rightarrow> nat \<Rightarrow> nat \<Rightarrow> server \<Rightarrow> server" where
  "ws_server_on_connect H conn fd s =
     (let now = h_tick H (s_time s); a = s_next s
      in tick (s\<lparr>s_sessions := (s_sessions s)(a \<mapsto> \<lparr>ss_conn = conn, ss_fd = fd, ss_alive = now, ss_ping = now\<rparr>),
                 s_user := (s_user s)(conn \<mapsto> a), s_next := Suc a\<rparr>))"

text \<open>The user data of the connection is cleared, the calls of the descriptor lose their session, and then
  the session is freed.\<close>

definition ws_server_on_disconnect :: "nat \<Rightarrow> server \<Rightarrow> server" where
  "ws_server_on_disconnect conn s = (case s_user s conn of
       None \<Rightarrow> s
     | Some a \<Rightarrow> (case s_sessions s a of
           None \<Rightarrow> fault s
         | Some ss \<Rightarrow>
            (let s1 = vBreakApiCallsByFd (ss_fd ss) (s\<lparr>s_user := (s_user s)(conn := None)\<rparr>)
             in s1\<lparr>s_sessions := (s_sessions s1)(a := None)\<rparr>)))"

subsection \<open>What sending changes\<close>

definition alive_call :: "(nat \<Rightarrow> session option) \<Rightarrow> call \<Rightarrow> bool" where
  "alive_call ses c \<longleftrightarrow> \<not> dangling ses c"

lemma alive_callE:
  assumes "alive_call ses c"
  obtains "call_session c = None" | a ss where "call_session c = Some a" "ses a = Some ss"
  using assms by (auto simp: alive_call_def dangling_def split: option.splits)

text \<open>The connection a call answers to.\<close>

definition call_conn :: "(nat \<Rightarrow> session option) \<Rightarrow> call \<Rightarrow> nat option" where
  "call_conn ses c = map_option ss_conn (Option.bind (call_session c) ses)"

lemma send_frame_cases:
  obtains "ws_conn_send_async H conn f s = (True, tick (s\<lparr>s_out := s_out s @ [(conn, f)]\<rparr>))" "h_accepts H (s_time s) conn"
  | "ws_conn_send_async H conn f s = (False, tick s)" "\<not> h_accepts H (s_time s) conn"
  by (cases "h_accepts H (s_time s) conn") (simp_all add: ws_conn_send_async_def)

lemma send_json_cases:
  assumes "alive_call (s_sessions s) c"
  obtains "call_session c = None" "bApiCallSendJson H c json s = (False, s)"
  | conn where "call_conn (s_sessions s) c = Some conn" "h_accepts H (s_time s) conn"
      "bApiCallSendJson H c json s =
         (True, tick (s\<lparr>s_out := s_out s @ [(conn, text_frame (response_text (call_fid c) (call_id c) json))]\<rparr>))"
  | conn where "call_conn (s_sessions s) c = Some conn" "\<not> h_accepts H (s_time s) conn"
      "bApiCallSendJson H c json s = (False, tick s)"
  using assms
proof (cases rule: alive_callE)
  case 1
  then show thesis by (intro that(1)) (simp_all add: bApiCallSendJson_def)
next
  case (2 a ss)
  then have conn: "call_conn (s_sessions s) c = Some (ss_conn ss)" by (simp add: call_conn_def)
  have eq: "bApiCallSendJson H c json s =
      ws_conn_send_async H (ss_conn ss) (text_frame (response_text (call_fid c) (call_id c) json)) s"
    using 2 by (simp add: bApiCallSendJson_def send_to_session_def)
  show thesis
    by (cases rule: send_frame_cases [of H "ss_conn ss" "text_frame (response_text (call_fid c) (call_id c) json)" s])
       (use that(2,3) conn eq in simp_all)
qed

lemma tick_simps [simp]:
  "s_sessions (tick s) = s_sessions s" "s_user (tick s) = s_user s" "s_next (tick s) = s_next s"
  "s_handlers (tick s) = s_handlers s" "s_routes (tick s) = s_routes s" "s_queues (tick s) = s_queues s"
  "s_worker (tick s) = s_worker s" "s_calls (tick s) = s_calls s" "s_waiting (tick s) = s_waiting s"
  "s_out (tick s) = s_out s" "s_handled (tick s) = s_handled s" "s_fault (tick s) = s_fault s"
  "s_time (tick s) = Suc (s_time s)"
  by (simp_all add: tick_def)

lemma tick_eq: "tick s = s\<lparr>s_time := Suc (s_time s)\<rparr>"
  by (simp add: tick_def)

lemma route_tick [simp]: "ws_get_fid_queue fid (tick s) = ws_get_fid_queue fid s"
  by (simp add: ws_get_fid_queue_def)

lemma send_json_effect:
  assumes "alive_call (s_sessions s) c"
  obtains fs n where "snd (bApiCallSendJson H c json s) = s\<lparr>s_out := s_out s @ fs, s_time := n\<rparr>"
    "length fs \<le> 1" "\<forall>(to, f) \<in> set fs. call_conn (s_sessions s) c = Some to"
  using assms
proof (cases rule: send_json_cases [where H = H and json = json])
  case 1
  then show thesis by (intro that [where fs = "[]" and n = "s_time s"]) simp_all
next
  case (2 conn)
  then show thesis
    by (intro that [where fs = "[(conn, text_frame (response_text (call_fid c) (call_id c) json))]" and n = "Suc (s_time s)"])
       (simp_all add: tick_eq)
next
  case (3 conn)
  then show thesis by (intro that [where fs = "[]" and n = "Suc (s_time s)"]) (simp_all add: tick_eq)
qed

text \<open>What sending leaves alone.\<close>

lemma send_async_frame [simp]:
  "s_sessions (snd (ws_conn_send_async H conn f s)) = s_sessions s"
  "s_user (snd (ws_conn_send_async H conn f s)) = s_user s"
  "s_next (snd (ws_conn_send_async H conn f s)) = s_next s"
  "s_handlers (snd (ws_conn_send_async H conn f s)) = s_handlers s"
  "s_routes (snd (ws_conn_send_async H conn f s)) = s_routes s"
  "s_queues (snd (ws_conn_send_async H conn f s)) = s_queues s"
  "s_worker (snd (ws_conn_send_async H conn f s)) = s_worker s"
  "s_calls (snd (ws_conn_send_async H conn f s)) = s_calls s"
  "s_waiting (snd (ws_conn_send_async H conn f s)) = s_waiting s"
  "s_handled (snd (ws_conn_send_async H conn f s)) = s_handled s"
  by (simp_all add: ws_conn_send_async_def)

lemma send_json_frame [simp]:
  "s_sessions (snd (bApiCallSendJson H c j s)) = s_sessions s"
  "s_user (snd (bApiCallSendJson H c j s)) = s_user s" "s_next (snd (bApiCallSendJson H c j s)) = s_next s"
  "s_handlers (snd (bApiCallSendJson H c j s)) = s_handlers s"
  "s_routes (snd (bApiCallSendJson H c j s)) = s_routes s"
  "s_queues (snd (bApiCallSendJson H c j s)) = s_queues s"
  "s_worker (snd (bApiCallSendJson H c j s)) = s_worker s"
  "s_calls (snd (bApiCallSendJson H c j s)) = s_calls s"
  "s_waiting (snd (bApiCallSendJson H c j s)) = s_waiting s"
  "s_handled (snd (bApiCallSendJson H c j s)) = s_handled s"
  by (simp_all add: bApiCallSendJson_def send_to_session_def fault_def split: option.split)

lemma send_status_frame [simp]:
  "s_sessions (snd (bApiCallSendStatus H c sta s)) = s_sessions s"
  "s_user (snd (bApiCallSendStatus H c sta s)) = s_user s"
  "s_next (snd (bApiCallSendStatus H c sta s)) = s_next s"
  "s_handlers (snd (bApiCallSendStatus H c sta s)) = s_handlers s"
  "s_routes (snd (bApiCallSendStatus H c sta s)) = s_routes s"
  "s_queues (snd (bApiCallSendStatus H c sta s)) = s_queues s"
  "s_worker (snd (bApiCallSendStatus H c sta s)) = s_worker s"
  "s_calls (snd (bApiCallSendStatus H c sta s)) = s_calls s"
  "s_waiting (snd (bApiCallSendStatus H c sta s)) = s_waiting s"
  "s_handled (snd (bApiCallSendStatus H c sta s)) = s_handled s"
  by (simp_all add: bApiCallSendStatus_def)

lemma fault_frame [simp]: "s_fault (snd (ws_conn_send_async H conn f s)) = s_fault s"
  by (simp add: ws_conn_send_async_def)

lemma json_fault [simp]: "alive_call (s_sessions s) c \<Longrightarrow> s_fault (snd (bApiCallSendJson H c j s)) = s_fault s"
  by (auto simp: bApiCallSendJson_def send_to_session_def elim: alive_callE)

lemma status_fault [simp]: "alive_call (s_sessions s) c \<Longrightarrow> s_fault (snd (bApiCallSendStatus H c sta s)) = s_fault s"
  by (simp add: bApiCallSendStatus_def)

lemma check_calls_ok: "list_all (alive_call (s_sessions s)) cs \<Longrightarrow> check_calls cs s = s"
  by (auto simp: check_calls_def list_all_iff list_ex_iff alive_call_def)

end
