(* ===== verification/Cjson_Lib.thy ===== *)
theory Cjson_Lib
  imports Server_Frames Js_Number
begin

section \<open>cJSON and the numbers of a request\<close>

text \<open>
  cJSON is a library outside the repository: it is the parameter \<open>cjson_lib\<close>, and
  \<open>cjson_documented\<close> states the part of its documentation that the code relies on. The helpers of
  src/json/cJSON_helpers.c and \<open>strtol\<close> of the C library read numbers; \<open>long\<close> has 32 bits, as on the
  ESP32.
\<close>

subsection \<open>cJSON\<close>

record cjson_lib =
  c_parse :: "jsstr \<Rightarrow> json option"
  c_item :: "string \<Rightarrow> json \<Rightarrow> json option"
  c_int :: "jsstr \<Rightarrow> int"
  c_print :: "json \<Rightarrow> jsstr"

fun ascii_json :: "json \<Rightarrow> bool" where
  "ascii_json (JStr s) \<longleftrightarrow> json_plain s"
| "ascii_json (JArr xs) \<longleftrightarrow> list_all ascii_json xs"
| "ascii_json (JObj ms) \<longleftrightarrow> list_all (\<lambda>m. json_plain (fst m) \<and> ascii_json (snd m)) ms"
| "ascii_json _ \<longleftrightarrow> True"

definition lower :: "jsstr \<Rightarrow> jsstr" where
  "lower s = map (\<lambda>c. if 65 \<le> c \<and> c \<le> 90 then c + 32 else c) s"

text \<open>Parsing and printing are inverse on ASCII values with small integers; \<open>cJSON_GetObjectItem\<close>
  finds the first member whose name is the same up to case, and nothing in other values; \<open>valueint\<close> is
  the number itself while that fits.\<close>

definition cjson_documented :: "cjson_lib \<Rightarrow> bool" where
  "cjson_documented L \<longleftrightarrow>
     (\<forall>ns v. json_wf v \<and> ascii_json v \<longrightarrow> c_parse L (stringify ns v) = Some v \<and> c_print L v = stringify ns v)
   \<and> (\<forall>k ms. c_item L k (JObj ms) = map_of (map (\<lambda>m. (lower (fst m), snd m)) ms) (lower (lit k)))
   \<and> (\<forall>k v. (\<forall>ms. v \<noteq> JObj ms) \<longrightarrow> c_item L k v = None)
   \<and> (\<forall>n < 2147483648. c_int L (show_nat n) = int n)"

lemma cjson_parse: "cjson_documented L \<Longrightarrow> json_wf v \<Longrightarrow> ascii_json v \<Longrightarrow> c_parse L (stringify ns v) = Some v"
  unfolding cjson_documented_def by blast

lemma cjson_print: "cjson_documented L \<Longrightarrow> json_wf v \<Longrightarrow> ascii_json v \<Longrightarrow> c_print L v = stringify ns v"
  unfolding cjson_documented_def by blast

lemma cjson_item:
  "cjson_documented L \<Longrightarrow> c_item L k (JObj ms) = map_of (map (\<lambda>m. (lower (fst m), snd m)) ms) (lower (lit k))"
  by (simp add: cjson_documented_def)

lemma cjson_no_item: "cjson_documented L \<Longrightarrow> \<forall>ms. v \<noteq> JObj ms \<Longrightarrow> c_item L k v = None"
  by (simp add: cjson_documented_def)

lemma cjson_int: "cjson_documented L \<Longrightarrow> n < 2147483648 \<Longrightarrow> c_int L (show_nat n) = int n"
  by (simp add: cjson_documented_def)

definition plain_cjson :: cjson_lib where
  "plain_cjson = \<lparr>c_parse = json_parse,
     c_item = (\<lambda>k v. case v of JObj ms \<Rightarrow> map_of (map (\<lambda>m. (lower (fst m), snd m)) ms) (lower (lit k)) | _ \<Rightarrow> None),
     c_int = (\<lambda>l. int (read_nat l)), c_print = stringify id\<rparr>"

lemma stringify_ns:
  "json_wf v \<Longrightarrow> stringify ns v = stringify ms v"
  "list_all json_wf xs \<Longrightarrow> stringify_elems ns xs = stringify_elems ms xs"
  "list_all (\<lambda>f. json_wf (snd f)) fs \<Longrightarrow> stringify_fields ns fs = stringify_fields ms fs"
  by (induction v and xs and fs rule: toks_toks_elems_toks_fields.induct) (simp_all add: num_json_safe)

lemma plain_cjson_documented: "cjson_documented plain_cjson"
  unfolding cjson_documented_def plain_cjson_def
  by (auto simp: json.dec_enc read_show_nat stringify_ns(1) [where ns = id] split: json.split)

subsection \<open>Numbers of the request\<close>

text \<open>\<open>(uint32_t)strtol(s, NULL, 16)\<close>.\<close>

definition c_space :: "nat \<Rightarrow> bool" where
  "c_space c \<longleftrightarrow> c = 32 \<or> 9 \<le> c \<and> c \<le> 13"

definition skip_0x :: "jsstr \<Rightarrow> jsstr" where
  "skip_0x s = (case s of a # b # c # r \<Rightarrow> if a = 48 \<and> (b = 120 \<or> b = 88) \<and> hex_value c \<noteq> None then c # r else s | _ \<Rightarrow> s)"

definition hex_prefix :: "jsstr \<Rightarrow> nat" where
  "hex_prefix s = read_hex (takeWhile (\<lambda>c. hex_value c \<noteq> None) (skip_0x s))"

definition strtol16 :: "jsstr \<Rightarrow> int" where
  "strtol16 s = (case dropWhile c_space s of
       [] \<Rightarrow> 0
     | c # r \<Rightarrow>
        if c = 45 then - int (min (hex_prefix r) 2147483648)
        else int (min (hex_prefix (if c = 43 then r else c # r)) 2147483647))"

text \<open>\<open>cJSON_ParseInt\<close> of src/json/cJSON_helpers.c: a number, or a string in hexadecimal.\<close>

definition cJSON_ParseInt :: "cjson_lib \<Rightarrow> string \<Rightarrow> json \<Rightarrow> 32 word option" where
  "cJSON_ParseInt L name j = (case c_item L name j of
       Some (JNum l) \<Rightarrow> Some (word_of_int (c_int L l))
     | Some (JStr s) \<Rightarrow> Some (word_of_int (strtol16 s))
     | _ \<Rightarrow> None)"

text \<open>\<open>cJSON_IsNumber\<close> of a member, and its \<open>valueint\<close>.\<close>

definition number_item :: "cjson_lib \<Rightarrow> string \<Rightarrow> json \<Rightarrow> int option" where
  "number_item L k j = (case c_item L k j of Some (JNum l) \<Rightarrow> Some (c_int L l) | _ \<Rightarrow> None)"

lemma ascii_names:
  "json_plain (lit ''FID'')" "json_plain (lit ''SID'')" "json_plain (lit ''FLAGS'')" "json_plain (lit ''ARG'')"
  by (simp_all add: json_plain_def lit_def)

lemma ascii_hex_string: "ascii_json (hex_string x)"
  by (simp add: hex_string_def hex8_plain) (simp add: json_plain_def lit_def)

lemma ascii_JNat: "ascii_json (JNat n)"
  by (simp add: JNat_def)

text \<open>The two function numbers of the terminal, as the gateway reads them.\<close>

lemma strtol_fids:
  "strtol16 (lit ''0x00001021'') = 0x1021" "strtol16 (lit ''0x00001022'') = 0x1022"
  by (simp_all add: lit_def strtol16_def c_space_def hex_prefix_def skip_0x_def hex_value_def read_hex_def)

text \<open>Any 32-bit number below \<open>2^31\<close> printed with \<open>0x%08lx\<close> is read back.\<close>

lemma hex8_hex_values: "list_all (\<lambda>c. hex_value c \<noteq> None) (hex8 x)"
  by (simp add: hex8_def Let_def)

lemma strtol_hex8:
  assumes "unat x < 2147483648"
  shows "strtol16 (lit ''0x'' @ hex8 x) = int (unat x)"
proof -
  obtain c r where h: "hex8 x = c # r" "hex_value c \<noteq> None"
    using hex8_hex_values [of x] length_hex8 [of x] by (cases "hex8 x") auto
  have "takeWhile (\<lambda>c. \<exists>y. hex_value c = Some y) r = r"
    using hex8_hex_values [of x] h(1) by (subst takeWhile_eq_all_conv) (simp add: list_all_iff)
  then have "hex_prefix (lit ''0x'' @ hex8 x) = unat x"
    using h read_hex8 [of x] by (simp add: hex_prefix_def skip_0x_def lit_def del: takeWhile_eq_all_conv)
  then show ?thesis
    using assms by (simp add: strtol16_def c_space_def lit_def)
qed

end
