(* ===== verification/Server_Calls.thy ===== *)
theory Server_Calls
  imports Server_State Cjson_Lib
begin

section \<open>How the gateway reads a request\<close>

text \<open>
  \<open>ws_server_on_text\<close> of src/ws_server/src/ws_server.c (lines 417 to 515): the text of a frame becomes
  a call in the list of calls, a status answer, or nothing; and \<open>ws_server_on_frame\<close> (lines 376 to 405),
  which the transport calls for every frame. cJSON is the parameter \<open>cjson_lib\<close>.
\<close>

subsection \<open>Members of a request\<close>

definition read_fid :: "cjson_lib \<Rightarrow> json \<Rightarrow> u32" where
  "read_fid L j = (case c_item L ''FID'' j of
       Some (JNum l) \<Rightarrow> word_of_int (c_int L l)
     | Some (JStr s) \<Rightarrow> word_of_int (strtol16 s)
     | _ \<Rightarrow> 0)"

text \<open>The argument printed back, and its re-poll delay in ticks.\<close>

definition arg_data :: "cjson_lib \<Rightarrow> json \<Rightarrow> jsstr option" where
  "arg_data L j = map_option (c_print L) (c_item L ''ARG'' j)"

definition arg_delay :: "cjson_lib \<Rightarrow> hal \<Rightarrow> json \<Rightarrow> u32" where
  "arg_delay L H j = (case Option.bind (c_item L ''ARG'' j) (c_item L ''RDL'') of
       Some (JNum l) \<Rightarrow> if 0 < c_int L l then h_ms_to_ticks H (word_of_int (c_int L l)) else 0
     | _ \<Rightarrow> 0)"

definition new_call :: "cjson_lib \<Rightarrow> hal \<Rightarrow> nat \<Rightarrow> json \<Rightarrow> call" where
  "new_call L H a j = \<lparr>call_session = Some a, call_data = arg_data L j, call_id = 0, call_handler = False,
     call_fid = read_fid L j, call_pending = 1,
     call_flags = (case number_item L ''FLAGS'' j of Some flags \<Rightarrow> or FLAG_NEW (word_of_int flags) | None \<Rightarrow> FLAG_NEW),
     call_poll = arg_delay L H j, call_next = 0\<rparr>"

subsection \<open>Requests\<close>

text \<open>The call's number is still zero when a missing FLAGS or SID is answered.\<close>

definition ws_server_on_text :: "cjson_lib \<Rightarrow> hal \<Rightarrow> nat \<Rightarrow> jsstr \<Rightarrow> server \<Rightarrow> server" where
  "ws_server_on_text L H conn data s = (case s_user s conn of
       None \<Rightarrow> s
     | Some a \<Rightarrow>
         if data = [] then s
         else (case c_parse L data of
           None \<Rightarrow> s
         | Some j \<Rightarrow>
             if read_fid L j = 0 then s
             else let c = new_call L H a j
             in case (number_item L ''FLAGS'' j, number_item L ''SID'' j) of
                  (Some _, Some sid) \<Rightarrow>
                    (let c = c\<lparr>call_id := and (word_of_int sid) 0xFFFF\<rparr>;
                         hlr = call_fid c \<in> set (s_handlers s);
                         has_queue = ws_get_fid_queue (call_fid c) s \<noteq> None
                     in if \<not> hlr \<and> \<not> has_queue then snd (bApiCallSendStatus H c STATUS_NO_HANDLER s)
                        else s\<lparr>s_calls := s_calls s @ [c\<lparr>call_handler := hlr\<rparr>]\<rparr>)
                | _ \<Rightarrow> snd (bApiCallSendStatus H c STATUS_BAD_REQ s)))"

text \<open>\<open>ws_server_on_frame\<close>: the session is alive, a text is a request, a ping and a close are answered.\<close>

definition note_alive :: "hal \<Rightarrow> nat \<Rightarrow> server \<Rightarrow> server" where
  "note_alive H conn s = (case s_user s conn of
       None \<Rightarrow> s
     | Some a \<Rightarrow> (case s_sessions s a of
           None \<Rightarrow> fault s
         | Some ss \<Rightarrow> tick (s\<lparr>s_sessions := (s_sessions s)(a \<mapsto> ss\<lparr>ss_alive := h_tick H (s_time s)\<rparr>)\<rparr>)))"

definition ws_server_on_frame :: "cjson_lib \<Rightarrow> hal \<Rightarrow> nat \<Rightarrow> ws_frame \<Rightarrow> server \<Rightarrow> server" where
  "ws_server_on_frame L H conn f s =
     (let s1 = note_alive H conn s
      in case f_type f of
           WS_FRAME_TEXT \<Rightarrow> ws_server_on_text L H conn (f_payload f) s1
         | WS_FRAME_PING \<Rightarrow> snd (ws_conn_send_async H conn \<lparr>f_type = WS_FRAME_PONG, f_payload = f_payload f\<rparr> s1)
         | WS_FRAME_CLOSE \<Rightarrow> snd (ws_conn_send_async H conn \<lparr>f_type = WS_FRAME_CLOSE, f_payload = []\<rparr> s1)
         | _ \<Rightarrow> s1)"

subsection \<open>The outcomes of a request\<close>

lemma read_fid_hex:
  "unat fid < 2147483648 \<Longrightarrow>
     (case hex_string fid of JNum l \<Rightarrow> f l | JStr s \<Rightarrow> word_of_int (strtol16 s) | _ \<Rightarrow> z) = fid"
  by (simp add: hex_string_def strtol_hex8)

lemma fid_small [simp]: "unat FID_UART_RX < 2147483648" "unat FID_UART_TX < 2147483648"
  "FID_UART_RX \<noteq> 0" "FID_UART_TX \<noteq> 0"
  by (simp_all add: FID_UART_RX_def FID_UART_TX_def)

lemma new_call_simps [simp]:
  "call_session (new_call L H a j) = Some a" "call_fid (new_call L H a j) = read_fid L j"
  "call_id (new_call L H a j) = 0" "call_pending (new_call L H a j) = 1"
  "call_handler (new_call L H a j) = False" "call_data (new_call L H a j) = arg_data L j"
  "call_poll (new_call L H a j) = arg_delay L H j" "call_next (new_call L H a j) = 0"
  by (simp_all add: new_call_def)

lemma on_text_cases:
  obtains "ws_server_on_text L H conn data s = s"
  | c a sta where "ws_server_on_text L H conn data s = snd (bApiCallSendStatus H c sta s)"
      "s_user s conn = Some a" "call_session c = Some a"
  | c a where "ws_server_on_text L H conn data s = s\<lparr>s_calls := s_calls s @ [c]\<rparr>"
      "s_user s conn = Some a" "call_session c = Some a" "call_fid c \<noteq> 0" "call_pending c = 1"
      "call_handler c \<longleftrightarrow> call_fid c \<in> set (s_handlers s)"
      "call_handler c \<or> ws_get_fid_queue (call_fid c) s \<noteq> None"
      "\<exists>x. call_id c = and x 0xFFFF" "\<exists>x. call_flags c = or FLAG_NEW x"
proof (cases "ws_server_on_text L H conn data s = s")
  case False
  then obtain a j where j: "s_user s conn = Some a" "data \<noteq> []" "c_parse L data = Some j" "read_fid L j \<noteq> 0"
    by (auto simp: ws_server_on_text_def split: option.splits if_splits)
  show thesis
  proof (cases "number_item L ''FLAGS'' j = None \<or> number_item L ''SID'' j = None")
    case True
    show thesis
      by (rule that(2) [of "new_call L H a j" STATUS_BAD_REQ a])
         (use True j in \<open>auto simp: ws_server_on_text_def Let_def split: option.split\<close>)
  next
    case False
    then obtain flags sid where n: "number_item L ''FLAGS'' j = Some flags" "number_item L ''SID'' j = Some sid"
      by auto
    let ?c = "(new_call L H a j)\<lparr>call_id := and (word_of_int sid) 0xFFFF\<rparr>"
    let ?h = "read_fid L j \<in> set (s_handlers s)"
    show thesis
    proof (cases "?h \<or> ws_get_fid_queue (read_fid L j) s \<noteq> None")
      case True
      show thesis
        by (rule that(3) [of "?c\<lparr>call_handler := ?h\<rparr>" a])
           (use True j n in \<open>auto simp: ws_server_on_text_def Let_def new_call_def\<close>)
    next
      case False
      show thesis
        by (rule that(2) [of ?c STATUS_NO_HANDLER a])
           (use False j n in \<open>auto simp: ws_server_on_text_def Let_def\<close>)
    qed
  qed
qed simp

lemma on_text_known:
  assumes "s_user s conn = Some a" and "data \<noteq> []" and "c_parse L data = Some j" and "read_fid L j = fid" and "fid \<noteq> 0"
    and "number_item L ''FLAGS'' j = Some flags" and "number_item L ''SID'' j = Some sid" and "ws_get_fid_queue fid s \<noteq> None"
  shows "ws_server_on_text L H conn data s = s\<lparr>s_calls := s_calls s @
    [(new_call L H a j)\<lparr>call_id := and (word_of_int sid) 0xFFFF, call_handler := (fid \<in> set (s_handlers s))\<rparr>]\<rparr>"
  using assms by (auto simp: ws_server_on_text_def Let_def)

lemma and_mask_less: "unat (and x 0xFFFF :: 32 word) < 65536" for x :: "32 word"
proof -
  have "and x 0xFFFF = take_bit 16 x" by (simp add: take_bit_eq_mask mask_eq_exp_minus_1)
  then have "unat (and x 0xFFFF) = take_bit 16 (unat x)" by (simp add: unsigned_take_bit_eq)
  then show ?thesis using take_bit_nat_less_exp [of 16 "unat x"] by simp
qed

lemma flag_new_set: "and (or FLAG_NEW x) FLAG_NEW = FLAG_NEW"
  by (simp add: and.commute)

text \<open>A request without an argument, and the call it becomes.\<close>

definition request_object :: "u32 \<Rightarrow> nat \<Rightarrow> nat \<Rightarrow> json" where
  "request_object fid flags sid = JObj [(lit ''FID'', hex_string fid), (lit ''SID'', JNat sid), (lit ''FLAGS'', JNat flags)]"

definition request_call :: "u32 \<Rightarrow> nat \<Rightarrow> bool \<Rightarrow> nat \<Rightarrow> nat \<Rightarrow> call" where
  "request_call fid a hlr flags sid = \<lparr>call_session = Some a, call_data = None, call_id = word_of_nat sid, call_handler = hlr,
     call_fid = fid, call_pending = 1, call_flags = or FLAG_NEW (word_of_nat flags), call_poll = 0, call_next = 0\<rparr>"

lemma number_of_sid: "sid < 65536 \<Longrightarrow> and (word_of_nat sid) 0xFFFF = (word_of_nat sid :: 32 word)"
proof -
  assume "sid < 65536"
  then have "take_bit 16 (word_of_nat sid :: 32 word) = word_of_nat sid"
    by (simp add: take_bit_of_nat take_bit_nat_eq_self)
  then show ?thesis by (simp add: take_bit_eq_mask mask_eq_exp_minus_1)
qed

lemma request_items:
  assumes "cjson_documented L" and "sid < 65536" and "flags < 65536" and "unat fid < 2147483648"
  shows "c_parse L (stringify ns (request_object fid flags sid)) = Some (request_object fid flags sid)"
    "read_fid L (request_object fid flags sid) = fid"
    "number_item L ''SID'' (request_object fid flags sid) = Some (int sid)"
    "number_item L ''FLAGS'' (request_object fid flags sid) = Some (int flags)"
    "c_item L ''ARG'' (request_object fid flags sid) = None"
proof -
  have "json_wf (request_object fid flags sid)" "ascii_json (request_object fid flags sid)"
    using assms(2,3) by (simp_all add: request_object_def JNat_wf ascii_hex_string ascii_names ascii_JNat)
       (simp_all add: hex_string_def JNat_wf)
  then show "c_parse L (stringify ns (request_object fid flags sid)) = Some (request_object fid flags sid)"
    by (rule cjson_parse [OF assms(1)])
  have "c_item L ''FID'' (request_object fid flags sid) = Some (hex_string fid)"
    by (simp add: request_object_def cjson_item [OF assms(1)] lower_def lit_def)
  then show "read_fid L (request_object fid flags sid) = fid" by (simp add: read_fid_def read_fid_hex assms(4))
  show "number_item L ''SID'' (request_object fid flags sid) = Some (int sid)"
    "number_item L ''FLAGS'' (request_object fid flags sid) = Some (int flags)"
    "c_item L ''ARG'' (request_object fid flags sid) = None"
    using assms by (simp_all add: number_item_def request_object_def cjson_item lower_def lit_def JNat_def cjson_int)
qed

lemma plain_request:
  assumes "cjson_documented L" and "sid < 65536" and "flags < 65536" and "unat fid < 2147483648"
    and "fid \<noteq> 0" and "s_user s conn = Some a" and "ws_get_fid_queue fid s \<noteq> None"
  shows "ws_server_on_text L H conn (stringify ns (request_object fid flags sid)) s
    = s\<lparr>s_calls := s_calls s @ [request_call fid a (fid \<in> set (s_handlers s)) flags sid]\<rparr>"
proof -
  have "stringify ns (request_object fid flags sid) \<noteq> []" by (simp add: request_object_def)
  then show ?thesis
    using assms(5-7) request_items [OF assms(1-4)]
    by (auto simp: ws_server_on_text_def new_call_def request_call_def arg_data_def arg_delay_def
        number_of_sid [OF assms(2)] Let_def)
qed

end
