(* ===== verification/Server_Worker.thy ===== *)
theory Server_Worker
  imports Server_Calls "HOL-Library.While_Combinator"
begin

section \<open>The worker of the call server\<close>

text \<open>
  One pass of \<open>vWsApiCallWorkerStep\<close> of src/ws_server/src/ws_server.c (lines 526 to 710): keep the
  connections alive and free the finished calls, forward the active calls to the queues of the
  peripheral tasks, and hand the answers of these tasks to the clients. Each of the three parts, and
  the handling of each answer, runs under the mutex and is one step of the server.
\<close>

subsection \<open>Keeping alive and freeing\<close>

text \<open>\<open>vServeApiCall\<close> of one call; \<open>None\<close> is a call that is unlinked and freed. The two waits are differences
  of 32-bit clocks.\<close>

definition vServeApiCall :: "hal \<Rightarrow> call \<Rightarrow> server \<Rightarrow> call option \<times> server" where
  "vServeApiCall H c s = (case call_session c of
       None \<Rightarrow> (None, s)
     | Some a \<Rightarrow> (case s_sessions s a of
           None \<Rightarrow> (Some c, fault s)
         | Some ss \<Rightarrow>
            (let now = h_tick H (s_time s); s1 = tick s
             in if PING_DELAY \<le> now - ss_alive ss \<and> PING_DELAY \<le> now - ss_ping ss
                then (case ws_conn_send_async H (ss_conn ss) ping_frame s1 of
                        (False, s2) \<Rightarrow> (Some (vApiCallComplete c), s2)
                      | (True, s2) \<Rightarrow>
                          (Some c, tick (s2\<lparr>s_sessions := (s_sessions s2)(a \<mapsto> ss\<lparr>ss_ping := h_tick H (s_time s2)\<rparr>)\<rparr>)))
                else (Some c, s1))))"

fun serve_calls :: "hal \<Rightarrow> call list \<Rightarrow> server \<Rightarrow> call list \<times> server" where
  "serve_calls H [] s = ([], s)"
| "serve_calls H (c # cs) s =
     (case vServeApiCall H c s of
        (None, s1) \<Rightarrow> serve_calls H cs s1
      | (Some c', s1) \<Rightarrow> (case serve_calls H cs s1 of (cs', s2) \<Rightarrow> (c' # cs', s2)))"

definition serve_pass :: "hal \<Rightarrow> server \<Rightarrow> server" where
  "serve_pass H s =
     (case serve_calls H (s_calls s) s of (cs, s1) \<Rightarrow>
        (case serve_calls H (s_waiting s) (s1\<lparr>s_calls := cs\<rparr>) of (ws, s2) \<Rightarrow> s2\<lparr>s_waiting := ws\<rparr>))"

subsection \<open>Forwarding\<close>

text \<open>The request for the peripheral task. A long-term call keeps its data and gives a copy.\<close>

definition request_of :: "call \<Rightarrow> webapi_msg" where
  "request_of c = \<lparr>m_fid = call_fid c, m_id = call_id c,
     m_data = (if has_flag FLAG_LONG_TERM c \<and> call_data c = Some [] then None else call_data c)\<rparr>"

text \<open>\<open>vForwardCallToPeripheral\<close>: the call as it is afterwards, and the state. A full queue answers busy and
  ends the call.\<close>

definition vForwardCallToPeripheral :: "hal \<Rightarrow> call \<Rightarrow> nat \<Rightarrow> server \<Rightarrow> call \<times> server" where
  "vForwardCallToPeripheral H c q s =
     (case queue_send (request_of c) (s_queues s q) of
        Some q' \<Rightarrow> (if has_flag FLAG_LONG_TERM c then c else c\<lparr>call_data := None\<rparr>, s\<lparr>s_queues := (s_queues s)(q := q')\<rparr>)
      | None \<Rightarrow> (break_call c, snd (bApiCallSendStatus H c STATUS_BUSY s)))"

text \<open>\<open>bCallClientIdMatch\<close>: a live call of the same client, function and number.\<close>

definition same_call :: "(nat \<Rightarrow> session option) \<Rightarrow> call \<Rightarrow> call \<Rightarrow> bool" where
  "same_call ses c d \<longleftrightarrow> call_fd ses c \<noteq> None \<and> call_fd ses d = call_fd ses c \<and> call_fid d = call_fid c \<and> call_id d = call_id c"

text \<open>
  One turn of the loop over the active calls. The cursor holds the calls left behind, those still to
  come, and the rest of the state. A call to be deleted removes the waiting and the active calls of
  the same client, function and number, and itself; a subscription that is not due stays; any other
  call goes to the queue of its function and to the waiting calls, and a new one is told so; without
  a queue it is refused.
\<close>

type_synonym cursor = "call list \<times> call list \<times> server"

definition not_due :: "hal \<Rightarrow> call \<Rightarrow> server \<Rightarrow> bool" where
  "not_due H c s \<longleftrightarrow> has_flag FLAG_LONG_TERM c \<and> \<not> has_flag FLAG_NEW c
     \<and> sint (h_tick H (s_time s) - call_next c) < 0"

definition asks_clock :: "call \<Rightarrow> bool" where
  "asks_clock c \<longleftrightarrow> has_flag FLAG_LONG_TERM c \<and> \<not> has_flag FLAG_NEW c"

definition delete_call :: "hal \<Rightarrow> call list \<Rightarrow> call \<Rightarrow> call list \<Rightarrow> server \<Rightarrow> cursor" where
  "delete_call H ds c cs s =
     (let s1 = snd (bApiCallSendStatus H c STATUS_DELIVERED s);
          keep = filter (\<lambda>d. \<not> same_call (s_sessions s) c d)
      in if call_session c = None then (ds, cs, s1)
         else (keep ds, keep cs, check_calls (c # s_waiting s1 @ ds @ cs) s1\<lparr>s_waiting := keep (s_waiting s1)\<rparr>))"

definition tell_new :: "hal \<Rightarrow> call \<Rightarrow> server \<Rightarrow> call \<times> server" where
  "tell_new H c s =
     (if has_flag FLAG_NEW c
      then (case bApiCallSendStatus H c STATUS_DELIVERED s of (sent, s1) \<Rightarrow>
              (if sent then c\<lparr>call_flags := and (call_flags c) (not FLAG_NEW)\<rparr> else c, s1))
      else (c, s))"

definition route_call :: "hal \<Rightarrow> call list \<Rightarrow> call \<Rightarrow> call list \<Rightarrow> server \<Rightarrow> cursor" where
  "route_call H ds c cs s = (case ws_get_fid_queue (call_fid c) s of
       Some q \<Rightarrow>
         (case vForwardCallToPeripheral H c q s of (c1, s1) \<Rightarrow>
            (case tell_new H c1 s1 of (c2, s2) \<Rightarrow> (ds, cs, s2\<lparr>s_waiting := s_waiting s2 @ [c2]\<rparr>)))
     | None \<Rightarrow> (ds, cs, snd (bApiCallSendStatus H c STATUS_INVALID s)))"

definition forward_one :: "hal \<Rightarrow> cursor \<Rightarrow> cursor" where
  "forward_one H = (\<lambda>(ds, rest, s). (case rest of
       [] \<Rightarrow> (ds, [], s)
     | c # cs \<Rightarrow>
         if has_flag FLAG_TO_DELETE c then delete_call H ds c cs s
         else if not_due H c s then (ds @ [c], cs, tick s)
         else route_call H ds c cs (if asks_clock c then tick s else s)))"

lemma forward_one_shrinks: "forward_one H (ds, c # cs, s) = (ds', rest, s') \<Longrightarrow> length rest \<le> length cs"
  by (auto simp: forward_one_def delete_call_def route_call_def Let_def split: option.splits prod.splits if_splits)

function forward_calls :: "hal \<Rightarrow> cursor \<Rightarrow> cursor" where
  "forward_calls H (ds, [], s) = (ds, [], s)"
| "forward_calls H (ds, c # cs, s) = forward_calls H (forward_one H (ds, c # cs, s))"
  by pat_completeness auto
termination
  by (relation "measure (\<lambda>(H, ds, rest, s). length rest)")
     (auto simp: less_Suc_eq_le dest: forward_one_shrinks split: prod.split)

definition forward_pass :: "hal \<Rightarrow> server \<Rightarrow> server" where
  "forward_pass H s = (case forward_calls H ([], s_calls s, s) of (ds, _, s') \<Rightarrow> s'\<lparr>s_calls := ds\<rparr>)"

subsection \<open>Answers of the peripheral tasks\<close>

text \<open>The handler of the call, if it has one, is run (\<open>s_handled\<close> records it), and an answer with text is sent on.\<close>

definition run_handler :: "call \<Rightarrow> server \<Rightarrow> server" where
  "run_handler c s = (if call_handler c then s\<lparr>s_handled := s_handled s @ [(call_fid c, call_id c)]\<rparr> else s)"

definition answer_call :: "hal \<Rightarrow> webapi_msg \<Rightarrow> call \<Rightarrow> server \<Rightarrow> server" where
  "answer_call H m c s =
     (let s1 = run_handler c s
      in case m_data m of
           Some (d # ds) \<Rightarrow> snd (bApiCallSendJson H c (d # ds) s1)
         | _ \<Rightarrow> s1)"

text \<open>A subscription goes back to the active calls with the time of its next poll, any other call is freed.\<close>

definition rearm_call :: "hal \<Rightarrow> call \<Rightarrow> server \<Rightarrow> server" where
  "rearm_call H c s =
     (if has_flag FLAG_LONG_TERM c
      then tick (s\<lparr>s_calls := s_calls s @ [c\<lparr>call_next := h_tick H (s_time s) + call_poll c\<rparr>]\<rparr>)
      else s)"

text \<open>The walk over the waiting calls for a broadcast: those that do not match are left in the list.\<close>

fun broadcast :: "hal \<Rightarrow> webapi_msg \<Rightarrow> call list \<Rightarrow> server \<Rightarrow> server" where
  "broadcast H m [] s = s"
| "broadcast H m (c # cs) s =
     (if fid_match (m_fid m) c
      then broadcast H m cs (rearm_call H c (answer_call H m c s))
      else broadcast H m cs (s\<lparr>s_waiting := s_waiting s @ [c]\<rparr>))"

definition id_match :: "u32 \<Rightarrow> call \<Rightarrow> bool" where
  "id_match i c \<longleftrightarrow> call_id c = i \<and> call_session c \<noteq> None"

definition handle_message :: "hal \<Rightarrow> webapi_msg \<Rightarrow> server \<Rightarrow> server" where
  "handle_message H m s =
     (if m_id m = 0 then broadcast H m (s_waiting s) (s\<lparr>s_waiting := []\<rparr>)
      else (case List.extract (id_match (m_id m)) (s_waiting s) of
          None \<Rightarrow> s
        | Some (before, c, after) \<Rightarrow> rearm_call H c (answer_call H m c (s\<lparr>s_waiting := before @ after\<rparr>))))"

text \<open>One answer taken from the worker's queue.\<close>

definition take_message :: "hal \<Rightarrow> server \<Rightarrow> server" where
  "take_message H s = (case queue_receive (s_worker s) of
       None \<Rightarrow> s
     | Some (m, q) \<Rightarrow> handle_message H m (s\<lparr>s_worker := q\<rparr>))"

subsection \<open>The whole pass\<close>

lemma answer_worker [simp]: "s_worker (answer_call H m c s) = s_worker s"
  by (simp add: answer_call_def run_handler_def Let_def split: option.split list.split)

lemma rearm_worker [simp]: "s_worker (rearm_call H c s) = s_worker s"
  by (simp add: rearm_call_def)

lemma broadcast_worker [simp]: "s_worker (broadcast H m cs s) = s_worker s"
  by (induction H m cs s rule: broadcast.induct) simp_all

lemma handle_worker [simp]: "s_worker (handle_message H m s) = s_worker s"
  by (simp add: handle_message_def split: option.split)

text \<open>The answers that are in the queue, one after the other, until it is empty.\<close>

function drain :: "hal \<Rightarrow> server \<Rightarrow> server" where
  "drain H s = (if q_items (s_worker s) = [] then s else drain H (take_message H s))"
  by pat_completeness auto
termination
  by (relation "measure (\<lambda>(H, s). length (q_items (s_worker s)))")
     (auto simp: take_message_def queue_receive_def split: list.split)

declare drain.simps [simp del]

definition worker_step :: "hal \<Rightarrow> server \<Rightarrow> server" where
  "worker_step H s = drain H (forward_pass H (serve_pass H s))"

end
