(* ===== verification/Server_Invariants.thy ===== *)
theory Server_Invariants
  imports Server_Worker
begin

section \<open>The server as an event loop, and its invariant\<close>

text \<open>
  The critical sections of src/ws_server/src/ws_server.c as the events of one loop, whoever runs them: the
  transport (connect, frame, disconnect, end of a transfer), the tasks that register functions and
  answer calls, and the worker's passes. The invariant says that every session a call or a connection
  names is allocated, that numbers are in range, that a waiting call has a queue, and that no queue
  holds more than it has places.
\<close>

subsection \<open>Events\<close>

datatype server_event =
    Connect nat nat
  | Receive_frame nat ws_frame
  | Disconnect nat
  | Transfer_complete bool nat
  | Register_handler u32
  | Unregister_handler u32
  | Register_queue u32 nat
  | Publish u32 jsstr
  | Task_takes nat
  | Task_answers webapi_msg
  | Serve_pass
  | Forward_pass
  | Take_message

text \<open>A connection object is new when it is connected and its descriptor is in no other session's hands;
  frames and the end of the connection come while it has a session.\<close>

fun server_enabled :: "server \<Rightarrow> server_event \<Rightarrow> bool" where
  "server_enabled s (Connect conn fd) \<longleftrightarrow>
     s_user s conn = None \<and> (\<forall>a ss. s_sessions s a = Some ss \<longrightarrow> ss_fd ss \<noteq> fd)"
| "server_enabled s (Receive_frame conn f) \<longleftrightarrow> s_user s conn \<noteq> None"
| "server_enabled s (Disconnect conn) \<longleftrightarrow> s_user s conn \<noteq> None"
| "server_enabled s _ \<longleftrightarrow> True"

fun server_step :: "cjson_lib \<Rightarrow> hal \<Rightarrow> server_event \<Rightarrow> server \<Rightarrow> server" where
  "server_step L H (Connect conn fd) s = ws_server_on_connect H conn fd s"
| "server_step L H (Receive_frame conn f) s = ws_server_on_frame L H conn f s"
| "server_step L H (Disconnect conn) s = ws_server_on_disconnect conn s"
| "server_step L H (Transfer_complete err fd) s = vWsTransferComplete_cb H err fd s"
| "server_step L H (Register_handler fid) s = snd (bApiCallRegister H fid s)"
| "server_step L H (Unregister_handler fid) s = snd (bApiCallUnregister H fid s)"
| "server_step L H (Register_queue fid q) s = snd (ws_server_register_fid_queue H fid q s)"
| "server_step L H (Publish fid json) s = snd (bApiCallSendJsonFidGroup H fid json s)"
| "server_step L H (Task_takes q) s =
     (case queue_receive (s_queues s q) of None \<Rightarrow> s | Some (_, q') \<Rightarrow> s\<lparr>s_queues := (s_queues s)(q := q')\<rparr>)"
| "server_step L H (Task_answers m) s = s\<lparr>s_worker := queue_offer m (s_worker s)\<rparr>"
| "server_step L H Serve_pass s = serve_pass H s"
| "server_step L H Forward_pass s = forward_pass H s"
| "server_step L H Take_message s = take_message H s"

abbreviation server_reachable :: "(nat \<Rightarrow> nat) \<Rightarrow> cjson_lib \<Rightarrow> hal \<Rightarrow> server \<Rightarrow> bool" where
  "server_reachable caps L H \<equiv> reachable (ws_server_init caps) server_enabled (server_step L H)"

subsection \<open>The invariant\<close>

definition call_ok :: "(nat \<Rightarrow> session option) \<Rightarrow> call \<Rightarrow> bool" where
  "call_ok ses c \<longleftrightarrow> alive_call ses c \<and> call_fid c \<noteq> 0 \<and> unat (call_id c) < 65536"

definition sessions_ok :: "(nat \<Rightarrow> session option) \<Rightarrow> (nat \<Rightarrow> nat option) \<Rightarrow> nat \<Rightarrow> bool" where
  "sessions_ok ses usr nxt \<longleftrightarrow>
     (\<forall>c a. usr c = Some a \<longrightarrow> (\<exists>ss. ses a = Some ss \<and> ss_conn ss = c))
   \<and> (\<forall>a ss. ses a = Some ss \<longrightarrow> a < nxt \<and> usr (ss_conn ss) = Some a)
   \<and> (\<forall>a b ss tt. ses a = Some ss \<and> ses b = Some tt \<and> ss_fd ss = ss_fd tt \<longrightarrow> a = b)"

definition tables_ok :: "u32 list \<Rightarrow> (u32 \<times> nat) list \<Rightarrow> bool" where
  "tables_ok hs rs \<longleftrightarrow> distinct hs \<and> 0 \<notin> set hs \<and> distinct (map fst rs)"

definition queues_ok :: "server \<Rightarrow> bool" where
  "queues_ok s \<longleftrightarrow> (\<forall>q. hal.within (s_queues s q)) \<and> hal.within (s_worker s)"

definition routed :: "(u32 \<times> nat) list \<Rightarrow> call \<Rightarrow> bool" where
  "routed rs c \<longleftrightarrow> map_of rs (call_fid c) \<noteq> None"

text \<open>What has been sent since the frames \<open>out\<close> went to connections of \<open>U\<close>, to which those with a session belong.\<close>

definition sent_within :: "nat set \<Rightarrow> (nat \<times> ws_frame) list \<Rightarrow> server \<Rightarrow> bool" where
  "sent_within U out s \<longleftrightarrow> (\<exists>fs. s_out s = out @ fs \<and> fst ` set fs \<subseteq> U) \<and> dom (s_user s) \<subseteq> U"

definition server_inv :: "nat set \<Rightarrow> (nat \<times> ws_frame) list \<Rightarrow> server \<Rightarrow> bool" where
  "server_inv U out s \<longleftrightarrow> \<not> s_fault s \<and> sessions_ok (s_sessions s) (s_user s) (s_next s)
     \<and> tables_ok (s_handlers s) (s_routes s) \<and> queues_ok s
     \<and> list_all (call_ok (s_sessions s)) (s_calls s)
     \<and> list_all (call_ok (s_sessions s)) (s_waiting s) \<and> list_all (routed (s_routes s)) (s_waiting s)
     \<and> sent_within U out s"

subsection \<open>Calls and sessions\<close>

lemma call_ok_simps [simp]:
  "call_ok ses (c\<lparr>call_next := n\<rparr>) = call_ok ses c" "call_ok ses (c\<lparr>call_flags := f\<rparr>) = call_ok ses c"
  "call_ok ses (c\<lparr>call_data := d\<rparr>) = call_ok ses c" "call_ok ses (c\<lparr>call_pending := p\<rparr>) = call_ok ses c"
  "routed rs (c\<lparr>call_next := n\<rparr>) = routed rs c" "routed rs (c\<lparr>call_flags := f\<rparr>) = routed rs c"
  "routed rs (c\<lparr>call_data := d\<rparr>) = routed rs c" "routed rs (c\<lparr>call_pending := p\<rparr>) = routed rs c"
  "routed rs (c\<lparr>call_session := x\<rparr>) = routed rs c" "routed rs (break_call c) = routed rs c"
  by (simp_all add: call_ok_def alive_call_def dangling_def routed_def break_call_def)

lemma call_ok_broken [simp]:
  "call_ok ses c \<Longrightarrow> call_ok ses (break_call c)" "call_ok ses c \<Longrightarrow> call_ok ses (c\<lparr>call_session := None\<rparr>)"
  by (simp_all add: call_ok_def alive_call_def dangling_def break_call_def)

lemma call_ok_complete: "call_ok ses c \<Longrightarrow> call_ok ses (vApiCallComplete c)"
  by (simp add: call_ok_def alive_call_def dangling_def vApiCallComplete_def Let_def split: option.splits)

lemma routed_complete [simp]: "routed rs (vApiCallComplete c) = routed rs c"
  by (simp add: routed_def vApiCallComplete_def Let_def)

lemma call_ok_alive [simp]: "call_ok ses c \<Longrightarrow> alive_call ses c"
  by (simp add: call_ok_def)

text \<open>Writing a live session leaves the calls alive, and freeing one leaves those of others.\<close>

lemma call_ok_update: "ses a \<noteq> None \<Longrightarrow> call_ok (ses(a \<mapsto> x)) c = call_ok ses c"
  by (auto simp: call_ok_def alive_call_def dangling_def split: option.splits)

lemma call_ok_grow: "call_ok ses c \<Longrightarrow> call_ok (ses(a \<mapsto> x)) c"
  by (auto simp: call_ok_def alive_call_def dangling_def split: option.splits)

lemma list_all_call_ok_update: "ses a \<noteq> None \<Longrightarrow> list_all (call_ok (ses(a \<mapsto> x))) cs = list_all (call_ok ses) cs"
  by (simp add: call_ok_update cong: list.pred_cong)

lemma sessions_okI:
  assumes "\<And>c a. usr c = Some a \<Longrightarrow> \<exists>ss. ses a = Some ss \<and> ss_conn ss = c"
    and "\<And>a ss. ses a = Some ss \<Longrightarrow> a < nxt \<and> usr (ss_conn ss) = Some a"
    and "\<And>a b ss tt. ses a = Some ss \<Longrightarrow> ses b = Some tt \<Longrightarrow> ss_fd ss = ss_fd tt \<Longrightarrow> a = b"
  shows "sessions_ok ses usr nxt"
  unfolding sessions_ok_def using assms by blast

lemma sessions_okD:
  assumes "sessions_ok ses usr nxt"
  shows "usr c = Some a \<Longrightarrow> \<exists>ss. ses a = Some ss \<and> ss_conn ss = c"
    and "ses a = Some ss \<Longrightarrow> a < nxt" and "ses a = Some ss \<Longrightarrow> usr (ss_conn ss) = Some a"
    and "ses a = Some ss \<Longrightarrow> ses b = Some tt \<Longrightarrow> ss_fd ss = ss_fd tt \<Longrightarrow> a = b"
  using assms unfolding sessions_ok_def by blast+

lemma sessions_ok_update:
  assumes "sessions_ok ses usr n" and "ses a = Some ss" and "ss_conn x = ss_conn ss" and "ss_fd x = ss_fd ss"
  shows "sessions_ok (ses(a \<mapsto> x)) usr n"
  by (rule sessions_okI)
     (use assms sessions_okD [OF assms(1)] in \<open>fastforce split: if_splits\<close>)+

lemma sessions_ok_connect:
  assumes ok: "sessions_ok ses usr n" and "usr conn = None" and "\<forall>a ss. ses a = Some ss \<longrightarrow> ss_fd ss \<noteq> ss_fd x"
    and "ss_conn x = conn"
  shows "sessions_ok (ses(n \<mapsto> x)) (usr(conn \<mapsto> n)) (Suc n)"
proof (rule sessions_okI)
  show "\<exists>ss. (ses(n \<mapsto> x)) a = Some ss \<and> ss_conn ss = c" if "(usr(conn \<mapsto> n)) c = Some a" for c a
    using that assms(4) sessions_okD(1,2) [OF ok] by (fastforce split: if_splits)
  show "a < Suc n \<and> (usr(conn \<mapsto> n)) (ss_conn ss) = Some a" if "(ses(n \<mapsto> x)) a = Some ss" for a ss
    using that assms(2,4) sessions_okD(2,3) [OF ok, of a ss] by (auto split: if_splits)
  show "a = b" if "(ses(n \<mapsto> x)) a = Some ss" "(ses(n \<mapsto> x)) b = Some tt" "ss_fd ss = ss_fd tt" for a b ss tt
    using that assms(3) sessions_okD(4) [OF ok, of a ss b tt] by (auto split: if_splits)
qed

lemma sessions_ok_disconnect:
  assumes ok: "sessions_ok ses usr n" and "usr conn = Some a"
  shows "sessions_ok (ses(a := None)) (usr(conn := None)) n"
proof (rule sessions_okI)
  show "\<exists>ss. (ses(a := None)) b = Some ss \<and> ss_conn ss = c" if "(usr(conn := None)) c = Some b" for c b
    using that assms(2) sessions_okD(1) [OF ok, of c b] sessions_okD(1) [OF ok, of conn a] by (auto split: if_splits)
  show "b < n \<and> (usr(conn := None)) (ss_conn ss) = Some b" if "(ses(a := None)) b = Some ss" for b ss
    using that assms(2) sessions_okD(2,3) [OF ok, of b ss] by (auto split: if_splits)
  show "b = d" if "(ses(a := None)) b = Some ss" "(ses(a := None)) d = Some tt" "ss_fd ss = ss_fd tt" for b d ss tt
    using that sessions_okD(4) [OF ok, of b ss d tt] by (auto split: if_splits)
qed

lemma sessions_ok_user:
  "sessions_ok ses usr n \<Longrightarrow> usr conn = Some a \<Longrightarrow> \<exists>ss. ses a = Some ss \<and> ss_conn ss = conn"
  by (simp add: sessions_ok_def)

subsection \<open>Every operation keeps the invariant\<close>

lemma server_ok_calls:
  assumes "server_inv U out s"
  shows "c \<in> set (s_calls s) \<Longrightarrow> call_ok (s_sessions s) c" "c \<in> set (s_waiting s) \<Longrightarrow> call_ok (s_sessions s) c"
    "c \<in> set (s_waiting s) \<Longrightarrow> routed (s_routes s) c"
  using assms by (auto simp: server_inv_def list_all_iff)

lemma server_ok_lists:
  assumes "server_inv U out s"
  shows "list_all (call_ok (s_sessions s)) (s_calls s)" "list_all (call_ok (s_sessions s)) (s_waiting s)"
    "list_all (routed (s_routes s)) (s_waiting s)"
  using assms by (simp_all add: server_inv_def)

lemma server_ok_set_calls:
  "server_inv U out s \<Longrightarrow> list_all (call_ok (s_sessions s)) cs \<Longrightarrow> server_inv U out (s\<lparr>s_calls := cs\<rparr>)"
  by (simp add: server_inv_def queues_ok_def sent_within_def)

lemma server_ok_set_waiting:
  "server_inv U out s \<Longrightarrow> list_all (call_ok (s_sessions s)) cs \<Longrightarrow> list_all (routed (s_routes s)) cs
     \<Longrightarrow> server_inv U out (s\<lparr>s_waiting := cs\<rparr>)"
  by (simp add: server_inv_def queues_ok_def sent_within_def)

lemma list_all_mapI: "list_all P xs \<Longrightarrow> (\<And>x. P x \<Longrightarrow> Q (f x)) \<Longrightarrow> list_all Q (map f xs)"
  by (induction xs) simp_all

lemma server_ok_tick [simp]: "server_inv U out (tick s) = server_inv U out s"
  by (simp add: server_inv_def queues_ok_def sent_within_def)

lemma server_ok_handled [simp]: "server_inv U out (run_handler c s) = server_inv U out s"
  by (simp add: run_handler_def server_inv_def queues_ok_def sent_within_def)

text \<open>A frame goes to a connection that has a session.\<close>

lemma server_ok_send_async:
  assumes "server_inv U out s" and "conn \<in> U"
  shows "server_inv U out (snd (ws_conn_send_async H conn f s))"
proof -
  obtain fs where "s_out s = out @ fs" "fst ` set fs \<subseteq> U"
    using assms(1) by (auto simp: server_inv_def sent_within_def)
  then have "\<exists>gs. s_out (snd (ws_conn_send_async H conn f s)) = out @ gs \<and> fst ` set gs \<subseteq> U"
    using assms(2) by (intro exI [of _ "fs @ (if h_accepts H (s_time s) conn then [(conn, f)] else [])"])
      (simp add: ws_conn_send_async_def)
  then show ?thesis
    using assms(1) by (simp add: server_inv_def queues_ok_def sent_within_def)
qed

lemma session_conn_in: "server_inv U out s \<Longrightarrow> s_sessions s a = Some ss \<Longrightarrow> ss_conn ss \<in> U"
  unfolding server_inv_def sent_within_def by (auto dest: sessions_okD(3))

lemma ok_send_to: "server_inv U out s \<Longrightarrow> s_sessions s a \<noteq> None \<Longrightarrow> server_inv U out (snd (send_to_session H a t s))
    \<and> s_sessions (snd (send_to_session H a t s)) = s_sessions s"
  by (auto simp: send_to_session_def intro!: server_ok_send_async dest: session_conn_in)

lemma server_ok_send_json:
  assumes "server_inv U out s" and "alive_call (s_sessions s) c"
  shows "server_inv U out (snd (bApiCallSendJson H c j s))"
  using assms(2) assms(1)
  by (cases rule: alive_callE) (simp_all add: bApiCallSendJson_def ok_send_to)

lemma server_ok_send_status: "server_inv U out s \<Longrightarrow> alive_call (s_sessions s) c \<Longrightarrow> server_inv U out (snd (bApiCallSendStatus H c j s))"
  by (simp add: bApiCallSendStatus_def server_ok_send_json)

lemma alive_user: "server_inv U out s \<Longrightarrow> s_user s conn = Some a \<Longrightarrow> call_session c = Some a \<Longrightarrow> alive_call (s_sessions s) c"
  unfolding server_inv_def by (auto dest: sessions_okD(1) simp: alive_call_def dangling_def)

lemma ok_register: "server_inv U out s \<Longrightarrow> server_inv U out (snd (bApiCallRegister H fid s))"
  by (simp add: bApiCallRegister_def) (simp add: server_inv_def queues_ok_def sent_within_def tables_ok_def)

lemma ok_break_fid: "server_inv U out s \<Longrightarrow> server_inv U out (vBreakApiCallsByFid fid s)"
  by (auto simp: vBreakApiCallsByFid_def Let_def server_inv_def queues_ok_def sent_within_def list_all_iff)

lemma ok_unregister: "server_inv U out s \<Longrightarrow> server_inv U out (snd (bApiCallUnregister H fid s))"
  using ok_break_fid [of U out s fid]
  by (auto simp: bApiCallUnregister_def)
     (auto simp: server_inv_def queues_ok_def sent_within_def tables_ok_def vBreakApiCallsByFid_def Let_def dest: notin_set_remove1)

lemma routed_append: "routed rs c \<Longrightarrow> routed (rs @ xs) c"
  by (auto simp: routed_def map_add_def split: option.split)

lemma ok_route: "server_inv U out s \<Longrightarrow> server_inv U out (snd (ws_server_register_fid_queue H fid q s))"
  by (auto simp: ws_server_register_fid_queue_def server_inv_def queues_ok_def sent_within_def tables_ok_def ws_get_fid_queue_def
      list_all_iff routed_append map_of_eq_None_iff)

lemma fid_match_alive: "server_inv U out s \<Longrightarrow> c \<in> set (s_waiting s) \<union> set (s_calls s) \<Longrightarrow> fid_match fid c
    \<Longrightarrow> \<exists>a ss. call_session c = Some a \<and> s_sessions s a = Some ss"
  by (auto simp: fid_match_def dest: server_ok_calls intro: alive_callE [OF call_ok_alive])

lemma ok_send_each:
  "server_inv U out (snd r) \<Longrightarrow> \<forall>c \<in> set cs. \<exists>a ss. call_session c = Some a \<and> s_sessions (snd r) a = Some ss
     \<Longrightarrow> server_inv U out (snd (send_to_each H t cs r))"
proof (induction H t cs r rule: send_to_each.induct)
  case (2 H t c cs b s)
  then obtain a ss where a: "call_session c = Some a" "s_sessions s a = Some ss" by auto
  show ?case using 2 a ok_send_to [of U out s a H t] by simp
qed simp

lemma ok_publish: "server_inv U out s \<Longrightarrow> server_inv U out (snd (bApiCallSendJsonFidGroup H fid json s))"
  by (auto simp: bApiCallSendJsonFidGroup_def Let_def intro!: ok_send_each dest: fid_match_alive)

lemma ok_connect: "server_inv U out s \<Longrightarrow> server_enabled s (Connect conn fd) \<Longrightarrow> conn \<in> U \<Longrightarrow> server_inv U out (ws_server_on_connect H conn fd s)"
  unfolding ws_server_on_connect_def Let_def server_ok_tick
  by (auto simp: server_inv_def queues_ok_def sent_within_def list_all_iff call_ok_grow intro!: sessions_ok_connect)

text \<open>Breaking the calls of a descriptor leaves none of them on it.\<close>

lemma break_fd_eq:
  assumes "server_inv U out s"
  shows "vBreakApiCallsByFd fd s =
    s\<lparr>s_calls := map (\<lambda>c. if call_fd (s_sessions s) c = Some fd then break_call c else c) (s_calls s),
      s_waiting := map (\<lambda>c. if call_fd (s_sessions s) c = Some fd then break_call c else c) (s_waiting s)\<rparr>"
proof -
  have "list_all (alive_call (s_sessions s)) (s_calls s @ s_waiting s)"
    using server_ok_calls [OF assms] by (auto simp: list_all_iff)
  then show ?thesis by (simp add: vBreakApiCallsByFd_def Let_def check_calls_ok)
qed

lemma ok_break_fd: "server_inv U out s \<Longrightarrow> server_inv U out (vBreakApiCallsByFd fd s)"
  by (auto simp: break_fd_eq) (auto simp: server_inv_def queues_ok_def sent_within_def list_all_iff)

lemma ok_transfer: "server_inv U out s \<Longrightarrow> server_inv U out (vWsTransferComplete_cb H err fd s)"
  by (simp add: vWsTransferComplete_cb_def ok_break_fd)

lemma ok_disconnect:
  assumes "server_inv U out s"
  shows "server_inv U out (ws_server_on_disconnect conn s)"
proof (cases "s_user s conn")
  case None
  with assms show ?thesis by (simp add: ws_server_on_disconnect_def)
next
  case (Some a)
  with assms obtain ss where ss: "s_sessions s a = Some ss" "ss_conn ss = conn"
    unfolding server_inv_def by (auto dest: sessions_okD(1))
  let ?br = "\<lambda>c. if call_fd (s_sessions s) c = Some (ss_fd ss) then break_call c else c"
  have eq: "ws_server_on_disconnect conn s = s\<lparr>s_user := (s_user s)(conn := None), s_calls := map ?br (s_calls s),
      s_waiting := map ?br (s_waiting s), s_sessions := (s_sessions s)(a := None)\<rparr>"
  proof -
    have "list_all (alive_call (s_sessions s)) (s_calls s @ s_waiting s)"
      using server_ok_calls [OF assms] by (auto simp: list_all_iff)
    then show ?thesis
      using Some ss by (simp add: ws_server_on_disconnect_def vBreakApiCallsByFd_def Let_def check_calls_ok)
  qed
  have br: "call_ok ((s_sessions s)(a := None)) (?br c)" if "call_ok (s_sessions s) c" for c
    using that ss by (auto simp: call_ok_def alive_call_def dangling_def break_call_def call_fd_def split: option.splits)
  have "list_all (call_ok ((s_sessions s)(a := None))) (map ?br (s_calls s))"
    and "list_all (call_ok ((s_sessions s)(a := None))) (map ?br (s_waiting s))"
    by (rule list_all_mapI, rule server_ok_lists [OF assms], rule br, assumption)+
  moreover have "list_all (routed (s_routes s)) (map ?br (s_waiting s))"
    by (rule list_all_mapI, rule server_ok_lists(3) [OF assms]) simp
  moreover have "sessions_ok ((s_sessions s)(a := None)) ((s_user s)(conn := None)) (s_next s)"
    using assms Some by (auto simp: server_inv_def intro: sessions_ok_disconnect)
  ultimately show ?thesis
    using assms by (auto simp: eq server_inv_def queues_ok_def sent_within_def simp del: list.pred_map)
qed

lemma ok_note_alive: "server_inv U out s \<Longrightarrow> server_inv U out (note_alive H conn s)"
  unfolding note_alive_def
  by (auto split: option.split simp: server_inv_def queues_ok_def sent_within_def call_ok_update list_all_iff
      intro: sessions_ok_update dest: sessions_okD(1))

lemma note_alive_user [simp]: "s_user (note_alive H conn s) = s_user s"
  by (simp add: note_alive_def fault_def split: option.split)

lemma ok_on_text:
  assumes ok: "server_inv U out s"
  shows "server_inv U out (ws_server_on_text L H conn data s)"
proof (cases rule: on_text_cases [of L H conn data s])
  case 1
  with ok show ?thesis by simp
next
  case (2 c a sta)
  with ok show ?thesis by (simp add: server_ok_send_status alive_user)
next
  case (3 c a)
  have "call_ok (s_sessions s) c"
    using 3 alive_user [OF ok] by (auto simp: call_ok_def and_mask_less)
  with ok show ?thesis unfolding 3(1) by (simp add: server_inv_def queues_ok_def sent_within_def)
qed

lemma server_user: "server_inv U out s \<Longrightarrow> s_user s conn \<noteq> None \<Longrightarrow> conn \<in> U"
  by (auto simp: server_inv_def sent_within_def)

lemma ok_on_frame: "server_inv U out s \<Longrightarrow> s_user s conn \<noteq> None \<Longrightarrow> server_inv U out (ws_server_on_frame L H conn f s)"
  by (auto simp: ws_server_on_frame_def Let_def server_user intro!: ok_on_text ok_note_alive server_ok_send_async
      split: ws_frame_type.split)

subsection \<open>The worker keeps the invariant\<close>

lemma serve_one:
  assumes "server_inv U out s" and "call_ok (s_sessions s) c" and "vServeApiCall H c s = (r, s')"
  shows "server_inv U out s' \<and> call_ok (s_sessions s') = call_ok (s_sessions s) \<and> s_routes s' = s_routes s
    \<and> s_calls s' = s_calls s \<and> s_waiting s' = s_waiting s
    \<and> (\<forall>d. r = Some d \<longrightarrow> call_ok (s_sessions s') d \<and> routed (s_routes s') d = routed (s_routes s) c)"
proof (cases "call_session c")
  case None
  with assms show ?thesis by (simp add: vServeApiCall_def)
next
  case (Some a)
  with assms(2) obtain ss where ss: "s_sessions s a = Some ss"
    by (auto elim: alive_callE [OF call_ok_alive])
  have upd: "call_ok ((s_sessions s)(a \<mapsto> x)) = call_ok (s_sessions s)" for x
    using ss by (simp add: call_ok_update fun_eq_iff)
  let ?o = "s_out s @ [(ss_conn ss, ping_frame)]"
  have "ss_conn ss \<in> U" using session_conn_in [OF assms(1) ss] .
  then have "sent_within U out (s\<lparr>s_out := ?o\<rparr>)"
    using assms(1) by (auto simp: server_inv_def sent_within_def)
  then have ok: "server_inv U out (s\<lparr>s_out := ?o, s_sessions := (s_sessions s)(a \<mapsto> ss\<lparr>ss_ping := t\<rparr>), s_time := n\<rparr>)" for t n
    using assms(1) upd ss
    by (auto simp: server_inv_def queues_ok_def sent_within_def intro: sessions_ok_update)
  consider "r = Some c" "s' = tick s" | "r = Some (vApiCallComplete c)" "s' = tick (tick s)"
    | t n where "r = Some c" "s' = s\<lparr>s_out := ?o, s_sessions := (s_sessions s)(a \<mapsto> ss\<lparr>ss_ping := t\<rparr>), s_time := n\<rparr>"
  proof (cases "PING_DELAY \<le> h_tick H (s_time s) - ss_alive ss \<and> PING_DELAY \<le> h_tick H (s_time s) - ss_ping ss")
    case False
    then show thesis
      using assms(3) Some ss by (intro that(1)) (auto simp: vServeApiCall_def Let_def)
  next
    case True
    show thesis
    proof (cases rule: send_frame_cases [of H "ss_conn ss" ping_frame "tick s"])
      case 1
      show thesis by (rule that(3)) (use assms(3) Some ss True 1(1) in \<open>auto simp: vServeApiCall_def Let_def tick_eq\<close>)
    next
      case 2
      show thesis by (rule that(2)) (use assms(3) Some ss True 2(1) in \<open>auto simp: vServeApiCall_def Let_def\<close>)
    qed
  qed
  then show ?thesis
    using assms(1,2) upd ok by cases (simp_all add: call_ok_complete)
qed

lemma serve_list:
  assumes "serve_calls H cs s = (cs', s')" and "server_inv U out s" and "list_all (call_ok (s_sessions s)) cs"
  shows "server_inv U out s' \<and> call_ok (s_sessions s') = call_ok (s_sessions s) \<and> s_routes s' = s_routes s
    \<and> s_calls s' = s_calls s \<and> s_waiting s' = s_waiting s
    \<and> list_all (call_ok (s_sessions s')) cs'
    \<and> (list_all (routed (s_routes s)) cs \<longrightarrow> list_all (routed (s_routes s)) cs')"
  using assms
proof (induction H cs s arbitrary: cs' s' rule: serve_calls.induct)
  case (2 H c cs s)
  obtain r s1 where r: "vServeApiCall H c s = (r, s1)" by (cases "vServeApiCall H c s")
  obtain ds s2 where ds: "serve_calls H cs s1 = (ds, s2)" by (cases "serve_calls H cs s1")
  have one: "server_inv U out s1 \<and> call_ok (s_sessions s1) = call_ok (s_sessions s) \<and> s_routes s1 = s_routes s
    \<and> s_calls s1 = s_calls s \<and> s_waiting s1 = s_waiting s
    \<and> (\<forall>d. r = Some d \<longrightarrow> call_ok (s_sessions s1) d \<and> routed (s_routes s1) d = routed (s_routes s) c)"
    by (rule serve_one [OF _ _ r]) (use "2.prems" in simp_all)
  show ?case
  proof (cases r)
    case None
    then show ?thesis
      using "2.IH"(1) [OF r [symmetric] None] "2.prems" one r by auto
  next
    case (Some d)
    then show ?thesis
      using "2.IH"(2) [OF r [symmetric] Some ds] "2.prems" one r ds by auto
  qed
qed simp

lemma ok_serve_pass:
  assumes ok: "server_inv U out s"
  shows "server_inv U out (serve_pass H s)"
proof -
  obtain cs s1 where 1: "serve_calls H (s_calls s) s = (cs, s1)" by (cases "serve_calls H (s_calls s) s")
  note f1 = serve_list [OF 1 ok server_ok_lists(1) [OF ok]]
  have ok1: "server_inv U out (s1\<lparr>s_calls := cs\<rparr>)"
    using f1 server_ok_set_calls by blast
  obtain ws s2 where 2: "serve_calls H (s_waiting s) (s1\<lparr>s_calls := cs\<rparr>) = (ws, s2)"
    by (cases "serve_calls H (s_waiting s) (s1\<lparr>s_calls := cs\<rparr>)")
  have "list_all (call_ok (s_sessions (s1\<lparr>s_calls := cs\<rparr>))) (s_waiting s)"
    using f1 server_ok_lists(2) [OF ok] by simp
  note f2 = serve_list [OF 2 ok1 this]
  have "list_all (routed (s_routes s2)) ws"
    using f1 f2 server_ok_lists(3) [OF ok] by simp
  then have "server_inv U out (s2\<lparr>s_waiting := ws\<rparr>)"
    using f2 server_ok_set_waiting by blast
  then show ?thesis using 1 2 by (simp add: serve_pass_def)
qed

text \<open>The cursor of the forward pass: the state with the calls left behind and those to come is in order.\<close>

fun cursor_ok :: "nat set \<Rightarrow> (nat \<times> ws_frame) list \<Rightarrow> cursor \<Rightarrow> bool" where
  "cursor_ok U out (ds, cs, s) \<longleftrightarrow> server_inv U out s \<and> list_all (call_ok (s_sessions s)) ds \<and> list_all (call_ok (s_sessions s)) cs"

lemma list_all_filter: "list_all P xs \<Longrightarrow> list_all P (filter Q xs)"
  by (simp add: list_all_iff)

lemma check_cursor: "server_inv U out s \<Longrightarrow> list_all (call_ok (s_sessions s)) cs \<Longrightarrow> check_calls cs s = s"
  by (auto intro!: check_calls_ok simp: list_all_iff)

lemma ok_delete_call:
  assumes "server_inv U out s" "list_all (call_ok (s_sessions s)) ds" "list_all (call_ok (s_sessions s)) (c # cs)"
  shows "cursor_ok U out (delete_call H ds c cs s)"
proof -
  let ?s = "snd (bApiCallSendStatus H c STATUS_DELIVERED s)"
  have ok: "server_inv U out ?s" using assms by (intro server_ok_send_status) simp_all
  have "check_calls (c # s_waiting ?s @ ds @ cs) ?s = ?s"
    using assms server_ok_lists(2) [OF assms(1)] by (intro check_cursor [OF ok]) simp
  moreover have "server_inv U out (?s\<lparr>s_waiting := filter P (s_waiting ?s)\<rparr>)" for P
    using server_ok_lists(2,3) [OF ok] by (intro server_ok_set_waiting [OF ok] list_all_filter)
  ultimately show ?thesis
    using ok assms by (simp add: delete_call_def Let_def list_all_filter)
qed

lemma ok_queue_send:
  "server_inv U out s \<Longrightarrow> queue_send m (s_queues s q) = Some q' \<Longrightarrow> server_inv U out (s\<lparr>s_queues := (s_queues s)(q := q')\<rparr>)"
  by (auto simp: server_inv_def queues_ok_def sent_within_def dest: hal.send_within)

lemma ok_forward:
  assumes "server_inv U out s" and "call_ok (s_sessions s) c" and "vForwardCallToPeripheral H c q s = (c', s')"
  shows "server_inv U out s' \<and> call_ok (s_sessions s') c' \<and> s_sessions s' = s_sessions s \<and> s_routes s' = s_routes s
    \<and> s_waiting s' = s_waiting s \<and> call_fid c' = call_fid c"
  using assms ok_queue_send [of U out s "request_of c" q]
  by (auto simp: vForwardCallToPeripheral_def server_ok_send_status break_call_def split: option.splits)

lemma ok_tell:
  assumes "server_inv U out s" and "call_ok (s_sessions s) c" and "tell_new H c s = (c', s')"
  shows "server_inv U out s' \<and> call_ok (s_sessions s') c' \<and> s_sessions s' = s_sessions s \<and> s_routes s' = s_routes s
    \<and> s_waiting s' = s_waiting s \<and> call_fid c' = call_fid c"
proof -
  have "server_inv U out (snd (bApiCallSendStatus H c STATUS_DELIVERED s))"
    using assms by (intro server_ok_send_status) simp_all
  moreover have "snd (bApiCallSendStatus H c STATUS_DELIVERED s) = s' \<or> s' = s" "call_ok (s_sessions s) c'" "call_fid c' = call_fid c"
    using assms by (auto simp: tell_new_def split: if_splits prod.splits)
  ultimately show ?thesis using assms(1) by auto
qed

lemma ok_route_call:
  assumes "server_inv U out s" "list_all (call_ok (s_sessions s)) ds" "list_all (call_ok (s_sessions s)) (c # cs)"
  shows "cursor_ok U out (route_call H ds c cs s)"
proof (cases "ws_get_fid_queue (call_fid c) s")
  case None
  with assms show ?thesis by (simp add: route_call_def server_ok_send_status)
next
  case (Some q)
  obtain c1 s1 where 1: "vForwardCallToPeripheral H c q s = (c1, s1)" by fastforce
  obtain c2 s2 where 2: "tell_new H c1 s1 = (c2, s2)" by fastforce
  have f1: "server_inv U out s1 \<and> call_ok (s_sessions s1) c1 \<and> s_sessions s1 = s_sessions s \<and> s_routes s1 = s_routes s
      \<and> s_waiting s1 = s_waiting s \<and> call_fid c1 = call_fid c"
    using assms(3) by (intro ok_forward [OF assms(1) _ 1]) simp
  then have f2: "server_inv U out s2 \<and> call_ok (s_sessions s2) c2 \<and> s_sessions s2 = s_sessions s1 \<and> s_routes s2 = s_routes s1
      \<and> s_waiting s2 = s_waiting s1 \<and> call_fid c2 = call_fid c1"
    using ok_tell [OF _ _ 2] by blast
  have "routed (s_routes s2) c2"
    using Some f1 f2 by (simp add: routed_def ws_get_fid_queue_def)
  then have "server_inv U out (s2\<lparr>s_waiting := s_waiting s2 @ [c2]\<rparr>)"
    using f2 server_ok_lists(2,3) [of U out s2] by (intro server_ok_set_waiting) auto
  then show ?thesis
    using assms f1 f2 Some 1 2 by (simp add: route_call_def)
qed

lemma ok_forward_one: "cursor_ok U out (ds, cs, s) \<Longrightarrow> cursor_ok U out (forward_one H (ds, cs, s))"
  by (auto simp: forward_one_def simp del: cursor_ok.simps split: list.split intro!: ok_delete_call ok_route_call)
     (simp_all add: list.pred_inject)

lemma ok_forward_calls: "cursor_ok U out k \<Longrightarrow> cursor_ok U out (forward_calls H k)"
proof (induction H k rule: forward_calls.induct)
  case (2 H ds c cs s)
  then show ?case by (simp add: ok_forward_one del: cursor_ok.simps)
qed simp

lemma ok_forward_pass: "server_inv U out s \<Longrightarrow> server_inv U out (forward_pass H s)"
  using ok_forward_calls [of U out "([], s_calls s, s)" H] server_ok_lists(1) [of U out s]
  by (auto simp: forward_pass_def split: prod.split intro: server_ok_set_calls)

text \<open>Answers: the walk of a broadcast keeps the state and the calls to come in order.\<close>

lemma run_handler_sessions [simp]: "s_sessions (run_handler c s) = s_sessions s"
  by (simp add: run_handler_def)

lemma answer_sessions [simp]:
  "s_sessions (answer_call H m c s) = s_sessions s" "s_routes (answer_call H m c s) = s_routes s"
  "s_calls (answer_call H m c s) = s_calls s" "s_waiting (answer_call H m c s) = s_waiting s"
  by (simp_all add: answer_call_def run_handler_def Let_def split: option.split list.split)

lemma rearm_sessions [simp]:
  "s_sessions (rearm_call H c s) = s_sessions s" "s_routes (rearm_call H c s) = s_routes s"
  "s_waiting (rearm_call H c s) = s_waiting s"
  by (simp_all add: rearm_call_def)

lemma ok_answer: "server_inv U out s \<Longrightarrow> call_ok (s_sessions s) c \<Longrightarrow> server_inv U out (answer_call H m c s)"
  by (auto simp: answer_call_def Let_def intro!: server_ok_send_json split: option.split list.split)

lemma ok_rearm: "server_inv U out s \<Longrightarrow> call_ok (s_sessions s) c \<Longrightarrow> server_inv U out (rearm_call H c s)"
  using server_ok_lists(1) [of U out s] by (auto simp: rearm_call_def intro!: server_ok_set_calls)

lemma ok_broadcast:
  "server_inv U out s \<Longrightarrow> list_all (call_ok (s_sessions s)) cs \<Longrightarrow> list_all (routed (s_routes s)) cs
     \<Longrightarrow> server_inv U out (broadcast H m cs s)"
proof (induction H m cs s rule: broadcast.induct)
  case (2 H m c cs s)
  have "server_inv U out (s\<lparr>s_waiting := s_waiting s @ [c]\<rparr>)"
    using 2(3-5) server_ok_lists(2,3) [OF 2(3)] by (intro server_ok_set_waiting) simp_all
  moreover have "server_inv U out (rearm_call H c (answer_call H m c s))"
    using 2(3-5) by (intro ok_rearm ok_answer) simp_all
  ultimately show ?case using 2 by simp
qed simp

lemma ok_handle_message: "server_inv U out s \<Longrightarrow> server_inv U out (handle_message H m s)"
proof -
  assume ok: "server_inv U out s"
  note lists = server_ok_lists [OF ok]
  have "server_inv U out (s\<lparr>s_waiting := []\<rparr>)" by (intro server_ok_set_waiting ok) simp_all
  then have "server_inv U out (broadcast H m (s_waiting s) (s\<lparr>s_waiting := []\<rparr>))"
    by (rule ok_broadcast) (use lists in simp_all)
  moreover have "server_inv U out (rearm_call H c (answer_call H m c (s\<lparr>s_waiting := xs @ ys\<rparr>)))"
    if "List.extract P (s_waiting s) = Some (xs, c, ys)" for P xs c ys
  proof -
    have w: "s_waiting s = xs @ c # ys" using that by (simp add: extract_Some_iff)
    have "server_inv U out (s\<lparr>s_waiting := xs @ ys\<rparr>)"
      using lists w by (intro server_ok_set_waiting ok) simp_all
    then show ?thesis using lists w by (intro ok_rearm ok_answer) simp_all
  qed
  ultimately show ?thesis using ok by (auto simp: handle_message_def split: option.split)
qed

lemma ok_take_message: "server_inv U out s \<Longrightarrow> server_inv U out (take_message H s)"
  by (auto simp: take_message_def split: option.split intro!: ok_handle_message)
     (auto simp: server_inv_def queues_ok_def sent_within_def dest: hal.receive_within)

lemma ok_task_takes: "server_inv U out s \<Longrightarrow> server_inv U out (server_step L H (Task_takes q) s)"
  by (auto split: option.split) (auto simp: server_inv_def queues_ok_def sent_within_def dest: hal.receive_within)

lemma ok_task_answers: "server_inv U out s \<Longrightarrow> server_inv U out (server_step L H (Task_answers m) s)"
  by (auto simp: server_inv_def queues_ok_def sent_within_def queue_offer_def split: option.split dest: hal.send_within)

lemma ok_init: "server_inv UNIV [] (ws_server_init caps)"
  by (simp add: ws_server_init_def server_inv_def queues_ok_def tables_ok_def sessions_ok_def hal.within_def sent_within_def)

lemmas operations_ok = ok_connect ok_on_frame ok_disconnect ok_transfer ok_register ok_unregister ok_route ok_publish
  ok_task_takes ok_task_answers ok_serve_pass ok_forward_pass ok_take_message

fun new_conns :: "server_event \<Rightarrow> nat set" where
  "new_conns (Connect conn fd) = {conn}"
| "new_conns _ = {}"

lemma ok_step:
  assumes "server_inv U out s" and "server_enabled s e" and "new_conns e \<subseteq> U"
  shows "server_inv U out (server_step L H e s)"
  using assms by (cases e) (simp_all add: operations_ok del: server_step.simps(9,10))

text \<open>Without a bound on what was sent.\<close>

abbreviation server_ok :: "server \<Rightarrow> bool" where
  "server_ok \<equiv> server_inv UNIV []"

interpretation serving: loop_invariant "ws_server_init caps" server_enabled "server_step L H" server_ok
  by unfold_locales (simp_all add: ok_init ok_step)

lemma server_ok_from_now:
  "server_ok s \<Longrightarrow> dom (s_user s) \<subseteq> U \<Longrightarrow> server_inv U (s_out s) s"
  by (simp add: server_inv_def sent_within_def)

end
