(* ===== verification/Server_Safety.thy ===== *)
theory Server_Safety
  imports Server_Invariants
begin

section \<open>Properties of the reachable states of the server\<close>

text \<open>
  What holds whatever the clients, the tasks and the platform do: memory safety and the ranges of the data,
  to whom frames go, what one request can do, and that the worker's loops end.
\<close>

text \<open>C4. The server is memory safe and its data in range. In every reachable state no freed session has been
  read, every call in a list has a function other than zero and a number below 65536 and, while it has a
  session, one that is allocated and owned by its connection; every waiting call has a queue for its
  function, no function has two handlers or two queues, and no queue holds more than it has places.\<close>

theorem server_data_in_range:
  assumes "server_reachable caps L H s"
  shows "\<not> s_fault s
    \<and> (\<forall>c \<in> set (s_calls s @ s_waiting s). call_fid c \<noteq> 0 \<and> unat (call_id c) < 65536
        \<and> (\<forall>a. call_session c = Some a \<longrightarrow> (\<exists>ss. s_sessions s a = Some ss \<and> s_user s (ss_conn ss) = Some a)))
    \<and> (\<forall>c \<in> set (s_waiting s). ws_get_fid_queue (call_fid c) s \<noteq> None)
    \<and> distinct (s_handlers s) \<and> distinct (map fst (s_routes s))
    \<and> length (q_items (s_worker s)) \<le> q_cap (s_worker s)
    \<and> (\<forall>q. length (q_items (s_queues s q)) \<le> q_cap (s_queues s q))"
proof -
  have ok: "server_ok s" by (rule serving.inv_reachable [OF assms])
  have calls: "call_fid c \<noteq> 0 \<and> unat (call_id c) < 65536
      \<and> (\<forall>a. call_session c = Some a \<longrightarrow> (\<exists>ss. s_sessions s a = Some ss \<and> s_user s (ss_conn ss) = Some a))"
    if "c \<in> set (s_calls s @ s_waiting s)" for c
  proof -
    have c: "call_ok (s_sessions s) c" using that server_ok_calls [OF ok] by auto
    have "\<exists>ss. s_sessions s a = Some ss \<and> s_user s (ss_conn ss) = Some a" if "call_session c = Some a" for a
      using that c ok by (auto elim!: alive_callE [OF call_ok_alive] simp: server_inv_def dest: sessions_okD(3))
    with c show ?thesis by (simp add: call_ok_def)
  qed
  show ?thesis
    using ok calls server_ok_calls(3) [OF ok]
    by (simp add: server_inv_def queues_ok_def tables_ok_def hal.within_def routed_def ws_get_fid_queue_def)
qed

definition always :: hal where
  "always = \<lparr>h_tick = (\<lambda>_. 0), h_accepts = (\<lambda>_ _. True), h_takes = (\<lambda>_. True), h_ms_to_ticks = id\<rparr>"

lemma always_simps [simp]:
  "h_tick always n = 0" "h_accepts always n c" "h_takes always n" "h_ms_to_ticks always t = t"
  by (simp_all add: always_def)

text \<open>The server of the gateway after start, with one client that is connection 1 on descriptor 54.\<close>

definition boot_events :: "server_event list" where
  "boot_events = [Register_queue FID_UART_RX 0, Register_queue FID_UART_TX 0, Connect 1 54]"

definition booted :: server where
  "booted = run_events (server_step plain_cjson always) boot_events (ws_server_init (\<lambda>_. 10))"

lemma booted_eq:
  "booted = (ws_server_init (\<lambda>_. 10))\<lparr>s_routes := [(FID_UART_RX, 0), (FID_UART_TX, 0)],
     s_sessions := [0 \<mapsto> \<lparr>ss_conn = 1, ss_fd = 54, ss_alive = 0, ss_ping = 0\<rparr>], s_user := [1 \<mapsto> 0],
     s_next := 1, s_time := 3\<rparr>"
  by (simp add: booted_def boot_events_def ws_server_init_def ws_server_register_fid_queue_def ws_get_fid_queue_def
      ws_server_on_connect_def tick_def FID_UART_RX_def FID_UART_TX_def Let_def)

lemma booted_reachable: "server_reachable (\<lambda>_. 10) plain_cjson always booted"
  unfolding booted_def
  by (rule reachable_run [OF reach_init])
     (simp add: boot_events_def ws_server_init_def ws_server_register_fid_queue_def ws_get_fid_queue_def tick_def
        FID_UART_RX_def FID_UART_TX_def)

lemma booted_ok: "server_ok booted"
  by (rule serving.inv_reachable [OF booted_reachable])

theorem server_data_in_range_witness:
  "\<not> s_fault booted \<and> distinct (map fst (s_routes booted))"
  using server_data_in_range [OF booted_reachable] by simp

text \<open>Only connected clients are sent anything. Whatever happens, the frames already sent stay, and every
  frame added goes to a connection that has a session: after a disconnect nothing is sent to it any more.\<close>

theorem only_connected_get_frames:
  assumes "server_reachable caps L H s" and "server_enabled s e"
  shows "\<exists>fs. s_out (server_step L H e s) = s_out s @ fs \<and> (\<forall>(conn, f) \<in> set fs. s_user s conn \<noteq> None)"
proof (cases "\<exists>conn fd. e = Connect conn fd")
  case True
  then show ?thesis by (auto simp: ws_server_on_connect_def Let_def)
next
  case False
  then have "new_conns e \<subseteq> dom (s_user s)" by (cases e) auto
  then have "server_inv (dom (s_user s)) (s_out s) (server_step L H e s)"
    using ok_step [OF server_ok_from_now [OF serving.inv_reachable [OF assms(1)] order_refl] assms(2)] by simp
  then show ?thesis by (force simp: server_inv_def sent_within_def)
qed

theorem only_connected_get_frames_witness:
  "\<exists>fs. s_out (server_step plain_cjson always (Disconnect 1) booted) = s_out booted @ fs
     \<and> (\<forall>(conn, f) \<in> set fs. s_user booted conn \<noteq> None)"
  by (rule only_connected_get_frames [OF booted_reachable]) (simp add: booted_eq)




text \<open>A rejected request is answered to number zero. A request that names its function and its number but
  no flags is answered with the bad request status under the number 0, not its own: the number is only
  read after the check, so the client cannot tell which of its calls failed, and 0 is the number of
  broadcasts.\<close>

theorem bad_request_loses_number:
  assumes "cjson_documented L" and "0 < sid" and "sid < 65536" and "server_reachable caps L' H' s"
    and "s_user s conn = Some a" and "h_accepts H (s_time s) conn"
  shows "ws_server_on_text L H conn (stringify ns (JObj [(lit ''FID'', hex_string FID_UART_RX), (lit ''SID'', JNat sid)])) s
    = s\<lparr>s_out := s_out s @ [(conn, text_frame (response_text FID_UART_RX 0 (status_json STATUS_BAD_REQ)))],
        s_time := Suc (s_time s)\<rparr>"
proof -
  let ?o = "JObj [(lit ''FID'', hex_string FID_UART_RX), (lit ''SID'', JNat sid)]"
  have "json_wf ?o" using assms(3) by (simp add: hex_string_def JNat_wf)
  moreover have "ascii_json ?o" by (simp add: ascii_hex_string ascii_names ascii_JNat)
  ultimately have p: "c_parse L (stringify ns ?o) = Some ?o"
    by (rule cjson_parse [OF assms(1)])
  have items: "c_item L ''FID'' ?o = Some (hex_string FID_UART_RX)" "c_item L ''FLAGS'' ?o = None"
    by (simp_all add: cjson_item [OF assms(1)] lower_def lit_def)
  have fid: "read_fid L ?o = FID_UART_RX" "FID_UART_RX \<noteq> 0"
    by (simp_all add: read_fid_def items(1) read_fid_hex)
  obtain ss where "s_sessions s a = Some ss" "ss_conn ss = conn"
    using serving.inv_reachable [OF assms(4)] assms(5) by (auto simp: server_inv_def dest: sessions_okD(1))
  then have send: "snd (bApiCallSendStatus H (new_call L H a ?o) STATUS_BAD_REQ s)
      = s\<lparr>s_out := s_out s @ [(conn, text_frame (response_text FID_UART_RX 0 (status_json STATUS_BAD_REQ)))],
          s_time := Suc (s_time s)\<rparr>"
    using assms(6) fid(1)
    by (simp add: bApiCallSendStatus_def bApiCallSendJson_def send_to_session_def ws_conn_send_async_def tick_eq)
  have ne: "stringify ns ?o \<noteq> []" by simp
  have "number_item L ''FLAGS'' ?o = None" by (simp add: number_item_def items(2))
  then have "ws_server_on_text L H conn (stringify ns ?o) s = snd (bApiCallSendStatus H (new_call L H a ?o) STATUS_BAD_REQ s)"
    using p ne fid assms(5) unfolding ws_server_on_text_def by (simp only: option.case if_False Let_def prod.case)
  then show ?thesis unfolding send .
qed

theorem bad_request_loses_number_witness:
  "s_out (ws_server_on_text plain_cjson always 1
      (stringify id (JObj [(lit ''FID'', hex_string FID_UART_RX), (lit ''SID'', JNat 7)])) booted)
    = [(1, text_frame (response_text FID_UART_RX 0 (status_json STATUS_BAD_REQ)))]"
proof -
  have user: "s_user booted 1 = Some 0" and out: "s_out booted = []" by (simp_all add: booted_eq ws_server_init_def)
  show ?thesis
    using bad_request_loses_number [OF plain_cjson_documented _ _ booted_reachable user, of 7 always id] out
    by (simp del: stringify.simps)
qed

end
