(* ===== verification/Server_Progress.thy ===== *)
theory Server_Progress
  imports Server_Safety
begin

section \<open>What becomes of a call\<close>

text \<open>
  The outcome of each part of the worker's pass for the calls: the forwarding of one call on every branch,
  the answer every new call gets, the removal of a subscription, the calls that stay, and the delivery
  of the answers of the peripheral tasks.
\<close>

subsection \<open>Sending to a live client\<close>

definition status_frame :: "call \<Rightarrow> u32 \<Rightarrow> ws_frame" where
  "status_frame c sta = text_frame (response_text (call_fid c) (call_id c) (status_json sta))"

lemma status_frame_cong: "call_fid d = call_fid c \<Longrightarrow> call_id d = call_id c \<Longrightarrow> status_frame d = status_frame c"
  by (simp add: status_frame_def fun_eq_iff)

text \<open>A call that can be answered: its session is allocated and the platform takes every frame.\<close>

definition answerable :: "hal \<Rightarrow> (nat \<Rightarrow> session option) \<Rightarrow> call \<Rightarrow> nat \<Rightarrow> bool" where
  "answerable H ses c conn \<longleftrightarrow> call_conn ses c = Some conn \<and> (\<forall>n. h_accepts H n conn)"

lemma send_json_answerable:
  assumes "answerable H (s_sessions s) c conn"
  shows "bApiCallSendJson H c json s =
    (True, tick (s\<lparr>s_out := s_out s @ [(conn, text_frame (response_text (call_fid c) (call_id c) json))]\<rparr>))"
  using assms
  by (auto simp: answerable_def call_conn_def bApiCallSendJson_def send_to_session_def ws_conn_send_async_def
      bind_eq_Some_conv)

lemma send_status_answerable:
  "answerable H (s_sessions s) c conn \<Longrightarrow> bApiCallSendStatus H c sta s =
    (True, tick (s\<lparr>s_out := s_out s @ [(conn, status_frame c sta)]\<rparr>))"
  by (simp add: bApiCallSendStatus_def send_json_answerable status_frame_def)

lemma send_dead: "call_session c = None \<Longrightarrow> bApiCallSendJson H c json s = (False, s)"
  by (simp add: bApiCallSendJson_def)

lemma send_status_dead: "call_session c = None \<Longrightarrow> bApiCallSendStatus H c sta s = (False, s)"
  by (simp add: bApiCallSendStatus_def send_dead)

lemma break_call_simps [simp]:
  "call_session (break_call c) = None" "call_fid (break_call c) = call_fid c" "call_id (break_call c) = call_id c"
  "call_flags (break_call c) = call_flags c" "has_flag f (break_call c) = has_flag f c"
  by (simp_all add: break_call_def has_flag_def)

lemma answerable_cong [simp]:
  "answerable H ses (c\<lparr>call_data := d\<rparr>) conn = answerable H ses c conn"
  by (simp add: answerable_def call_conn_def)

lemma has_flag_data [simp]: "has_flag f (c\<lparr>call_data := d\<rparr>) = has_flag f c"
  by (simp add: has_flag_def)

lemma status_frame_data [simp]: "status_frame (c\<lparr>call_data := d\<rparr>) = status_frame c"
  by (simp add: status_frame_def fun_eq_iff)

subsection \<open>Forwarding one call\<close>

text \<open>The call as it waits for its answer: told, and without its data unless it will be asked again.\<close>

definition waiting_form :: "call \<Rightarrow> call" where
  "waiting_form c = (let d = (if has_flag FLAG_LONG_TERM c then c else c\<lparr>call_data := None\<rparr>)
     in if has_flag FLAG_NEW c then d\<lparr>call_flags := and (call_flags c) (not FLAG_NEW)\<rparr> else d)"

lemma route_outcome:
  assumes "answerable H (s_sessions s) c conn"
  shows "route_call H ds c cs s = (ds, cs,
    (case ws_get_fid_queue (call_fid c) s of
       None \<Rightarrow> s\<lparr>s_out := s_out s @ [(conn, status_frame c STATUS_INVALID)], s_time := Suc (s_time s)\<rparr>
     | Some q \<Rightarrow>
        if length (q_items (s_queues s q)) < q_cap (s_queues s q)
        then (if has_flag FLAG_NEW c
              then s\<lparr>s_out := s_out s @ [(conn, status_frame c STATUS_DELIVERED)], s_time := Suc (s_time s)\<rparr> else s)
          \<lparr>s_queues := (s_queues s)(q := (s_queues s q)\<lparr>q_items := q_items (s_queues s q) @ [request_of c]\<rparr>),
           s_waiting := s_waiting s @ [waiting_form c]\<rparr>
        else s\<lparr>s_out := s_out s @ [(conn, status_frame c STATUS_BUSY)], s_time := Suc (s_time s),
               s_waiting := s_waiting s @ [break_call c]\<rparr>))"
proof (cases "ws_get_fid_queue (call_fid c) s")
  case None
  then show ?thesis
    using send_status_answerable [OF assms] by (simp add: route_call_def tick_eq)
next
  case (Some q)
  show ?thesis
  proof (cases "length (q_items (s_queues s q)) < q_cap (s_queues s q)")
    case True
    let ?s = "s\<lparr>s_queues := (s_queues s)(q := (s_queues s q)\<lparr>q_items := q_items (s_queues s q) @ [request_of c]\<rparr>)\<rparr>"
    let ?c = "if has_flag FLAG_LONG_TERM c then c else c\<lparr>call_data := None\<rparr>"
    have "answerable H (s_sessions ?s) ?c conn" using assms by simp
    from send_status_answerable [OF this] have tell:
      "bApiCallSendStatus H ?c STATUS_DELIVERED ?s =
        (True, tick (?s\<lparr>s_out := s_out s @ [(conn, status_frame c STATUS_DELIVERED)]\<rparr>))"
      by (simp split: if_splits)
    have "vForwardCallToPeripheral H c q s = (?c, ?s)"
      using True by (simp add: vForwardCallToPeripheral_def queue_send_def)
    then show ?thesis
      using Some True tell by (simp add: route_call_def tell_new_def tick_eq waiting_form_def Let_def)
  next
    case False
    then show ?thesis
      using Some send_status_answerable [OF assms]
      by (simp add: route_call_def vForwardCallToPeripheral_def queue_send_def tell_new_def send_status_dead tick_eq)
  qed
qed

text \<open>A registration as the gateway has read it.\<close>

definition demo_call :: call where
  "demo_call = \<lparr>call_session = Some 0, call_data = None, call_id = 7, call_handler = False,
     call_fid = FID_UART_RX, call_pending = 1, call_flags = or FLAG_NEW FLAG_LONG_TERM, call_poll = 0, call_next = 0\<rparr>"

lemma forward_branches:
  assumes "answerable H (s_sessions s) c conn" and "\<not> has_flag FLAG_TO_DELETE c" and "\<not> not_due H c s"
    and "t = (if asks_clock c then tick s else s)"
  shows "forward_one H (ds, c # cs, s) = (ds, cs,
    (case ws_get_fid_queue (call_fid c) t of
       None \<Rightarrow> t\<lparr>s_out := s_out t @ [(conn, status_frame c STATUS_INVALID)], s_time := Suc (s_time t)\<rparr>
     | Some q \<Rightarrow>
        if length (q_items (s_queues t q)) < q_cap (s_queues t q)
        then (if has_flag FLAG_NEW c
              then t\<lparr>s_out := s_out t @ [(conn, status_frame c STATUS_DELIVERED)], s_time := Suc (s_time t)\<rparr> else t)
          \<lparr>s_queues := (s_queues t)(q := (s_queues t q)\<lparr>q_items := q_items (s_queues t q) @ [request_of c]\<rparr>),
           s_waiting := s_waiting t @ [waiting_form c]\<rparr>
        else t\<lparr>s_out := s_out t @ [(conn, status_frame c STATUS_BUSY)], s_time := Suc (s_time t),
               s_waiting := s_waiting t @ [break_call c]\<rparr>))"
proof -
  have "forward_one H (ds, c # cs, s) = route_call H ds c cs t"
    using assms(2-4) by (simp add: forward_one_def)
  moreover have "answerable H (s_sessions t) c conn"
    using assms(1,4) by simp
  ultimately show ?thesis by (simp only: route_outcome)
qed

text \<open>Forwarding has three outcomes. A due call of a client that can be reached, whose function has a queue
  with room, is put there as one request with its function, number and data, moves to the waiting calls, and
  its client is told it is delivered if the call was new; if the queue is full, the client is told it is
  busy, nothing is queued and nothing is reported as delivered, and the call is over; without a queue, the
  client is told the call is invalid and the call is gone, even when a handler is registered for it.\<close>

theorem forward_outcome:
  assumes "answerable H (s_sessions s) c conn" and "\<not> has_flag FLAG_TO_DELETE c" and "\<not> not_due H c s"
    and "t = (if asks_clock c then tick s else s)"
  shows "forward_one H (ds, c # cs, s) = (ds, cs,
    (case ws_get_fid_queue (call_fid c) t of
       None \<Rightarrow> t\<lparr>s_out := s_out t @ [(conn, status_frame c STATUS_INVALID)], s_time := Suc (s_time t)\<rparr>
     | Some q \<Rightarrow>
        if length (q_items (s_queues t q)) < q_cap (s_queues t q)
        then (if has_flag FLAG_NEW c
              then t\<lparr>s_out := s_out t @ [(conn, status_frame c STATUS_DELIVERED)], s_time := Suc (s_time t)\<rparr> else t)
          \<lparr>s_queues := (s_queues t)(q := (s_queues t q)\<lparr>q_items := q_items (s_queues t q) @ [request_of c]\<rparr>),
           s_waiting := s_waiting t @ [waiting_form c]\<rparr>
        else t\<lparr>s_out := s_out t @ [(conn, status_frame c STATUS_BUSY)], s_time := Suc (s_time t),
               s_waiting := s_waiting t @ [break_call c]\<rparr>))"
  by (rule forward_branches [OF assms])

lemma demo_call_facts:
  "answerable always (s_sessions booted) demo_call 1" "\<not> has_flag FLAG_TO_DELETE demo_call"
  "\<not> not_due always demo_call booted" "\<not> asks_clock demo_call" "has_flag FLAG_NEW demo_call"
  "ws_get_fid_queue (call_fid demo_call) booted = Some 0"
  by (simp_all add: answerable_def call_conn_def booted_eq demo_call_def has_flag_def not_due_def asks_clock_def
      ws_get_fid_queue_def FLAG_TO_DELETE_def FLAG_NEW_def FLAG_LONG_TERM_def)

lemma booted_facts:
  "s_out booted = []" "s_waiting booted = []" "s_calls booted = []" "s_time booted = 3" "s_queues booted = (\<lambda>i. queue_create 10)"
  by (simp_all add: booted_eq ws_server_init_def)

theorem forward_outcome_witness:
  "forward_one always ([], [demo_call], booted) =
     ([], [], booted\<lparr>s_out := [(1, status_frame demo_call STATUS_DELIVERED)], s_time := 4,
        s_queues := (\<lambda>i. queue_create 10)(0 := \<lparr>q_items = [request_of demo_call], q_cap = 10\<rparr>),
        s_waiting := [waiting_form demo_call]\<rparr>)"
  using forward_outcome [OF demo_call_facts(1-3) refl, of "[]" "[]"]
  by (simp only: demo_call_facts booted_facts if_False if_True option.case) (simp add: queue_create_def)

subsection \<open>The walk over the active calls\<close>

text \<open>The walk keeps the sessions and the routes, and adds to what was sent.\<close>

lemma delete_sessions: "delete_call H ds c cs s = (ds', cs', s') \<Longrightarrow> s_sessions s' = s_sessions s \<and> s_routes s' = s_routes s"
  by (auto simp: delete_call_def check_calls_def fault_def Let_def split: if_splits)

lemma tell_sessions [simp]:
  "s_sessions (snd (tell_new H c s)) = s_sessions s" "s_routes (snd (tell_new H c s)) = s_routes s"
  "s_waiting (snd (tell_new H c s)) = s_waiting s" "call_fid (fst (tell_new H c s)) = call_fid c"
  "call_id (fst (tell_new H c s)) = call_id c" "call_session (fst (tell_new H c s)) = call_session c"
  by (auto simp: tell_new_def split: prod.split dest: arg_cong [where f = snd])
     (metis send_status_frame snd_conv)+

lemma forward_sessions [simp]:
  "s_sessions (snd (vForwardCallToPeripheral H c q s)) = s_sessions s"
  "s_routes (snd (vForwardCallToPeripheral H c q s)) = s_routes s"
  "s_waiting (snd (vForwardCallToPeripheral H c q s)) = s_waiting s"
  "call_fid (fst (vForwardCallToPeripheral H c q s)) = call_fid c"
  "call_id (fst (vForwardCallToPeripheral H c q s)) = call_id c"
  by (simp_all add: vForwardCallToPeripheral_def split: option.split)

lemma route_sessions: "route_call H ds c cs s = (ds', cs', s') \<Longrightarrow> ds' = ds \<and> cs' = cs \<and> s_sessions s' = s_sessions s"
  by (auto simp: route_call_def split: option.splits prod.splits)
     (metis forward_sessions(1) snd_conv tell_sessions(1))

lemma forward_one_rest:
  assumes "forward_one H (ds, c # cs, s) = (ds', cs', s')"
  shows "s_sessions s' = s_sessions s
    \<and> (cs' = cs \<or> has_flag FLAG_TO_DELETE c \<and> call_session c \<noteq> None
        \<and> cs' = filter (\<lambda>d. \<not> same_call (s_sessions s) c d) cs)"
proof (cases "has_flag FLAG_TO_DELETE c")
  case True
  then have eq: "delete_call H ds c cs s = (ds', cs', s')" using assms by (simp add: forward_one_def)
  show ?thesis
    using True eq delete_sessions [OF eq] by (auto simp: delete_call_def Let_def split: if_splits)
next
  case False
  show ?thesis
  proof (cases "not_due H c s")
    case True
    then show ?thesis using False assms by (auto simp: forward_one_def)
  next
    case due: False
    then have "route_call H ds c cs (if asks_clock c then tick s else s) = (ds', cs', s')"
      using False assms by (simp add: forward_one_def)
    from route_sessions [OF this] show ?thesis by simp
  qed
qed

definition told :: "(nat \<times> ws_frame) list \<Rightarrow> server \<Rightarrow> nat \<Rightarrow> ws_frame \<Rightarrow> bool" where
  "told out s conn f \<longleftrightarrow> (conn, f) \<in> set (drop (length out) (s_out s))"

lemma told_mono: "told out s conn f \<Longrightarrow> s_out s' = s_out s @ fs \<Longrightarrow> told out s' conn f"
  by (simp add: told_def)

lemma told_new: "server_inv U out s \<Longrightarrow> s_out s' = s_out s @ fs \<Longrightarrow> (conn, f) \<in> set fs \<Longrightarrow> told out s' conn f"
  by (auto simp: told_def server_inv_def sent_within_def)

lemma cursor_from_now: "cursor_ok U out (ds, cs, s) \<Longrightarrow> cursor_ok U (s_out s) (ds, cs, s)"
  by (simp add: server_inv_def sent_within_def)

lemma forward_calls_out:
  assumes "cursor_ok U out (ds, cs, s)" and "forward_calls H (ds, cs, s) = (ds', cs', s')"
  shows "\<exists>fs. s_out s' = s_out s @ fs"
  using ok_forward_calls [OF cursor_from_now [OF assms(1)], of H] assms(2)
  by (auto simp: server_inv_def sent_within_def)

text \<open>A call is told of at its turn.\<close>

lemma delete_tells:
  assumes "answerable H (s_sessions s) c conn" and "delete_call H ds c cs s = (ds', cs', s')"
  shows "s_out s' = s_out s @ [(conn, status_frame c STATUS_DELIVERED)]"
proof -
  have "call_session c \<noteq> None" using assms(1) by (auto simp: answerable_def call_conn_def bind_eq_Some_conv)
  moreover have "s_out (check_calls xs r) = s_out r" for xs r by (simp add: check_calls_def fault_def)
  ultimately show ?thesis
    using assms(2) send_status_answerable [OF assms(1)] by (auto simp: delete_call_def Let_def)
qed

lemma route_tells:
  assumes "answerable H (s_sessions s) c conn" and "has_flag FLAG_NEW c" and "route_call H ds c cs s = (ds', cs', s')"
  shows "\<exists>sta \<in> {STATUS_DELIVERED, STATUS_BUSY, STATUS_INVALID}. s_out s' = s_out s @ [(conn, status_frame c sta)]"
  using assms(2,3) unfolding route_outcome [OF assms(1)] by (auto split: option.splits if_splits)

lemma turn_tells:
  assumes "answerable H (s_sessions s) c conn" and "has_flag FLAG_NEW c"
    and "forward_one H (ds, c # cs, s) = (ds', cs', s')"
  shows "\<exists>sta \<in> {STATUS_DELIVERED, STATUS_BUSY, STATUS_INVALID}. s_out s' = s_out s @ [(conn, status_frame c sta)]"
proof (cases "has_flag FLAG_TO_DELETE c")
  case True
  then show ?thesis
    using assms(3) delete_tells [OF assms(1)] by (auto simp: forward_one_def)
next
  case False
  moreover have "\<not> asks_clock c" "\<not> not_due H c s" using assms(2) by (simp_all add: asks_clock_def not_due_def)
  ultimately show ?thesis
    using assms(3) route_tells [OF assms(1,2)] by (simp add: forward_one_def)
qed

lemma same_call_conn:
  assumes "server_inv U out s" and "same_call (s_sessions s) d c" and "answerable H (s_sessions s) c conn"
  shows "answerable H (s_sessions s) d conn"
proof -
  obtain a b ss tt where "call_session c = Some a" "s_sessions s a = Some ss" "ss_conn ss = conn"
    "call_session d = Some b" "s_sessions s b = Some tt" "ss_fd tt = ss_fd ss"
    using assms(2,3) by (auto simp: same_call_def call_fd_def answerable_def call_conn_def bind_eq_Some_conv)
  moreover from this have "b = a"
    using assms(1) by (auto simp: server_inv_def dest: sessions_okD(4))
  ultimately show ?thesis
    using assms(3) by (simp add: answerable_def call_conn_def)
qed

lemma forward_calls_step: "forward_calls H (ds, c # cs, s) = forward_calls H (forward_one H (ds, c # cs, s))"
  by simp

lemma walk_tells:
  assumes "cursor_ok U out (ds, cs, s)" and "c \<in> set cs" and "has_flag FLAG_NEW c" and "answerable H (s_sessions s) c conn"
    and "forward_calls H (ds, cs, s) = (ds', cs', s')"
  shows "\<exists>sta \<in> {STATUS_DELIVERED, STATUS_BUSY, STATUS_INVALID}. told out s' conn (status_frame c sta)"
  using assms
proof (induction H "(ds, cs, s)" arbitrary: ds cs s rule: forward_calls.induct)
  case (2 H ds d cs s)
  obtain ds1 cs1 s1 where one: "forward_one H (ds, d # cs, s) = (ds1, cs1, s1)"
    by (cases "forward_one H (ds, d # cs, s)")
  have ok: "cursor_ok U out (ds1, cs1, s1)" and inv: "server_inv U out s"
    using ok_forward_one [OF "2.prems"(1), of H] one "2.prems"(1) by simp_all
  have rest: "forward_calls H (ds1, cs1, s1) = (ds', cs', s')"
    using "2.prems"(5) one by (simp only: forward_calls_step)
  obtain fs where fs: "s_out s' = s_out s1 @ fs" using forward_calls_out [OF ok rest] ..
  have now: "\<exists>sta \<in> {STATUS_DELIVERED, STATUS_BUSY, STATUS_INVALID}. told out s' conn (status_frame c sta)"
    if "sta \<in> {STATUS_DELIVERED, STATUS_BUSY, STATUS_INVALID}" "s_out s1 = s_out s @ [(conn, status_frame c sta)]" for sta
    using that told_mono [OF told_new [OF inv that(2)] fs] by auto
  note ses = forward_one_rest [OF one]
  show ?case
  proof (cases "c \<in> set cs1")
    case True
    with "2.hyps" [OF one ok _ "2.prems"(3) _ rest] ses "2.prems"(4) show ?thesis by simp
  next
    case gone: False
    show ?thesis
    proof (cases "c = d")
      case True
      with turn_tells [of H s d conn, OF _ _ one] "2.prems"(3,4) now show ?thesis by auto
    next
      case False
      then have d: "has_flag FLAG_TO_DELETE d" "same_call (s_sessions s) d c"
        using gone ses "2.prems"(2) by auto
      have "s_out s1 = s_out s @ [(conn, status_frame d STATUS_DELIVERED)]"
        using one d(1) delete_tells [OF same_call_conn [OF inv d(2) "2.prems"(4)]] by (simp add: forward_one_def)
      moreover have "status_frame d = status_frame c"
        using d(2) by (intro status_frame_cong) (simp_all add: same_call_def)
      ultimately show ?thesis using now by simp
    qed
  qed
qed simp

text \<open>C24. Every new call is told of. When the worker has walked the active calls, the client of each new call among them
  has been sent, in this walk and under the call's own function and number, that it is delivered, busy or
  invalid, provided its connection takes frames: no request is passed over in silence.\<close>

theorem new_calls_told:
  assumes "server_reachable caps L H s" and "c \<in> set (s_calls s)" and "has_flag FLAG_NEW c"
    and "answerable H (s_sessions s) c conn"
  shows "\<exists>sta \<in> {STATUS_DELIVERED, STATUS_BUSY, STATUS_INVALID}.
      (conn, status_frame c sta) \<in> set (drop (length (s_out s)) (s_out (forward_pass H s)))"
proof -
  have "server_ok s" by (rule serving.inv_reachable [OF assms(1)])
  then have "server_inv (dom (s_user s)) (s_out s) s" by (rule server_ok_from_now) simp
  then have cursor: "cursor_ok (dom (s_user s)) (s_out s) ([], s_calls s, s)"
    using server_ok_lists(1) by simp
  obtain ds' cs' s' where walk: "forward_calls H ([], s_calls s, s) = (ds', cs', s')"
    by (cases "forward_calls H ([], s_calls s, s)")
  have "s_out (forward_pass H s) = s_out s'" using walk by (simp add: forward_pass_def)
  with walk_tells [OF cursor assms(2,3,4) walk] show ?thesis by (simp only: told_def)
qed

text \<open>The gateway after start and one registration of the client with number 7.\<close>

definition asked :: server where
  "asked = server_step plain_cjson always (Receive_frame 1 (text_frame (stringify id (request_object FID_UART_RX 4 7)))) booted"

lemma asked_eq: "asked = booted\<lparr>s_time := 4, s_calls := [request_call FID_UART_RX 0 False 4 7]\<rparr>"
proof -
  have alive: "note_alive always 1 booted = booted\<lparr>s_time := 4\<rparr>"
    by (simp add: note_alive_def booted_eq tick_def ws_server_init_def fun_upd_idem_iff)
  let ?s = "booted\<lparr>s_time := 4\<rparr>"
  have "asked = ws_server_on_text plain_cjson always 1 (stringify id (request_object FID_UART_RX 4 7)) ?s"
    by (simp add: asked_def ws_server_on_frame_def text_frame_def alive del: One_nat_def)
  also have "\<dots> = ?s\<lparr>s_calls := s_calls ?s @ [request_call FID_UART_RX 0 (FID_UART_RX \<in> set (s_handlers ?s)) 4 7]\<rparr>"
    by (rule plain_request [OF plain_cjson_documented]) (simp_all add: booted_eq ws_get_fid_queue_def)
  also have "\<dots> = booted\<lparr>s_time := 4, s_calls := [request_call FID_UART_RX 0 False 4 7]\<rparr>"
    by (simp add: booted_eq ws_server_init_def)
  finally show ?thesis .
qed

lemma asked_reachable: "server_reachable (\<lambda>_. 10) plain_cjson always asked"
  unfolding asked_def by (rule reach_step [OF booted_reachable]) (simp add: booted_eq)

lemma asked_call:
  "answerable always (s_sessions asked) (request_call FID_UART_RX 0 False 4 7) 1" "has_flag FLAG_NEW (request_call FID_UART_RX 0 False 4 7)"
  by (simp_all add: answerable_def call_conn_def asked_eq booted_eq request_call_def has_flag_def FLAG_NEW_def)

theorem new_calls_told_witness:
  "\<exists>sta \<in> {STATUS_DELIVERED, STATUS_BUSY, STATUS_INVALID}.
      (1, status_frame (request_call FID_UART_RX 0 False 4 7) sta) \<in> set (s_out (forward_pass always asked))"
  using new_calls_told [OF asked_reachable _ asked_call(2,1)] by (simp add: asked_eq booted_facts)

end
