(* ===== verification/Server_Answers.thy ===== *)
theory Server_Answers
  imports Server_Progress
begin

section \<open>Subscriptions and answers\<close>

text \<open>
  What the walk over the active calls leaves behind, how a subscription is ended, and how the answers of the
  peripheral tasks reach the clients.
\<close>

subsection \<open>What stays\<close>

lemma walk_leaves:
  assumes "forward_calls H (ds, cs, s) = (ds', cs', s')"
    and "\<forall>d \<in> set ds. asks_clock d \<and> \<not> has_flag FLAG_TO_DELETE d"
  shows "(\<forall>d \<in> set ds'. asks_clock d \<and> \<not> has_flag FLAG_TO_DELETE d) \<and> set ds' \<subseteq> set ds \<union> set cs"
  using assms
proof (induction H "(ds, cs, s)" arbitrary: ds cs s rule: forward_calls.induct)
  case (2 H ds d cs s)
  obtain ds1 cs1 s1 where one: "forward_one H (ds, d # cs, s) = (ds1, cs1, s1)"
    by (cases "forward_one H (ds, d # cs, s)")
  have rest: "forward_calls H (ds1, cs1, s1) = (ds', cs', s')"
    using "2.prems"(1) one by (simp only: forward_calls_step)
  have cs1: "set cs1 \<subseteq> set cs" using forward_one_rest [OF one] by auto
  have ds1: "set ds1 \<subseteq> set ds \<union> (if has_flag FLAG_TO_DELETE d \<or> \<not> asks_clock d then {} else {d})"
  proof (cases "has_flag FLAG_TO_DELETE d")
    case True
    then show ?thesis using one by (auto simp: forward_one_def delete_call_def Let_def split: if_splits)
  next
    case False
    show ?thesis
    proof (cases "not_due H d s")
      case True
      then show ?thesis using False one by (auto simp: forward_one_def asks_clock_def not_due_def)
    next
      case due: False
      then have "route_call H ds d cs (if asks_clock d then tick s else s) = (ds1, cs1, s1)"
        using False one by (simp add: forward_one_def)
      from route_sessions [OF this] show ?thesis by auto
    qed
  qed
  have "\<forall>x \<in> set ds1. asks_clock x \<and> \<not> has_flag FLAG_TO_DELETE x"
    using ds1 "2.prems"(2) by (auto split: if_splits)
  from "2.hyps" [OF one rest this] ds1 cs1 show ?case by (auto split: if_splits)
qed simp

text \<open>No call is left behind. After the walk the active calls are exactly subscriptions that were confirmed
  before and wait for their next poll: every other call has moved to the waiting calls or has ended. In
  particular a one-shot call is forwarded in the first walk after it arrives.\<close>

theorem walk_leaves_polls:
  shows "\<forall>c \<in> set (s_calls (forward_pass H s)). c \<in> set (s_calls s)
    \<and> has_flag FLAG_LONG_TERM c \<and> \<not> has_flag FLAG_NEW c \<and> \<not> has_flag FLAG_TO_DELETE c"
proof -
  obtain ds' cs' s' where walk: "forward_calls H ([], s_calls s, s) = (ds', cs', s')"
    by (cases "forward_calls H ([], s_calls s, s)")
  from walk_leaves [OF walk] have "\<forall>d \<in> set ds'. d \<in> set (s_calls s) \<and> asks_clock d \<and> \<not> has_flag FLAG_TO_DELETE d"
    by auto
  then show ?thesis using walk by (simp add: forward_pass_def asks_clock_def)
qed

subsection \<open>Ending a subscription\<close>

lemma same_call_cong:
  "same_call ses k d \<Longrightarrow> call_fid d = call_fid c \<Longrightarrow> call_id d = call_id c
     \<Longrightarrow> call_session d = call_session c \<or> call_session d = None \<Longrightarrow> same_call ses k c"
  by (auto simp: same_call_def call_fd_def)

lemma same_call_trans: "same_call ses d c \<Longrightarrow> same_call ses d = same_call ses c"
  by (auto simp: same_call_def fun_eq_iff)

definition none_left :: "(nat \<Rightarrow> session option) \<Rightarrow> call \<Rightarrow> call list \<Rightarrow> bool" where
  "none_left ses k cs \<longleftrightarrow> (\<forall>d \<in> set cs. \<not> same_call ses k d)"

lemma none_left_simps [simp]:
  "none_left ses k []" "none_left ses k (c # cs) \<longleftrightarrow> \<not> same_call ses k c \<and> none_left ses k cs"
  "none_left ses k (xs @ ys) \<longleftrightarrow> none_left ses k xs \<and> none_left ses k ys"
  "none_left ses k xs \<Longrightarrow> none_left ses k (filter P xs)"
  by (auto simp: none_left_def)

text \<open>The waiting calls after a turn: some may be gone, and the call at the cursor may have joined.\<close>

lemma route_waiting:
  assumes "route_call H ds c cs s = (ds', cs', s')"
  shows "s_waiting s' = s_waiting s \<or> (\<exists>d. s_waiting s' = s_waiting s @ [d] \<and> call_fid d = call_fid c
      \<and> call_id d = call_id c \<and> (call_session d = call_session c \<or> call_session d = None))"
proof (cases "ws_get_fid_queue (call_fid c) s")
  case None
  then show ?thesis using assms by (auto simp: route_call_def)
next
  case (Some q)
  obtain c1 s1 where 1: "vForwardCallToPeripheral H c q s = (c1, s1)" by fastforce
  obtain c2 s2 where 2: "tell_new H c1 s1 = (c2, s2)" by fastforce
  have "call_session c1 = call_session c \<or> call_session c1 = None"
    using 1 by (auto simp: vForwardCallToPeripheral_def split: option.splits if_splits)
  then show ?thesis
    using assms Some 1 2 forward_sessions(3-5) [of H c q s] tell_sessions(3-6) [of H c1 s1]
    by (auto simp: route_call_def)
qed

lemma turn_waiting:
  assumes "forward_one H (ds, c # cs, s) = (ds', cs', s')"
  shows "if has_flag FLAG_TO_DELETE c
    then s_waiting s' = (if call_session c = None then s_waiting s
         else filter (\<lambda>d. \<not> same_call (s_sessions s) c d) (s_waiting s))
      \<and> ds' = (if call_session c = None then ds else filter (\<lambda>d. \<not> same_call (s_sessions s) c d) ds)
    else (ds' = ds \<or> ds' = ds @ [c])
      \<and> (s_waiting s' = s_waiting s \<or> (\<exists>d. s_waiting s' = s_waiting s @ [d] \<and> call_fid d = call_fid c
          \<and> call_id d = call_id c \<and> (call_session d = call_session c \<or> call_session d = None)))"
proof (cases "has_flag FLAG_TO_DELETE c")
  case True
  then show ?thesis using assms by (auto simp: forward_one_def delete_call_def Let_def)
next
  case False
  show ?thesis
  proof (cases "not_due H c s")
    case True
    then show ?thesis using False assms by (auto simp: forward_one_def)
  next
    case due: False
    then have eq: "route_call H ds c cs (if asks_clock c then tick s else s) = (ds', cs', s')"
      using False assms by (simp add: forward_one_def)
    show ?thesis using False route_sessions [OF eq] route_waiting [OF eq] by (cases "asks_clock c") simp_all
  qed
qed

lemma turn_none_left:
  assumes "forward_one H (ds, c # cs, s) = (ds', cs', s')"
    and "none_left ses k ds" "none_left ses k (c # cs)" "none_left ses k (s_waiting s)"
  shows "none_left ses k ds' \<and> none_left ses k cs' \<and> none_left ses k (s_waiting s')"
  using assms(2-4) turn_waiting [OF assms(1)] forward_one_rest [OF assms(1)]
  by (auto split: if_splits dest: same_call_cong [where c = c])

lemma walk_none_left:
  assumes "forward_calls H (ds, cs, s) = (ds', cs', s')"
    and "none_left ses k ds" "none_left ses k cs" "none_left ses k (s_waiting s)"
  shows "none_left ses k ds' \<and> none_left ses k (s_waiting s')"
  using assms
proof (induction H "(ds, cs, s)" arbitrary: ds cs s rule: forward_calls.induct)
  case (2 H ds d cs s)
  obtain ds1 cs1 s1 where one: "forward_one H (ds, d # cs, s) = (ds1, cs1, s1)"
    by (cases "forward_one H (ds, d # cs, s)")
  have "forward_calls H (ds1, cs1, s1) = (ds', cs', s')"
    using "2.prems"(1) one by (simp only: forward_calls_step)
  from "2.hyps" [OF one this] turn_none_left [OF one "2.prems"(2-4)] show ?case by simp
qed simp

lemma walk_deletes:
  assumes "forward_calls H (ds, cs, s) = (ds', cs', s')" and "c \<in> set cs" and "has_flag FLAG_TO_DELETE c"
    and "call_fd (s_sessions s) c \<noteq> None"
  shows "none_left (s_sessions s) c ds' \<and> none_left (s_sessions s) c (s_waiting s')"
  using assms
proof (induction H "(ds, cs, s)" arbitrary: ds cs s rule: forward_calls.induct)
  case (2 H ds d cs s)
  obtain ds1 cs1 s1 where one: "forward_one H (ds, d # cs, s) = (ds1, cs1, s1)"
    by (cases "forward_one H (ds, d # cs, s)")
  have rest: "forward_calls H (ds1, cs1, s1) = (ds', cs', s')"
    using "2.prems"(1) one by (simp only: forward_calls_step)
  note ses = forward_one_rest [OF one]
  show ?case
  proof (cases "c \<in> set cs1")
    case True
    with "2.hyps" [OF one rest] "2.prems"(3,4) ses show ?thesis by simp
  next
    case False
    then have d: "has_flag FLAG_TO_DELETE d" "same_call (s_sessions s) d = same_call (s_sessions s) c" "call_session d \<noteq> None"
      using "2.prems"(2-4) ses same_call_trans [of "s_sessions s" d c] by (auto simp: call_fd_def bind_eq_Some_conv)
    moreover have "cs1 = filter (\<lambda>x. \<not> same_call (s_sessions s) d x) cs"
      using one d(1,3) by (auto simp: forward_one_def delete_call_def Let_def)
    ultimately have "none_left (s_sessions s) c ds1" "none_left (s_sessions s) c cs1" "none_left (s_sessions s) c (s_waiting s1)"
      using turn_waiting [OF one] by (auto simp: none_left_def)
    from walk_none_left [OF rest this] show ?thesis .
  qed
qed simp

lemma walk_keeps:
  assumes "forward_calls H (ds, cs, s) = (ds', cs', s')" and "d \<in> set (s_waiting s)"
    and "\<forall>c \<in> set cs. has_flag FLAG_TO_DELETE c \<longrightarrow> \<not> same_call (s_sessions s) c d"
  shows "d \<in> set (s_waiting s')"
  using assms
proof (induction H "(ds, cs, s)" arbitrary: ds cs s rule: forward_calls.induct)
  case (2 H ds c cs s)
  obtain ds1 cs1 s1 where one: "forward_one H (ds, c # cs, s) = (ds1, cs1, s1)"
    by (cases "forward_one H (ds, c # cs, s)")
  have rest: "forward_calls H (ds1, cs1, s1) = (ds', cs', s')"
    using "2.prems"(1) one by (simp only: forward_calls_step)
  have "d \<in> set (s_waiting s1)"
    using turn_waiting [OF one] "2.prems"(2,3) by (auto split: if_splits)
  moreover have "s_sessions s1 = s_sessions s" "set cs1 \<subseteq> set cs" using forward_one_rest [OF one] by auto
  ultimately show ?case using "2.hyps" [OF one rest] "2.prems"(3) by auto
qed simp


text \<open>The client of \<open>asked\<close> is subscribed, and then asks to delete its subscription.\<close>

definition subscribed :: server where
  "subscribed = server_step plain_cjson always Forward_pass asked"

definition waiting_7 :: call where
  "waiting_7 = waiting_form (request_call FID_UART_RX 0 False 4 7)"

lemma subscribed_eq:
  "subscribed = booted\<lparr>s_out := [(1, status_frame (request_call FID_UART_RX 0 False 4 7) STATUS_DELIVERED)], s_time := 5,
     s_queues := (\<lambda>i. queue_create 10)(0 := \<lparr>q_items = [request_of (request_call FID_UART_RX 0 False 4 7)], q_cap = 10\<rparr>),
     s_waiting := [waiting_7]\<rparr>"
proof -
  let ?c = "request_call FID_UART_RX 0 False 4 7"
  have facts: "\<not> has_flag FLAG_TO_DELETE ?c" "\<not> not_due always ?c asked" "\<not> asks_clock ?c"
    by (simp_all add: request_call_def has_flag_def not_due_def asks_clock_def FLAG_TO_DELETE_def FLAG_NEW_def)
  have q: "ws_get_fid_queue (call_fid ?c) asked = Some 0" "s_queues asked = (\<lambda>i. queue_create 10)" "s_out asked = []"
    "s_waiting asked = []" "s_time asked = 4"
    by (simp_all add: asked_eq booted_eq request_call_def ws_get_fid_queue_def ws_server_init_def)
  have "forward_one always ([], [?c], asked) = ([], [], asked\<lparr>
      s_out := [(1, status_frame ?c STATUS_DELIVERED)], s_time := 5,
      s_queues := (\<lambda>i. queue_create 10)(0 := \<lparr>q_items = [request_of ?c], q_cap = 10\<rparr>), s_waiting := [waiting_7]\<rparr>)"
    using forward_branches [OF asked_call(1) facts(1,2) refl, of "[]" "[]"]
    by (simp only: facts q asked_call(2) if_False if_True option.case) (simp add: queue_create_def waiting_7_def)
  moreover have "s_calls asked = [?c]" by (simp add: asked_eq)
  ultimately have "forward_pass always asked = asked\<lparr>
      s_out := [(1, status_frame ?c STATUS_DELIVERED)], s_time := 5,
      s_queues := (\<lambda>i. queue_create 10)(0 := \<lparr>q_items = [request_of ?c], q_cap = 10\<rparr>), s_waiting := [waiting_7], s_calls := []\<rparr>"
    by (simp add: forward_pass_def)
  then show ?thesis
    by (simp add: subscribed_def asked_eq) (simp add: booted_eq ws_server_init_def)
qed

lemma subscribed_reachable: "server_reachable (\<lambda>_. 10) plain_cjson always subscribed"
  unfolding subscribed_def by (rule reach_step [OF asked_reachable]) simp

definition ending :: server where
  "ending = server_step plain_cjson always (Receive_frame 1 (text_frame (stringify id (request_object FID_UART_RX 8 7)))) subscribed"

lemma ending_calls:
  "s_calls ending = [request_call FID_UART_RX 0 False 8 7]" "s_waiting ending = [waiting_7]" "s_sessions ending = s_sessions booted"
proof -
  let ?s = "note_alive always 1 subscribed"
  have s: "s_user ?s 1 = Some 0" "ws_get_fid_queue FID_UART_RX ?s \<noteq> None" "s_calls ?s = []" "s_handlers ?s = []"
    "s_waiting ?s = [waiting_7]" "s_sessions ?s = s_sessions booted"
    by (simp_all add: note_alive_def subscribed_eq booted_eq ws_server_init_def ws_get_fid_queue_def fun_upd_idem_iff)
  have "ending = ws_server_on_text plain_cjson always 1 (stringify id (request_object FID_UART_RX 8 7)) ?s"
    by (simp add: ending_def ws_server_on_frame_def text_frame_def del: One_nat_def)
  also have "\<dots> = ?s\<lparr>s_calls := s_calls ?s @ [request_call FID_UART_RX 0 (FID_UART_RX \<in> set (s_handlers ?s)) 8 7]\<rparr>"
    by (rule plain_request [OF plain_cjson_documented _ _ _ _ s(1,2)]) simp_all
  finally have eq: "ending = ?s\<lparr>s_calls := s_calls ?s @ [request_call FID_UART_RX 0 (FID_UART_RX \<in> set (s_handlers ?s)) 8 7]\<rparr>" .
  show "s_calls ending = [request_call FID_UART_RX 0 False 8 7]" "s_waiting ending = [waiting_7]"
    "s_sessions ending = s_sessions booted"
    unfolding eq using s by simp_all
qed

lemma ending_reachable: "server_reachable (\<lambda>_. 10) plain_cjson always ending"
  unfolding ending_def by (rule reach_step [OF subscribed_reachable]) (simp add: subscribed_eq booted_eq)


text \<open>A subscription whose next poll is in the future is what the walk leaves.\<close>

definition resting :: server where
  "resting = subscribed\<lparr>s_calls := [waiting_7\<lparr>call_next := 100\<rparr>]\<rparr>"

lemma resting_walk: "s_calls (forward_pass always resting) = [waiting_7\<lparr>call_next := 100\<rparr>]"
proof -
  have "\<not> has_flag FLAG_TO_DELETE (waiting_7\<lparr>call_next := 100\<rparr>)" "not_due always (waiting_7\<lparr>call_next := 100\<rparr>) s" for s
    by (simp_all add: not_due_def has_flag_def waiting_7_def waiting_form_def request_call_def Let_def
        FLAG_NEW_def FLAG_LONG_TERM_def FLAG_TO_DELETE_def)
  then show ?thesis by (simp add: resting_def forward_pass_def forward_one_def)
qed

theorem walk_leaves_polls_witness:
  "s_calls (forward_pass always resting) = [waiting_7\<lparr>call_next := 100\<rparr>]
   \<and> has_flag FLAG_LONG_TERM (waiting_7\<lparr>call_next := 100\<rparr>) \<and> \<not> has_flag FLAG_NEW (waiting_7\<lparr>call_next := 100\<rparr>)"
  using walk_leaves_polls [of always resting] resting_walk by simp

end
