(* ===== verification/Server_Delivery.thy ===== *)
theory Server_Delivery
  imports Server_Answers
begin

section \<open>Delivery of the answers\<close>

text \<open>
  \<open>handle_message\<close>: an answer with the number 0 is for every waiting subscriber of its function, any
  other for the first waiting call with its number. A subscription goes back to the active calls.
\<close>

text \<open>A call up to the time of its next poll.\<close>

definition unpolled :: "call \<Rightarrow> call" where
  "unpolled c = c\<lparr>call_next := 0\<rparr>"

text \<open>The frame that carries the answer to a call: under the function and number of the call.\<close>

definition answer_frame :: "(nat \<Rightarrow> session option) \<Rightarrow> jsstr \<Rightarrow> call \<Rightarrow> nat \<times> ws_frame" where
  "answer_frame ses j c = (the (call_conn ses c), text_frame (response_text (call_fid c) (call_id c) j))"

definition answer_frames :: "(nat \<Rightarrow> session option) \<Rightarrow> webapi_msg \<Rightarrow> call list \<Rightarrow> (nat \<times> ws_frame) list" where
  "answer_frames ses m cs = (case m_data m of Some (d # ds) \<Rightarrow> map (answer_frame ses (d # ds)) cs | _ \<Rightarrow> [])"

lemma answer_frames_simps [simp]:
  "answer_frames ses m [] = []"
  "answer_frames ses m (xs @ ys) = answer_frames ses m xs @ answer_frames ses m ys"
  by (simp_all add: answer_frames_def split: option.split list.split)

lemma answer_frames_Cons: "answer_frames ses m (c # cs) = answer_frames ses m [c] @ answer_frames ses m cs"
  using answer_frames_simps(2) [of ses m "[c]" cs] by simp

definition accepting :: "hal \<Rightarrow> bool" where
  "accepting H \<longleftrightarrow> (\<forall>n conn. h_accepts H n conn)"

lemma run_handler_out [simp]: "s_out (run_handler c s) = s_out s"
  by (simp add: run_handler_def)

lemma answer_out:
  assumes "accepting H" and "call_ok (s_sessions s) c" and "call_session c \<noteq> None"
  shows "s_out (answer_call H m c s) = s_out s @ answer_frames (s_sessions s) m [c]"
proof -
  obtain conn where conn: "call_conn (s_sessions s) c = Some conn"
    using call_ok_alive [OF assms(2)] assms(3) by (auto elim!: alive_callE simp: call_conn_def)
  then have "answerable H (s_sessions (run_handler c s)) c conn" using assms(1) by (simp add: answerable_def accepting_def)
  from send_json_answerable [OF this] conn show ?thesis
    by (simp add: answer_call_def Let_def answer_frames_def answer_frame_def split: option.split list.split)
qed

lemma rearm_out [simp]: "s_out (rearm_call H c s) = s_out s"
  by (simp add: rearm_call_def)

text \<open>What a subscription is armed with: the delay it asked for, from some reading of the clock.\<close>

definition armed :: "hal \<Rightarrow> call \<Rightarrow> bool" where
  "armed H c \<longleftrightarrow> (\<exists>n. call_next c = h_tick H n + call_poll c)"

lemma rearm_calls:
  "\<exists>d. s_calls (rearm_call H c s) = s_calls s @ d \<and> map unpolled d = map unpolled (filter (has_flag FLAG_LONG_TERM) [c])
     \<and> list_all (armed H) d"
  by (auto simp: rearm_call_def unpolled_def armed_def)

lemma broadcast_effect:
  assumes "accepting H" and "list_all (call_ok (s_sessions s)) cs"
  shows "s_out (broadcast H m cs s) = s_out s @ answer_frames (s_sessions s) m (filter (fid_match (m_fid m)) cs)
    \<and> s_waiting (broadcast H m cs s) = s_waiting s @ filter (\<lambda>c. \<not> fid_match (m_fid m) c) cs
    \<and> (\<exists>d. s_calls (broadcast H m cs s) = s_calls s @ d
        \<and> map unpolled d = map unpolled (filter (has_flag FLAG_LONG_TERM) (filter (fid_match (m_fid m)) cs))
        \<and> list_all (armed H) d)"
  using assms
proof (induction H m cs s rule: broadcast.induct)
  case (2 H m c cs s)
  show ?case
  proof (cases "fid_match (m_fid m) c")
    case True
    let ?s = "rearm_call H c (answer_call H m c s)"
    have out: "s_out ?s = s_out s @ answer_frames (s_sessions s) m [c]"
      using answer_out [of H s c m] 2(3,4) True by (simp add: fid_match_def)
    obtain d where d: "s_calls ?s = s_calls s @ d" "map unpolled d = map unpolled (filter (has_flag FLAG_LONG_TERM) [c])"
        "list_all (armed H) d"
      using rearm_calls [of H c "answer_call H m c s"] by auto
    have ih: "s_out (broadcast H m cs ?s) = s_out ?s @ answer_frames (s_sessions s) m (filter (fid_match (m_fid m)) cs)
      \<and> s_waiting (broadcast H m cs ?s) = s_waiting s @ filter (\<lambda>c. \<not> fid_match (m_fid m) c) cs
      \<and> (\<exists>e. s_calls (broadcast H m cs ?s) = s_calls ?s @ e
          \<and> map unpolled e = map unpolled (filter (has_flag FLAG_LONG_TERM) (filter (fid_match (m_fid m)) cs))
          \<and> list_all (armed H) e)"
      using 2(1) [OF True 2(3)] 2(4) by simp
    then obtain e where e: "s_calls (broadcast H m cs ?s) = s_calls ?s @ e"
        "map unpolled e = map unpolled (filter (has_flag FLAG_LONG_TERM) (filter (fid_match (m_fid m)) cs))" "list_all (armed H) e"
      by blast
    have "map unpolled (d @ e) = map unpolled (filter (has_flag FLAG_LONG_TERM) (filter (fid_match (m_fid m)) (c # cs)))"
      using d(2) e(2) True by simp
    with ih out d e True show ?thesis
      by (auto simp: answer_frames_Cons [of _ _ c "filter _ _"] intro!: exI [of _ "d @ e"])
  next
    case False
    with 2(2) [OF False 2(3)] 2(4) show ?thesis by simp
  qed
qed simp

lemma broadcast_all:
  assumes "server_reachable caps L H' s" and "accepting H" and "m_id m = 0"
  shows "s_out (handle_message H m s) = s_out s @ answer_frames (s_sessions s) m (filter (fid_match (m_fid m)) (s_waiting s))
    \<and> s_waiting (handle_message H m s) = filter (\<lambda>c. \<not> fid_match (m_fid m) c) (s_waiting s)
    \<and> (\<exists>d. s_calls (handle_message H m s) = s_calls s @ d \<and> list_all (armed H) d
        \<and> map unpolled d = map unpolled (filter (has_flag FLAG_LONG_TERM) (filter (fid_match (m_fid m)) (s_waiting s))))"
  using broadcast_effect [OF assms(2), of "s\<lparr>s_waiting := []\<rparr>" "s_waiting s" m] assms(3)
    server_ok_lists(2) [OF serving.inv_reachable [OF assms(1)]]
  by (auto simp: handle_message_def)

text \<open>C23. A broadcast reaches every subscriber once. An answer with the number 0 is sent, in order, to each waiting
  call of its function whose client is connected, one frame each under the call's own number, and nothing
  else is sent (nothing at all when it is empty); the subscriptions among them are active again, armed with
  the delay they asked for, the one-shot calls are over, and the other waiting calls are untouched.\<close>

theorem broadcast_reaches_subscribers:
  assumes "server_reachable caps L H' s" and "accepting H" and "m_id m = 0"
  shows "s_out (handle_message H m s) = s_out s @ answer_frames (s_sessions s) m (filter (fid_match (m_fid m)) (s_waiting s))
    \<and> s_waiting (handle_message H m s) = filter (\<lambda>c. \<not> fid_match (m_fid m) c) (s_waiting s)
    \<and> (\<exists>d. s_calls (handle_message H m s) = s_calls s @ d \<and> list_all (armed H) d
        \<and> map unpolled d = map unpolled (filter (has_flag FLAG_LONG_TERM) (filter (fid_match (m_fid m)) (s_waiting s))))"
  by (rule broadcast_all [OF assms])

definition serial_answer :: webapi_msg where
  "serial_answer = \<lparr>m_fid = FID_UART_RX, m_id = 0, m_data = Some (lit ''\"bHM=\"'')\<rparr>"

lemma accepting_always: "accepting always"
  by (simp add: accepting_def)

lemma waiting_7_facts:
  "fid_match FID_UART_RX waiting_7" "call_conn (s_sessions booted) waiting_7 = Some 1" "call_fid waiting_7 = FID_UART_RX"
  "call_id waiting_7 = 7"
  by (simp_all add: fid_match_def waiting_7_def waiting_form_def request_call_def call_conn_def booted_eq Let_def)

theorem broadcast_reaches_subscribers_witness:
  "s_out (handle_message always serial_answer subscribed)
     = s_out subscribed @ [(1, text_frame (response_text FID_UART_RX 7 (lit ''\"bHM=\"'')))]"
proof -
  have "s_waiting subscribed = [waiting_7]" "s_sessions subscribed = s_sessions booted" by (simp_all add: subscribed_eq)
  then show ?thesis
    using broadcast_reaches_subscribers [OF subscribed_reachable accepting_always, of serial_answer] waiting_7_facts
    by (simp add: serial_answer_def answer_frames_def answer_frame_def lit_def)
qed

text \<open>The first waiting call with a number.\<close>

lemma extract_first:
  "id_match i c \<Longrightarrow> \<forall>d \<in> set xs. \<not> id_match i d \<Longrightarrow> List.extract (id_match i) (xs @ c # ys) = Some (xs, c, ys)"
  by (simp add: extract_Some_iff)

lemma handle_first:
  assumes "s_waiting s = xs @ c # ys" and "id_match (m_id m) c" and "\<forall>d \<in> set xs. \<not> id_match (m_id m) d" and "m_id m \<noteq> 0"
  shows "handle_message H m s = rearm_call H c (answer_call H m c (s\<lparr>s_waiting := xs @ ys\<rparr>))"
  using extract_first [OF assms(2,3)] assms(1,4) by (simp add: handle_message_def)

text \<open>C29. An answer goes to one call. An answer with a number is sent to the first waiting call of a connected
  client that has this number, under that call's function, and to nobody else; the call stops waiting, and
  unless it is a subscription it is in no list any more: a one-shot call is answered at most once.\<close>

theorem answer_goes_to_one_call:
  assumes "server_reachable caps L H' s" and "accepting H" and "m_id m \<noteq> 0"
    and "s_waiting s = xs @ c # ys" and "id_match (m_id m) c" and "\<forall>d \<in> set xs. \<not> id_match (m_id m) d"
  shows "s_out (handle_message H m s) = s_out s @ answer_frames (s_sessions s) m [c]
    \<and> s_waiting (handle_message H m s) = xs @ ys
    \<and> (if has_flag FLAG_LONG_TERM c
       then \<exists>d. s_calls (handle_message H m s) = s_calls s @ [d] \<and> unpolled d = unpolled c \<and> armed H d
       else s_calls (handle_message H m s) = s_calls s)"
proof -
  have "call_ok (s_sessions s) c"
    using server_ok_calls(2) [OF serving.inv_reachable [OF assms(1)]] assms(4) by simp
  then have "s_out (answer_call H m c (s\<lparr>s_waiting := xs @ ys\<rparr>)) = s_out s @ answer_frames (s_sessions s) m [c]"
    using answer_out [OF assms(2), of "s\<lparr>s_waiting := xs @ ys\<rparr>" c m] assms(5) by (simp add: id_match_def)
  then show ?thesis
    unfolding handle_first [OF assms(4-6,3)]
    by (auto simp: rearm_call_def unpolled_def armed_def)
qed

definition answer_7 :: webapi_msg where
  "answer_7 = \<lparr>m_fid = FID_UART_TX, m_id = 7, m_data = Some (lit ''{\"written\":2}'')\<rparr>"

theorem answer_goes_to_one_call_witness:
  "s_out (handle_message always answer_7 subscribed)
     = s_out subscribed @ [(1, text_frame (response_text FID_UART_RX 7 (lit ''{\"written\":2}'')))]"
proof -
  have w: "s_waiting subscribed = [] @ waiting_7 # []" and ses: "s_sessions subscribed = s_sessions booted"
    by (simp_all add: subscribed_eq)
  have "id_match (m_id answer_7) waiting_7" "m_id answer_7 \<noteq> 0"
    using waiting_7_facts(1,4) by (simp_all add: id_match_def fid_match_def answer_7_def)
  then have "s_out (handle_message always answer_7 subscribed)
      = s_out subscribed @ answer_frames (s_sessions subscribed) answer_7 [waiting_7]"
    using answer_goes_to_one_call [OF subscribed_reachable accepting_always _ w] by simp
  with ses waiting_7_facts show ?thesis
    by (simp add: answer_frames_def answer_frame_def answer_7_def lit_def)
qed

text \<open>Answers may cross. Two clients choose their call numbers independently. When both wait with the same number,
  the answer to the second one's call of another function is delivered to the first one's, under the first
  one's function; the second gets nothing and keeps waiting.\<close>

theorem answers_may_cross:
  assumes "server_reachable caps L H' s" and "accepting H"
    and "s_waiting s = xs @ c # ys @ d # zs" and "\<forall>e \<in> set xs. \<not> id_match (call_id d) e"
    and "call_id c = call_id d" and "call_id d \<noteq> 0"
    and "call_conn (s_sessions s) c = Some conn" and "m = \<lparr>m_fid = call_fid d, m_id = call_id d, m_data = Some (x # j)\<rparr>"
  shows "s_out (handle_message H m s) = s_out s @ [(conn, text_frame (response_text (call_fid c) (call_id d) (x # j)))]
    \<and> d \<in> set (s_waiting (handle_message H m s))"
proof -
  have match: "id_match (m_id m) c"
    using assms(5,7,8) by (auto simp: id_match_def call_conn_def bind_eq_Some_conv)
  have "call_ok (s_sessions s) c"
    using server_ok_calls(2) [OF serving.inv_reachable [OF assms(1)]] assms(3) by simp
  then have "s_out (answer_call H m c (s\<lparr>s_waiting := xs @ ys @ d # zs\<rparr>)) = s_out s @ answer_frames (s_sessions s) m [c]"
    using answer_out [OF assms(2), of "s\<lparr>s_waiting := xs @ ys @ d # zs\<rparr>" c m] match by (simp add: id_match_def)
  moreover have "handle_message H m s = rearm_call H c (answer_call H m c (s\<lparr>s_waiting := xs @ ys @ d # zs\<rparr>))"
    by (rule handle_first [OF assms(3) match]) (use assms(4,6,8) in simp_all)
  ultimately show ?thesis
    using assms(5,7,8) by (simp add: answer_frames_def answer_frame_def)
qed

text \<open>A second client sends with the same number.\<close>

definition second_events :: "server_event list" where
  "second_events = [Connect 2 55, Receive_frame 2 (text_frame (stringify id (request_object FID_UART_TX 0 7)))]"

definition second :: server where
  "second = run_events (server_step plain_cjson always) second_events subscribed"

definition call_7 :: call where
  "call_7 = request_call FID_UART_TX 1 False 0 7"

definition two_sessions :: "nat \<Rightarrow> session option" where
  "two_sessions = (s_sessions booted)(1 \<mapsto> \<lparr>ss_conn = 2, ss_fd = 55, ss_alive = 0, ss_ping = 0\<rparr>)"

lemma second_parts:
  "s_calls second = [call_7]" "s_waiting second = [waiting_7]" "s_sessions second = two_sessions"
  "s_routes second = s_routes booted" "s_queues second = s_queues subscribed" "server_reachable (\<lambda>_. 10) plain_cjson always second"
proof -
  let ?c = "ws_server_on_connect always 2 55 subscribed"
  let ?s = "note_alive always 2 ?c"
  have s: "s_user ?s 2 = Some 1" "ws_get_fid_queue FID_UART_TX ?s \<noteq> None" "s_calls ?s = []" "s_handlers ?s = []"
    "s_waiting ?s = [waiting_7]" "s_sessions ?s = two_sessions" "s_routes ?s = s_routes booted" "s_queues ?s = s_queues subscribed"
    by (simp_all add: note_alive_def ws_server_on_connect_def subscribed_eq booted_eq ws_server_init_def two_sessions_def
        ws_get_fid_queue_def Let_def fun_upd_idem_iff FID_UART_RX_def FID_UART_TX_def)
  have "second = ws_server_on_text plain_cjson always 2 (stringify id (request_object FID_UART_TX 0 7)) ?s"
    by (simp add: second_def second_events_def ws_server_on_frame_def text_frame_def)
  also have "\<dots> = ?s\<lparr>s_calls := s_calls ?s @ [request_call FID_UART_TX 1 (FID_UART_TX \<in> set (s_handlers ?s)) 0 7]\<rparr>"
    by (rule plain_request [OF plain_cjson_documented _ _ _ _ s(1,2)]) simp_all
  finally have eq: "second = ?s\<lparr>s_calls := s_calls ?s @ [request_call FID_UART_TX 1 (FID_UART_TX \<in> set (s_handlers ?s)) 0 7]\<rparr>" .
  show "s_calls second = [call_7]" "s_waiting second = [waiting_7]" "s_sessions second = two_sessions"
    "s_routes second = s_routes booted" "s_queues second = s_queues subscribed"
    unfolding eq using s by (simp_all add: call_7_def)
  show "server_reachable (\<lambda>_. 10) plain_cjson always second"
    unfolding second_def second_events_def
    by (rule reachable_run [OF subscribed_reachable])
       (auto simp: subscribed_eq booted_eq ws_server_init_def ws_server_on_connect_def Let_def split: if_splits)
qed

definition both :: server where
  "both = server_step plain_cjson always Forward_pass second"

lemma both_parts:
  "s_waiting both = [waiting_7, waiting_form call_7]" "s_sessions both = two_sessions"
  "server_reachable (\<lambda>_. 10) plain_cjson always both"
proof -
  have reach: "answerable always (s_sessions second) call_7 2"
    by (simp add: answerable_def call_conn_def second_parts two_sessions_def call_7_def request_call_def)
  have facts: "\<not> has_flag FLAG_TO_DELETE call_7" "\<not> not_due always call_7 second" "\<not> asks_clock call_7"
    by (simp_all add: call_7_def request_call_def has_flag_def not_due_def asks_clock_def FLAG_TO_DELETE_def FLAG_NEW_def
        FLAG_LONG_TERM_def)
  have q: "ws_get_fid_queue (call_fid call_7) second = Some 0"
    by (simp add: ws_get_fid_queue_def second_parts booted_eq call_7_def request_call_def FID_UART_RX_def FID_UART_TX_def)
  have room: "length (q_items (s_queues second 0)) < q_cap (s_queues second 0)"
    by (simp add: second_parts subscribed_eq)
  note one = forward_branches [OF reach facts(1,2) refl, of "[]" "[]"]
  show "s_waiting both = [waiting_7, waiting_form call_7]" "s_sessions both = two_sessions"
    using one room facts(3) by (simp_all add: both_def forward_pass_def second_parts(1) q) (simp_all add: second_parts)
  show "server_reachable (\<lambda>_. 10) plain_cjson always both"
    unfolding both_def by (rule reach_step [OF second_parts(6)]) simp
qed

theorem answers_may_cross_witness:
  "s_out (handle_message always answer_7 both)
     = s_out both @ [(1, text_frame (response_text FID_UART_RX 7 (lit ''{\"written\":2}'')))]
   \<and> waiting_form call_7 \<in> set (s_waiting (handle_message always answer_7 both))"
proof -
  have w: "s_waiting both = [] @ waiting_7 # [] @ waiting_form call_7 # []" by (simp add: both_parts)
  have d: "call_fid (waiting_form call_7) = FID_UART_TX" "call_id (waiting_form call_7) = 7"
    by (simp_all add: call_7_def waiting_form_def request_call_def Let_def)
  have c: "call_conn (s_sessions both) waiting_7 = Some 1"
    by (simp add: call_conn_def both_parts two_sessions_def booted_eq waiting_7_def waiting_form_def request_call_def Let_def)
  have m: "answer_7 = \<lparr>m_fid = call_fid (waiting_form call_7), m_id = call_id (waiting_form call_7),
      m_data = Some (123 # tl (lit ''{\"written\":2}''))\<rparr>"
    by (simp add: answer_7_def d) (simp add: lit_def)
  have "lit ''{\"written\":2}'' = 123 # tl (lit ''{\"written\":2}'')" by (simp add: lit_def)
  with answers_may_cross [OF both_parts(3) accepting_always w _ _ _ c m] d waiting_7_facts show ?thesis by simp
qed

end
