(* ===== verification/Server_Keepalive.thy ===== *)
theory Server_Keepalive
  imports Server_Progress
begin

section \<open>Keeping alive and freeing\<close>

text \<open>
  What the first part of the worker's pass does: it frees the calls without a session, keeps the others in
  order, and pings the clients that have been silent.
\<close>

definition live :: "call \<Rightarrow> bool" where
  "live c \<longleftrightarrow> call_session c \<noteq> None"

text \<open>What of a call the pass cannot change.\<close>

definition lasting :: "call \<Rightarrow> call" where
  "lasting c = c\<lparr>call_session := None, call_pending := 0\<rparr>"

text \<open>A client that has been silent for the ping delay at some reading of the clock.\<close>

definition silent :: "hal \<Rightarrow> (nat \<Rightarrow> session option) \<Rightarrow> nat \<Rightarrow> bool" where
  "silent H ses conn \<longleftrightarrow> (\<exists>a ss n. ses a = Some ss \<and> ss_conn ss = conn \<and> PING_DELAY \<le> h_tick H n - ss_alive ss)"

text \<open>The two states differ in the ping times only.\<close>

definition same_clients :: "(nat \<Rightarrow> session option) \<Rightarrow> (nat \<Rightarrow> session option) \<Rightarrow> bool" where
  "same_clients ses ses' \<longleftrightarrow> (\<forall>a. map_option (ss_ping_update (\<lambda>_. 0)) (ses' a) = map_option (ss_ping_update (\<lambda>_. 0)) (ses a))"

lemma same_clients_refl [simp]: "same_clients ses ses"
  by (simp add: same_clients_def)

lemma same_clients_trans: "same_clients a b \<Longrightarrow> same_clients b c \<Longrightarrow> same_clients a c"
  by (simp add: same_clients_def)

lemma same_clients_ping: "ses a = Some ss \<Longrightarrow> same_clients ses (ses(a \<mapsto> ss\<lparr>ss_ping := t\<rparr>))"
  by (simp add: same_clients_def)

lemma ping_update_fields:
  "ss_ping_update (\<lambda>_. 0) x = ss_ping_update (\<lambda>_. 0) y \<Longrightarrow> ss_conn x = ss_conn y \<and> ss_alive x = ss_alive y"
  by (cases x, cases y) simp

lemma silent_same:
  assumes "same_clients ses ses'" and "silent H ses' conn"
  shows "silent H ses conn"
proof -
  obtain a ss n where ss: "ses' a = Some ss" "ss_conn ss = conn" "PING_DELAY \<le> h_tick H n - ss_alive ss"
    using assms(2) by (auto simp: silent_def)
  have "map_option (ss_ping_update (\<lambda>_. 0)) (ses a) = Some (ss_ping_update (\<lambda>_. 0) ss)"
    using assms(1) ss(1) unfolding same_clients_def by (metis option.simps(9))
  then obtain tt where tt: "ses a = Some tt" "ss_ping_update (\<lambda>_. 0) tt = ss_ping_update (\<lambda>_. 0) ss" by auto
  show ?thesis
    unfolding silent_def
    by (intro exI [of _ a] exI [of _ tt] exI [of _ n]) (use ss tt(1) ping_update_fields [OF tt(2)] in simp)
qed

definition pings_only :: "hal \<Rightarrow> (nat \<Rightarrow> session option) \<Rightarrow> (nat \<times> ws_frame) list \<Rightarrow> bool" where
  "pings_only H ses fs \<longleftrightarrow> (\<forall>(conn, f) \<in> set fs. f = ping_frame \<and> silent H ses conn)"

lemma pings_only_append [simp]: "pings_only H ses (xs @ ys) \<longleftrightarrow> pings_only H ses xs \<and> pings_only H ses ys"
  by (auto simp: pings_only_def)

lemma pings_only_same: "same_clients ses ses' \<Longrightarrow> pings_only H ses' fs \<Longrightarrow> pings_only H ses fs"
  by (auto simp: pings_only_def intro: silent_same)

lemma serve_one_outcome:
  assumes "alive_call (s_sessions s) c" and "vServeApiCall H c s = (r, s')"
  shows "same_clients (s_sessions s) (s_sessions s')
    \<and> (\<exists>fs. s_out s' = s_out s @ fs \<and> pings_only H (s_sessions s) fs)
    \<and> (if live c then \<exists>d. r = Some d \<and> lasting d = lasting c \<and> ((\<forall>n conn. h_accepts H n conn) \<longrightarrow> d = c) else r = None)
    \<and> s_calls s' = s_calls s \<and> s_waiting s' = s_waiting s"
  using assms(1)
proof (cases rule: alive_callE)
  case 1
  with assms(2) show ?thesis by (auto simp: vServeApiCall_def live_def pings_only_def)
next
  case (2 a ss)
  have live: "live c" using 2 by (simp add: live_def)
  show ?thesis
  proof (cases "PING_DELAY \<le> h_tick H (s_time s) - ss_alive ss \<and> PING_DELAY \<le> h_tick H (s_time s) - ss_ping ss")
    case False
    with assms(2) 2 live show ?thesis by (auto simp: vServeApiCall_def Let_def pings_only_def)
  next
    case True
    show ?thesis
    proof (cases rule: send_frame_cases [of H "ss_conn ss" ping_frame "tick s"])
      case 1
      have "pings_only H (s_sessions s) [(ss_conn ss, ping_frame)]"
        using True 2 by (auto simp: pings_only_def silent_def)
      with 1(1) assms(2) 2 True live show ?thesis
        by (auto simp: vServeApiCall_def Let_def same_clients_ping)
    next
      case r: 2
      have "lasting (vApiCallComplete c) = lasting c" by (simp add: lasting_def vApiCallComplete_def Let_def)
      with r assms(2) 2 True live show ?thesis
        by (auto simp: vServeApiCall_def Let_def pings_only_def)
    qed
  qed
qed

lemma serve_list_outcome:
  assumes "serve_calls H cs s = (cs', s')" and "server_inv U out s" and "list_all (call_ok (s_sessions s)) cs"
  shows "same_clients (s_sessions s) (s_sessions s')
    \<and> (\<exists>fs. s_out s' = s_out s @ fs \<and> pings_only H (s_sessions s) fs)
    \<and> map lasting cs' = map lasting (filter live cs)
    \<and> ((\<forall>n conn. h_accepts H n conn) \<longrightarrow> cs' = filter live cs)
    \<and> s_calls s' = s_calls s \<and> s_waiting s' = s_waiting s"
  using assms
proof (induction H cs s arbitrary: cs' s' rule: serve_calls.induct)
  case (2 H c cs s)
  obtain r s1 where r: "vServeApiCall H c s = (r, s1)" by (cases "vServeApiCall H c s")
  obtain ds s2 where ds: "serve_calls H cs s1 = (ds, s2)" by (cases "serve_calls H cs s1")
  have "alive_call (s_sessions s) c" using "2.prems"(3) by simp
  note one = serve_one_outcome [OF this r]
  have inv: "server_inv U out s1" "call_ok (s_sessions s1) = call_ok (s_sessions s)"
    using serve_one [OF "2.prems"(2) _ r] "2.prems"(3) by simp_all
  have rest: "same_clients (s_sessions s1) (s_sessions s2)
      \<and> (\<exists>fs. s_out s2 = s_out s1 @ fs \<and> pings_only H (s_sessions s1) fs)
      \<and> map lasting ds = map lasting (filter live cs)
      \<and> ((\<forall>n conn. h_accepts H n conn) \<longrightarrow> ds = filter live cs)
      \<and> s_calls s2 = s_calls s1 \<and> s_waiting s2 = s_waiting s1"
  proof (cases r)
    case None
    show ?thesis by (rule "2.IH"(1) [OF r [symmetric] None ds inv(1)]) (use inv "2.prems"(3) in simp)
  next
    case (Some d)
    show ?thesis by (rule "2.IH"(2) [OF r [symmetric] Some ds inv(1)]) (use inv "2.prems"(3) in simp)
  qed
  have res: "(cs', s') = (case r of None \<Rightarrow> (ds, s2) | Some d \<Rightarrow> (d # ds, s2))"
    using "2.prems"(1) r ds by (simp split: option.splits)
  obtain fs gs where fs: "s_out s1 = s_out s @ fs" "pings_only H (s_sessions s) fs"
    and gs: "s_out s2 = s_out s1 @ gs" "pings_only H (s_sessions s1) gs"
    using one rest by blast
  have "s_out s2 = s_out s @ (fs @ gs) \<and> pings_only H (s_sessions s) (fs @ gs)"
    using fs gs one by (auto intro: pings_only_same)
  moreover have "same_clients (s_sessions s) (s_sessions s2)" using one rest same_clients_trans by blast
  moreover have "s' = s2" "map lasting cs' = map lasting (filter live (c # cs))"
    "(\<forall>n conn. h_accepts H n conn) \<longrightarrow> cs' = filter live (c # cs)"
    using res one rest by (auto split: option.splits if_splits)
  ultimately show ?case using one rest by auto
qed (auto simp: pings_only_def)

text \<open>The keep-alive pass frees exactly the dead calls. It removes the calls without a session and no other, in both
  lists and in order, changing nothing of a kept call but, when a ping is refused, its session; the only
  frames it sends are pings, and only to clients that have been silent for the ping delay.\<close>

theorem keep_alive_outcome:
  assumes "server_reachable caps L H' s"
  shows "map lasting (s_calls (serve_pass H s)) = map lasting (filter live (s_calls s))
    \<and> map lasting (s_waiting (serve_pass H s)) = map lasting (filter live (s_waiting s))
    \<and> ((\<forall>n conn. h_accepts H n conn) \<longrightarrow>
        s_calls (serve_pass H s) = filter live (s_calls s) \<and> s_waiting (serve_pass H s) = filter live (s_waiting s))
    \<and> (\<exists>fs. s_out (serve_pass H s) = s_out s @ fs \<and> pings_only H (s_sessions s) fs)"
proof -
  have ok: "server_ok s" by (rule serving.inv_reachable [OF assms])
  obtain cs s1 where 1: "serve_calls H (s_calls s) s = (cs, s1)" by (cases "serve_calls H (s_calls s) s")
  note o1 = serve_list_outcome [OF 1 ok server_ok_lists(1) [OF ok]]
  note f1 = serve_list [OF 1 ok server_ok_lists(1) [OF ok]]
  have ok1: "server_ok (s1\<lparr>s_calls := cs\<rparr>)"
    using f1 server_ok_set_calls by blast
  obtain ws s2 where 2: "serve_calls H (s_waiting s) (s1\<lparr>s_calls := cs\<rparr>) = (ws, s2)"
    by (cases "serve_calls H (s_waiting s) (s1\<lparr>s_calls := cs\<rparr>)")
  have "list_all (call_ok (s_sessions (s1\<lparr>s_calls := cs\<rparr>))) (s_waiting s)"
    using f1 server_ok_lists(2) [OF ok] by simp
  note o2 = serve_list_outcome [OF 2 ok1 this]
  obtain fs where fs: "s_out s1 = s_out s @ fs" "pings_only H (s_sessions s) fs"
    using o1 by blast
  obtain gs where "s_out s2 = s_out (s1\<lparr>s_calls := cs\<rparr>) @ gs" "pings_only H (s_sessions (s1\<lparr>s_calls := cs\<rparr>)) gs"
    using o2 by blast
  then have gs: "s_out s2 = s_out s1 @ gs" "pings_only H (s_sessions s1) gs" by simp_all
  have "s_out s2 = s_out s @ (fs @ gs) \<and> pings_only H (s_sessions s) (fs @ gs)"
    using fs gs o1 by (auto intro: pings_only_same)
  moreover have "serve_pass H s = s2\<lparr>s_waiting := ws\<rparr>" using 1 2 by (simp add: serve_pass_def)
  ultimately show ?thesis using o1 o2 by auto
qed

text \<open>A clock that is far ahead.\<close>

definition later :: hal where
  "later = always\<lparr>h_tick := (\<lambda>_. 5000)\<rparr>"

theorem keep_alive_outcome_witness:
  "s_calls (serve_pass later asked) = [request_call FID_UART_RX 0 False 4 7]
   \<and> (\<exists>fs. s_out (serve_pass later asked) = s_out asked @ fs \<and> pings_only later (s_sessions asked) fs)"
proof -
  have "\<forall>n conn. h_accepts later n conn" by (simp add: later_def)
  moreover have "filter live (s_calls asked) = [request_call FID_UART_RX 0 False 4 7]"
    by (simp add: asked_eq live_def request_call_def)
  ultimately show ?thesis using keep_alive_outcome [OF asked_reachable, of later] by simp
qed

end
