(* ===== verification/Frame_Parser.thy ===== *)
theory Frame_Parser
  imports Server_Safety
begin

section \<open>The reference parser of requests\<close>

text \<open>
  \<open>WsFrame_Parse\<close> of src/main/ws_frame_parser.c: the reading of a request as a function of its own, which the
  unit tests of the repository exercise. The server does not call it; it reads requests in
  \<open>ws_server_on_text\<close>. The property below says that both read the same.
\<close>

datatype ws_parse_result = WS_PARSE_OK | WS_PARSE_NO_PAYLOAD | WS_PARSE_BAD_JSON | WS_PARSE_BAD_FID
  | WS_PARSE_MISSING_FLAGS | WS_PARSE_MISSING_SID

record ws_parsed_frame =
  pf_fid :: u32
  pf_sid :: u32
  pf_flags :: u32

text \<open>The result, and the frame where it is filled in.\<close>

definition WsFrame_Parse :: "cjson_lib \<Rightarrow> jsstr \<Rightarrow> ws_parse_result \<times> ws_parsed_frame option" where
  "WsFrame_Parse L payload =
     (if payload = [] then (WS_PARSE_NO_PAYLOAD, None)
      else case c_parse L payload of
        None \<Rightarrow> (WS_PARSE_BAD_JSON, None)
      | Some json \<Rightarrow>
         (let fid = (case c_item L ''FID'' json of
                Some (JNum l) \<Rightarrow> word_of_int (c_int L l)
              | Some (JStr s) \<Rightarrow> word_of_int (strtol16 s)
              | _ \<Rightarrow> 0)
          in if fid = 0 then (WS_PARSE_BAD_FID, None)
             else case number_item L ''FLAGS'' json of
               None \<Rightarrow> (WS_PARSE_MISSING_FLAGS, None)
             | Some flags \<Rightarrow>
                (case number_item L ''SID'' json of
                   None \<Rightarrow> (WS_PARSE_MISSING_SID, None)
                 | Some sid \<Rightarrow> (WS_PARSE_OK, Some \<lparr>pf_fid = fid, pf_sid = and (word_of_int sid) 0xFFFF,
                     pf_flags = word_of_int flags\<rparr>))))"

text \<open>What a server that used the parser would do with its result.\<close>

definition parsed_request :: "hal \<Rightarrow> nat \<Rightarrow> ws_parse_result \<times> ws_parsed_frame option \<Rightarrow> server \<Rightarrow> server \<Rightarrow> bool" where
  "parsed_request H a r s s' \<longleftrightarrow> (case r of
       (WS_PARSE_OK, Some p) \<Rightarrow>
         (\<exists>c. call_session c = Some a \<and> call_fid c = pf_fid p \<and> call_id c = pf_sid p
            \<and> call_flags c = or FLAG_NEW (pf_flags p) \<and> call_pending c = 1
            \<and> s' = (if pf_fid p \<in> set (s_handlers s) \<or> ws_get_fid_queue (pf_fid p) s \<noteq> None
                    then s\<lparr>s_calls := s_calls s @ [c]\<rparr> else snd (bApiCallSendStatus H c STATUS_NO_HANDLER s)))
     | (WS_PARSE_MISSING_FLAGS, _) \<Rightarrow>
         (\<exists>c. call_session c = Some a \<and> call_id c = 0 \<and> s' = snd (bApiCallSendStatus H c STATUS_BAD_REQ s))
     | (WS_PARSE_MISSING_SID, _) \<Rightarrow>
         (\<exists>c. call_session c = Some a \<and> call_id c = 0 \<and> s' = snd (bApiCallSendStatus H c STATUS_BAD_REQ s))
     | _ \<Rightarrow> s' = s)"

lemma ok_request:
  "\<exists>c. call_session c = Some a \<and> call_fid c = pf_fid p \<and> call_id c = pf_sid p
     \<and> call_flags c = or FLAG_NEW (pf_flags p) \<and> call_pending c = 1
     \<and> s' = (if pf_fid p \<in> set (s_handlers s) \<or> ws_get_fid_queue (pf_fid p) s \<noteq> None
             then s\<lparr>s_calls := s_calls s @ [c]\<rparr> else snd (bApiCallSendStatus H c STATUS_NO_HANDLER s))
     \<Longrightarrow> parsed_request H a (WS_PARSE_OK, Some p) s s'"
  by (auto simp: parsed_request_def)

text \<open>C34. Server and parser read requests alike. For a connected client, every text is queued as a call, refused
  for want of a handler, answered as a bad request or ignored by the server exactly as the tested parser's
  result says, and a queued call has the function, the number and the flags (and the mark of a new call) that
  the parser returns.\<close>

theorem server_reads_as_parser:
  assumes "s_user s conn = Some a"
  shows "parsed_request H a (WsFrame_Parse L data) s (ws_server_on_text L H conn data s)"
proof (cases "data = [] \<or> c_parse L data = None")
  case True
  with assms show ?thesis
    by (auto simp: parsed_request_def WsFrame_Parse_def ws_server_on_text_def)
next
  case False
  then obtain j where j: "data \<noteq> []" "c_parse L data = Some j" by auto
  note read = read_fid_def [symmetric]
  show ?thesis
  proof (cases "read_fid L j = 0")
    case True
    with assms j show ?thesis
      by (simp add: parsed_request_def WsFrame_Parse_def ws_server_on_text_def read)
  next
    case fid: False
    show ?thesis
    proof (cases "number_item L ''FLAGS'' j = None \<or> number_item L ''SID'' j = None")
      case True
      with assms j fid show ?thesis
        by (auto simp: parsed_request_def WsFrame_Parse_def ws_server_on_text_def read Let_def
            intro!: exI [of _ "new_call L H a j"] split: option.split)
    next
      case False
      then obtain flags sid where n: "number_item L ''FLAGS'' j = Some flags" "number_item L ''SID'' j = Some sid" by auto
      let ?c = "(new_call L H a j)\<lparr>call_id := and (word_of_int sid) 0xFFFF\<rparr>"
      let ?h = "read_fid L j \<in> set (s_handlers s)"
      have flags: "call_flags (new_call L H a j) = or FLAG_NEW (word_of_int flags)" by (simp add: new_call_def n)
      let ?q = "ws_get_fid_queue (read_fid L j) s \<noteq> None"
      have parse: "WsFrame_Parse L data = (WS_PARSE_OK, Some \<lparr>pf_fid = read_fid L j, pf_sid = and (word_of_int sid) 0xFFFF,
          pf_flags = word_of_int flags\<rparr>)"
        using j fid n by (simp add: WsFrame_Parse_def read)
      have server: "ws_server_on_text L H conn data s =
          (if ?h \<or> ?q then s\<lparr>s_calls := s_calls s @ [?c\<lparr>call_handler := ?h\<rparr>]\<rparr> else snd (bApiCallSendStatus H ?c STATUS_NO_HANDLER s))"
        using assms j fid n by (auto simp: ws_server_on_text_def Let_def)
      show ?thesis
        unfolding parse
        by (rule ok_request, rule exI [of _ "if ?h \<or> ?q then ?c\<lparr>call_handler := ?h\<rparr> else ?c"])
           (simp add: server flags)
    qed
  qed
qed

theorem server_reads_as_parser_witness:
  "parsed_request always 0 (WsFrame_Parse plain_cjson (lit ''{}'')) booted
     (ws_server_on_text plain_cjson always 1 (lit ''{}'') booted)"
  by (rule server_reads_as_parser) (simp add: booted_eq)

end
