(* ===== verification/Js_Convert.thy ===== *)
theory Js_Convert
  imports Browser
begin

section \<open>Conversions between texts and numbers\<close>

text \<open>
  What the inline scripts of the pages (src/main/flash_data/index.html, innovert.html, innovert_isd.html) use of
  the numbers of JavaScript: \<open>parseInt\<close>, the text of integers, the conversions of parsed values to numbers, the
  32-bit operators, division in double precision and \<open>toFixed\<close>. Numbers are exact: integers as \<open>int\<close> (None is
  NaN), fractions as \<open>m / 2 ^ k\<close>.
\<close>

unbundle bit_operations_syntax

subsection \<open>Integers and their texts\<close>

definition show_int :: "int \<Rightarrow> jsstr" where
  "show_int z = (if z < 0 then 45 # show_nat (nat (- z)) else show_nat (nat z))"

definition read_int :: "jsstr \<Rightarrow> int" where
  "read_int s = (case s of c # r \<Rightarrow> if c = 45 then - int (read_nat r) else int (read_nat s) | [] \<Rightarrow> 0)"

text \<open>A number as a member of an object literal, and in a template literal; NaN is null in JSON.\<close>

definition js_num :: "int option \<Rightarrow> json" where
  "js_num v = (case v of Some z \<Rightarrow> JNum (show_int z) | None \<Rightarrow> JNull)"

definition num_tmpl :: "(jsstr \<Rightarrow> jsstr) \<Rightarrow> int option \<Rightarrow> jsstr" where
  "num_tmpl ns v = (case v of Some z \<Rightarrow> num_text ns (show_int z) | None \<Rightarrow> lit ''NaN'')"

definition js_space :: "nat \<Rightarrow> bool" where
  "js_space c \<longleftrightarrow> 9 \<le> c \<and> c \<le> 13 \<or> c \<in> {32, 160, 5760, 8232, 8233, 8239, 8287, 12288, 65279} \<or> 8192 \<le> c \<and> c \<le> 8202"

definition digit_value :: "nat \<Rightarrow> nat \<Rightarrow> nat option" where
  "digit_value r c = (case hex_value c of Some d \<Rightarrow> if d < r then Some d else None | None \<Rightarrow> None)"

definition read_radix :: "nat \<Rightarrow> jsstr \<Rightarrow> nat" where
  "read_radix r s = foldl (\<lambda>v c. v * r + (case digit_value r c of Some d \<Rightarrow> d | None \<Rightarrow> 0)) 0 s"

definition strip_0x :: "jsstr \<Rightarrow> jsstr option" where
  "strip_0x s = (case s of a # b # r \<Rightarrow> if a = 48 \<and> (b = 120 \<or> b = 88) then Some r else None | _ \<Rightarrow> None)"

text \<open>\<open>parseInt(s, radix)\<close> for the radix 16, and 0 for none: digits up to the first other character, after spaces,
  a sign and \<open>0x\<close>; the value is rounded to a double.\<close>

definition unsigned_int :: "nat \<Rightarrow> jsstr \<Rightarrow> nat option" where
  "unsigned_int radix s =
     (case (case strip_0x s of Some r \<Rightarrow> (16, r) | None \<Rightarrow> (if radix = 0 then 10 else radix, s)) of
        (r, t) \<Rightarrow> (let ds = takeWhile (\<lambda>c. digit_value r c \<noteq> None) t
                  in if ds = [] then None else Some (round53 (read_radix r ds))))"

definition parse_int :: "nat \<Rightarrow> jsstr \<Rightarrow> int option" where
  "parse_int radix s = (case dropWhile js_space s of
       [] \<Rightarrow> None
     | c # r \<Rightarrow>
        if c = 45 then map_option (\<lambda>n. - int n) (unsigned_int radix r)
        else map_option int (unsigned_int radix (if c = 43 then r else c # r)))"

text \<open>\<open>v || d\<close> for a number: NaN and 0 count as false.\<close>

definition or_default :: "int option \<Rightarrow> int \<Rightarrow> int option" where
  "or_default v d = (case v of Some z \<Rightarrow> if z \<noteq> 0 then Some z else Some d | None \<Rightarrow> Some d)"

subsection \<open>Parsed values as numbers\<close>

text \<open>What engines do beyond small integers: the text of the Number of a string, how many natural numbers are
  below a number given by its text, and the integer part of such a number (0 for NaN).\<close>

record engine = platform +
  str_num :: "jsstr \<Rightarrow> jsstr"
  below :: "jsstr \<Rightarrow> nat"
  trunc :: "jsstr \<Rightarrow> int"
  big_fixed :: "nat \<times> nat \<Rightarrow> jsstr"

text \<open>The text of \<open>Number(v)\<close>.\<close>

definition num_of :: "'z engine_scheme \<Rightarrow> json \<Rightarrow> jsexn + jsstr" where
  "num_of E v = (case v of
       JNull \<Rightarrow> Inr (lit ''0'')
     | JBool b \<Rightarrow> Inr (if b then lit ''1'' else lit ''0'')
     | JNum l \<Rightarrow> Inr (num_text (num_str E) l)
     | _ \<Rightarrow> (case to_js_string (num_str E) v of Inl e \<Rightarrow> Inl e | Inr s \<Rightarrow> Inr (str_num E s)))"

definition int_part :: "'z engine_scheme \<Rightarrow> jsstr \<Rightarrow> int" where
  "int_part E t = (if safe_int t then read_int t else trunc E t)"

definition count_below :: "'z engine_scheme \<Rightarrow> jsstr \<Rightarrow> nat" where
  "count_below E t = (if safe_int t then nat (read_int t) else below E t)"

text \<open>\<open>parseInt\<close> of a parsed value; None is \<open>undefined\<close>.\<close>

definition parse_value :: "'z engine_scheme \<Rightarrow> nat \<Rightarrow> json option \<Rightarrow> jsexn + int option" where
  "parse_value E radix v = (case v of
       None \<Rightarrow> Inr (parse_int radix (lit ''undefined''))
     | Some x \<Rightarrow> (case to_js_string (num_str E) x of Inl e \<Rightarrow> Inl e | Inr s \<Rightarrow> Inr (parse_int radix s)))"

text \<open>\<open>v === n\<close> for an integer \<open>n\<close>.\<close>

definition is_int :: "'z engine_scheme \<Rightarrow> json option \<Rightarrow> int \<Rightarrow> bool" where
  "is_int E v n \<longleftrightarrow> (case v of Some (JNum l) \<Rightarrow> num_text (num_str E) l = show_int n | _ \<Rightarrow> False)"

text \<open>The \<open>width\<close> bits an integer operator or a \<open>DataView\<close> takes of a number.\<close>

definition low_bits :: "nat \<Rightarrow> int \<Rightarrow> nat" where
  "low_bits width z = nat (z mod 2 ^ width)"

subsection \<open>Fractions\<close>

text \<open>The double next to \<open>a / b\<close>, as \<open>q / 2 ^ k\<close> with 53 bits.\<close>

definition near_quot :: "nat \<Rightarrow> nat \<Rightarrow> nat" where
  "near_quot n b = (let q = n div b; r = n mod b in if b < 2 * r \<or> 2 * r = b \<and> odd q then q + 1 else q)"

definition js_div :: "nat \<Rightarrow> nat \<Rightarrow> nat \<times> nat" where
  "js_div a b = (let k = 53 + bit_size b - bit_size a;
       k' = (if 2 ^ 53 \<le> a * 2 ^ k div b then k - 1 else k)
     in (near_quot (a * 2 ^ k') b, k'))"

text \<open>\<open>toFixed(d)\<close> of \<open>m / 2 ^ k\<close>: the nearest number with \<open>d\<close> decimals, of two the larger; from \<open>10 ^ 21\<close> on the text of the
  number itself.\<close>

definition fixed_int :: "nat \<Rightarrow> nat \<times> nat \<Rightarrow> nat" where
  "fixed_int d x = (2 * fst x * 10 ^ d + 2 ^ snd x) div 2 ^ (snd x + 1)"

definition pad_start :: "nat \<Rightarrow> nat \<Rightarrow> jsstr \<Rightarrow> jsstr" where
  "pad_start n c s = replicate (n - length s) c @ s"

definition point :: "nat \<Rightarrow> jsstr \<Rightarrow> jsstr" where
  "point d s = (if d = 0 then s else take (length s - d) s @ 46 # drop (length s - d) s)"

definition to_fixed :: "'z engine_scheme \<Rightarrow> nat \<Rightarrow> bool \<Rightarrow> nat \<times> nat \<Rightarrow> jsstr" where
  "to_fixed E d neg x =
     (if neg \<and> 0 < fst x then [45] else []) @
     (if 10 ^ 21 * 2 ^ snd x \<le> fst x then big_fixed E x
      else point d (pad_start (d + 1) 48 (show_nat (fixed_int d x))))"

subsection \<open>Facts\<close>

lemma round53_small: "n < 2 ^ 53 \<Longrightarrow> round53 n = n"
  using bit_size_le [of n 53] by (simp add: round53_def round_even_def)

lemma digit_value_digit: "d < 10 \<Longrightarrow> d < r \<Longrightarrow> digit_value r (48 + d) = Some d"
  by (simp add: digit_value_def hex_value_def)

lemma digit_digit_value: "digit c \<Longrightarrow> digit_value 10 c = Some (c - 48)"
  by (auto simp: digit_def digit_value_def hex_value_def)

lemma read_radix_digits: "list_all digit s \<Longrightarrow> read_radix 10 s = read_nat s"
proof -
  assume "list_all digit s"
  then have "foldl (\<lambda>v c. v * 10 + (case digit_value 10 c of Some d \<Rightarrow> d | None \<Rightarrow> 0)) n s = foldl (\<lambda>v c. v * 10 + (c - 48)) n s" for n
    by (induction s arbitrary: n) (simp_all add: digit_digit_value)
  then show ?thesis by (simp add: read_radix_def read_nat_def)
qed

lemma digits_not_0x: "list_all digit s \<Longrightarrow> strip_0x s = None"
  by (auto simp: strip_0x_def digit_def split: list.split)

lemma takeWhile_digits: "list_all digit s \<Longrightarrow> takeWhile (\<lambda>c. \<exists>y. digit_value 10 c = Some y) s = s"
  by (induction s) (simp_all add: digit_digit_value)

lemma unsigned_int_digits: "list_all digit s \<Longrightarrow> s \<noteq> [] \<Longrightarrow> read_nat s < 2 ^ 53 \<Longrightarrow> unsigned_int 0 s = Some (read_nat s)"
  by (simp add: unsigned_int_def digits_not_0x takeWhile_digits read_radix_digits round53_small Let_def)

text \<open>\<open>parseInt\<close> reads the text of a number back.\<close>

lemma parse_show_nat: "n < 2 ^ 53 \<Longrightarrow> parse_int 0 (show_nat n) = Some (int n)"
proof -
  assume n: "n < 2 ^ 53"
  obtain c s where s: "show_nat n = c # s" using show_nat_head(1) [of n] by (cases "show_nat n") auto
  then have c: "digit c" using show_nat_digits [of n] by simp
  then have "\<not> js_space c" "c \<noteq> 45" "c \<noteq> 43" by (auto simp: digit_def js_space_def)
  with s show ?thesis
    using unsigned_int_digits [of "show_nat n"] show_nat_digits [of n] n read_show_nat [of n] by (simp add: parse_int_def)
qed

lemma show_int_nat [simp]: "show_int (int n) = show_nat n"
  by (simp add: show_int_def)

lemma js_num_nat: "js_num (Some (int n)) = JNat n"
  by (simp add: js_num_def JNat_def)

lemma safe_show_nat: "n < 10 ^ 15 \<Longrightarrow> num_text ns (show_nat n) = show_nat n"
  by (simp add: num_text_def show_nat_safe)

lemma read_int_nat: "read_int (show_nat n) = int n"
proof -
  obtain c s where s: "show_nat n = c # s" using show_nat_head(1) [of n] by (cases "show_nat n") auto
  then have "c \<noteq> 45" using show_nat_digits [of n] by (auto simp: digit_def)
  with s show ?thesis using read_show_nat [of n] by (simp add: read_int_def)
qed

lemma number_values:
  assumes "n < 10 ^ 15"
  shows "num_of E (JNat n) = Inr (show_nat n)" "int_part E (show_nat n) = int n" "count_below E (show_nat n) = n"
    "is_int E (Some (JNat n)) (int m) \<longleftrightarrow> n = m"
    "parse_value E 0 (Some (JNat n)) = Inr (Some (int n))"
proof -
  have "n < 2 ^ 53" using assms by simp
  then show "parse_value E 0 (Some (JNat n)) = Inr (Some (int n))"
    using assms by (simp add: parse_value_def JNat_def safe_show_nat parse_show_nat)
  show "is_int E (Some (JNat n)) (int m) \<longleftrightarrow> n = m"
    using assms decimal.enc_inj [of n m] by (auto simp: is_int_def JNat_def safe_show_nat simp del: show_nat_less show_nat_ge)
qed (use assms in \<open>simp_all add: num_of_def JNat_def safe_show_nat int_part_def count_below_def show_nat_safe read_int_nat\<close>)

text \<open>\<open>toFixed\<close> is nearest, and a quotient by a power of ten is shown exactly.\<close>

lemma near_quot_error: "0 < b \<Longrightarrow> 2 * (near_quot n b * b) \<le> 2 * n + b \<and> 2 * n \<le> 2 * (near_quot n b * b) + b"
proof -
  assume b: "0 < b"
  define q r where "q = n div b" and "r = n mod b"
  have n: "n = q * b + r" "r < b" using b by (simp_all add: q_def r_def)
  have "near_quot n b = (if b < 2 * r \<or> 2 * r = b \<and> odd q then q + 1 else q)"
    by (simp add: near_quot_def q_def r_def Let_def)
  then show ?thesis using n by (auto simp: algebra_simps)
qed

lemma fixed_quotient:
  assumes "2 * (q * 10 ^ d) \<le> 2 * (a * 2 ^ k) + 10 ^ d" and "2 * (a * 2 ^ k) \<le> 2 * (q * 10 ^ d) + 10 ^ d" and "(10::nat) ^ d < 2 ^ k"
  shows "fixed_int d (q, k) = a"
  unfolding fixed_int_def fst_conv snd_conv
  by (rule div_nat_eqI) (use assms in \<open>simp_all add: algebra_simps\<close>)

text \<open>The truth of a number; the last three digits, and the text with three decimals.\<close>

lemma truthy_nat: "n < 10 ^ 15 \<Longrightarrow> truthy ns (Some (JNat n)) \<longleftrightarrow> n \<noteq> 0"
proof -
  assume n: "n < 10 ^ 15"
  have "lit ''0'' = show_nat 0" by (simp add: lit_def)
  then show ?thesis
    using decimal.enc_inj [of n 0] by (cases "n = 0") (auto simp add: truthy_def JNat_def safe_show_nat [OF n] safe_show_nat [of 0] simp del: show_nat_ge show_nat_less)
qed

lemma show_nat_split: "1000 \<le> q \<Longrightarrow> show_nat q = show_nat (q div 1000) @ [48 + q div 100 mod 10, 48 + q div 10 mod 10, 48 + q mod 10]"
proof -
  assume q: "1000 \<le> q"
  have "show_nat q = show_nat (q div 10) @ [48 + q mod 10]" using q by (intro show_nat_ge) simp
  moreover have "show_nat (q div 10) = show_nat (q div 10 div 10) @ [48 + q div 10 mod 10]" using q by (intro show_nat_ge) simp
  moreover have "show_nat (q div 10 div 10) = show_nat (q div 10 div 10 div 10) @ [48 + q div 10 div 10 mod 10]" using q by (intro show_nat_ge) simp
  ultimately show ?thesis by (simp only: div_mult2_eq [symmetric] append_assoc append.simps mult_numeral_left_semiring_numeral num_double) simp
qed

lemma pad_3: "n < 1000 \<Longrightarrow> pad_start 3 48 (show_nat n) = [48 + n div 100, 48 + n div 10 mod 10, 48 + n mod 10]"
proof -
  assume n: "n < 1000"
  consider "n < 10" | "10 \<le> n" "n < 100" | "100 \<le> n" by linarith
  then show ?thesis
  proof cases
    case 1
    then show ?thesis by (simp add: pad_start_def numeral_2_eq_2)
  next
    case 2
    then have "show_nat (n div 10) = [48 + n div 10]" by (intro show_nat_less) simp
    then have "show_nat n = [48 + n div 10, 48 + n mod 10]" using 2 by (subst show_nat_ge) simp_all
    then show ?thesis using 2 by (simp add: pad_start_def del: show_nat_ge)
  next
    case 3
    have "show_nat (n div 10 div 10) = [48 + n div 10 div 10]" using n by (intro show_nat_less) simp
    then have "show_nat (n div 10) = [48 + n div 10 div 10, 48 + n div 10 mod 10]" using 3 by (subst show_nat_ge) simp_all
    then have "show_nat n = [48 + n div 10 div 10, 48 + n div 10 mod 10, 48 + n mod 10]" using 3 by (subst show_nat_ge) simp_all
    then show ?thesis by (simp add: pad_start_def div_mult2_eq [symmetric] del: show_nat_ge)
  qed
qed

lemma three_digits:
  fixes a b c :: nat
  assumes "a < 10" and "b < 10" and "c < 10"
  shows "(100 * a + 10 * b + c) div 100 = a" "(100 * a + 10 * b + c) div 10 mod 10 = b" "(100 * a + 10 * b + c) mod 10 = c"
proof -
  show "(100 * a + 10 * b + c) div 100 = a" by (rule div_nat_eqI) (use assms in simp_all)
  have split: "100 * a + 10 * b + c = c + 10 * (10 * a + b)" "10 * a + b = b + 10 * a" by simp_all
  show "(100 * a + 10 * b + c) mod 10 = c" unfolding split(1) mod_mult_self2 using assms(3) by (rule mod_less)
  have "(100 * a + 10 * b + c) div 10 = 10 * a + b" by (rule div_nat_eqI) (use assms in simp_all)
  then show "(100 * a + 10 * b + c) div 10 mod 10 = b" unfolding split(2) by (simp only: mod_mult_self2 mod_less [OF assms(2)])
qed

lemma point_3: "point 3 (pad_start 4 48 (show_nat q)) = show_nat (q div 1000) @ 46 # pad_start 3 48 (show_nat (q mod 1000))"
proof (cases "q < 1000")
  case True
  have len: "length (show_nat q) \<le> 3" using True by (intro show_nat_length) simp_all
  then have "4 - length (show_nat q) = Suc (3 - length (show_nat q))" by simp
  then have "pad_start 4 48 (show_nat q) = 48 # pad_start 3 48 (show_nat q)" by (simp add: pad_start_def)
  then show ?thesis using True len by (simp add: point_def pad_start_def del: show_nat_ge)
next
  case False
  have "1 \<le> length (show_nat (q div 1000))" using show_nat_head(1) [of "q div 1000"] by (cases "show_nat (q div 1000)") auto
  moreover have "pad_start 3 48 (show_nat (q mod 1000)) = [48 + q div 100 mod 10, 48 + q div 10 mod 10, 48 + q mod 10]"
  proof -
    have r: "q mod 1000 = 100 * (q div 100 mod 10) + 10 * (q div 10 mod 10) + q mod 10"
      using mod_mult2_eq [of q 100 10] mod_mult2_eq [of q 10 10] by simp
    have "q mod 1000 < 1000" by simp
    from pad_3 [OF this] show ?thesis
      using three_digits [of "q div 100 mod 10" "q div 10 mod 10" "q mod 10"] unfolding r by simp
  qed
  ultimately show ?thesis
    using False show_nat_split [of q] by (simp add: point_def pad_start_def [of 4] del: show_nat_ge)
qed
end
