(* ===== verification/Page_Base.thy ===== *)
theory Page_Base
  imports Js_Convert
begin

section \<open>What the device pages share\<close>

text \<open>
  The pages of the devices (src/main/flash_data/index.html, innovert.html, innovert_isd.html) are scripts of the same make: fields read by
  \<open>parseInt\<close>, a counter of requests, a status line, a socket and timers. Here are the definitions they have in common,
  and facts about blocks of statements, identifiers of elements, sockets and timers.
\<close>

text \<open>Net soedineniya, Podklyucheno, and a dash, as code units.\<close>

definition ru_no_connection :: jsstr where
  "ru_no_connection = [1053, 1077, 1090, 32, 1089, 1086, 1077, 1076, 1080, 1085, 1077, 1085, 1080, 1103]"

definition ru_online :: jsstr where
  "ru_online = [1055, 1086, 1076, 1082, 1083, 1102, 1095, 1077, 1085, 1086]"

definition dash :: jsstr where
  "dash = [8212]"

subsection \<open>Fields, numbers and the status\<close>

definition field :: "string \<Rightarrow> ('cb, 'z) browser_scheme \<Rightarrow> jsstr" where
  "field el w = doc w (el, ''value'')"

text \<open>\<open>nextSid\<close>: the value it returns; the counter goes up by one.\<close>

definition sid_of :: "nat \<Rightarrow> nat" where
  "sid_of n = n mod 65536"

definition setStatus :: "bool \<Rightarrow> ('cb, 'z) browser_scheme stmt" where
  "setStatus ok = block
     [set_dom ''ws-status'' ''className'' (lit ''badge '' @ (if ok then lit ''ok'' else lit ''err'')),
      set_dom ''ws-status'' ''textContent'' (if ok then ru_online else ru_no_connection)]"

text \<open>\<open>toString(16)\<close> of a natural number.\<close>

fun hex_digits :: "nat \<Rightarrow> jsstr" where
  "hex_digits n = (if n < 16 then [hex_char n] else hex_digits (n div 16) @ [hex_char (n mod 16)])"

declare hex_digits.simps [simp del]

subsection \<open>Sockets and timers\<close>

definition waits :: "('cb, 'z) browser_scheme \<Rightarrow> 'cb \<Rightarrow> nat \<Rightarrow> bool" where
  "waits w cb t \<longleftrightarrow> list_ex (\<lambda>x. t_id x = t \<and> t_cb x = cb) (timers w)"

definition ready_now :: "nat \<Rightarrow> ready \<Rightarrow> ('cb, 'z) browser_scheme \<Rightarrow> ('cb, 'z) browser_scheme" where
  "ready_now i r w = w\<lparr>socks := upd_at i (s_ready_update (\<lambda>_. r)) (socks w)\<rparr>"

definition expire :: "nat \<Rightarrow> ('cb, 'z) browser_scheme \<Rightarrow> ('cb, 'z) browser_scheme" where
  "expire t w = w\<lparr>timers := filter (\<lambda>x. t_id x \<noteq> t) (timers w)\<rparr>"

subsection \<open>Blocks over a list\<close>

lemma block_map:
  "(\<And>x w. x \<in> set xs \<Longrightarrow> F x w = (None, g x w)) \<Longrightarrow> block (map F xs) w = (None, fold g xs w)"
  by (induction xs arbitrary: w) simp_all

lemma block_append: "block (cs @ ds) w = (case block cs w of (None, w') \<Rightarrow> block ds w' | (Some e, w') \<Rightarrow> (Some e, w'))"
  by (induction cs arbitrary: w) (auto split: option.split prod.split)

lemma block_end [simp]: "(case r of (None, s) \<Rightarrow> block [] s | (Some e, s) \<Rightarrow> (Some e, s)) = r"
  by (auto split: option.split prod.split)

lemma fold_doc: "fold (\<lambda>x w. doc_update (f x) w) xs w = doc_update (fold f xs) w"
  by (induction xs arbitrary: w) simp_all

subsection \<open>Statements that keep part of the state\<close>

definition keeps :: "('s \<Rightarrow> 's \<Rightarrow> bool) \<Rightarrow> 's stmt \<Rightarrow> bool" where
  "keeps R c \<longleftrightarrow> (\<forall>w. R w (snd (c w)))"

text \<open>A relation between the state before and after: what is kept is kept by the control structures.\<close>

locale state_frame =
  fixes R :: "'s \<Rightarrow> 's \<Rightarrow> bool"
  assumes same_refl: "R w w"
    and same_trans: "R w w' \<Longrightarrow> R w' w'' \<Longrightarrow> R w w''"
begin

lemma same_block: "list_all (keeps R) cs \<Longrightarrow> R w (snd (block cs w))"
proof (induction cs arbitrary: w)
  case (Cons c cs)
  then have "R w (snd (c w))" by (simp add: keeps_def)
  with Cons show ?case
    using same_trans [of w "snd (c w)" "snd (block cs (snd (c w)))"] by (auto split: prod.split option.split)
qed (simp add: same_refl)

lemma keeps_block: "list_all (keeps R) cs \<Longrightarrow> keeps R (block cs)"
  by (simp add: keeps_def same_block)

lemma keeps_if: "list_all (keeps R) cs \<Longrightarrow> keeps R (ifthen b cs)" "list_all (keeps R) cs \<Longrightarrow> list_all (keeps R) ds \<Longrightarrow> keeps R (ifelse b cs ds)"
  by (simp_all add: keeps_def ifthen_def ifelse_def same_block same_refl)

lemma keeps_with_val: "(\<And>a. list_all (keeps R) (k a)) \<Longrightarrow> keeps R (with_val g k)"
  by (auto simp: keeps_def with_val_def same_block same_refl split: sum.split)

lemma keeps_list: "list_all (keeps R) []" "keeps R c \<Longrightarrow> list_all (keeps R) cs \<Longrightarrow> list_all (keeps R) (c # cs)"
  by simp_all

lemma keeps_throw: "keeps R (throw e)"
  by (simp add: keeps_def throw_def same_refl)

lemmas keeps_control = keeps_block keeps_if keeps_with_val keeps_list keeps_throw

end

text \<open>An exception that is reported changes nothing else.\<close>

lemma report_keeps:
  assumes "keeps R c" and "\<And>w w' e. R w w' \<Longrightarrow> R w (w'\<lparr>uncaught := uncaught w' @ [e]\<rparr>)"
  shows "R w (report c w)"
proof -
  obtain r w' where c: "c w = (r, w')" by fastforce
  with assms(1) have "R w w'" by (metis keeps_def snd_conv)
  then show ?thesis using assms(2) by (cases r) (simp_all add: report_def c)
qed

subsection \<open>Identifiers of elements\<close>

text \<open>An element whose identifier ends in a number.\<close>

lemma digits_chars: "map of_char (map char_of (show_nat n) :: string) = show_nat n"
proof -
  have "list_all (\<lambda>c. c < 256) (show_nat n)"
    using show_nat_digits [of n] by (auto simp: digit_def elim: list.pred_mono_strong)
  then show ?thesis by (simp add: map_idI list_all_iff)
qed

lemma numbered_inj: "p @ map char_of (show_nat a) = p @ (map char_of (show_nat b) :: string) \<longleftrightarrow> a = b"
proof
  assume "p @ map char_of (show_nat a) = p @ (map char_of (show_nat b) :: string)"
  then have "(map char_of (show_nat a) :: string) = map char_of (show_nat b)"
    by (rule same_append_eq [THEN iffD1])
  then have "show_nat a = show_nat b" by (metis digits_chars)
  with decimal.enc_inj [OF TrueI TrueI] show "a = b" .
qed simp

subsection \<open>Sockets\<close>

lemma ready_upd [simp]: "ready_at (upd_at i (s_sent_update f) ss) j = ready_at ss j"
  by (simp add: ready_at_def upd_at_def nth_list_update)

lemma length_change [simp]: "length (upd_at i f ss) = length ss"
  by (simp add: upd_at_def)

lemma ready_append: "ready_at (ss @ [x]) j = (if j = length ss then s_ready x else ready_at ss j)"
  by (auto simp: ready_at_def nth_append)

lemma ready_change: "ready_at (upd_at i (s_ready_update (\<lambda>_. r)) ss) j = (if j = i \<and> i < length ss then r else ready_at ss j)"
  by (auto simp: ready_at_def upd_at_def)

lemma readies: "map s_ready ss = map (ready_at ss) [0..<length ss]"
  by (rule nth_equalityI) (simp_all add: ready_at_def)

lemma ready_update: "map s_ready (upd_at i (s_ready_update (\<lambda>_. r)) ss) = (map s_ready ss)[i := r]"
  by (simp add: upd_at_def map_update list_update_beyond)

lemma truthy_obj: "truthy ns (Some (JObj ms))"
  by (simp add: truthy_def)

lemma truthy_arr: "truthy ns (Some (JArr vs))"
  by (simp add: truthy_def)

lemma sid_less: "sid_of n < 65536"
  by (simp add: sid_of_def)

end
