(* ===== verification/Meter_Page.thy ===== *)
theory Meter_Page
  imports Page_Base
begin

section \<open>The power meter page\<close>

text \<open>
  The inline script of src/main/flash_data/index.html: a page that polls the registers of a SUTO S111 power meter
  through the Modbus function of the gateway, shows its measurements and writes its configuration. The
  record \<open>meter\<close> has the variables of the script on top of the browser's state; each function is a block of
  statements in the order of the source. The texts of the table, the names and units of the measurements
  and the style are left out. What the clock, the locale and the user's confirmation say comes with the event.
\<close>

subsection \<open>State\<close>

datatype meter_cb = PollTimer | ConnectTimer

record meter = "meter_cb browser" +
  m_ws :: "nat option"
  m_pollTimer :: "nat option"
  m_sid :: nat
  m_pollSent :: nat
  m_infoRequested :: bool
  m_writeSent :: nat
  m_silent :: "nat list"
  m_alerts :: "jsstr list"

text \<open>What one reading of the clock gives: \<open>performance.now()\<close> in the unit of its resolution, \<open>toLocaleTimeString\<close>
  of the date for the browser's locale and for the Russian one, and the milliseconds.\<close>

record clock =
  c_now :: nat
  c_local :: jsstr
  c_ru :: jsstr
  c_ms :: nat

text \<open>The host of the page, the text of a time difference with one decimal, \<open>toString(16)\<close> of a number that is no
  small integer, and \<open>toUpperCase\<close> beyond ASCII.\<close>

record meter_env = engine +
  host :: jsstr
  elapsed :: "nat \<Rightarrow> nat \<Rightarrow> jsstr"
  hex_text :: "jsstr \<Rightarrow> jsstr"
  upper_text :: "jsstr \<Rightarrow> jsstr"

text \<open>Milliseconds, after a space.\<close>

definition ru_ms :: jsstr where
  "ru_ms = [32, 1084, 1089]"

subsection \<open>Fields and numbers\<close>

definition getFid :: "('cb, 'z) browser_scheme \<Rightarrow> int option" where
  "getFid w = parse_int 0 (field ''uart-sel'' w)"

definition getMbAddr :: "('cb, 'z) browser_scheme \<Rightarrow> int option" where
  "getMbAddr w = or_default (parse_int 0 (field ''mb-addr'' w)) 1"

subsection \<open>Values of two registers\<close>

text \<open>The 32 bits that \<open>f32\<close> puts into its buffer, and the number they are in IEEE 754: a sign, and \<open>n / 2 ^ 149\<close>.\<close>

definition f32 :: "'z engine_scheme \<Rightarrow> json \<Rightarrow> json \<Rightarrow> jsexn + nat" where
  "f32 E hi lo = (case num_of E hi of Inl e \<Rightarrow> Inl e | Inr a \<Rightarrow>
     (case num_of E lo of Inl e \<Rightarrow> Inl e | Inr b \<Rightarrow>
        Inr (low_bits 16 (int_part E a) * 65536 + low_bits 16 (int_part E b))))"

definition f32_exp :: "nat \<Rightarrow> nat" where
  "f32_exp b = b div 2 ^ 23 mod 256"

definition f32_neg :: "nat \<Rightarrow> bool" where
  "f32_neg b \<longleftrightarrow> 2 ^ 31 \<le> b"

definition f32_num :: "nat \<Rightarrow> nat" where
  "f32_num b = (if f32_exp b = 0 then b mod 2 ^ 23 else (2 ^ 23 + b mod 2 ^ 23) * 2 ^ (f32_exp b - 1))"

definition float_text :: "'z engine_scheme \<Rightarrow> nat \<Rightarrow> jsstr" where
  "float_text E b = (if f32_exp b \<noteq> 255 then to_fixed E 3 (f32_neg b) (f32_num b, 149) else dash)"

definition val_id :: "nat \<Rightarrow> string" where
  "val_id addr = ''val-'' @ map char_of (show_nat addr)"

text \<open>\<open>renderVal\<close>; the class is the same however often it is taken away and added.\<close>

definition renderVal :: "'z engine_scheme \<Rightarrow> nat \<Rightarrow> nat \<Rightarrow> meter stmt" where
  "renderVal E addr b = block
     [set_dom (val_id addr) ''textContent'' (float_text E b),
      set_dom (val_id addr) ''className'' (lit ''col-val flash'')]"

subsection \<open>Sending\<close>

definition ws_open :: "meter \<Rightarrow> bool" where
  "ws_open w \<longleftrightarrow> (case m_ws w of None \<Rightarrow> False | Some i \<Rightarrow> ready_at (socks w) i = OPEN)"

definition meter_frame :: "int option \<Rightarrow> nat \<Rightarrow> json \<Rightarrow> json" where
  "meter_frame fid sid arg = JObj [(lit ''FID'', js_num fid), (lit ''FLAGS'', JNat 0), (lit ''SID'', JNat sid), (lit ''ARG'', arg)]"

text \<open>\<open>ws.send(JSON.stringify({..., SID: nextSid(), ARG: arg}))\<close> on the open socket.\<close>

definition send_request :: "'z engine_scheme \<Rightarrow> int option \<Rightarrow> json \<Rightarrow> meter stmt" where
  "send_request E fid arg w = (case m_ws w of
       None \<Rightarrow> (Some TypeError, w)
     | Some i \<Rightarrow> sock_send i (stringify (num_str E) (meter_frame fid (sid_of (m_sid w)) arg)) (w\<lparr>m_sid := Suc (m_sid w)\<rparr>))"

definition send_arg :: "'z engine_scheme \<Rightarrow> json \<Rightarrow> meter stmt" where
  "send_arg E arg = ifthen ws_open [(\<lambda>w. send_request E (getFid w) arg w)]"

definition BATCH_START :: nat where
  "BATCH_START = 1000"

definition BATCH_COUNT :: nat where
  "BATCH_COUNT = 70"

definition AWT :: nat where
  "AWT = 150"

definition read_request :: "int option \<Rightarrow> nat \<Rightarrow> nat \<Rightarrow> json" where
  "read_request adr ra rvc = JObj [(lit ''FN'', JNat 3), (lit ''ADR'', js_num adr), (lit ''RA'', JNat ra), (lit ''RVC'', JNat rvc),
     (lit ''AWT'', JNat AWT)]"

definition poll :: "'z engine_scheme \<Rightarrow> clock \<Rightarrow> meter stmt" where
  "poll E c = block
     [assign (\<lambda>w. w\<lparr>m_pollSent := c_now c\<rparr>),
      (\<lambda>w. send_arg E (read_request (getMbAddr w) BATCH_START BATCH_COUNT) w),
      set_dom ''poll-time'' ''textContent'' (c_local c)]"

text \<open>An interval is a timer that its firing leaves in place.\<close>

definition startPoll :: "'z engine_scheme \<Rightarrow> clock \<Rightarrow> meter stmt" where
  "startPoll E c = block
     [poll E c,
      assign (\<lambda>w. (set_timeout PollTimer 500 w)\<lparr>m_pollTimer := Some (next_timer w)\<rparr>)]"

definition stopPoll :: "meter stmt" where
  "stopPoll = block
     [(\<lambda>w. clear_timeout (m_pollTimer w) w),
      assign (\<lambda>w. w\<lparr>m_pollTimer := None\<rparr>)]"

definition readDeviceInfo :: "'z engine_scheme \<Rightarrow> meter stmt" where
  "readDeviceInfo E = (\<lambda>w. send_arg E (read_request (getMbAddr w) 60 24) w)"

definition fmtTime :: "clock \<Rightarrow> jsstr" where
  "fmtTime c = c_ru c @ lit ''.'' @ pad_start 3 48 (show_nat (c_ms c))"

subsection \<open>Connection\<close>

definition meter_connect :: "'z meter_env_scheme \<Rightarrow> meter stmt" where
  "meter_connect E w =
     (let url = lit ''ws://'' @ host E @ lit '':81/ws''
      in if url_ok E url
         then (None, w\<lparr>socks := socks w @ [\<lparr>s_url = url, s_ready = CONNECTING, s_sent = []\<rparr>], m_ws := Some (length (socks w))\<rparr>)
         else (Some SyntaxError, w))"

definition onOpen :: "'z engine_scheme \<Rightarrow> clock \<Rightarrow> meter stmt" where
  "onOpen E c = block
     [setStatus True,
      assign (\<lambda>w. w\<lparr>m_infoRequested := False\<rparr>),
      startPoll E c]"

definition onClose :: "meter stmt" where
  "onClose = block
     [setStatus False,
      stopPoll,
      assign (set_timeout ConnectTimer 2000)]"

text \<open>\<open>ws.onclose = null; ws.close()\<close> and a new connection.\<close>

definition reconnect :: "'z meter_env_scheme \<Rightarrow> meter stmt" where
  "reconnect E = block
     [(\<lambda>w. case m_ws w of
         None \<Rightarrow> (None, w)
       | Some i \<Rightarrow> block [assign (\<lambda>w. w\<lparr>m_silent := i # m_silent w\<rparr>), sock_close i] w),
      stopPoll,
      setStatus False,
      meter_connect E]"

end
