(* ===== verification/Meter_Run.thy ===== *)
theory Meter_Run
  imports Meter_Page Js_Utf8
begin

section \<open>The power meter page: answers, writes and events\<close>

text \<open>
  The second half of the script of src/main/flash_data/index.html: what an answer of the gateway does to the page, the
  writes of the configuration, and the event loop, with one event per button, field, socket callback and timer.
\<close>

unbundle bit_operations_syntax

subsection \<open>Device information\<close>

text \<open>The low bits of a parsed value.\<close>

definition value_bits :: "'z engine_scheme \<Rightarrow> nat \<Rightarrow> json \<Rightarrow> jsexn + nat" where
  "value_bits E width v = (case num_of E v of Inl e \<Rightarrow> Inl e | Inr t \<Rightarrow> Inr (low_bits width (int_part E t)))"

text \<open>The loop over at most ten registers: bytes that are not zero, the high one of each register first.\<close>

fun model_bytes :: "'z engine_scheme \<Rightarrow> json list \<Rightarrow> jsexn + nat list" where
  "model_bytes E [] = Inr []"
| "model_bytes E (v # vs) = (case value_bits E 16 v of
       Inl e \<Rightarrow> Inl e
     | Inr n \<Rightarrow> (case model_bytes E vs of
           Inl e \<Rightarrow> Inl e
         | Inr bs \<Rightarrow> Inr ((if n div 256 \<noteq> 0 then [n div 256] else []) @ (if n mod 256 \<noteq> 0 then [n mod 256] else []) @ bs)))"

definition js_trim :: "jsstr \<Rightarrow> jsstr" where
  "js_trim s = rev (dropWhile js_space (rev (dropWhile js_space s)))"

definition model_text :: "nat list \<Rightarrow> jsstr" where
  "model_text bs = (let t = js_trim (filter (\<lambda>c. c \<noteq> 0) (text_decode bs)) in if t = [] then dash else t)"

definition two_digits :: "nat \<Rightarrow> jsstr" where
  "two_digits n = pad_start 2 48 (show_nat n)"

definition device_time :: "jsstr \<Rightarrow> nat \<Rightarrow> nat \<Rightarrow> nat \<Rightarrow> jsstr" where
  "device_time year date time sec = year @ lit ''-'' @ two_digits (date div 256) @ lit ''-'' @ two_digits (date mod 256) @ lit '' ''
     @ two_digits (time div 256) @ lit '':'' @ two_digits (time mod 256) @ lit '':'' @ two_digits sec"

definition parseDeviceInfo :: "'z engine_scheme \<Rightarrow> json list \<Rightarrow> meter stmt" where
  "parseDeviceInfo E rd = block
     [with_val (\<lambda>_. model_bytes E (take 10 rd)) (\<lambda>bs. [set_dom ''dev-model'' ''textContent'' (model_text bs)]),
      ifthen (\<lambda>_. 11 < length rd)
        [with_val (\<lambda>_. value_bits E 16 (rd ! 10)) (\<lambda>hi. [with_val (\<lambda>_. value_bits E 32 (rd ! 11)) (\<lambda>lo.
           [set_dom ''dev-serial'' ''textContent'' (show_nat ((hi * 65536) OR lo))])])],
      ifthen (\<lambda>_. 12 < length rd)
        [with_val (\<lambda>_. value_bits E 16 (rd ! 12)) (\<lambda>fw.
           [set_dom ''dev-fw'' ''textContent'' (show_nat (fw div 256) @ lit ''.'' @ show_nat (fw mod 256))])],
      ifthen (\<lambda>_. 18 < length rd)
        [with_val (\<lambda>_. value_bits E 16 (rd ! 16)) (\<lambda>date. [with_val (\<lambda>_. value_bits E 16 (rd ! 17)) (\<lambda>time.
           [with_val (\<lambda>_. value_bits E 8 (rd ! 18)) (\<lambda>sec.
             [with_val (\<lambda>_. to_js_string (num_str E) (rd ! 15)) (\<lambda>year.
               [set_dom ''dev-time'' ''textContent'' (device_time year date time sec)])])])])]]"

subsection \<open>Answers\<close>

definition meas_addrs :: "nat list" where
  "meas_addrs = map (\<lambda>i. 1000 + 2 * i) [0..<35]"

definition render_batch :: "'z engine_scheme \<Rightarrow> json list \<Rightarrow> meter stmt" where
  "render_batch E rd = block (map (\<lambda>addr. ifthen (\<lambda>_. addr - BATCH_START + 1 < length rd)
     [with_val (\<lambda>_. f32 E (rd ! (addr - BATCH_START)) (rd ! (addr - BATCH_START + 1))) (\<lambda>b. [renderVal E addr b])]) meas_addrs)"

text \<open>\<open>' CV:0x' + CV.toString(16).toUpperCase()\<close>; of what is no number, \<open>toString\<close> takes no notice of the 16.\<close>

definition js_upper :: "'z meter_env_scheme \<Rightarrow> jsstr \<Rightarrow> jsstr" where
  "js_upper E s = (if list_all (\<lambda>c. c < 128) s then map (\<lambda>c. if 97 \<le> c \<and> c \<le> 122 then c - 32 else c) s else upper_text E s)"

definition value_hex :: "'z meter_env_scheme \<Rightarrow> json \<Rightarrow> jsexn + jsstr" where
  "value_hex E v = (case v of
       JNum l \<Rightarrow> (let t = num_text (num_str E) l; z = read_int t in
         Inr (if safe_int t then (if z < 0 then [45] else []) @ hex_digits (nat \<bar>z\<bar>) else hex_text E t))
     | _ \<Rightarrow> to_js_string (num_str E) v)"

definition cv_text :: "'z meter_env_scheme \<Rightarrow> json option \<Rightarrow> jsexn + jsstr" where
  "cv_text E cv = (case cv of
       Some v \<Rightarrow> if truthy (num_str E) cv then (case value_hex E v of Inl e \<Rightarrow> Inl e | Inr s \<Rightarrow> Inr (lit '' CV:0x'' @ js_upper E s)) else Inr []
     | None \<Rightarrow> Inr [])"

text \<open>What the page shows of the answer to a write.\<close>

definition show_write_answer :: "'z meter_env_scheme \<Rightarrow> clock \<Rightarrow> json \<Rightarrow> json option \<Rightarrow> meter stmt" where
  "show_write_answer E c arg err w =
     (let rtt = elapsed E (m_writeSent w) (c_now c)
      in block
        [assign (\<lambda>w. w\<lparr>m_writeSent := 0\<rparr>),
         set_dom ''wt-recv'' ''textContent'' (fmtTime c),
         ifelse (\<lambda>_. truthy (num_str E) err)
           [with_val (\<lambda>_. case get_prop ''CV'' arg of Inl e \<Rightarrow> Inl e | Inr cv \<Rightarrow> cv_text E cv) (\<lambda>cv.
             [with_val (\<lambda>_. to_js_string (num_str E) (the err)) (\<lambda>t.
               [set_dom ''wt-rtt'' ''textContent'' (lit ''ERR: '' @ t @ cv),
                set_dom ''wt-rtt'' ''className'' (lit ''wt-val wt-err'')])])]
           [set_dom ''wt-rtt'' ''textContent'' (rtt @ ru_ms),
            set_dom ''wt-rtt'' ''className'' (lit ''wt-val wt-rtt'')]] w)"

definition is_write_answer :: "'z engine_scheme \<Rightarrow> json option \<Rightarrow> json option \<Rightarrow> meter \<Rightarrow> bool" where
  "is_write_answer E start err w \<longleftrightarrow> is_int E start 300
     \<or> 0 < m_writeSent w \<and> truthy (num_str E) err \<and> \<not> is_int E start (int BATCH_START) \<and> \<not> is_int E start 60"

definition show_batch :: "'z meter_env_scheme \<Rightarrow> clock \<Rightarrow> json list \<Rightarrow> meter stmt" where
  "show_batch E c rd = block
     [ifthen (\<lambda>w. 0 < m_pollSent w)
        [(\<lambda>w. set_dom ''rtt-val'' ''textContent'' (elapsed E (m_pollSent w) (c_now c)) w),
         assign (\<lambda>w. w\<lparr>m_pollSent := 0\<rparr>)],
      render_batch E rd,
      ifthen (\<lambda>w. \<not> m_infoRequested w)
        [assign (\<lambda>w. w\<lparr>m_infoRequested := True\<rparr>),
         readDeviceInfo E]]"

definition handleResp :: "'z meter_env_scheme \<Rightarrow> clock \<Rightarrow> json option \<Rightarrow> meter stmt" where
  "handleResp E c arg = (case arg of
       None \<Rightarrow> block []
     | Some a \<Rightarrow> ifthen (\<lambda>_. truthy (num_str E) arg)
        [with_val (\<lambda>_. get_prop ''RA'' a) (\<lambda>start. [with_val (\<lambda>_. get_prop ''ERR'' a) (\<lambda>err.
          [ifthen (\<lambda>w. is_write_answer E start err w \<and> 0 < m_writeSent w) [show_write_answer E c a err],
           ifthen (\<lambda>_. \<not> truthy (num_str E) err)
            [with_val (\<lambda>_. get_prop ''RD'' a) (\<lambda>rd. case rd of
               Some (JArr vs) \<Rightarrow>
                 [ifelse (\<lambda>_. is_int E start (int BATCH_START))
                   [show_batch E c vs]
                   [ifthen (\<lambda>_. is_int E start 60) [parseDeviceInfo E vs]]]
             | _ \<Rightarrow> [])]])])])"

text \<open>\<open>onMsg\<close>: a text that is no JSON is passed over.\<close>

definition onMsg :: "'z meter_env_scheme \<Rightarrow> ws_data \<Rightarrow> clock \<Rightarrow> meter stmt" where
  "onMsg E data c = (case json_parse (data_text data) of
       None \<Rightarrow> block []
     | Some obj \<Rightarrow> with_val (\<lambda>_. case get_prop ''FID'' obj of Inl e \<Rightarrow> Inl e | Inr v \<Rightarrow> parse_value E 16 v) (\<lambda>fid.
        [ifthen (\<lambda>w. fid = getFid w \<and> fid \<noteq> None)
          [with_val (\<lambda>_. get_prop ''ARG'' obj) (\<lambda>arg.
            [with_val (\<lambda>w. if 0 < m_writeSent w \<and> truthy (num_str E) arg
                 then (case get_prop ''STA'' (the arg) of Inl e \<Rightarrow> Inl e | Inr sta \<Rightarrow> parse_value E 16 sta) else Inr None)
              (\<lambda>sta. if sta = Some 3
                then [assign (\<lambda>w. w\<lparr>m_writeSent := 0\<rparr>),
                      set_dom ''wt-recv'' ''textContent'' (fmtTime c),
                      set_dom ''wt-rtt'' ''textContent'' (lit ''BUSY''),
                      set_dom ''wt-rtt'' ''className'' (lit ''wt-val wt-err'')]
                else [handleResp E c arg])])]]))"

subsection \<open>Writes\<close>

definition write_request_json :: "int option \<Rightarrow> int option list \<Rightarrow> json" where
  "write_request_json adr regs = JObj [(lit ''FN'', JNat 16), (lit ''ADR'', js_num adr), (lit ''RA'', JNat 300),
     (lit ''RVC'', JNat (length regs)), (lit ''RD'', JArr (map js_num regs)), (lit ''AWT'', JNat 2000)]"

definition sendInstr :: "'z engine_scheme \<Rightarrow> clock \<Rightarrow> nat \<Rightarrow> int option list \<Rightarrow> meter stmt" where
  "sendInstr E c code params = block
     [assign (\<lambda>w. w\<lparr>m_writeSent := c_now c\<rparr>),
      set_dom ''wt-sent'' ''textContent'' (fmtTime c),
      set_dom ''wt-recv'' ''textContent'' dash,
      set_dom ''wt-rtt'' ''textContent'' (dash @ ru_ms),
      set_dom ''wt-rtt'' ''className'' (lit ''wt-val wt-rtt''),
      (\<lambda>w. send_arg E (write_request_json (getMbAddr w) (Some (int code) # params)) w)]"

definition sendSysParams :: "'z engine_scheme \<Rightarrow> clock \<Rightarrow> meter stmt" where
  "sendSysParams E c w = sendInstr E c 1001
     [parse_int 0 (field ''cfg-wiring'' w), parse_int 0 (field ''cfg-freq'' w),
      or_default (parse_int 0 (field ''cfg-vnom'' w)) 220, Some 1, Some 0, Some 1, Some 0] w"

definition sendCommParams :: "'z engine_scheme \<Rightarrow> clock \<Rightarrow> meter stmt" where
  "sendCommParams E c w = sendInstr E c 1210
     [or_default (parse_int 0 (field ''cfg-addr'' w)) 1, parse_int 0 (field ''cfg-baud'' w),
      parse_int 0 (field ''cfg-parity'' w), parse_int 0 (field ''cfg-stop'' w)] w"

definition sendReset :: "'z engine_scheme \<Rightarrow> clock \<Rightarrow> nat \<Rightarrow> bool \<Rightarrow> meter stmt" where
  "sendReset E c kind confirmed = ifthen (\<lambda>_. confirmed) [sendInstr E c 1301 [Some (int kind)]]"

definition uart_config_arg :: "('cb, 'z) browser_scheme \<Rightarrow> json" where
  "uart_config_arg w = JObj [(lit ''BR'', js_num (parse_int 0 (field ''uart-baud'' w))), (lit ''WL'', js_num (parse_int 0 (field ''uart-wl'' w))),
     (lit ''PAR'', js_num (parse_int 0 (field ''uart-par'' w))), (lit ''SB'', js_num (parse_int 0 (field ''uart-sb'' w)))]"

definition config_fid :: "int option \<Rightarrow> nat" where
  "config_fid fid = (if fid = Some 0x1113 then 0x1010 else 0x1020)"

definition sendUartConfig :: "'z engine_scheme \<Rightarrow> meter stmt" where
  "sendUartConfig E = ifelse (\<lambda>w. \<not> ws_open w)
     [assign (\<lambda>w. w\<lparr>m_alerts := m_alerts w @ [ru_no_connection]\<rparr>)]
     [(\<lambda>w. send_request E (Some (int (config_fid (getFid w)))) (uart_config_arg w) w)]"

subsection \<open>The page and its events\<close>

definition meter_doc :: "string \<times> string \<Rightarrow> jsstr" where
  "meter_doc = (\<lambda>(el, prop).
     (case map_of [((''uart-sel'', ''value''), lit ''4371''), ((''mb-addr'', ''value''), lit ''1''),
        ((''ws-status'', ''className''), lit ''badge err''), ((''ws-status'', ''textContent''), ru_no_connection),
        ((''cfg-wiring'', ''value''), lit ''0''), ((''cfg-freq'', ''value''), lit ''50''), ((''cfg-vnom'', ''value''), lit ''220''),
        ((''cfg-addr'', ''value''), lit ''1''), ((''cfg-baud'', ''value''), lit ''2''), ((''cfg-parity'', ''value''), lit ''0''),
        ((''cfg-stop'', ''value''), lit ''1''), ((''uart-baud'', ''value''), lit ''115200''), ((''uart-wl'', ''value''), lit ''8''),
        ((''uart-par'', ''value''), lit ''0''), ((''uart-sb'', ''value''), lit ''1''),
        ((''dev-model'', ''textContent''), dash), ((''dev-serial'', ''textContent''), dash), ((''dev-fw'', ''textContent''), dash),
        ((''dev-time'', ''textContent''), dash), ((''poll-time'', ''textContent''), dash), ((''rtt-val'', ''textContent''), dash),
        ((''wt-sent'', ''textContent''), dash), ((''wt-recv'', ''textContent''), dash), ((''wt-rtt'', ''textContent''), dash @ ru_ms),
        ((''wt-rtt'', ''className''), lit ''wt-val wt-rtt'')] (el, prop) of
      Some s \<Rightarrow> s
    | None \<Rightarrow> if el \<in> val_id ` set meas_addrs \<and> prop = ''textContent'' then dash
              else if el \<in> val_id ` set meas_addrs \<and> prop = ''className'' then lit ''col-val'' else []))"

definition blank_meter :: meter where
  "blank_meter = \<lparr>socks = [], timers = [], next_timer = 1, doc = meter_doc, listeners = [], console = [], uncaught = [],
     m_ws = None, m_pollTimer = None, m_sid = 1, m_pollSent = 0, m_infoRequested = False, m_writeSent = 0, m_silent = [], m_alerts = []\<rparr>"

definition meter_load :: "'z meter_env_scheme \<Rightarrow> meter" where
  "meter_load E = report (meter_connect E) blank_meter"

datatype meter_event =
    MeterField string jsstr
  | MeterReconnect
  | MeterSysParams clock
  | MeterCommParams clock
  | MeterReset nat bool clock
  | MeterUartConfig
  | MeterOpen nat clock
  | MeterMessage nat ws_data clock
  | MeterClosed nat
  | MeterPoll nat clock
  | MeterConnect nat

fun meter_enabled :: "meter \<Rightarrow> meter_event \<Rightarrow> bool" where
  "meter_enabled w (MeterReset kind confirmed c) \<longleftrightarrow> kind \<in> {1, 2, 4, 5}"
| "meter_enabled w (MeterOpen i c) \<longleftrightarrow> i < length (socks w) \<and> ready_at (socks w) i = CONNECTING"
| "meter_enabled w (MeterMessage i data c) \<longleftrightarrow> i < length (socks w) \<and> ready_at (socks w) i = OPEN"
| "meter_enabled w (MeterClosed i) \<longleftrightarrow> i < length (socks w) \<and> ready_at (socks w) i \<noteq> CLOSED"
| "meter_enabled w (MeterPoll t c) \<longleftrightarrow> waits w PollTimer t"
| "meter_enabled w (MeterConnect t) \<longleftrightarrow> waits w ConnectTimer t"
| "meter_enabled w _ \<longleftrightarrow> True"

fun meter_step :: "'z meter_env_scheme \<Rightarrow> meter_event \<Rightarrow> meter \<Rightarrow> meter" where
  "meter_step E (MeterField el s) w = w\<lparr>doc := (doc w)((el, ''value'') := s)\<rparr>"
| "meter_step E MeterReconnect w = report (reconnect E) w"
| "meter_step E (MeterSysParams c) w = report (sendSysParams E c) w"
| "meter_step E (MeterCommParams c) w = report (sendCommParams E c) w"
| "meter_step E (MeterReset kind confirmed c) w = report (sendReset E c kind confirmed) w"
| "meter_step E MeterUartConfig w = report (sendUartConfig E) w"
| "meter_step E (MeterOpen i c) w = report (onOpen E c) (ready_now i OPEN w)"
| "meter_step E (MeterMessage i data c) w = report (onMsg E data c) w"
| "meter_step E (MeterClosed i) w =
     (if i \<in> set (m_silent w) then ready_now i CLOSED w else report onClose (ready_now i CLOSED w))"
| "meter_step E (MeterPoll t c) w = report (poll E c) w"
| "meter_step E (MeterConnect t) w = report (meter_connect E) (expire t w)"

abbreviation meter_reachable :: "'z meter_env_scheme \<Rightarrow> meter \<Rightarrow> bool" where
  "meter_reachable E \<equiv> reachable (meter_load E) meter_enabled (meter_step E)"

end
