(* ===== verification/Meter_Forms.thy ===== *)
theory Meter_Forms
  imports Meter_Run
begin

section \<open>The power meter page: what its handlers do\<close>

text \<open>
  What an answer with plain numbers does to the page: the measurements, the device information, and the results of a write.
\<close>

subsection \<open>Numbers of an answer\<close>

lemma low_bits_nat: "n < 2 ^ k \<Longrightarrow> low_bits k (int n) = n"
  by (simp add: low_bits_def nat_mod_distrib nat_power_eq)

lemma value_bits_nat: "n < 10 ^ 15 \<Longrightarrow> n < 2 ^ k \<Longrightarrow> value_bits E k (JNat n) = Inr n"
  by (simp add: value_bits_def number_values low_bits_nat)

lemma f32_nat: "h < 65536 \<Longrightarrow> l < 65536 \<Longrightarrow> f32 E (JNat h) (JNat l) = Inr (h * 65536 + l)"
  by (simp add: f32_def number_values low_bits_nat)

lemma val_id_inj: "val_id a = val_id b \<longleftrightarrow> a = b"
  unfolding val_id_def by (rule numbered_inj)

subsection \<open>The measurements\<close>

definition rendered :: "'z engine_scheme \<Rightarrow> (nat \<Rightarrow> nat) \<Rightarrow> nat \<Rightarrow> (string \<times> string \<Rightarrow> jsstr) \<Rightarrow> string \<times> string \<Rightarrow> jsstr" where
  "rendered E v addr d = d((val_id addr, ''textContent'') := float_text E (v addr), (val_id addr, ''className'') := lit ''col-val flash'')"

lemma rendered_once: "addr \<in> set xs \<Longrightarrow> fold (rendered E v) xs d (val_id addr, ''textContent'') = float_text E (v addr)"
  by (induction xs rule: rev_induct) (auto simp: rendered_def val_id_inj)

lemma rendered_others: "\<forall>a. el \<noteq> val_id a \<Longrightarrow> fold (rendered E v) xs d (el, p) = d (el, p)"
  by (induction xs rule: rev_induct) (auto simp: rendered_def)

text \<open>The bits of the float at an address, of registers from 1000 on.\<close>

definition float_at :: "nat list \<Rightarrow> nat \<Rightarrow> nat" where
  "float_at vs addr = vs ! (addr - 1000) * 65536 + vs ! (addr - 1000 + 1)"

lemma render_batch_form:
  assumes "length vs = 70" and "list_all (\<lambda>v. v < 65536) vs"
  shows "render_batch E (map JNat vs) w = (None, w\<lparr>doc := fold (rendered E (float_at vs)) meas_addrs (doc w)\<rparr>)"
proof -
  have "render_batch E (map JNat vs) w = (None, fold (\<lambda>addr. doc_update (rendered E (float_at vs) addr)) meas_addrs w)"
    unfolding render_batch_def
  proof (rule block_map)
    fix addr w assume "addr \<in> set meas_addrs"
    then obtain i where i: "i < 35" "addr = 1000 + 2 * i" by (auto simp: meas_addrs_def)
    then have bounds: "addr - BATCH_START + 1 < 70" "addr - BATCH_START < 70" "BATCH_START = 1000"
      by (simp_all add: BATCH_START_def)
    have vals: "vs ! (addr - BATCH_START) < 65536" "vs ! (addr - BATCH_START + 1) < 65536"
      using assms bounds by (simp_all add: list_all_length)
    show "ifthen (\<lambda>_. addr - BATCH_START + 1 < length (map JNat vs))
        [with_val (\<lambda>_. f32 E (map JNat vs ! (addr - BATCH_START)) (map JNat vs ! (addr - BATCH_START + 1))) (\<lambda>b. [renderVal E addr b])] w
      = (None, doc_update (rendered E (float_at vs) addr) w)"
      using bounds(1,2) assms(1) f32_nat [OF vals, of E]
      by (simp add: stmt_defs renderVal_def set_dom_def rendered_def [abs_def] float_at_def bounds(3) comp_def)
  qed
  then show ?thesis by (cases w) (simp add: fold_doc)
qed

subsection \<open>Sending\<close>

text \<open>The page after a request: one more frame on the open socket, and the next number.\<close>

definition requested :: "'z engine_scheme \<Rightarrow> int option \<Rightarrow> json \<Rightarrow> meter \<Rightarrow> meter" where
  "requested E fid arg w = (case m_ws w of
       None \<Rightarrow> w
     | Some i \<Rightarrow> if ready_at (socks w) i = OPEN
         then w\<lparr>m_sid := Suc (m_sid w),
                socks := upd_at i (s_sent_update (\<lambda>l. l @ [stringify (num_str E) (meter_frame fid (sid_of (m_sid w)) arg)])) (socks w)\<rparr>
         else w)"

lemma send_request_form: "ws_open w \<Longrightarrow> send_request E fid arg w = (None, requested E fid arg w)"
  by (auto simp: ws_open_def send_request_def sock_send_def requested_def split: option.splits)

lemma send_arg_form: "send_arg E arg w = (None, requested E (getFid w) arg w)"
  by (cases "ws_open w")
     (auto simp: send_arg_def ifthen_def send_request_form, auto simp: requested_def ws_open_def split: option.splits)

lemma requested_fields [simp]:
  "doc (requested E fid arg w) = doc w" "timers (requested E fid arg w) = timers w" "next_timer (requested E fid arg w) = next_timer w"
  "uncaught (requested E fid arg w) = uncaught w" "m_ws (requested E fid arg w) = m_ws w"
  "m_pollTimer (requested E fid arg w) = m_pollTimer w" "m_silent (requested E fid arg w) = m_silent w"
  "m_writeSent (requested E fid arg w) = m_writeSent w" "m_infoRequested (requested E fid arg w) = m_infoRequested w"
  "m_pollSent (requested E fid arg w) = m_pollSent w"
  by (simp_all add: requested_def split: option.split)

lemma requested_ready [simp]:
  "ready_at (socks (requested E fid arg w)) j = ready_at (socks w) j" "length (socks (requested E fid arg w)) = length (socks w)"
  by (simp_all add: requested_def upd_at_def split: option.split)
     (simp add: ready_at_def nth_list_update)

lemma requested_sent:
  "m_ws w = Some i \<Longrightarrow> ready_at (socks w) i = OPEN \<Longrightarrow>
     sent_at (socks (requested E fid arg w)) i = sent_at (socks w) i @ [stringify (num_str E) (meter_frame fid (sid_of (m_sid w)) arg)]"
  by (simp add: requested_def sent_at_def upd_at_def ready_at_def split: if_splits)

subsection \<open>Answers with registers\<close>

text \<open>An object that names a register, no error, and values.\<close>

definition regs_answer :: "json \<Rightarrow> nat \<Rightarrow> nat list \<Rightarrow> bool" where
  "regs_answer v ra vs \<longleftrightarrow> (\<exists>ms. v = JObj ms) \<and> ra < 65536 \<and> get_prop ''RA'' v = Inr (Some (JNat ra))
     \<and> get_prop ''ERR'' v = Inr (Some (JNat 0)) \<and> get_prop ''RD'' v = Inr (Some (JArr (map JNat vs))) \<and> get_prop ''STA'' v = Inr None"

lemma no_status: "parse_value E 16 None = Inr None"
  by (simp add: parse_value_def parse_int_def lit_def js_space_def unsigned_int_def strip_0x_def digit_value_def hex_value_def)

lemma regs_number: "regs_answer v ra vs \<Longrightarrow> is_int E (Some (JNat ra)) (int n) \<longleftrightarrow> ra = n"
  by (rule number_values(4)) (simp add: regs_answer_def)

lemma handle_regs:
  assumes "regs_answer v ra vs"
  shows "handleResp E c (Some v) w = block
    [ifthen (\<lambda>w. ra = 300 \<and> 0 < m_writeSent w) [show_write_answer E c v (Some (JNat 0))],
     ifelse (\<lambda>_. ra = 1000) [show_batch E c (map JNat vs)] [ifthen (\<lambda>_. ra = 60) [parseDeviceInfo E (map JNat vs)]]] w"
proof -
  have obj: "truthy (num_str E) (Some v)" "get_prop ''RA'' v = Inr (Some (JNat ra))" "get_prop ''ERR'' v = Inr (Some (JNat 0))"
    "get_prop ''RD'' v = Inr (Some (JArr (map JNat vs)))" "\<not> truthy (num_str E) (Some (JNat 0))"
    using assms by (auto simp: regs_answer_def truthy_obj truthy_nat)
  have ints: "is_int E (Some (JNat ra)) 300 \<longleftrightarrow> ra = 300" "is_int E (Some (JNat ra)) 1000 \<longleftrightarrow> ra = 1000" "is_int E (Some (JNat ra)) 60 \<longleftrightarrow> ra = 60"
    using regs_number [OF assms, of E 300] regs_number [OF assms, of E 1000] regs_number [OF assms, of E 60] by simp_all
  show ?thesis
    by (simp add: handleResp_def stmt_defs obj is_write_answer_def ints BATCH_START_def split: prod.split option.split)
qed

lemma message_regs:
  assumes "json_parse (data_text data) = Some obj" and "get_prop ''FID'' obj = Inr (Some f)" and "parse_value E 16 (Some f) = Inr (Some n)"
    and "get_prop ''ARG'' obj = Inr (Some v)" and "getFid w = Some n" and "regs_answer v ra vs"
  shows "onMsg E data c w = handleResp E c (Some v) w"
proof -
  have obj: "truthy (num_str E) (Some v)" "get_prop ''STA'' v = Inr None" using assms(6) by (auto simp: regs_answer_def truthy_obj)
  show ?thesis
    using assms(1-5) by (simp add: onMsg_def stmt_defs obj no_status split: prod.split option.split)
qed

text \<open>A batch of measurements.\<close>

definition batch_doc :: "'z meter_env_scheme \<Rightarrow> clock \<Rightarrow> nat list \<Rightarrow> meter \<Rightarrow> string \<times> string \<Rightarrow> jsstr" where
  "batch_doc E c vs w = fold (rendered E (float_at vs)) meas_addrs
     (if 0 < m_pollSent w then (doc w)((''rtt-val'', ''textContent'') := elapsed E (m_pollSent w) (c_now c)) else doc w)"

lemma show_batch_form:
  assumes "length vs = 70" and "list_all (\<lambda>v. v < 65536) vs"
  shows "show_batch E c (map JNat vs) w =
    (let w' = w\<lparr>doc := batch_doc E c vs w, m_pollSent := 0\<rparr>
     in (None, if m_infoRequested w then w'
               else requested E (getFid w') (read_request (getMbAddr w') 60 24) (w'\<lparr>m_infoRequested := True\<rparr>)))"
  by (cases w) (simp add: render_batch_form [OF assms] show_batch_def stmt_defs set_dom_def readDeviceInfo_def send_arg_form batch_doc_def
    getFid_def getMbAddr_def field_def)

subsection \<open>Device information\<close>

fun be_pairs :: "nat list \<Rightarrow> nat list" where
  "be_pairs (h # l # r) = (256 * h + l) # be_pairs r"
| "be_pairs _ = []"

lemma be_pairs_length: "even (length bs) \<Longrightarrow> length (be_pairs bs) = length bs div 2"
  by (induction bs rule: be_pairs.induct) simp_all

lemma be_pairs_bound: "bytes_ok bs \<Longrightarrow> list_all (\<lambda>v. v < 65536) (be_pairs bs)"
  by (induction bs rule: be_pairs.induct) simp_all

lemma model_bytes_pairs:
  "bytes_ok bs \<Longrightarrow> even (length bs) \<Longrightarrow> model_bytes E (map JNat (be_pairs bs)) = Inr (filter (\<lambda>b. b \<noteq> 0) bs)"
proof (induction bs rule: be_pairs.induct)
  case (1 h l r)
  then have "value_bits E 16 (JNat (256 * h + l)) = Inr (256 * h + l)" by (intro value_bits_nat) simp_all
  with 1 show ?case by simp
qed simp_all

lemma filter_nonzero: "0 \<notin> set bs \<Longrightarrow> filter (\<lambda>b. b \<noteq> 0) bs = (bs :: nat list)"
  by (rule filter_True) metis

lemma to_scalars_zero: "0 \<in> set (to_scalars s) \<Longrightarrow> 0 \<in> set s"
proof (induction s rule: to_scalars.induct)
  case (2 c cs)
  show ?case
  proof (cases "high_sur c")
    case True
    then show ?thesis using 2 by (cases cs) (auto simp: to_scalars.simps(2) [of c] simp del: to_scalars.simps(2) split: if_splits)
  next
    case False
    then show ?thesis using 2 by (auto split: if_splits)
  qed
qed simp

lemma utf8_no_zero: "0 \<notin> set s \<Longrightarrow> 0 \<notin> set (text_encode s)"
  using to_scalars_zero [of s] by (auto simp: text_encode_def utf8_bytes_def split: if_splits)

lemma model_shown:
  assumes "plain_text t" and "0 \<notin> set t" and "js_trim t = t" and "t \<noteq> []"
  shows "model_text (filter (\<lambda>b. b \<noteq> 0) (text_encode t @ replicate n 0)) = t"
proof -
  have "filter (\<lambda>b. b \<noteq> 0) (text_encode t @ replicate n 0) = text_encode t"
    using filter_nonzero [OF utf8_no_zero [OF assms(2)]] by simp
  then show ?thesis
    using assms(1,3,4) filter_nonzero [OF assms(2)] by (simp only: model_text_def text_round_trip Let_def if_False)
qed

text \<open>The registers 60 to 83 of a device: its model, its serial number, its firmware, two others, its clock, and the rest.\<close>

record device =
  d_model :: jsstr
  d_serial :: nat
  d_firmware :: "nat \<times> nat"
  d_date :: "nat \<times> nat \<times> nat"
  d_time :: "nat \<times> nat \<times> nat"

definition device_ok :: "device \<Rightarrow> bool" where
  "device_ok d \<longleftrightarrow> plain_text (d_model d) \<and> 0 \<notin> set (d_model d) \<and> js_trim (d_model d) = d_model d \<and> d_model d \<noteq> []
     \<and> length (text_encode (d_model d)) \<le> 20 \<and> d_serial d < 2 ^ 32 \<and> fst (d_firmware d) < 256 \<and> snd (d_firmware d) < 256
     \<and> (case d_date d of (y, m, a) \<Rightarrow> y < 65536 \<and> m < 256 \<and> a < 256) \<and> (case d_time d of (h, m, s) \<Rightarrow> h < 256 \<and> m < 256 \<and> s < 256)"

definition device_regs :: "device \<Rightarrow> nat \<Rightarrow> nat \<Rightarrow> nat list \<Rightarrow> nat list" where
  "device_regs d r73 r74 rest =
     be_pairs (text_encode (d_model d) @ replicate (20 - length (text_encode (d_model d))) 0)
     @ [d_serial d div 65536, d_serial d mod 65536, 256 * fst (d_firmware d) + snd (d_firmware d), r73, r74]
     @ (case d_date d of (y, m, a) \<Rightarrow> [y, 256 * m + a]) @ (case d_time d of (h, m, s) \<Rightarrow> [256 * h + m, s]) @ rest"

definition device_doc :: "device \<Rightarrow> (string \<times> string \<Rightarrow> jsstr) \<Rightarrow> string \<times> string \<Rightarrow> jsstr" where
  "device_doc d f = f
     ((''dev-model'', ''textContent'') := d_model d,
      (''dev-serial'', ''textContent'') := show_nat (d_serial d),
      (''dev-fw'', ''textContent'') := show_nat (fst (d_firmware d)) @ lit ''.'' @ show_nat (snd (d_firmware d)),
      (''dev-time'', ''textContent'') := (case d_date d of (y, m, a) \<Rightarrow> show_nat y @ lit ''-'' @ two_digits m @ lit ''-'' @ two_digits a)
         @ lit '' '' @ (case d_time d of (h, m, s) \<Rightarrow> two_digits h @ lit '':'' @ two_digits m @ lit '':'' @ two_digits s))"

lemma or_parts: "(l :: nat) < 65536 \<Longrightarrow> (h * 65536) OR l = h * 65536 + l"
proof -
  assume l: "l < 65536"
  have "(h * 65536) AND l = push_bit 16 h AND take_bit 16 l"
    using l by (simp add: push_bit_eq_mult take_bit_nat_eq_self)
  also have "\<dots> = 0" by (rule bit_eqI) (auto simp: bit_simps)
  finally have "(h * 65536) AND l = 0" .
  then show ?thesis by (simp add: disjunctive_add_eq_or)
qed

lemma text_nat: "n < 65536 \<Longrightarrow> to_js_string (num_str E) (JNat n) = Inr (show_nat n)"
  by (simp add: JNat_def safe_show_nat)

lemma low_byte_bits: "n < 65536 \<Longrightarrow> value_bits E 8 (JNat n) = Inr (n mod 256)"
  by (simp add: value_bits_def number_values low_bits_def nat_mod_distrib)

lemma parse_info:
  assumes "18 < length rs" and "list_all (\<lambda>v. v < 65536) rs" and "model_bytes E (take 10 (map JNat rs)) = Inr bs"
  shows "parseDeviceInfo E (map JNat rs) w = (None, w\<lparr>doc := (doc w)
     ((''dev-model'', ''textContent'') := model_text bs,
      (''dev-serial'', ''textContent'') := show_nat (rs ! 10 * 65536 + rs ! 11),
      (''dev-fw'', ''textContent'') := show_nat (rs ! 12 div 256) @ lit ''.'' @ show_nat (rs ! 12 mod 256),
      (''dev-time'', ''textContent'') := device_time (show_nat (rs ! 15)) (rs ! 16) (rs ! 17) (rs ! 18 mod 256))\<rparr>)"
proof -
  have small: "rs ! i < 65536" if "i \<le> 18" for i
    using assms(1,2) that by (simp add: list_all_length)
  have items: "map JNat rs ! i = JNat (rs ! i)" if "i \<le> 18" for i
    using assms(1) that by simp
  have bits: "value_bits E 16 (JNat (rs ! i)) = Inr (rs ! i)" "value_bits E 32 (JNat (rs ! i)) = Inr (rs ! i)" if "i \<le> 18" for i
    using small [OF that] by (simp_all add: value_bits_nat)
  have serial: "(rs ! 10 * 65536) OR (rs ! 11) = rs ! 10 * 65536 + rs ! 11" by (rule or_parts) (use small in simp)
  have year: "to_js_string (num_str E) (JNat (rs ! 15)) = Inr (show_nat (rs ! 15))" by (rule text_nat) (use small in simp)
  have sec: "value_bits E 8 (JNat (rs ! 18)) = Inr (rs ! 18 mod 256)" by (rule low_byte_bits) (use small in simp)
  show ?thesis
    unfolding parseDeviceInfo_def
    using assms(1) by (cases w) (simp add: stmt_defs set_dom_def assms(3) items bits serial year sec del: nth_map)
qed

lemma parse_device:
  assumes "device_ok d" and "list_all (\<lambda>v. v < 65536) (r73 # r74 # rest)"
  shows "parseDeviceInfo E (map JNat (device_regs d r73 r74 rest)) w = (None, w\<lparr>doc := device_doc d (doc w)\<rparr>)"
proof -
  let ?bs = "text_encode (d_model d) @ replicate (20 - length (text_encode (d_model d))) 0"
  obtain y m a h mi se where moment: "d_date d = (y, m, a)" "d_time d = (h, mi, se)" by (metis prod_cases3)
  let ?t = "[d_serial d div 65536, d_serial d mod 65536, 256 * fst (d_firmware d) + snd (d_firmware d), r73, r74, y, 256 * m + a, 256 * h + mi, se]"
  have ok: "plain_text (d_model d)" "length ?bs = 20" "d_serial d < 4294967296" "fst (d_firmware d) < 256" "snd (d_firmware d) < 256"
    "y < 65536" "m < 256" "a < 256" "h < 256" "mi < 256" "se < 256"
    using assms(1) by (simp_all add: device_ok_def moment)
  have bytes: "bytes_ok ?bs" using plain_text_bytes [OF ok(1)] by (auto simp: bytes_ok_def list_all_iff)
  have len: "length (be_pairs ?bs) = 10" using ok(2) be_pairs_length [of ?bs] by simp
  have regs: "device_regs d r73 r74 rest = be_pairs ?bs @ ?t @ rest" by (simp add: device_regs_def moment)
  have at: "device_regs d r73 r74 rest ! (10 + i) = ?t ! i" if "i < 9" for i
    unfolding regs using len that by (simp only: nth_append) simp
  have "model_bytes E (take 10 (map JNat (device_regs d r73 r74 rest))) = Inr (filter (\<lambda>b. b \<noteq> 0) ?bs)"
    using model_bytes_pairs [OF bytes, of E] ok(2) len by (simp add: device_regs_def take_map)
  moreover have "model_text (filter (\<lambda>b. b \<noteq> 0) ?bs) = d_model d"
    using assms(1) by (intro model_shown) (simp_all add: device_ok_def)
  moreover have "list_all (\<lambda>v. v < 65536) (device_regs d r73 r74 rest)" "18 < length (device_regs d r73 r74 rest)"
    unfolding regs using be_pairs_bound [OF bytes] ok len assms(2) by simp_all
  ultimately show ?thesis
    using ok at [of 0] at [of 1] at [of 2] at [of 5] at [of 6] at [of 7] at [of 8]
    by (simp add: parse_info device_doc_def device_time_def moment)
qed

subsection \<open>Answers to a write\<close>

text \<open>What the page says about the last write: its round trip, an error, or that the gateway was busy.\<close>

definition write_shown :: "clock \<Rightarrow> jsstr \<Rightarrow> jsstr \<Rightarrow> meter \<Rightarrow> meter" where
  "write_shown c t cls w = w\<lparr>m_writeSent := 0, doc := (doc w)
     ((''wt-recv'', ''textContent'') := fmtTime c, (''wt-rtt'', ''textContent'') := t, (''wt-rtt'', ''className'') := cls)\<rparr>"

lemma write_answer:
  assumes "regs_answer v 300 []" and "0 < m_writeSent w"
  shows "handleResp E c (Some v) w
    = (None, write_shown c (elapsed E (m_writeSent w) (c_now c) @ ru_ms) (lit ''wt-val wt-rtt'') w)"
  using assms(2) truthy_nat [of 0 "num_str E"]
  by (cases w) (simp add: handle_regs [OF assms(1)] stmt_defs show_write_answer_def set_dom_def write_shown_def)

lemma error_members:
  "get_prop ''RA'' (JObj [(lit ''ERR'', v)]) = Inr None" "get_prop ''ERR'' (JObj [(lit ''ERR'', v)]) = Inr (Some v)"
  "get_prop ''CV'' (JObj [(lit ''ERR'', v)]) = Inr None" "get_prop ''STA'' (JObj [(lit ''ERR'', v)]) = Inr None"
  "get_prop ''RD'' (JObj [(lit ''ERR'', v)]) = Inr None"
  by (simp_all add: get_prop_def) (simp_all add: lit_def)

lemma error_answer:
  assumes "0 < code" and "code < 65536" and "0 < m_writeSent w"
  shows "handleResp E c (Some (JObj [(lit ''ERR'', JNat code)])) w
    = (None, write_shown c (lit ''ERR: '' @ show_nat code) (lit ''wt-val wt-err'') w)"
proof -
  have facts: "truthy (num_str E) (Some (JNat code))" "\<not> is_int E None n" "to_js_string (num_str E) (JNat code) = Inr (show_nat code)" for n
    using assms(1,2) by (simp_all add: truthy_nat is_int_def text_nat)
  show ?thesis
    using assms(3) by (cases w) (simp add: handleResp_def stmt_defs error_members truthy_obj is_write_answer_def facts show_write_answer_def
      set_dom_def write_shown_def cv_text_def)
qed

lemma error_quiet: "code < 65536 \<Longrightarrow> m_writeSent w = 0 \<Longrightarrow> handleResp E c (Some (JObj [(lit ''ERR'', JNat code)])) w = (None, w)"
  by (simp add: handleResp_def stmt_defs error_members truthy_obj is_write_answer_def is_int_def)

end
