(* ===== verification/Meter_Calm.thy ===== *)
theory Meter_Calm
  imports Meter_Forms
begin

section \<open>The power meter page: one connection at a time\<close>

text \<open>
  Runs in which the user does not reconnect while the page itself waits to connect again. Then the page always has
  exactly one thing that keeps it going: a connection that is being made, an open one with the poll timer, or the timer that
  connects again. The invariant is an interpretation of \<open>loop_invariant\<close>.
\<close>

subsection \<open>Statements that leave connection and timers alone\<close>

definition same_link :: "meter \<Rightarrow> meter \<Rightarrow> bool" where
  "same_link w w' \<longleftrightarrow> m_ws w' = m_ws w \<and> m_silent w' = m_silent w \<and> timers w' = timers w \<and> m_pollTimer w' = m_pollTimer w
     \<and> next_timer w' = next_timer w \<and> length (socks w') = length (socks w) \<and> (\<forall>j. ready_at (socks w') j = ready_at (socks w) j)"

abbreviation keeps_link :: "meter stmt \<Rightarrow> bool" where
  "keeps_link \<equiv> keeps same_link"

named_theorems link_intros

interpretation meter_frame_rule: state_frame same_link
  by unfold_locales (simp_all add: same_link_def)

lemmas same_link_block = meter_frame_rule.same_block
lemmas meter_control [link_intros] = meter_frame_rule.keeps_control

lemma keeps_dom [link_intros]: "keeps_link (set_dom el p v)" "keeps_link (\<lambda>w. set_dom el p (f w) w)"
  by (simp_all add: keeps_def set_dom_def assign_def same_link_def)

lemma keeps_fields [link_intros]:
  "keeps_link (assign (\<lambda>w. w\<lparr>m_pollSent := n\<rparr>))" "keeps_link (assign (\<lambda>w. w\<lparr>m_writeSent := n\<rparr>))"
  "keeps_link (assign (\<lambda>w. w\<lparr>m_infoRequested := b\<rparr>))" "keeps_link (assign (\<lambda>w. w\<lparr>m_alerts := f w\<rparr>))"
  by (simp_all add: keeps_def assign_def same_link_def)

lemma keeps_send [link_intros]: "keeps_link (\<lambda>w. send_arg E (f w) w)"
  by (simp add: keeps_def send_arg_form same_link_def)

lemma keeps_poll [link_intros]: "keeps_link (poll E c)"
  unfolding poll_def by (intro link_intros)

lemma keeps_instr: "keeps_link (sendInstr E c code params)"
  unfolding sendInstr_def by (intro link_intros)

lemma keeps_show: "keeps_link (show_batch E c rd)" "keeps_link (parseDeviceInfo E rd)" "keeps_link (show_write_answer E c arg err)"
proof -
  have "keeps_link (renderVal E a b)" for a b unfolding renderVal_def by (intro link_intros)
  then have "keeps_link (render_batch E rd)"
    unfolding render_batch_def by (intro link_intros) (auto simp: list_all_iff intro!: link_intros)
  then show "keeps_link (show_batch E c rd)" unfolding show_batch_def readDeviceInfo_def by (intro link_intros)
  show "keeps_link (parseDeviceInfo E rd)" unfolding parseDeviceInfo_def by (intro link_intros)
  have "same_link w (snd (show_write_answer E c arg err w))" for w
    unfolding show_write_answer_def Let_def by (intro same_link_block link_intros)
  then show "keeps_link (show_write_answer E c arg err)" by (simp add: keeps_def)
qed

lemma keeps_handle: "keeps_link (handleResp E c arg)"
  unfolding handleResp_def
  by (cases arg) (auto intro!: link_intros keeps_show split: option.split json.split)

lemma keeps_message: "keeps_link (onMsg E data c)"
  unfolding onMsg_def
  by (auto intro!: link_intros keeps_handle split: option.split)

lemma keeps_writes:
  "keeps_link (sendSysParams E c)" "keeps_link (sendCommParams E c)" "keeps_link (sendReset E c kind confirmed)" "keeps_link (sendUartConfig E)"
proof -
  have instr: "same_link w (snd (sendInstr E c code params w))" for w code params
    using keeps_instr [of E c code params] by (simp add: keeps_def)
  then show "keeps_link (sendSysParams E c)" "keeps_link (sendCommParams E c)"
    by (simp_all add: keeps_def sendSysParams_def sendCommParams_def)
  show "keeps_link (sendReset E c kind confirmed)" unfolding sendReset_def by (intro link_intros keeps_instr)
  show "keeps_link (sendUartConfig E)"
    by (simp add: keeps_def sendUartConfig_def stmt_defs send_request_form same_link_def)
qed

subsection \<open>The invariant\<close>

text \<open>What keeps the page going in each state of its connection.\<close>

definition goes_on :: "ready \<Rightarrow> meter_cb timer list \<Rightarrow> nat option \<Rightarrow> bool" where
  "goes_on r ts p \<longleftrightarrow> (case r of
       CONNECTING \<Rightarrow> ts = [] \<and> p = None
     | OPEN \<Rightarrow> \<exists>t. ts = [\<lparr>t_id = t, t_delay = 500, t_cb = PollTimer\<rparr>] \<and> p = Some t
     | CLOSING \<Rightarrow> False
     | CLOSED \<Rightarrow> \<exists>t. ts = [\<lparr>t_id = t, t_delay = 2000, t_cb = ConnectTimer\<rparr>] \<and> p = None)"

definition meter_calm :: "meter \<Rightarrow> bool" where
  "meter_calm w \<longleftrightarrow> (case m_ws w of
       None \<Rightarrow> False
     | Some i \<Rightarrow> Suc i = length (socks w) \<and> list_all (\<lambda>j. j < i) (m_silent w)
         \<and> (\<forall>j < i. ready_at (socks w) j = CLOSED \<or> ready_at (socks w) j = CLOSING \<and> j \<in> set (m_silent w))
         \<and> goes_on (ready_at (socks w) i) (timers w) (m_pollTimer w))"

fun meter_calm_enabled :: "meter \<Rightarrow> meter_event \<Rightarrow> bool" where
  "meter_calm_enabled w MeterReconnect \<longleftrightarrow> \<not> list_ex (\<lambda>x. t_cb x = ConnectTimer) (timers w)"
| "meter_calm_enabled w e \<longleftrightarrow> meter_enabled w e"

lemma same_link_calm: "same_link w w' \<Longrightarrow> meter_calm w \<Longrightarrow> meter_calm w'"
  by (auto simp: same_link_def meter_calm_def split: option.splits)

lemma report_link: "keeps_link c \<Longrightarrow> same_link w (report c w)"
  by (rule report_keeps [of same_link]) (assumption, simp add: same_link_def)

text \<open>The handlers that change the connection or the timers.\<close>

lemma open_form:
  obtains w' where "same_link w w'" and "onOpen E c w = (None, (set_timeout PollTimer 500 w')\<lparr>m_pollTimer := Some (next_timer w')\<rparr>)"
proof -
  obtain w1 where "poll E c (snd (block [setStatus True, assign (\<lambda>w. w\<lparr>m_infoRequested := False\<rparr>)] w)) = (None, w1)"
    by (simp add: poll_def stmt_defs set_dom_def send_arg_form)
  moreover have "keeps_link (\<lambda>w. block [setStatus True, assign (\<lambda>w. w\<lparr>m_infoRequested := False\<rparr>), poll E c] w)"
    unfolding setStatus_def by (intro link_intros)
  then have "same_link w (snd (block [setStatus True, assign (\<lambda>w. w\<lparr>m_infoRequested := False\<rparr>), poll E c] w))"
    by (simp only: keeps_def)
  ultimately show thesis
    by (intro that [of w1]) (simp_all add: onOpen_def startPoll_def setStatus_def set_dom_def assign_def)
qed

lemma close_form:
  obtains d where "onClose w = (None, set_timeout ConnectTimer 2000
    (w\<lparr>doc := d, timers := filter (\<lambda>x. Some (t_id x) \<noteq> m_pollTimer w) (timers w), m_pollTimer := None\<rparr>))"
  by (rule that [of "doc (snd (onClose w))"])
     (cases w, simp add: onClose_def setStatus_def stopPoll_def set_dom_def clear_timeout_def assign_def set_timeout_def)

definition fresh_socket :: "'z meter_env_scheme \<Rightarrow> socket" where
  "fresh_socket E = \<lparr>s_url = lit ''ws://'' @ host E @ lit '':81/ws'', s_ready = CONNECTING, s_sent = []\<rparr>"

definition reaches :: "'z meter_env_scheme \<Rightarrow> bool" where
  "reaches E \<longleftrightarrow> url_ok E (lit ''ws://'' @ host E @ lit '':81/ws'')"

lemma meter_connect_form:
  "reaches E \<Longrightarrow> meter_connect E w = (None, w\<lparr>socks := socks w @ [fresh_socket E], m_ws := Some (length (socks w))\<rparr>)"
  by (simp add: reaches_def meter_connect_def fresh_socket_def Let_def)

lemma meter_reconnect_form:
  assumes "reaches E" and "m_ws w = Some i"
  obtains d where "reconnect E w = (None, w\<lparr>doc := d, timers := filter (\<lambda>x. Some (t_id x) \<noteq> m_pollTimer w) (timers w), m_pollTimer := None,
    m_silent := i # m_silent w, m_ws := Some (length (socks w)),
    socks := (if ready_at (socks w) i \<in> {CLOSING, CLOSED} then socks w else upd_at i (s_ready_update (\<lambda>_. CLOSING)) (socks w)) @ [fresh_socket E]\<rparr>)"
  using assms(2)
  by (intro that [of "doc (snd (reconnect E w))"])
     (cases w, cases "ready_at (socks w) i"; simp add: reconnect_def setStatus_def stopPoll_def set_dom_def clear_timeout_def assign_def
      sock_close_def meter_connect_form [OF assms(1)] upd_at_def)

lemma calm_load: "reaches E \<Longrightarrow> meter_calm (meter_load E)"
  by (simp add: meter_load_def report_def meter_connect_form blank_meter_def meter_calm_def goes_on_def ready_at_def fresh_socket_def)

lemma calm_open:
  assumes "meter_calm w" and "i < length (socks w)" and "ready_at (socks w) i = CONNECTING"
  shows "meter_calm (report (onOpen E c) (ready_now i OPEN w))"
proof -
  obtain w' where link: "same_link (ready_now i OPEN w) w'"
    and form: "onOpen E c (ready_now i OPEN w) = (None, (set_timeout PollTimer 500 w')\<lparr>m_pollTimer := Some (next_timer w')\<rparr>)"
    by (rule open_form)
  obtain k where k: "m_ws w = Some k" "Suc k = length (socks w)" using assms(1) by (auto simp: meter_calm_def split: option.splits)
  have i: "i = k"
  proof (rule ccontr)
    assume "i \<noteq> k"
    then have "i < k" using assms(2) k(2) by simp
    then show False using assms(1,3) k(1) by (auto simp: meter_calm_def)
  qed
  have "meter_calm (set_timeout PollTimer 500 w'\<lparr>m_pollTimer := Some (next_timer w')\<rparr>)"
    using assms k link by (auto simp: meter_calm_def i same_link_def ready_now_def ready_change set_timeout_def goes_on_def)
  then show ?thesis by (simp add: report_def form)
qed

lemma calm_closed:
  assumes "meter_calm w" and "i < length (socks w)" and "ready_at (socks w) i \<noteq> CLOSED"
  shows "meter_calm (if i \<in> set (m_silent w) then ready_now i CLOSED w else report onClose (ready_now i CLOSED w))"
proof -
  obtain k where k: "m_ws w = Some k" "Suc k = length (socks w)" using assms(1) by (auto simp: meter_calm_def split: option.splits)
  obtain d where form: "onClose (ready_now i CLOSED w) = (None, set_timeout ConnectTimer 2000 ((ready_now i CLOSED w)\<lparr>doc := d,
      timers := filter (\<lambda>x. Some (t_id x) \<noteq> m_pollTimer (ready_now i CLOSED w)) (timers (ready_now i CLOSED w)), m_pollTimer := None\<rparr>))"
    by (rule close_form)
  show ?thesis
  proof (cases "i = k")
    case True
    then have "i \<notin> set (m_silent w)" using assms(1) k by (auto simp: meter_calm_def list_all_iff)
    then have "(if i \<in> set (m_silent w) then ready_now i CLOSED w else report onClose (ready_now i CLOSED w))
        = set_timeout ConnectTimer 2000 ((ready_now i CLOSED w)\<lparr>doc := d,
      timers := filter (\<lambda>x. Some (t_id x) \<noteq> m_pollTimer (ready_now i CLOSED w)) (timers (ready_now i CLOSED w)), m_pollTimer := None\<rparr>)"
      by (simp only: report_def form option.case prod.case if_False)
    moreover have "meter_calm \<dots>"
      using assms k True
      by (auto simp: meter_calm_def ready_now_def ready_change set_timeout_def goes_on_def split: ready.splits)
    ultimately show ?thesis by (simp only:)
  next
    case False
    then have "i < k" using assms(2) k(2) by simp
    then have "i \<in> set (m_silent w)" using assms(1,3) k by (auto simp: meter_calm_def)
    then show ?thesis using assms k False by (auto simp: meter_calm_def ready_now_def ready_change)
  qed
qed

lemma calm_connect:
  assumes "reaches E" and "meter_calm w" and "waits w ConnectTimer t"
  shows "meter_calm (report (meter_connect E) (expire t w))"
proof -
  obtain k where k: "m_ws w = Some k" "Suc k = length (socks w)" using assms(2) by (auto simp: meter_calm_def split: option.splits)
  then have closed: "ready_at (socks w) k = CLOSED" "timers w = [\<lparr>t_id = t, t_delay = 2000, t_cb = ConnectTimer\<rparr>]" "m_pollTimer w = None"
    using assms(2,3) by (auto simp: meter_calm_def goes_on_def waits_def split: ready.splits)
  then show ?thesis
    using assms(1,2) k by (auto simp: report_def meter_connect_form expire_def meter_calm_def ready_append goes_on_def fresh_socket_def list_all_iff)
      (metis less_antisym less_Suc_eq)+
qed

lemma calm_reconnect:
  assumes "reaches E" and "meter_calm w" and "\<not> list_ex (\<lambda>x. t_cb x = ConnectTimer) (timers w)"
  shows "meter_calm (report (reconnect E) w)"
proof -
  obtain k where k: "m_ws w = Some k" "Suc k = length (socks w)" using assms(2) by (auto simp: meter_calm_def split: option.splits)
  obtain d where form: "reconnect E w = (None, w\<lparr>doc := d, timers := filter (\<lambda>x. Some (t_id x) \<noteq> m_pollTimer w) (timers w), m_pollTimer := None,
    m_silent := k # m_silent w, m_ws := Some (length (socks w)),
    socks := (if ready_at (socks w) k \<in> {CLOSING, CLOSED} then socks w else upd_at k (s_ready_update (\<lambda>_. CLOSING)) (socks w)) @ [fresh_socket E]\<rparr>)"
    by (rule meter_reconnect_form [OF assms(1) k(1)])
  have "ready_at (socks w) k = CONNECTING \<or> ready_at (socks w) k = OPEN"
    using assms(2,3) k by (auto simp: meter_calm_def goes_on_def split: ready.splits)
  then show ?thesis
    using assms(2) k
    by (auto simp: report_def form meter_calm_def ready_append ready_change goes_on_def fresh_socket_def list_all_iff less_Suc_eq)
qed

lemma calm_step:
  assumes "reaches E" and "meter_calm w" and "meter_calm_enabled w e"
  shows "meter_calm (meter_step E e w)"
proof (cases e)
  case (MeterField el v)
  then show ?thesis using same_link_calm [OF _ assms(2), of "meter_step E e w"] by (simp add: same_link_def)
next
  case (MeterOpen i c)
  then show ?thesis using assms(3) by (simp add: calm_open [OF assms(2)])
next
  case (MeterClosed i)
  then show ?thesis using calm_closed [OF assms(2)] assms(3) by simp
next
  case (MeterConnect t)
  then show ?thesis using calm_connect [OF assms(1,2)] assms(3) by simp
next
  case MeterReconnect
  then show ?thesis using calm_reconnect [OF assms(1,2)] assms(3) by simp
qed (simp_all add: same_link_calm [OF report_link assms(2)] keeps_poll keeps_message keeps_writes)

interpretation meter_calmly: loop_invariant "meter_load E" meter_calm_enabled "meter_step E" "\<lambda>w. reaches E \<longrightarrow> meter_calm w"
  by unfold_locales (simp_all add: calm_load calm_step)

subsection \<open>A poll timer that nothing stops\<close>

text \<open>A poll timer whose identifier the page does not have; none of the events takes it away.\<close>

definition lost_poll :: "nat \<Rightarrow> meter \<Rightarrow> bool" where
  "lost_poll t w \<longleftrightarrow> waits w PollTimer t \<and> list_all (\<lambda>x. t_id x = t \<longrightarrow> t_cb x = PollTimer) (timers w) \<and> m_pollTimer w \<noteq> Some t \<and> t < next_timer w"

lemma lost_same_link: "same_link w w' \<Longrightarrow> lost_poll t w \<Longrightarrow> lost_poll t w'"
  by (simp add: same_link_def lost_poll_def waits_def)

lemma lost_cleared:
  "lost_poll t w \<Longrightarrow> lost_poll t (w\<lparr>doc := d, timers := filter (\<lambda>x. Some (t_id x) \<noteq> m_pollTimer w) (timers w), m_pollTimer := None\<rparr>)"
  by (auto simp: lost_poll_def waits_def list_ex_iff list_all_iff)

lemma lost_more: "lost_poll t w \<Longrightarrow> lost_poll t (set_timeout cb d w)" "lost_poll t w \<Longrightarrow> lost_poll t ((set_timeout cb d w)\<lparr>m_pollTimer := Some (next_timer w)\<rparr>)"
  by (auto simp: lost_poll_def waits_def set_timeout_def list_ex_iff list_all_iff)

lemma lost_socks: "lost_poll t w \<Longrightarrow> lost_poll t (w\<lparr>m_silent := l, m_ws := i, socks := ss\<rparr>)" "lost_poll t w \<Longrightarrow> lost_poll t (ready_now j r w)"
  "lost_poll t w \<Longrightarrow> lost_poll t (w\<lparr>socks := ss, m_ws := i\<rparr>)"
  by (simp_all add: lost_poll_def waits_def ready_now_def)

lemma same_ws: "same_link w w' \<Longrightarrow> m_ws w' = m_ws w"
  by (simp add: same_link_def)

lemma lost_step:
  assumes "reaches E" and "lost_poll t w" and "meter_enabled w e" and "m_ws w \<noteq> None"
  shows "lost_poll t (meter_step E e w) \<and> m_ws (meter_step E e w) \<noteq> None"
proof (cases e)
  case (MeterField el v)
  then show ?thesis using lost_same_link [OF _ assms(2), of "meter_step E e w"] assms(4) by (simp add: same_link_def)
next
  case (MeterOpen i c)
  obtain w' where link: "same_link (ready_now i OPEN w) w'"
    and form: "onOpen E c (ready_now i OPEN w) = (None, (set_timeout PollTimer 500 w')\<lparr>m_pollTimer := Some (next_timer w')\<rparr>)"
    by (rule open_form)
  have "lost_poll t w'" by (rule lost_same_link [OF link lost_socks(2) [OF assms(2)]])
  moreover have "m_ws w' \<noteq> None" using link assms(4) by (simp add: same_link_def ready_now_def)
  ultimately show ?thesis using MeterOpen lost_more(2) by (simp add: report_def form) (simp add: set_timeout_def)
next
  case (MeterClosed i)
  let ?u = "ready_now i CLOSED w"
  obtain d where form: "onClose ?u = (None, set_timeout ConnectTimer 2000 (?u\<lparr>doc := d,
      timers := filter (\<lambda>x. Some (t_id x) \<noteq> m_pollTimer ?u) (timers ?u), m_pollTimer := None\<rparr>))"
    by (rule close_form)
  have "report onClose ?u = set_timeout ConnectTimer 2000 (?u\<lparr>doc := d,
      timers := filter (\<lambda>x. Some (t_id x) \<noteq> m_pollTimer ?u) (timers ?u), m_pollTimer := None\<rparr>)"
    unfolding report_def form by simp
  moreover have "lost_poll t \<dots>" by (rule lost_more(1) [OF lost_cleared [OF lost_socks(2) [OF assms(2)]]])
  moreover have "m_ws (set_timeout ConnectTimer 2000 (?u\<lparr>doc := d, timers := ts, m_pollTimer := None\<rparr>)) = m_ws w" for ts
    by (simp add: set_timeout_def ready_now_def)
  ultimately show ?thesis using MeterClosed assms(2,4) lost_socks(2) [OF assms(2)] by (simp add: ready_now_def)
next
  case (MeterConnect k)
  have "k \<noteq> t" using MeterConnect assms(2,3) by (auto simp: lost_poll_def waits_def list_ex_iff list_all_iff)
  then have "lost_poll t (expire k w)" using assms(2) by (auto simp: lost_poll_def expire_def waits_def list_ex_iff list_all_iff)
  then show ?thesis using MeterConnect lost_socks(3) by (simp add: report_def meter_connect_form [OF assms(1)])
next
  case MeterReconnect
  obtain i where i: "m_ws w = Some i" using assms(4) by auto
  obtain d where form: "reconnect E w = (None, w\<lparr>doc := d, timers := filter (\<lambda>x. Some (t_id x) \<noteq> m_pollTimer w) (timers w), m_pollTimer := None,
    m_silent := i # m_silent w, m_ws := Some (length (socks w)),
    socks := (if ready_at (socks w) i \<in> {CLOSING, CLOSED} then socks w else upd_at i (s_ready_update (\<lambda>_. CLOSING)) (socks w)) @ [fresh_socket E]\<rparr>)"
    by (rule meter_reconnect_form [OF assms(1) i])
  show ?thesis using MeterReconnect lost_socks(1) [OF lost_cleared [OF assms(2)]] by (simp add: report_def form)
qed (use assms(4) in \<open>simp_all add: lost_same_link [OF report_link assms(2)] keeps_poll keeps_message keeps_writes same_ws [OF report_link]\<close>)

lemma lost_forever:
  assumes "reaches E" and "lost_poll t w" and "m_ws w \<noteq> None" and "all_enabled meter_enabled (meter_step E) es w"
  shows "lost_poll t (run_events (meter_step E) es w)"
  using assms(2-4)
proof (induction es arbitrary: w)
  case (Cons e es)
  then show ?case using lost_step [OF assms(1) Cons.prems(1) _ Cons.prems(2), of e] by simp
qed simp

subsection \<open>The link alone\<close>

text \<open>The states of the sockets, the timers, and the variables that name them, and what the events do to these.\<close>

definition link_state :: "meter \<Rightarrow> ready list \<times> meter_cb timer list \<times> nat option \<times> nat option \<times> nat list \<times> nat" where
  "link_state w = (map s_ready (socks w), timers w, m_ws w, m_pollTimer w, m_silent w, next_timer w)"

lemma link_same: "same_link w w' \<Longrightarrow> link_state w' = link_state w"
  by (simp add: same_link_def link_state_def readies)

lemma link_now: "link_state w = (rs, ts, i, p, l, n) \<Longrightarrow> link_state (ready_now j r w) = (rs[j := r], ts, i, p, l, n)"
  by (auto simp: link_state_def ready_now_def ready_update)

lemma link_facts:
  assumes "link_state w = (rs, ts, i, p, l, n)"
  shows "length (socks w) = length rs" "k < length rs \<Longrightarrow> ready_at (socks w) k = rs ! k" "waits w cb t \<longleftrightarrow> list_ex (\<lambda>x. t_id x = t \<and> t_cb x = cb) ts"
    "m_silent w = l"
  using assms by (auto simp: link_state_def ready_at_def waits_def)

lemma link_open:
  assumes "link_state w = (rs, ts, i, p, l, n)"
  shows "link_state (report (onOpen E c) w) = (rs, ts @ [\<lparr>t_id = n, t_delay = 500, t_cb = PollTimer\<rparr>], i, Some n, l, Suc n)"
proof -
  obtain w' where link: "same_link w w'" and form: "onOpen E c w = (None, (set_timeout PollTimer 500 w')\<lparr>m_pollTimer := Some (next_timer w')\<rparr>)"
    by (rule open_form)
  then show ?thesis using assms link_same [OF link] by (auto simp: report_def link_state_def set_timeout_def)
qed

lemma link_closed:
  assumes "link_state w = (rs, ts, i, p, l, n)"
  shows "link_state (report onClose w) = (rs, filter (\<lambda>x. Some (t_id x) \<noteq> p) ts @ [\<lparr>t_id = n, t_delay = 2000, t_cb = ConnectTimer\<rparr>], i, None, l, Suc n)"
proof -
  obtain d where form: "onClose w = (None, set_timeout ConnectTimer 2000
    (w\<lparr>doc := d, timers := filter (\<lambda>x. Some (t_id x) \<noteq> m_pollTimer w) (timers w), m_pollTimer := None\<rparr>))"
    by (rule close_form)
  then show ?thesis using assms by (auto simp: report_def link_state_def set_timeout_def)
qed

lemma link_connect:
  assumes "reaches E" and "link_state w = (rs, ts, i, p, l, n)"
  shows "link_state (report (meter_connect E) (expire t w)) = (rs @ [CONNECTING], filter (\<lambda>x. t_id x \<noteq> t) ts, Some (length rs), p, l, n)"
  using assms(2) by (auto simp: report_def meter_connect_form [OF assms(1)] expire_def link_state_def fresh_socket_def)

lemma link_reconnect:
  assumes "reaches E" and "link_state w = (rs, ts, Some i, p, l, n)" and "i < length rs"
  shows "link_state (report (reconnect E) w) = ((if rs ! i \<in> {CLOSING, CLOSED} then rs else rs[i := CLOSING]) @ [CONNECTING],
    filter (\<lambda>x. Some (t_id x) \<noteq> p) ts, Some (length rs), None, i # l, n)"
proof -
  have i: "m_ws w = Some i" "ready_at (socks w) i = rs ! i" "m_pollTimer w = p" using assms(2,3) by (auto simp: link_state_def ready_at_def)
  obtain d where form: "reconnect E w = (None, w\<lparr>doc := d, timers := filter (\<lambda>x. Some (t_id x) \<noteq> m_pollTimer w) (timers w), m_pollTimer := None,
    m_silent := i # m_silent w, m_ws := Some (length (socks w)),
    socks := (if ready_at (socks w) i \<in> {CLOSING, CLOSED} then socks w else upd_at i (s_ready_update (\<lambda>_. CLOSING)) (socks w)) @ [fresh_socket E]\<rparr>)"
    by (rule meter_reconnect_form [OF assms(1) i(1)])
  have "length rs = length (socks w)" using assms(2) by (auto simp: link_state_def)
  then show ?thesis using assms(2) by (auto simp: report_def form i(2) link_state_def ready_update fresh_socket_def)
qed

end
