(* ===== verification/Page_Server.thy ===== *)
theory Page_Server
  imports Js_Convert Server_Calls
begin

section \<open>Pages and gateway: numbers, requests and answers\<close>

text \<open>
  The pages send the function as a number of JSON and read it from an answer with \<open>parseInt(obj.FID, 16)\<close>. A request of
  a page becomes one call of the gateway under its function and number, with the argument printed back and the poll
  delay it asks for; the texts of the gateway give the page the same function.
\<close>

subsection \<open>Requests of a page\<close>

definition page_request :: "nat \<Rightarrow> nat \<Rightarrow> nat \<Rightarrow> json \<Rightarrow> json" where
  "page_request fid flags sid arg =
     JObj [(lit ''FID'', JNat fid), (lit ''FLAGS'', JNat flags), (lit ''SID'', JNat sid), (lit ''ARG'', arg)]"

definition page_call :: "cjson_lib \<Rightarrow> hal \<Rightarrow> nat \<Rightarrow> bool \<Rightarrow> nat \<Rightarrow> nat \<Rightarrow> nat \<Rightarrow> json \<Rightarrow> call" where
  "page_call L H a hlr fid flags sid arg = \<lparr>call_session = Some a, call_data = Some (stringify id arg), call_id = word_of_nat sid,
     call_handler = hlr, call_fid = word_of_nat fid, call_pending = 1, call_flags = or FLAG_NEW (word_of_nat flags),
     call_poll = (case c_item L ''RDL'' arg of
         Some (JNum l) \<Rightarrow> if 0 < c_int L l then h_ms_to_ticks H (word_of_int (c_int L l)) else 0
       | _ \<Rightarrow> 0), call_next = 0\<rparr>"

lemma page_request_items:
  assumes "cjson_documented L" and "fid < 2147483648" and "sid < 65536" and "flags < 65536" and "json_wf arg" and "ascii_json arg"
  shows "c_parse L (stringify ns (page_request fid flags sid arg)) = Some (page_request fid flags sid arg)"
    "read_fid L (page_request fid flags sid arg) = word_of_nat fid"
    "number_item L ''SID'' (page_request fid flags sid arg) = Some (int sid)"
    "number_item L ''FLAGS'' (page_request fid flags sid arg) = Some (int flags)"
    "c_item L ''ARG'' (page_request fid flags sid arg) = Some arg"
proof -
  have "json_wf (page_request fid flags sid arg)" "ascii_json (page_request fid flags sid arg)"
    using assms(2-6) by (simp_all add: page_request_def JNat_wf ascii_names ascii_JNat)
  then show "c_parse L (stringify ns (page_request fid flags sid arg)) = Some (page_request fid flags sid arg)"
    by (rule cjson_parse [OF assms(1)])
  have "c_item L ''FID'' (page_request fid flags sid arg) = Some (JNat fid)"
    by (simp add: page_request_def cjson_item [OF assms(1)] lower_def lit_def)
  then show "read_fid L (page_request fid flags sid arg) = word_of_nat fid"
    using assms(1,2) by (simp add: read_fid_def JNat_def cjson_int)
  show "number_item L ''SID'' (page_request fid flags sid arg) = Some (int sid)"
    "number_item L ''FLAGS'' (page_request fid flags sid arg) = Some (int flags)"
    "c_item L ''ARG'' (page_request fid flags sid arg) = Some arg"
    using assms by (simp_all add: number_item_def page_request_def cjson_item lower_def lit_def JNat_def cjson_int)
qed

lemma page_request_call:
  assumes "cjson_documented L" and "0 < fid" and "fid < 2147483648" and "sid < 65536" and "flags < 65536" and "json_wf arg"
    and "ascii_json arg" and "s_user s conn = Some a" and "ws_get_fid_queue (word_of_nat fid) s \<noteq> None"
  shows "ws_server_on_text L H conn (stringify ns (page_request fid flags sid arg)) s
    = s\<lparr>s_calls := s_calls s @ [page_call L H a (word_of_nat fid \<in> set (s_handlers s)) fid flags sid arg]\<rparr>"
proof -
  have fid: "(word_of_nat fid :: u32) \<noteq> 0"
    using assms(2,3) by (simp add: word_of_nat_eq_0_iff nat_dvd_not_less)
  have print: "c_print L arg = stringify id arg" by (rule cjson_print [OF assms(1,6,7)])
  note items = page_request_items [OF assms(1,3-7)]
  have "stringify ns (page_request fid flags sid arg) \<noteq> []" by (simp add: page_request_def)
  from on_text_known [OF assms(8) this items(1) refl _ items(4,3)] show ?thesis
    using fid assms(9)
    by (simp add: items new_call_def page_call_def arg_data_def arg_delay_def print number_of_sid [OF assms(4)])
qed

subsection \<open>Answers to a page\<close>

lemma hex_upto_9: "v < 16 \<Longrightarrow> digit_value 16 (hex_char v) = Some v"
  using hex_value_char [of v] by (simp add: digit_value_def)

lemma parse_int_hex8: "parse_int 16 (lit ''0x'' @ hex8 x) = Some (int (unat x))"
proof -
  have "\<exists>ds. hex8 x = map hex_char ds \<and> list_all (\<lambda>d. d < 16) ds \<and> ds \<noteq> []"
    unfolding hex8_def Let_def by (intro exI conjI) (rule refl, simp_all)
  then obtain ds where ds: "hex8 x = map hex_char ds" "list_all (\<lambda>d. d < 16) ds" "ds \<noteq> []" by blast
  have all: "takeWhile (\<lambda>c. \<exists>y. digit_value 16 c = Some y) (hex8 x) = hex8 x"
    using ds(2) by (subst takeWhile_eq_all_conv) (auto simp: ds(1) list_all_iff hex_upto_9)
  have "foldl (\<lambda>v c. v * 16 + (case digit_value 16 c of Some d \<Rightarrow> d | None \<Rightarrow> 0)) n (map hex_char ds)
      = foldl (\<lambda>v c. v * 16 + (case hex_value c of Some d \<Rightarrow> d | None \<Rightarrow> 0)) n (map hex_char ds)" for n
    using ds(2) by (induction ds arbitrary: n) (simp_all add: hex_upto_9 hex_value_char)
  then have "read_radix 16 (hex8 x) = unat x"
    using read_hex8 [of x] by (simp add: read_radix_def read_hex_def ds(1))
  moreover have "unat x < 2 ^ 53" using unsigned_less [of x, where ?'a = nat] by simp
  moreover have "hex8 x \<noteq> []" using ds by simp
  ultimately have "unsigned_int 16 (lit ''0x'' @ hex8 x) = Some (unat x)"
    using all by (simp add: unsigned_int_def strip_0x_def lit_def round53_small Let_def del: takeWhile_eq_all_conv)
  then show ?thesis by (simp add: parse_int_def lit_def js_space_def)
qed

lemma parse_value_hex: "parse_value E 16 (Some (hex_string x)) = Inr (Some (int (unat x)))"
  by (simp add: parse_value_def hex_string_def parse_int_hex8)

lemma response_members:
  "get_prop ''FID'' (response_object fid sid v) = Inr (Some (hex_string fid))"
  "get_prop ''ARG'' (response_object fid sid v) = Inr (Some v)"
  by (simp_all add: get_prop_def response_object_def) (simp_all add: lit_def)

lemma response_data: "json_wf v \<Longrightarrow> json_parse (data_text (Text (response_text fid sid (stringify ns v)))) = Some (response_object fid sid v)"
  by (simp add: data_text_def response_text_parse)

lemma status_data:
  "json_parse (data_text (Text (response_text fid sid (status_json sta)))) = Some (response_object fid sid (JObj [(lit ''STA'', hex_string sta)]))"
  by (simp add: data_text_def status_text_parse)

end
