(* ===== verification/Serial_Port.thy ===== *)
theory Serial_Port
  imports Cjson_Lib Server_State Js_Base64
begin

section \<open>The serial ports\<close>

text \<open>
  src/main/uart.c: the configuration of a port, reading, writing and echo; and src/main/apih_uart.c: the
  task that serves the serial functions of the clients, with the receive buffer of each port. The driver
  of ESP-IDF is a parameter, and so is Base64 of the CodeLibrary submodule, with what the code relies on in
  \<open>uart_documented\<close> and \<open>b64_documented\<close>. Memory is taken to suffice; the mutex around a buffer makes
  each operation on it one step.
\<close>

subsection \<open>Configuration of a port\<close>

text \<open>The enumerations of the driver, and \<open>gw_uart_config_t\<close>, whose members are numbers: word length 0 and 1 for
  7 and 8 bits, parity 0 none, 1 odd, 2 even, stop bits 1 for 1, 2 for 2, 3 for 1.5.\<close>

datatype uart_word_length = UART_DATA_5_BITS | UART_DATA_6_BITS | UART_DATA_7_BITS | UART_DATA_8_BITS

datatype uart_parity = UART_PARITY_DISABLE | UART_PARITY_EVEN | UART_PARITY_ODD

datatype uart_stop_bits = UART_STOP_BITS_1 | UART_STOP_BITS_1_5 | UART_STOP_BITS_2

record uart_config =
  baud_rate :: u32
  data_bits :: uart_word_length
  parity :: uart_parity
  stop_bits :: uart_stop_bits

record gw_config =
  cf_bits :: nat
  cf_boud :: u32
  cf_parity :: nat
  cf_stop :: nat

text \<open>A port: its configuration record, what the hardware was last configured to, the echo and lock flags, the bytes
  the driver has received, and those it was given to send.\<close>

record gw_uart =
  u_cnf :: uart_config
  u_hardware :: "uart_config option"
  u_echo :: bool
  u_rx_locked :: bool
  u_rx :: "nat list"
  u_tx :: "nat list"

text \<open>The driver: whether it takes a configuration, and how many bytes it takes of those it is given.\<close>

record uart_lib =
  ul_config :: "uart_config \<Rightarrow> bool"
  ul_write :: "nat list \<Rightarrow> int"

definition uart_documented :: "uart_lib \<Rightarrow> bool" where
  "uart_documented U \<longleftrightarrow> (\<forall>bs. ul_write U bs = int (length bs))"

definition gw_uart_get :: "gw_uart \<Rightarrow> gw_config option" where
  "gw_uart_get p =
     (case (case data_bits (u_cnf p) of UART_DATA_7_BITS \<Rightarrow> Some 0 | UART_DATA_8_BITS \<Rightarrow> Some 1 | _ \<Rightarrow> None) of
        None \<Rightarrow> None
      | Some bits \<Rightarrow> Some \<lparr>cf_bits = bits, cf_boud = baud_rate (u_cnf p),
          cf_parity = (case parity (u_cnf p) of UART_PARITY_DISABLE \<Rightarrow> 0 | UART_PARITY_ODD \<Rightarrow> 1 | UART_PARITY_EVEN \<Rightarrow> 2),
          cf_stop = (case stop_bits (u_cnf p) of UART_STOP_BITS_1 \<Rightarrow> 1 | UART_STOP_BITS_1_5 \<Rightarrow> 3 | UART_STOP_BITS_2 \<Rightarrow> 2)\<rparr>)"

text \<open>\<open>gw_uart_set\<close>: a value that is not supported leaves the port alone; otherwise the record is written before the
  driver is asked.\<close>

definition gw_uart_set :: "uart_lib \<Rightarrow> gw_config \<Rightarrow> gw_uart \<Rightarrow> bool \<times> gw_uart" where
  "gw_uart_set U c p =
     (case (if cf_bits c = 0 then Some UART_DATA_7_BITS else if cf_bits c = 1 then Some UART_DATA_8_BITS else None,
            if cf_parity c = 0 then Some UART_PARITY_DISABLE else if cf_parity c = 1 then Some UART_PARITY_ODD
            else if cf_parity c = 2 then Some UART_PARITY_EVEN else None,
            if cf_stop c = 1 then Some UART_STOP_BITS_1 else if cf_stop c = 3 then Some UART_STOP_BITS_1_5
            else if cf_stop c = 2 then Some UART_STOP_BITS_2 else None) of
        (Some b, Some y, Some t) \<Rightarrow>
          (let cnf = \<lparr>baud_rate = cf_boud c, data_bits = b, parity = y, stop_bits = t\<rparr>
           in if ul_config U cnf then (True, p\<lparr>u_cnf := cnf, u_hardware := Some cnf\<rparr>)
              else (False, p\<lparr>u_cnf := cnf\<rparr>))
      | _ \<Rightarrow> (False, p))"

text \<open>\<open>gw_uart_write\<close>: the length is cut to 16 bits.\<close>

definition uart_write_bytes :: "uart_lib \<Rightarrow> nat list \<Rightarrow> gw_uart \<Rightarrow> int \<times> gw_uart" where
  "uart_write_bytes U bs p = (ul_write U bs, p\<lparr>u_tx := u_tx p @ take (nat (ul_write U bs)) bs\<rparr>)"

definition gw_uart_write :: "uart_lib \<Rightarrow> nat list \<Rightarrow> gw_uart \<Rightarrow> int \<times> gw_uart" where
  "gw_uart_write U bs p = uart_write_bytes U (take (length bs mod 65536) bs) p"

subsection \<open>The receive buffer\<close>

text \<open>\<open>UART_TMP_BUF_SIZE\<close>: 20 ms at 500000 baud, ten bits a byte; a multiple of four already.\<close>

definition UART_TMP_BUF_SIZE :: nat where
  "UART_TMP_BUF_SIZE = (500000 div 10) div (1000 div 20)"

record subscription_buffer =
  sb_bytes :: "nat list"
  sb_size :: nat

text \<open>\<open>uart_event_on_rx\<close>: what has room is kept, the rest is dropped.\<close>

definition uart_event_on_rx :: "nat list \<Rightarrow> subscription_buffer \<Rightarrow> subscription_buffer" where
  "uart_event_on_rx bs b = b\<lparr>sb_bytes := sb_bytes b @ take (min (sb_size b - length (sb_bytes b)) (length bs)) bs\<rparr>"

text \<open>One turn of the loop for a \<open>UART_DATA\<close> event, at most 128 bytes, and the loop; \<open>size\<close> is what the event says
  has arrived.\<close>

definition read_chunk :: "uart_lib \<Rightarrow> nat list \<Rightarrow> gw_uart \<times> subscription_buffer \<Rightarrow> gw_uart \<times> subscription_buffer" where
  "read_chunk U bs = (\<lambda>(p, b).
     (let p1 = p\<lparr>u_rx := drop (length bs) (u_rx p)\<rparr>;
          p2 = (if u_echo p then snd (uart_write_bytes U bs p1) else p1)
      in (p2, uart_event_on_rx bs b)))"

function read_loop :: "uart_lib \<Rightarrow> nat \<Rightarrow> gw_uart \<times> subscription_buffer \<Rightarrow> gw_uart \<times> subscription_buffer" where
  "read_loop U n (p, b) =
     (let bs = take (min n 128) (u_rx p)
      in if n = 0 \<or> bs = [] then (p, b) else read_loop U (n - length bs) (read_chunk U bs (p, b)))"
  by pat_completeness auto
termination
  by (relation "measure (\<lambda>(U, n, k). n)") auto

declare read_loop.simps [simp del]

definition uart_data_event :: "uart_lib \<Rightarrow> nat \<Rightarrow> gw_uart \<times> subscription_buffer \<Rightarrow> gw_uart \<times> subscription_buffer" where
  "uart_data_event U n k = (if u_rx_locked (fst k) then k else read_loop U n k)"

text \<open>An overflow of the hardware or of the driver's buffer drops what was not read.\<close>

definition uart_overflow_event :: "gw_uart \<Rightarrow> gw_uart" where
  "uart_overflow_event p = p\<lparr>u_rx := []\<rparr>"

subsection \<open>Base64 of the library\<close>

text \<open>The buffer each direction asks for, and the result into a buffer of a size; a length that is not
  positive is the empty result.\<close>

record b64_lib =
  b_encode_required :: "nat \<Rightarrow> int"
  b_encode :: "int \<Rightarrow> nat list \<Rightarrow> jsstr"
  b_decode_required :: "jsstr \<Rightarrow> int"
  b_decode :: "int \<Rightarrow> jsstr \<Rightarrow> nat list"

definition b64_documented :: "b64_lib \<Rightarrow> bool" where
  "b64_documented B \<longleftrightarrow> (\<forall>bs. bytes_ok bs \<and> bs \<noteq> [] \<longrightarrow>
       b_encode B (b_encode_required B (length bs)) bs = btoa_bytes bs
     \<and> 0 < b_decode_required B (btoa_bytes bs)
     \<and> b_decode B (b_decode_required B (btoa_bytes bs)) (btoa_bytes bs) = bs)"

lemma b64_documentedD:
  assumes "b64_documented B" and "bytes_ok bs" and "bs \<noteq> []"
  shows "b_encode B (b_encode_required B (length bs)) bs = btoa_bytes bs"
    "0 < b_decode_required B (btoa_bytes bs)"
    "b_decode B (b_decode_required B (btoa_bytes bs)) (btoa_bytes bs) = bs"
  using assms by (auto simp: b64_documented_def)

definition plain_b64 :: b64_lib where
  "plain_b64 = \<lparr>b_encode_required = (\<lambda>n. int ((n + 2) div 3 * 4)), b_encode = (\<lambda>_. btoa_bytes),
     b_decode_required = (\<lambda>s. int (length s)), b_decode = (\<lambda>_ s. case atob_opt s of Some bs \<Rightarrow> bs | None \<Rightarrow> [])\<rparr>"

lemma plain_b64_documented: "b64_documented plain_b64"
  by (simp add: b64_documented_def plain_b64_def atob_btoa)

subsection \<open>The serial functions\<close>

datatype uart_function = UART_CNF | UART_RAW_RX | UART_RAW_TX | UART_ECHO

text \<open>The function numbers of the two ports (src/main/app.h, lines 106 to 113).\<close>

definition uart_function_of :: "u32 \<Rightarrow> (uart_function \<times> nat) option" where
  "uart_function_of fid = map_of
     [(0x1010, (UART_CNF, 0)), (0x1011, (UART_RAW_RX, 0)), (0x1012, (UART_RAW_TX, 0)), (0x1013, (UART_ECHO, 0)),
      (0x1020, (UART_CNF, 1)), (0x1021, (UART_RAW_RX, 1)), (0x1022, (UART_RAW_TX, 1)), (0x1023, (UART_ECHO, 1))] fid"

record serial =
  sp_port :: "nat \<Rightarrow> gw_uart"
  sp_buffer :: "nat \<Rightarrow> subscription_buffer"

text \<open>\<open>api_cmd_uart_t\<close>: what a request sets. The word length, the parity and the stop bits have two bits.\<close>

record api_cmd =
  cmd_wl :: "nat option"
  cmd_boud :: "u32 option"
  cmd_par :: "nat option"
  cmd_sb :: "nat option"

definition two_bits :: "u32 \<Rightarrow> nat" where
  "two_bits v = unat v mod 4"

definition parse_uart_params :: "cjson_lib \<Rightarrow> jsstr \<Rightarrow> api_cmd option" where
  "parse_uart_params L data = (case c_parse L data of
       None \<Rightarrow> None
     | Some json \<Rightarrow> Some \<lparr>cmd_wl = map_option two_bits (cJSON_ParseInt L ''WL'' json),
         cmd_boud = cJSON_ParseInt L ''BR'' json,
         cmd_par = map_option two_bits (cJSON_ParseInt L ''PAR'' json),
         cmd_sb = map_option two_bits (cJSON_ParseInt L ''SB'' json)\<rparr>)"

definition set_to :: "'a option \<Rightarrow> 'a \<Rightarrow> 'a" where
  "set_to x d = (case x of Some v \<Rightarrow> v | None \<Rightarrow> d)"

text \<open>\<open>uart_config\<close>: the port's configuration with the given members; the answer is what was asked for, whether or
  not the port took it.\<close>

definition uart_config :: "uart_lib \<Rightarrow> api_cmd \<Rightarrow> gw_uart \<Rightarrow> gw_config \<times> gw_uart" where
  "uart_config U cmd p =
     (let old = set_to (gw_uart_get p) \<lparr>cf_bits = 0, cf_boud = 0, cf_parity = 0, cf_stop = 0\<rparr>;
          new = \<lparr>cf_bits = set_to (cmd_wl cmd) (cf_bits old), cf_boud = set_to (cmd_boud cmd) (cf_boud old),
                 cf_parity = set_to (cmd_par cmd) (cf_parity old), cf_stop = set_to (cmd_sb cmd) (cf_stop old)\<rparr>
      in (new, snd (gw_uart_set U new p)))"

definition format_uart_resp :: "gw_config \<Rightarrow> json" where
  "format_uart_resp c = JObj [(lit ''BR'', JNat (unat (cf_boud c))), (lit ''WL'', JNat (cf_bits c)),
     (lit ''PAR'', JNat (cf_parity c)), (lit ''SB'', JNat (cf_stop c))]"

text \<open>\<open>send_uart_response\<close> builds this message; the result of putting it on the worker's queue is not looked at.\<close>

definition uart_response :: "cjson_lib \<Rightarrow> u32 \<Rightarrow> u32 \<Rightarrow> json option \<Rightarrow> webapi_msg" where
  "uart_response L i fid json = \<lparr>m_fid = fid, m_id = i, m_data = map_option (c_print L) json\<rparr>"

definition json_int :: "int \<Rightarrow> json" where
  "json_int z = (if z < 0 then JNum (45 # show_nat (nat (- z))) else JNat (nat z))"

definition handle_cnf :: "cjson_lib \<Rightarrow> uart_lib \<Rightarrow> webapi_msg \<Rightarrow> gw_uart \<Rightarrow> webapi_msg option \<times> gw_uart" where
  "handle_cnf L U m p = (case Option.bind (m_data m) (parse_uart_params L) of
       None \<Rightarrow> (None, p)
     | Some cmd \<Rightarrow> (case uart_config U cmd p of
         (new, p') \<Rightarrow> (Some (uart_response L (m_id m) (m_fid m) (Some (format_uart_resp new))), p')))"

definition handle_raw_rx :: "cjson_lib \<Rightarrow> b64_lib \<Rightarrow> webapi_msg \<Rightarrow> subscription_buffer \<Rightarrow> webapi_msg option \<times> subscription_buffer" where
  "handle_raw_rx L B m b =
     (let bs = sb_bytes b in
      if bs \<noteq> [] then
        (let text = b_encode B (b_encode_required B (length bs)) bs
         in (if text \<noteq> [] then Some (uart_response L 0 (m_fid m) (Some (JStr text))) else None, b\<lparr>sb_bytes := []\<rparr>))
      else (Some (uart_response L 0 (m_fid m) None), b))"

definition handle_raw_tx :: "cjson_lib \<Rightarrow> uart_lib \<Rightarrow> b64_lib \<Rightarrow> webapi_msg \<Rightarrow> gw_uart \<Rightarrow> webapi_msg option \<times> gw_uart" where
  "handle_raw_tx L U B m p = (case m_data m of
       None \<Rightarrow> (None, p)
     | Some d \<Rightarrow>
         if length d \<le> 2 then (None, p)
         else (let b64 = take (length d - 2) (drop 1 d); n = b_decode_required B b64; bs = b_decode B n b64
               in if 0 < n \<and> bs \<noteq> []
                  then (case gw_uart_write U bs p of
                      (written, p') \<Rightarrow>
                        (Some (uart_response L (m_id m) (m_fid m) (Some (JObj [(lit ''written'', json_int written)]))), p'))
                  else (None, p)))"

definition handle_echo :: "cjson_lib \<Rightarrow> webapi_msg \<Rightarrow> gw_uart \<Rightarrow> webapi_msg option \<times> gw_uart" where
  "handle_echo L m p =
     (let p' = (case m_data m of
            Some (d # ds) \<Rightarrow>
              (case Option.bind (c_parse L (d # ds)) (cJSON_ParseInt L ''E'') of
                 Some v \<Rightarrow> p\<lparr>u_echo := v \<noteq> 0\<rparr>
               | None \<Rightarrow> p)
          | _ \<Rightarrow> p)
      in (Some (uart_response L (m_id m) (m_fid m) (Some (JObj [(lit ''E'', JNat (if u_echo p' then 1 else 0))]))), p'))"

text \<open>\<open>handle_msg\<close>: the answer, if there is one, and the ports afterwards.\<close>

definition handle_msg :: "cjson_lib \<Rightarrow> uart_lib \<Rightarrow> b64_lib \<Rightarrow> webapi_msg \<Rightarrow> serial \<Rightarrow> webapi_msg option \<times> serial" where
  "handle_msg L U B m st = (case uart_function_of (m_fid m) of
       Some (UART_CNF, i) \<Rightarrow>
         (case handle_cnf L U m (sp_port st i) of (r, p) \<Rightarrow> (r, st\<lparr>sp_port := (sp_port st)(i := p)\<rparr>))
     | Some (UART_RAW_RX, i) \<Rightarrow>
         (case handle_raw_rx L B m (sp_buffer st i) of (r, b) \<Rightarrow> (r, st\<lparr>sp_buffer := (sp_buffer st)(i := b)\<rparr>))
     | Some (UART_RAW_TX, i) \<Rightarrow>
         (case handle_raw_tx L U B m (sp_port st i) of (r, p) \<Rightarrow> (r, st\<lparr>sp_port := (sp_port st)(i := p)\<rparr>))
     | Some (UART_ECHO, i) \<Rightarrow>
         (case handle_echo L m (sp_port st i) of (r, p) \<Rightarrow> (r, st\<lparr>sp_port := (sp_port st)(i := p)\<rparr>))
     | None \<Rightarrow> (None, st))"

text \<open>One round of \<open>ws_uart_task\<close>: take a request from the task's queue, handle it, and put the answer on the
  worker's queue if that has room.\<close>

definition uart_task_step :: "cjson_lib \<Rightarrow> uart_lib \<Rightarrow> b64_lib \<Rightarrow> nat \<Rightarrow> server \<times> serial \<Rightarrow> server \<times> serial" where
  "uart_task_step L U B q = (\<lambda>(s, st). (case queue_receive (s_queues s q) of
       None \<Rightarrow> (s, st)
     | Some (m, q') \<Rightarrow>
        (case handle_msg L U B m st of (r, st') \<Rightarrow>
           (let s1 = s\<lparr>s_queues := (s_queues s)(q := q')\<rparr>
            in (case r of Some a \<Rightarrow> s1\<lparr>s_worker := queue_offer a (s_worker s1)\<rparr> | None \<Rightarrow> s1, st')))))"

end
