(* ===== verification/Modbus_Port.thy ===== *)
theory Modbus_Port
  imports Serial_Port "HOL-Library.While_Combinator"
begin

section \<open>The Modbus functions\<close>

text \<open>
  src/main/apih_modbus.c: a task for each serial port takes the requests of the clients from its queue, makes
  one exchange with the Modbus library of the CodeLibrary submodule, and puts one answer on the worker's queue.
  The library is a parameter; what it does to the port between two questions of the clock, and what comes in on
  the line meanwhile, is in \<open>mb_work\<close>. Memory is taken to suffice.
\<close>

unbundle bit_operations_syntax

subsection \<open>The library\<close>

text \<open>\<open>modbus_frame_t\<close>; the data is \<open>pucData\<close>, None for NULL.\<close>

record modbus_frame =
  fr_addr :: "8 word"
  fr_func :: "8 word"
  fr_reg :: "16 word"
  fr_count :: "16 word"
  fr_length_code :: "8 word"
  fr_size :: "8 word"
  fr_data :: "8 word list option"

text \<open>\<open>modbus_init\<close> with the timeout, \<open>modbus_request\<close> with the transaction number (0 for a refusal), \<open>modbus_work\<close>,
  \<open>modbus_cancel_request\<close>; a request and a turn of work may call the callback, with a frame or with NULL. Then
  \<open>modbus_frame_data\<close> with code, amount and size, \<open>modbus_is_error_frame\<close>, the two constants of the library that the
  code names, and \<open>valueint\<close> of a cJSON item that is no number.\<close>

record 'm mb_lib =
  mb_init :: "16 word \<Rightarrow> 'm \<Rightarrow> 'm"
  mb_request :: "modbus_frame \<Rightarrow> 'm \<times> gw_uart \<Rightarrow> u32 \<times> modbus_frame option option \<times> 'm \<times> gw_uart"
  mb_work :: "'m \<times> gw_uart \<Rightarrow> modbus_frame option option \<times> 'm \<times> gw_uart"
  mb_cancel :: "u32 \<Rightarrow> 'm \<times> gw_uart \<Rightarrow> 'm \<times> gw_uart"
  mb_frame_data :: "modbus_frame \<Rightarrow> 8 word list option \<times> 8 word \<times> 8 word \<times> 8 word"
  mb_is_error :: "modbus_frame \<Rightarrow> bool"
  mb_error_flag :: "8 word"
  mb_write_coils :: "8 word"
  mb_other_int :: "json \<Rightarrow> int"

definition no_frame :: modbus_frame where
  "no_frame = \<lparr>fr_addr = 0, fr_func = 0, fr_reg = 0, fr_count = 0, fr_length_code = 0, fr_size = 0, fr_data = None\<rparr>"

definition MB_PAYLOAD_SIZE :: nat where
  "MB_PAYLOAD_SIZE = 255"

definition MB_DEFAULT_AWT_MS :: u32 where
  "MB_DEFAULT_AWT_MS = 500"

text \<open>The callback: the frame with a copy of its data, or an empty frame.\<close>

definition mb_on_complete :: "modbus_frame option \<Rightarrow> modbus_frame" where
  "mb_on_complete r = (case r of
       None \<Rightarrow> no_frame
     | Some f \<Rightarrow> f\<lparr>fr_data := (case fr_data f of
           Some bs \<Rightarrow> if 0 < fr_size f then Some (take (min (unat (fr_size f)) MB_PAYLOAD_SIZE) bs) else None
         | None \<Rightarrow> None)\<rparr>)"

subsection \<open>Reading a request\<close>

text \<open>The bytes of \<open>RD\<close>: one for each value when coils are written, otherwise two, the high byte first.\<close>

definition elem_value :: "cjson_lib \<Rightarrow> 'm mb_lib \<Rightarrow> json \<Rightarrow> u32" where
  "elem_value L M v = word_of_int (case v of JNum l \<Rightarrow> c_int L l | _ \<Rightarrow> mb_other_int M v)"

definition value_bytes :: "nat \<Rightarrow> u32 \<Rightarrow> 8 word list" where
  "value_bytes stride v = (if stride = 2 then [ucast (drop_bit 8 v AND 0xFF), ucast (v AND 0xFF)] else [ucast (v AND 0xFF)])"

definition rd_bytes :: "nat \<Rightarrow> u32 list \<Rightarrow> 8 word list" where
  "rd_bytes stride vs = concat (map (value_bytes stride) vs)"

text \<open>The frame of a request and the time to wait for its answer, or None for a request that is not accepted.\<close>

definition parse_modbus :: "cjson_lib \<Rightarrow> 'm mb_lib \<Rightarrow> json \<Rightarrow> (modbus_frame \<times> u32) option" where
  "parse_modbus L M j = (case cJSON_ParseInt L ''ADR'' j of
       None \<Rightarrow> None
     | Some adr \<Rightarrow> if 255 < adr then None else (case cJSON_ParseInt L ''FN'' j of
       None \<Rightarrow> None
     | Some fn \<Rightarrow> if 127 < fn then None else
        (let f = no_frame\<lparr>fr_addr := ucast adr, fr_func := ucast fn,
               fr_reg := (case cJSON_ParseInt L ''RA'' j of Some v \<Rightarrow> ucast v | None \<Rightarrow> 0),
               fr_count := (case cJSON_ParseInt L ''RVC'' j of Some v \<Rightarrow> ucast v | None \<Rightarrow> 0)\<rparr>;
             awt = (case cJSON_ParseInt L ''AWT'' j of Some v \<Rightarrow> if 0 < v then v else MB_DEFAULT_AWT_MS
                    | None \<Rightarrow> MB_DEFAULT_AWT_MS)
         in (case c_item L ''RD'' j of
               Some (JArr (x # xs)) \<Rightarrow>
                 (let stride = (if fr_func f = mb_write_coils M then 1 else 2); n = length (x # xs);
                      bs = rd_bytes stride (map (elem_value L M) (x # xs))
                  in if MB_PAYLOAD_SIZE < n * stride then None
                     else Some (f\<lparr>fr_size := word_of_nat (n * stride), fr_length_code := word_of_nat (n * stride),
                            fr_data := Some (bs @ replicate (MB_PAYLOAD_SIZE - length bs) 0)\<rparr>, awt))
             | _ \<Rightarrow> Some (f, awt)))))"

subsection \<open>Writing an answer\<close>

definition mb_error_text :: "nat \<Rightarrow> jsstr" where
  "mb_error_text code = lit ''{\"ERR\":'' @ show_nat code @ lit ''}''"

text \<open>A buffer of the heap and the offset in it. \<open>snprintf\<close> writes at most what has room, a zero at the end, and
  returns the length it would have needed.\<close>

definition put_at :: "nat \<Rightarrow> nat list \<Rightarrow> nat list \<Rightarrow> nat list" where
  "put_at off bs buf = take off buf @ bs @ drop (off + length bs) buf"

definition snprintf_at :: "nat \<Rightarrow> jsstr \<Rightarrow> nat list \<times> nat \<Rightarrow> nat list \<times> nat" where
  "snprintf_at room s = (\<lambda>(buf, off).
     (if 0 < room then put_at off (take (room - 1) s @ [0]) buf else buf, off + length s))"

definition mb_header :: "'m mb_lib \<Rightarrow> modbus_frame \<Rightarrow> 8 word \<Rightarrow> 8 word \<Rightarrow> jsstr" where
  "mb_header M f code amount =
     lit ''{\"ADR\":'' @ show_nat (unat (fr_addr f)) @ lit '',\"FN\":'' @ show_nat (unat (fr_func f AND NOT (mb_error_flag M)))
     @ lit '',\"CV\":'' @ show_nat (unat code) @ lit '',\"RA\":'' @ show_nat (unat (fr_reg f))
     @ lit '',\"RC\":'' @ show_nat (unat amount) @ lit '',\"ERR\":'' @ show_nat (if mb_is_error M f then 1 else 0) @ lit '',\"RD\":[''"

text \<open>Register \<open>i\<close>: two bytes, the low one first, or one.\<close>

definition register_value :: "8 word list \<Rightarrow> 8 word \<Rightarrow> nat \<Rightarrow> nat" where
  "register_value regs width i =
     (if width = 2 then unat ((ucast (regs ! (i * 2)) :: 16 word) OR push_bit 8 (ucast (regs ! (i * 2 + 1))))
      else unat (regs ! i))"

definition write_register :: "nat \<Rightarrow> 8 word list \<Rightarrow> 8 word \<Rightarrow> nat \<Rightarrow> nat list \<times> nat \<Rightarrow> nat list \<times> nat" where
  "write_register buf_sz regs width i = (\<lambda>(buf, off).
     (case (if 0 < i \<and> off < buf_sz - 1 then (put_at off [44] buf, off + 1) else (buf, off)) of
        (buf1, off1) \<Rightarrow> snprintf_at (buf_sz - off1) (show_nat (register_value regs width i)) (buf1, off1)))"

definition mb_buffer_size :: "8 word \<Rightarrow> nat" where
  "mb_buffer_size amount = 96 + (if 0 < amount then unat amount * 9 else 0)"

text \<open>\<open>format_and_send_mb_response\<close>, up to the sending: the text is the buffer up to the offset.\<close>

definition format_mb_response :: "'m mb_lib \<Rightarrow> modbus_frame \<Rightarrow> nat list \<Rightarrow> nat list \<times> nat" where
  "format_mb_response M f buf = (case mb_frame_data M f of (regs, code, amount, width) \<Rightarrow>
     (let buf_sz = mb_buffer_size amount;
          k = snprintf_at buf_sz (mb_header M f code amount) (buf, 0);
          k = (case regs of
               Some rs \<Rightarrow> if \<not> mb_is_error M f \<and> 0 < amount then fold (write_register buf_sz rs width) [0..<unat amount] k else k
             | None \<Rightarrow> k)
      in if snd k < buf_sz - 2 then (put_at (snd k) [93, 125, 0] (fst k), snd k + 2) else k))"

definition mb_response_text :: "'m mb_lib \<Rightarrow> modbus_frame \<Rightarrow> jsstr" where
  "mb_response_text M f = (case mb_frame_data M f of (regs, code, amount, width) \<Rightarrow>
     (case format_mb_response M f (replicate (mb_buffer_size amount) 0) of (buf, off) \<Rightarrow> take off buf))"

subsection \<open>An exchange\<close>

definition gw_uart_lock_rx :: "gw_uart \<Rightarrow> gw_uart" where
  "gw_uart_lock_rx p = p\<lparr>u_rx_locked := True\<rparr>"

definition gw_uart_unlock_rx :: "gw_uart \<Rightarrow> gw_uart" where
  "gw_uart_unlock_rx p = p\<lparr>u_rx_locked := False\<rparr>"

text \<open>The loop that waits for the callback until the deadline: the frame, the library and the port, and how often the
  clock has been asked. It may run forever if the clock stands still; then its value is None.\<close>

definition mb_waiting :: "hal \<Rightarrow> u32 \<Rightarrow> modbus_frame option \<times> ('m \<times> gw_uart) \<times> nat \<Rightarrow> bool" where
  "mb_waiting H deadline = (\<lambda>(cb, k, n). cb = None \<and> sint (h_tick H n - deadline) < 0)"

definition mb_turn :: "'m mb_lib \<Rightarrow> modbus_frame option \<times> ('m \<times> gw_uart) \<times> nat \<Rightarrow> modbus_frame option \<times> ('m \<times> gw_uart) \<times> nat" where
  "mb_turn M = (\<lambda>(cb, k, n). case mb_work M k of (r, k') \<Rightarrow> (map_option mb_on_complete r, k', Suc n))"

definition mb_wait :: "'m mb_lib \<Rightarrow> hal \<Rightarrow> u32 \<Rightarrow> modbus_frame option \<times> ('m \<times> gw_uart) \<times> nat
    \<Rightarrow> (modbus_frame option \<times> ('m \<times> gw_uart) \<times> nat) option" where
  "mb_wait M H deadline = while_option (mb_waiting H deadline) (mb_turn M)"

text \<open>\<open>handle_modbus_msg\<close> in two parts: the exchange for an accepted request, and the whole. The result is the text of the
  answer, the library and the port, and the questions to the clock.\<close>

definition modbus_exchange :: "'m mb_lib \<Rightarrow> hal \<Rightarrow> modbus_frame \<Rightarrow> u32 \<Rightarrow> 'm \<times> gw_uart \<Rightarrow> nat
    \<Rightarrow> (jsstr \<times> ('m \<times> gw_uart) \<times> nat) option" where
  "modbus_exchange M H f awt = (\<lambda>(m, p) n.
     (case mb_request M f (mb_init M (ucast awt) m, gw_uart_lock_rx p) of
        (tid, r, k) \<Rightarrow>
          if tid = 0 then Some (mb_error_text 3, apsnd gw_uart_unlock_rx k, n)
          else (case mb_wait M H (h_tick H n + h_ms_to_ticks H (awt + 500)) (map_option mb_on_complete r, k, Suc n) of
              None \<Rightarrow> None
            | Some (None, k', n') \<Rightarrow> Some (mb_error_text 4, apsnd gw_uart_unlock_rx (mb_cancel M tid k'), Suc n')
            | Some (Some g, k', n') \<Rightarrow> Some (mb_response_text M g, apsnd gw_uart_unlock_rx k', n'))))"

definition handle_modbus_msg :: "cjson_lib \<Rightarrow> 'm mb_lib \<Rightarrow> hal \<Rightarrow> webapi_msg \<Rightarrow> 'm \<times> gw_uart \<Rightarrow> nat
    \<Rightarrow> (jsstr \<times> ('m \<times> gw_uart) \<times> nat) option" where
  "handle_modbus_msg L M H msg k n = (case m_data msg of
       Some (d # ds) \<Rightarrow> (case Option.bind (c_parse L (d # ds)) (parse_modbus L M) of
           Some (f, awt) \<Rightarrow> modbus_exchange M H f awt k n
         | None \<Rightarrow> Some (mb_error_text 2, k, n))
     | _ \<Rightarrow> Some (mb_error_text 2, k, n))"

text \<open>\<open>send_mb_msg\<close> puts the answer under the number and the function of the request on the worker's queue; when that is
  full the answer is dropped. One round of \<open>ws_modbus_task\<close>.\<close>

definition send_mb_msg :: "webapi_msg \<Rightarrow> jsstr \<Rightarrow> webapi_msg" where
  "send_mb_msg msg t = \<lparr>m_fid = m_fid msg, m_id = m_id msg, m_data = (if t \<noteq> [] then Some t else None)\<rparr>"

definition modbus_task_step :: "cjson_lib \<Rightarrow> 'm mb_lib \<Rightarrow> hal \<Rightarrow> nat \<Rightarrow> server \<times> 'm \<times> gw_uart \<Rightarrow> (server \<times> 'm \<times> gw_uart) option" where
  "modbus_task_step L M H q = (\<lambda>(s, k). (case queue_receive (s_queues s q) of
       None \<Rightarrow> Some (s, k)
     | Some (msg, q') \<Rightarrow>
         map_option (\<lambda>(t, k', n). (s\<lparr>s_queues := (s_queues s)(q := q'), s_time := n,
             s_worker := queue_offer (send_mb_msg msg t) (s_worker s)\<rparr>, k'))
           (handle_modbus_msg L M H msg k (s_time s))))"

end
