(* ===== verification/Serial_Properties.thy ===== *)
theory Serial_Properties
  imports Serial_Port Server_Delivery
begin

section \<open>Properties of the serial ports\<close>

text \<open>
  What the receive buffer keeps, that reading in pieces of 128 bytes makes no difference, that configurations
  are read back as they were set, what the answers to the clients say, and which requests get none.
\<close>

subsection \<open>The receive buffer\<close>

lemma take_take_room: "take (n - length xs) ys = take (min (n - length xs) (length ys)) ys"
  by (simp add: min_def)

lemma on_rx_bytes:
  "sb_bytes (uart_event_on_rx bs b) = sb_bytes b @ take (sb_size b - length (sb_bytes b)) bs"
  "sb_size (uart_event_on_rx bs b) = sb_size b"
  by (simp_all add: uart_event_on_rx_def take_take_room [symmetric])

lemma buffer_eqI: "sb_bytes b = sb_bytes c \<Longrightarrow> sb_size b = sb_size c \<Longrightarrow> b = (c :: subscription_buffer)"
  by (cases b, cases c) simp

lemma on_rx_append: "uart_event_on_rx (xs @ ys) b = uart_event_on_rx ys (uart_event_on_rx xs b)"
  by (rule buffer_eqI) (simp_all add: on_rx_bytes min_def)

lemma on_rx_Nil [simp]: "uart_event_on_rx [] b = b"
  by (rule buffer_eqI) (simp_all add: on_rx_bytes)

text \<open>The receive buffer keeps the first bytes. From an empty buffer, whatever pieces the data arrives in, the buffer
  holds the first thousand bytes of them in order, never more than its size, and loses nothing while the
  sum of the pieces fits: only what exceeds the buffer between two polls is lost.\<close>

theorem rx_buffer_keeps_first:
  assumes "b = \<lparr>sb_bytes = [], sb_size = UART_TMP_BUF_SIZE\<rparr>"
  shows "sb_bytes (fold uart_event_on_rx pieces b) = take 1000 (concat pieces)
    \<and> length (sb_bytes (fold uart_event_on_rx pieces b)) \<le> UART_TMP_BUF_SIZE
    \<and> (length (concat pieces) \<le> 1000 \<longrightarrow> sb_bytes (fold uart_event_on_rx pieces b) = concat pieces)"
proof -
  have "fold uart_event_on_rx pieces b = uart_event_on_rx (concat pieces) b" for b
    by (induction pieces arbitrary: b) (simp_all add: on_rx_append)
  then show ?thesis by (simp add: assms on_rx_bytes UART_TMP_BUF_SIZE_def)
qed

theorem rx_buffer_keeps_first_witness:
  "sb_bytes (fold uart_event_on_rx [[104, 105], [33]] \<lparr>sb_bytes = [], sb_size = UART_TMP_BUF_SIZE\<rparr>) = [104, 105, 33]"
  using rx_buffer_keeps_first [of _ "[[104, 105], [33]]"] by simp

lemma write_documented:
  "uart_documented U \<Longrightarrow> uart_write_bytes U bs p = (int (length bs), p\<lparr>u_tx := u_tx p @ bs\<rparr>)"
  by (simp add: uart_write_bytes_def uart_documented_def)

text \<open>The loop that reads pieces, as one transfer.\<close>

definition read_at_once :: "uart_lib \<Rightarrow> nat \<Rightarrow> gw_uart \<times> subscription_buffer \<Rightarrow> gw_uart \<times> subscription_buffer" where
  "read_at_once U n = (\<lambda>(p, b).
     (p\<lparr>u_rx := drop n (u_rx p), u_tx := u_tx p @ (if u_echo p then take n (u_rx p) else [])\<rparr>,
      uart_event_on_rx (take n (u_rx p)) b))"

lemma read_at_once_split:
  assumes "l \<le> n"
  shows "read_at_once U n (p, b) = read_at_once U (n - l)
    (p\<lparr>u_rx := drop l (u_rx p), u_tx := u_tx p @ (if u_echo p then take l (u_rx p) else [])\<rparr>,
     uart_event_on_rx (take l (u_rx p)) b)"
proof -
  obtain k where n: "n = l + k" using assms le_Suc_ex by blast
  have "drop (l + k) xs = drop k (drop l xs)" for xs :: "nat list" by (simp add: add.commute)
  then show ?thesis unfolding n read_at_once_def by (simp add: take_add on_rx_append del: drop_drop)
qed

lemma read_loop_once:
  assumes "uart_documented U"
  shows "read_loop U n (p, b) = read_at_once U n (p, b)"
  using assms
proof (induction U n "(p, b)" arbitrary: p b rule: read_loop.induct)
  case (1 U n p b)
  let ?bs = "take (min n 128) (u_rx p)"
  show ?case
  proof (cases "n = 0 \<or> ?bs = []")
    case True
    then have "n = 0 \<or> u_rx p = []" by (auto simp: min_def split: if_splits)
    then show ?thesis by (subst read_loop.simps) (auto simp: read_at_once_def Let_def)
  next
    case False
    let ?l = "length ?bs"
    let ?p = "p\<lparr>u_rx := drop ?l (u_rx p), u_tx := u_tx p @ (if u_echo p then ?bs else [])\<rparr>"
    have chunk: "read_chunk U ?bs (p, b) = (?p, uart_event_on_rx ?bs b)"
      by (simp add: read_chunk_def write_documented [OF 1(2)] Let_def)
    have "read_loop U n (p, b) = read_loop U (n - ?l) (?p, uart_event_on_rx ?bs b)"
      using False by (subst read_loop.simps) (simp only: Let_def if_False chunk)
    also have "\<dots> = read_at_once U (n - ?l) (?p, uart_event_on_rx ?bs b)"
      by (rule 1(1) [OF refl False chunk 1(2)])
    also have "\<dots> = read_at_once U n (p, b)"
    proof -
      have "take ?l (u_rx p) = ?bs" by (simp add: min_def)
      then show ?thesis using read_at_once_split [of ?l n U p b] by simp
    qed
    finally show ?thesis .
  qed
qed

text \<open>Reading in pieces makes no difference. On an unlocked port, the loop that reads what an event announces in
  pieces of at most 128 bytes ends, and leaves the port and the buffer as one transfer of all these bytes
  would: each byte is echoed, if echo is on, and offered to the buffer exactly once, in order; a locked port
  leaves them in the driver.\<close>

theorem reading_in_pieces:
  assumes "uart_documented U"
  shows "uart_data_event U n (p, b) = (if u_rx_locked p then (p, b) else read_at_once U n (p, b))"
  using read_loop_once [OF assms] by (simp add: uart_data_event_def)

definition plain_uart :: uart_lib where
  "plain_uart = \<lparr>ul_config = (\<lambda>c. baud_rate c \<noteq> 0), ul_write = (\<lambda>bs. int (length bs))\<rparr>"

lemma plain_uart_documented: "uart_documented plain_uart"
  by (simp add: uart_documented_def plain_uart_def)

definition default_config :: uart_config where
  "default_config = \<lparr>baud_rate = 115200, data_bits = UART_DATA_8_BITS, parity = UART_PARITY_DISABLE, stop_bits = UART_STOP_BITS_1\<rparr>"

definition demo_port :: gw_uart where
  "demo_port = \<lparr>u_cnf = default_config, u_hardware = Some default_config, u_echo = True, u_rx_locked = False,
     u_rx = [104, 105], u_tx = []\<rparr>"

definition empty_buffer :: subscription_buffer where
  "empty_buffer = \<lparr>sb_bytes = [], sb_size = UART_TMP_BUF_SIZE\<rparr>"

theorem reading_in_pieces_witness:
  "uart_data_event plain_uart 2 (demo_port, empty_buffer)
     = (demo_port\<lparr>u_rx := [], u_tx := [104, 105]\<rparr>, empty_buffer\<lparr>sb_bytes := [104, 105]\<rparr>)"
  using reading_in_pieces [OF plain_uart_documented, of 2 demo_port empty_buffer]
  by (simp add: demo_port_def empty_buffer_def read_at_once_def uart_event_on_rx_def UART_TMP_BUF_SIZE_def)

subsection \<open>Configuration\<close>

definition supported :: "gw_config \<Rightarrow> bool" where
  "supported c \<longleftrightarrow> cf_bits c \<le> 1 \<and> cf_parity c \<le> 2 \<and> cf_stop c \<in> {1, 2, 3}"

definition driver_config :: "gw_config \<Rightarrow> uart_config" where
  "driver_config c = \<lparr>baud_rate = cf_boud c,
     data_bits = (if cf_bits c = 0 then UART_DATA_7_BITS else UART_DATA_8_BITS),
     parity = (if cf_parity c = 0 then UART_PARITY_DISABLE else if cf_parity c = 1 then UART_PARITY_ODD else UART_PARITY_EVEN),
     stop_bits = (if cf_stop c = 1 then UART_STOP_BITS_1 else if cf_stop c = 3 then UART_STOP_BITS_1_5 else UART_STOP_BITS_2)\<rparr>"

lemma set_unsupported: "\<not> supported c \<Longrightarrow> gw_uart_set U c p = (False, p)"
  by (auto simp: supported_def gw_uart_set_def)

lemma set_supported:
  "supported c \<Longrightarrow> gw_uart_set U c p = (ul_config U (driver_config c),
     if ul_config U (driver_config c) then p\<lparr>u_cnf := driver_config c, u_hardware := Some (driver_config c)\<rparr>
     else p\<lparr>u_cnf := driver_config c\<rparr>)"
  by (auto simp: supported_def gw_uart_set_def driver_config_def Let_def)

lemma get_driver_config: "supported c \<Longrightarrow> u_cnf p = driver_config c \<Longrightarrow> gw_uart_get p = Some c"
  by (cases c) (auto simp: supported_def gw_uart_get_def driver_config_def le_Suc_eq numeral_2_eq_2)

lemma get_supported: "gw_uart_get p = Some c \<Longrightarrow> supported c"
  by (auto simp: gw_uart_get_def supported_def split: option.splits uart_parity.splits uart_stop_bits.splits uart_word_length.splits)

lemma ascii_config: "json_plain (lit ''BR'')" "json_plain (lit ''WL'')" "json_plain (lit ''PAR'')" "json_plain (lit ''SB'')"
  by (simp_all add: json_plain_def lit_def)

lemma cJSON_nat: "cjson_documented L \<Longrightarrow> n < 2147483648 \<Longrightarrow> c_item L k j = Some (JNat n) \<Longrightarrow> cJSON_ParseInt L k j = Some (word_of_nat n)"
  by (simp add: cJSON_ParseInt_def JNat_def cjson_int)

lemma config_request:
  assumes "cjson_documented L" and "supported c" and "unat (cf_boud c) < 2147483648"
  shows "parse_uart_params L (stringify ns (format_uart_resp c)) =
    Some \<lparr>cmd_wl = Some (cf_bits c), cmd_boud = Some (cf_boud c), cmd_par = Some (cf_parity c), cmd_sb = Some (cf_stop c)\<rparr>"
proof -
  let ?j = "format_uart_resp c"
  have small: "cf_bits c < 4" "cf_parity c < 4" "cf_stop c < 4" using assms(2) by (auto simp: supported_def)
  then have "json_wf ?j" "ascii_json ?j"
    using assms(3) by (simp_all add: format_uart_resp_def JNat_wf ascii_config ascii_JNat)
  then have parse: "c_parse L (stringify ns ?j) = Some ?j" by (rule cjson_parse [OF assms(1)])
  have items: "c_item L ''BR'' ?j = Some (JNat (unat (cf_boud c)))" "c_item L ''WL'' ?j = Some (JNat (cf_bits c))"
    "c_item L ''PAR'' ?j = Some (JNat (cf_parity c))" "c_item L ''SB'' ?j = Some (JNat (cf_stop c))"
    by (simp_all add: format_uart_resp_def cjson_item [OF assms(1)] lower_def lit_def)
  have two: "two_bits (word_of_nat n) = n" if "n < 4" for n
    using that by (simp add: two_bits_def unat_of_nat)
  show ?thesis
    using small assms(3)
    by (simp add: parse_uart_params_def parse cJSON_nat [OF assms(1) _ items(1)] cJSON_nat [OF assms(1) _ items(2)]
        cJSON_nat [OF assms(1) _ items(3)] cJSON_nat [OF assms(1) _ items(4)] two)
qed

text \<open>C35. A configuration is read back as it was set. A configuration request with four supported values that the
  driver takes configures the hardware to them, is answered under its own function and number with exactly
  these values, and \<open>gw_uart_get\<close> returns them from then on.\<close>

theorem configuration_round_trip:
  assumes "cjson_documented L" and "supported c" and "unat (cf_boud c) < 2147483648" and "ul_config U (driver_config c)"
  shows "let (r, p') = handle_cnf L U \<lparr>m_fid = fid, m_id = i, m_data = Some (stringify ns (format_uart_resp c))\<rparr> p in
      r = Some (uart_response L i fid (Some (format_uart_resp c)))
    \<and> gw_uart_get p' = Some c \<and> u_hardware p' = Some (u_cnf p') \<and> u_tx p' = u_tx p \<and> u_echo p' = u_echo p"
proof -
  let ?p = "p\<lparr>u_cnf := driver_config c, u_hardware := Some (driver_config c)\<rparr>"
  have "uart_config U \<lparr>cmd_wl = Some (cf_bits c), cmd_boud = Some (cf_boud c), cmd_par = Some (cf_parity c),
      cmd_sb = Some (cf_stop c)\<rparr> p = (c, ?p)"
    using assms(2,4) by (cases c) (simp add: uart_config_def set_to_def Let_def set_supported)
  moreover have "gw_uart_get ?p = Some c" using get_driver_config [OF assms(2)] by simp
  ultimately show ?thesis
    using config_request [OF assms(1-3)] by (simp add: handle_cnf_def Let_def)
qed

theorem configuration_round_trip_witness:
  "gw_uart_get (snd (handle_cnf plain_cjson plain_uart
      \<lparr>m_fid = 0x1020, m_id = 3, m_data = Some (stringify id (format_uart_resp \<lparr>cf_bits = 0, cf_boud = 9600, cf_parity = 2, cf_stop = 1\<rparr>))\<rparr> demo_port))
    = Some \<lparr>cf_bits = 0, cf_boud = 9600, cf_parity = 2, cf_stop = 1\<rparr>"
proof -
  let ?c = "\<lparr>cf_bits = 0, cf_boud = 9600, cf_parity = 2, cf_stop = 1\<rparr>"
  have "supported ?c" "unat (cf_boud ?c) < 2147483648" "ul_config plain_uart (driver_config ?c)"
    by (simp_all add: supported_def plain_uart_def driver_config_def)
  from configuration_round_trip [OF plain_cjson_documented this, of "0x1020" 3 id demo_port] show ?thesis
    by (simp only: Let_def case_prod_unfold)
qed

lemma one_member_request:
  assumes "cjson_documented L" and "n < 65536" and "k = ''WL'' \<or> k = ''SB''"
  shows "parse_uart_params L (stringify ns (JObj [(lit k, JNat n)])) =
    Some \<lparr>cmd_wl = (if k = ''WL'' then Some (n mod 4) else None), cmd_boud = None, cmd_par = None,
      cmd_sb = (if k = ''SB'' then Some (n mod 4) else None)\<rparr>"
proof -
  let ?j = "JObj [(lit k, JNat n)]"
  have "json_wf ?j" "ascii_json ?j"
    using assms(2,3) by (auto simp: JNat_wf ascii_config ascii_JNat)
  then have parse: "c_parse L (stringify ns ?j) = Some ?j" by (rule cjson_parse [OF assms(1)])
  have items: "c_item L q ?j = (if lower (lit q) = lower (lit k) then Some (JNat n) else None)" for q
    by (simp add: cjson_item [OF assms(1)])
  have "unat (word_of_nat n :: u32) = n" using assms(2) by (simp add: unat_of_nat)
  then have "two_bits (word_of_nat n) = n mod 4" by (simp add: two_bits_def)
  moreover have "cJSON_ParseInt L q ?j = (if lower (lit q) = lower (lit k) then Some (word_of_nat n) else None)" for q
    using cJSON_nat [OF assms(1), of n q ?j] assms(2) items [of q] by (simp add: cJSON_ParseInt_def)
  ultimately show ?thesis
    unfolding parse_uart_params_def parse option.case
    using assms(3) by (elim disjE) (simp_all add: lower_def lit_def)
qed

text \<open>The answer to a configuration may be false. A request for stop bits 0 leaves the port as it is and is answered
  as if it had been applied; and a request for word length 8, which has more than the two bits the member
  has room for, configures the port to 7 bits. In neither case is an error reported.\<close>

theorem configuration_answer_may_lie:
  assumes "cjson_documented L" and "gw_uart_get p = Some old" and "\<forall>c. ul_config U c"
  shows "handle_cnf L U \<lparr>m_fid = fid, m_id = i, m_data = Some (stringify ns (JObj [(lit ''SB'', JNat 0)]))\<rparr> p
      = (Some (uart_response L i fid (Some (format_uart_resp (old\<lparr>cf_stop := 0\<rparr>)))), p)
    \<and> gw_uart_get (snd (handle_cnf L U \<lparr>m_fid = fid, m_id = i, m_data = Some (stringify ns (JObj [(lit ''WL'', JNat 8)]))\<rparr> p))
      = Some (old\<lparr>cf_bits := 0\<rparr>)"
proof -
  have wl: "parse_uart_params L (stringify ns (JObj [(lit ''WL'', JNat 8)])) =
      Some \<lparr>cmd_wl = Some 0, cmd_boud = None, cmd_par = None, cmd_sb = None\<rparr>"
    using one_member_request [OF assms(1), of 8 "''WL''" ns] by (simp del: stringify.simps)
  have sb: "parse_uart_params L (stringify ns (JObj [(lit ''SB'', JNat 0)])) =
      Some \<lparr>cmd_wl = None, cmd_boud = None, cmd_par = None, cmd_sb = Some 0\<rparr>"
    using one_member_request [OF assms(1), of 0 "''SB''" ns] by (simp del: stringify.simps)
  have "uart_config U \<lparr>cmd_wl = None, cmd_boud = None, cmd_par = None, cmd_sb = Some 0\<rparr> p = (old\<lparr>cf_stop := 0\<rparr>, p)"
    using assms(2) set_unsupported [of "old\<lparr>cf_stop := 0\<rparr>" U p]
    by (cases old) (simp add: uart_config_def set_to_def Let_def supported_def)
  moreover have "uart_config U \<lparr>cmd_wl = Some 0, cmd_boud = None, cmd_par = None, cmd_sb = None\<rparr> p
      = (old\<lparr>cf_bits := 0\<rparr>, snd (gw_uart_set U (old\<lparr>cf_bits := 0\<rparr>) p))"
    using assms(2) by (cases old) (simp add: uart_config_def set_to_def Let_def)
  moreover have "supported (old\<lparr>cf_bits := 0\<rparr>)" using get_supported [OF assms(2)] by (simp add: supported_def)
  then have "gw_uart_get (snd (gw_uart_set U (old\<lparr>cf_bits := 0\<rparr>) p)) = Some (old\<lparr>cf_bits := 0\<rparr>)"
    using assms(3) get_driver_config [of "old\<lparr>cf_bits := 0\<rparr>"] by (simp add: set_supported)
  ultimately show ?thesis
    unfolding handle_cnf_def by (simp add: wl sb del: stringify.simps)
qed

theorem configuration_answer_may_lie_witness:
  "snd (handle_cnf plain_cjson (plain_uart\<lparr>ul_config := \<lambda>_. True\<rparr>)
     \<lparr>m_fid = 0x1020, m_id = 3, m_data = Some (stringify id (JObj [(lit ''SB'', JNat 0)]))\<rparr> demo_port) = demo_port"
proof -
  have "gw_uart_get demo_port = Some \<lparr>cf_bits = 1, cf_boud = 115200, cf_parity = 0, cf_stop = 1\<rparr>"
    by (simp add: gw_uart_get_def demo_port_def default_config_def)
  from configuration_answer_may_lie [OF plain_cjson_documented this, of "plain_uart\<lparr>ul_config := \<lambda>_. True\<rparr>" "0x1020" 3 id]
  show ?thesis by (simp del: stringify.simps)
qed

subsection \<open>Requests and answers\<close>

definition demo_serial :: serial where
  "demo_serial = \<lparr>sp_port = (\<lambda>_. demo_port), sp_buffer = (\<lambda>_. empty_buffer)\<rparr>"

text \<open>Some requests are never answered. A configuration without an argument, and a transmission without one or with an
  empty string, are taken from the queue and dropped: the task gives no answer and changes nothing, so the
  call, already reported as delivered, waits until its client disconnects.\<close>

theorem unanswered_requests:
  assumes "uart_function_of (m_fid m) = Some (f, i)" and "f = UART_CNF \<and> m_data m = None
      \<or> f = UART_RAW_TX \<and> (m_data m = None \<or> m_data m = Some (lit ''\"\"''))"
  shows "handle_msg L U B m st = (None, st)"
  using assms by (auto simp: handle_msg_def handle_cnf_def handle_raw_tx_def lit_def)

theorem unanswered_requests_witness:
  "handle_msg plain_cjson plain_uart plain_b64 \<lparr>m_fid = FID_UART_TX, m_id = 7, m_data = Some (lit ''\"\"'')\<rparr> demo_serial = (None, demo_serial)"
  by (rule unanswered_requests [of _ UART_RAW_TX 1]) (simp_all add: uart_function_of_def FID_UART_TX_def)

lemma b64_char_json: "v < 64 \<Longrightarrow> 32 \<le> b64_char v \<and> b64_char v < 128 \<and> b64_char v \<noteq> 34 \<and> b64_char v \<noteq> 92"
  by (auto simp: b64_char_def)

lemma btoa_json_plain: "bytes_ok bs \<Longrightarrow> json_plain (btoa_bytes bs)"
proof -
  assume "bytes_ok bs"
  then have "json_plain (map b64_char (sextets bs))"
    using sextets_small [of bs] by (auto simp: json_plain_def list_all_iff b64_char_json)
  moreover have "json_plain (padding bs)"
    using padding_cases [of bs] by (auto simp: json_plain_def)
  ultimately show ?thesis by (simp add: btoa_bytes_sextets)
qed

lemma print_b64: "cjson_documented L \<Longrightarrow> bytes_ok bs \<Longrightarrow> c_print L (JStr (btoa_bytes bs)) = 34 # btoa_bytes bs @ [34]"
  using cjson_print [of L "JStr (btoa_bytes bs)" id] by (simp add: btoa_json_plain quote_json_def quote_body_plain)

lemma uart_fids [simp]:
  "uart_function_of FID_UART_RX = Some (UART_RAW_RX, 1)" "uart_function_of FID_UART_TX = Some (UART_RAW_TX, 1)"
  by (simp_all add: uart_function_of_def FID_UART_RX_def FID_UART_TX_def)

text \<open>A poll takes everything. The answer to a poll of the receive function is a broadcast whose text is the quoted
  Base64 of all bytes in the buffer, in order, and the buffer is empty afterwards; when there was nothing, the
  answer is empty, so that the subscribers are polled again without a frame.\<close>

theorem poll_takes_everything:
  assumes "cjson_documented L" and "b64_documented B" and "uart_function_of fid = Some (UART_RAW_RX, i)"
    and "sb_bytes (sp_buffer st i) = bs" and "bytes_ok bs"
  shows "handle_msg L U B \<lparr>m_fid = fid, m_id = n, m_data = d\<rparr> st =
    (Some \<lparr>m_fid = fid, m_id = 0, m_data = (if bs = [] then None else Some (34 # btoa_bytes bs @ [34]))\<rparr>,
     st\<lparr>sp_buffer := (sp_buffer st)(i := (sp_buffer st i)\<lparr>sb_bytes := []\<rparr>)\<rparr>)"
proof (cases "bs = []")
  case True
  then have "(sp_buffer st i)\<lparr>sb_bytes := []\<rparr> = sp_buffer st i" using assms(4) by simp
  then have "st\<lparr>sp_buffer := (sp_buffer st)(i := (sp_buffer st i)\<lparr>sb_bytes := []\<rparr>)\<rparr> = st" by simp
  then show ?thesis
    unfolding True using True assms(3,4) by (simp add: handle_msg_def handle_raw_rx_def uart_response_def Let_def)
next
  case False
  with assms b64_documentedD(1) [OF assms(2,5) False] print_b64 [OF assms(1,5)] show ?thesis
    by (simp add: handle_msg_def handle_raw_rx_def uart_response_def Let_def)
qed

theorem poll_takes_everything_witness:
  "fst (handle_msg plain_cjson plain_uart plain_b64 \<lparr>m_fid = FID_UART_RX, m_id = 7, m_data = None\<rparr>
      (demo_serial\<lparr>sp_buffer := (\<lambda>_. empty_buffer\<lparr>sb_bytes := [108, 115]\<rparr>)\<rparr>))
    = Some \<lparr>m_fid = FID_UART_RX, m_id = 0, m_data = Some (34 # btoa_bytes [108, 115] @ [34])\<rparr>"
proof -
  have "bytes_ok [108, 115]" by simp
  from poll_takes_everything [OF plain_cjson_documented plain_b64_documented uart_fids(1) refl,
      of "demo_serial\<lparr>sp_buffer := (\<lambda>_. empty_buffer\<lparr>sb_bytes := [108, 115]\<rparr>)\<rparr>" plain_uart 7 None]
  show ?thesis by simp
qed

text \<open>Typed bytes are written. A transmission request whose argument is the quoted Base64 of fewer than 65536 bytes
  sends exactly these bytes to the driver, once and after what was sent before, and is answered under its own
  function and number with their count; nothing else changes.\<close>

theorem typed_bytes_are_written:
  assumes "cjson_documented L" and "b64_documented B" and "uart_documented U"
    and "uart_function_of fid = Some (UART_RAW_TX, i)" and "bytes_ok bs" and "bs \<noteq> []" and "length bs < 65536"
  shows "handle_msg L U B \<lparr>m_fid = fid, m_id = n, m_data = Some (34 # btoa_bytes bs @ [34])\<rparr> st =
    (Some (uart_response L n fid (Some (JObj [(lit ''written'', JNat (length bs))]))),
     st\<lparr>sp_port := (sp_port st)(i := (sp_port st i)\<lparr>u_tx := u_tx (sp_port st i) @ bs\<rparr>)\<rparr>)"
proof -
  have ne: "btoa_bytes bs \<noteq> []" using assms(6) by simp
  have "gw_uart_write U bs p = (int (length bs), p\<lparr>u_tx := u_tx p @ bs\<rparr>)" for p
    using assms(7) by (simp add: gw_uart_write_def write_documented [OF assms(3)])
  with ne b64_documentedD(2,3) [OF assms(2,5,6)] assms(4,6) show ?thesis
    by (cases "btoa_bytes bs") (simp_all add: handle_msg_def handle_raw_tx_def json_int_def Let_def)
qed

theorem typed_bytes_are_written_witness:
  "u_tx (sp_port (snd (handle_msg plain_cjson plain_uart plain_b64
      \<lparr>m_fid = FID_UART_TX, m_id = 7, m_data = Some (34 # btoa_bytes [108, 115] @ [34])\<rparr> demo_serial)) 1) = [108, 115]"
  using typed_bytes_are_written [OF plain_cjson_documented plain_b64_documented plain_uart_documented uart_fids(2),
      of "[108, 115]" 7 demo_serial]
  by (simp add: demo_serial_def demo_port_def del: btoa_bytes.simps)

text \<open>A full answer queue loses serial data. When the worker's queue is full at the moment the task handles a poll,
  the bytes of the buffer are gone and no answer is queued: the subscribers get neither the data nor the next
  poll, because the polled call keeps waiting for an answer that was dropped.\<close>

theorem full_queue_loses_data:
  assumes "cjson_documented L" and "b64_documented B" and "bytes_ok (sb_bytes (sp_buffer st 1))"
    and "q_items (s_queues s q) = \<lparr>m_fid = FID_UART_RX, m_id = n, m_data = d\<rparr> # ms"
    and "q_cap (s_worker s) \<le> length (q_items (s_worker s))"
  shows "uart_task_step L U B q (s, st) =
    (s\<lparr>s_queues := (s_queues s)(q := (s_queues s q)\<lparr>q_items := ms\<rparr>)\<rparr>,
     st\<lparr>sp_buffer := (sp_buffer st)(1 := (sp_buffer st 1)\<lparr>sb_bytes := []\<rparr>)\<rparr>)"
proof -
  have "queue_offer x (s_worker s) = s_worker s" for x
    using assms(5) by (simp add: queue_offer_def queue_send_def)
  then show ?thesis
    using assms(4) poll_takes_everything [OF assms(1,2) uart_fids(1) refl assms(3), of U n d]
    by (simp add: uart_task_step_def queue_receive_def Let_def)
qed

definition choked :: server where
  "choked = booted\<lparr>s_queues := (\<lambda>_. \<lparr>q_items = [\<lparr>m_fid = FID_UART_RX, m_id = 7, m_data = None\<rparr>], q_cap = 10\<rparr>),
     s_worker := \<lparr>q_items = replicate 10 serial_answer, q_cap = 10\<rparr>\<rparr>"

theorem full_queue_loses_data_witness:
  "sb_bytes (sp_buffer (snd (uart_task_step plain_cjson plain_uart plain_b64 0
      (choked, demo_serial\<lparr>sp_buffer := (\<lambda>_. empty_buffer\<lparr>sb_bytes := [108, 115]\<rparr>)\<rparr>))) 1) = []
   \<and> s_worker (fst (uart_task_step plain_cjson plain_uart plain_b64 0
      (choked, demo_serial\<lparr>sp_buffer := (\<lambda>_. empty_buffer\<lparr>sb_bytes := [108, 115]\<rparr>)\<rparr>))) = s_worker choked"
  using full_queue_loses_data [OF plain_cjson_documented plain_b64_documented,
      of "demo_serial\<lparr>sp_buffer := (\<lambda>_. empty_buffer\<lparr>sb_bytes := [108, 115]\<rparr>)\<rparr>" choked 0 7 None "[]" plain_uart]
  by (simp add: choked_def)

end
