(* ===== verification/Modbus_Properties.thy ===== *)
theory Modbus_Properties
  imports Modbus_Port Serial_Properties
begin

section \<open>Properties of the Modbus functions\<close>

text \<open>
  The answer text fits its buffer and is the JSON of the exchange; the bytes of a request are its values; every
  request gets one answer and frees the port, if only the clock goes on; and an answer under a number reaches
  the call it is for.
\<close>

unbundle bit_operations_syntax

subsection \<open>The buffer of an answer\<close>

text \<open>The buffer holds the text so far, with room for the final zero.\<close>

definition holds :: "nat \<Rightarrow> nat list \<Rightarrow> nat list \<times> nat \<Rightarrow> bool" where
  "holds sz t = (\<lambda>(buf, off). length buf = sz \<and> off = length t \<and> take off buf = t \<and> off < sz)"

lemma take_put_at: "off \<le> length buf \<Longrightarrow> take (off + length bs) (put_at off bs buf) = take off buf @ bs"
  by (simp add: put_at_def)

lemma length_put_at: "off + length bs \<le> length buf \<Longrightarrow> length (put_at off bs buf) = length buf"
  by (simp add: put_at_def)

lemma holds_put:
  assumes "holds sz t (buf, off)" and "off + length bs < sz" and "off + length (bs @ ys) \<le> sz"
  shows "holds sz (t @ bs) (put_at off (bs @ ys) buf, off + length bs)"
proof -
  have off: "off = length t" "length buf = sz" "take (length t) buf = t" using assms(1) by (auto simp: holds_def)
  have "put_at off (bs @ ys) buf = t @ bs @ ys @ drop (off + length (bs @ ys)) buf"
    using off by (simp add: put_at_def)
  moreover have "length (put_at off (bs @ ys) buf) = sz"
    using off assms(3) by (subst length_put_at) simp_all
  ultimately show ?thesis
    using off(1) assms(2) by (simp add: holds_def)
qed

lemma holds_snprintf:
  assumes "holds sz t (buf, off)" and "off + length s < sz"
  shows "holds sz (t @ s) (snprintf_at (sz - off) s (buf, off))"
proof -
  have "take (sz - off - 1) s = s" using assms(2) by simp
  then show ?thesis
    using holds_put [OF assms, of "[0]"] assms(2) by (simp add: snprintf_at_def)
qed

lemma byte_less: "unat (w :: 8 word) < 256"
  using unsigned_less [of w, where ?'a = nat] by simp

lemma half_less: "unat (w :: 16 word) < 65536"
  using unsigned_less [of w, where ?'a = nat] by simp

lemma register_value_less: "register_value regs width i < 65536"
  using half_less less_trans [OF byte_less, of 65536] by (simp add: register_value_def)

definition register_text :: "8 word list \<Rightarrow> 8 word \<Rightarrow> nat \<Rightarrow> jsstr" where
  "register_text regs width i = (if 0 < i then [44] else []) @ show_nat (register_value regs width i)"

lemma register_text_length: "length (register_text regs width i) \<le> 6"
proof -
  have "length (show_nat (register_value regs width i)) \<le> 5"
    using register_value_less [of regs width i] by (intro show_nat_length) simp_all
  then show ?thesis by (auto simp: register_text_def simp del: show_nat_less show_nat_ge)
qed

lemma holds_register:
  assumes "holds sz t k" and "length t + 7 \<le> sz"
  shows "holds sz (t @ register_text regs width i) (write_register sz regs width i k)"
proof -
  obtain buf off where k: "k = (buf, off)" by fastforce
  then have off: "off = length t" using assms(1) by (simp add: holds_def)
  let ?t = "t @ (if 0 < i then [44] else [])"
  obtain buf1 off1 where k1: "(if 0 < i \<and> off < sz - 1 then (put_at off [44] buf, off + 1) else (buf, off)) = (buf1, off1)"
    by fastforce
  have 1: "holds sz ?t (buf1, off1)"
    using k1 assms off holds_put [of sz t buf off "[44]" "[]"] by (auto simp: k split: if_splits)
  have "off1 + length (show_nat (register_value regs width i)) < sz"
    using 1 assms(2) show_nat_length [of "register_value regs width i" 5] register_value_less [of regs width i]
    by (auto simp: holds_def split: if_splits)
  from holds_snprintf [OF 1 this] show ?thesis
    unfolding write_register_def k register_text_def prod.case k1 append_assoc .
qed

lemma holds_registers:
  assumes "holds sz t k" and "length t + 6 * n < sz"
  shows "holds sz (t @ concat (map (register_text regs width) [0..<n])) (fold (write_register sz regs width) [0..<n] k)
    \<and> length (concat (map (register_text regs width) [0..<n])) \<le> 6 * n"
  using assms(2)
proof (induction n)
  case (Suc n)
  let ?u = "concat (map (register_text regs width) [0..<n])"
  have IH: "holds sz (t @ ?u) (fold (write_register sz regs width) [0..<n] k)" "length ?u \<le> 6 * n"
    using Suc by simp_all
  then have "length (t @ ?u) + 7 \<le> sz" using Suc.prems by simp
  from holds_register [OF IH(1) this, of regs width n] show ?case
    using IH(2) register_text_length [of regs width n] by simp
qed (simp add: assms(1))

lemma header_length: "length (mb_header M f code amount) \<le> 63"
proof -
  have byte: "length (show_nat (unat (w :: 8 word))) \<le> 3" for w
    using less_trans [OF byte_less] by (intro show_nat_length) simp_all
  have "length (show_nat (unat (fr_reg f))) \<le> 5"
    using less_trans [OF half_less] by (intro show_nat_length) simp_all
  then show ?thesis
    using byte [of "fr_addr f"] byte [of "fr_func f AND NOT (mb_error_flag M)"] byte [of code] byte [of amount]
    by (simp add: mb_header_def lit_def)
qed

subsection \<open>The answer as JSON\<close>

text \<open>The values the library reads from a frame: registers of two bytes, the low one first, or single bytes.\<close>

definition mb_reads :: "'m mb_lib \<Rightarrow> modbus_frame \<Rightarrow> 16 word list \<Rightarrow> bool" where
  "mb_reads M f vs \<longleftrightarrow> (case mb_frame_data M f of (regs, code, amount, width) \<Rightarrow>
     (case regs of
        None \<Rightarrow> vs = []
      | Some rs \<Rightarrow>
          if mb_is_error M f then vs = []
          else length vs = unat amount
             \<and> (if width = 2 then \<exists>rest. rs = concat (map (\<lambda>v. [ucast v, ucast (drop_bit 8 v)]) vs) @ rest
                else list_all (\<lambda>v. v < 256) vs \<and> (\<exists>rest. rs = map ucast vs @ rest))))"

text \<open>The object of the answer.\<close>

definition mb_object :: "'m mb_lib \<Rightarrow> modbus_frame \<Rightarrow> 16 word list \<Rightarrow> json" where
  "mb_object M f vs = (case mb_frame_data M f of (_, code, amount, _) \<Rightarrow>
     JObj [(lit ''ADR'', JNat (unat (fr_addr f))), (lit ''FN'', JNat (unat (fr_func f AND NOT (mb_error_flag M)))),
       (lit ''CV'', JNat (unat code)), (lit ''RA'', JNat (unat (fr_reg f))), (lit ''RC'', JNat (unat amount)),
       (lit ''ERR'', JNat (if mb_is_error M f then 1 else 0)), (lit ''RD'', JArr (map (\<lambda>v. JNat (unat v)) vs))])"

lemma halves: "(ucast (ucast v :: 8 word) :: 16 word) OR push_bit 8 (ucast (ucast (drop_bit 8 v) :: 8 word)) = v"
  by (rule bit_word_eqI) (auto simp: bit_simps)

lemma nth_pairs:
  "i < length vs \<Longrightarrow> (concat (map (\<lambda>v. [f v, g v]) vs) @ rest) ! (i * 2) = f (vs ! i)"
  "i < length vs \<Longrightarrow> (concat (map (\<lambda>v. [f v, g v]) vs) @ rest) ! (i * 2 + 1) = g (vs ! i)"
proof (induction vs arbitrary: i)
  case (Cons v vs)
  { case 1 then show ?case using Cons.IH(1) by (cases i) simp_all }
  { case 2 then show ?case using Cons.IH(2) by (cases i) simp_all }
qed simp_all

lemma byte_cast: "v < 256 \<Longrightarrow> unat (ucast v :: 8 word) = unat (v :: 16 word)"
  by (simp add: unsigned_ucast_eq take_bit_nat_eq_self word_less_nat_alt)

lemma register_reads:
  assumes "mb_reads M f vs" and "mb_frame_data M f = (Some rs, code, amount, width)" and "\<not> mb_is_error M f" and "i < unat amount"
  shows "register_value rs width i = unat (vs ! i)"
proof (cases "width = 2")
  case True
  then obtain rest where "rs = concat (map (\<lambda>v. [ucast v, ucast (drop_bit 8 v)]) vs) @ rest" "i < length vs"
    using assms by (auto simp: mb_reads_def)
  with True show ?thesis
    by (simp only: register_value_def nth_pairs halves if_True simp_thms)
next
  case False
  then obtain rest where "rs = map ucast vs @ rest" "i < length vs" "list_all (\<lambda>v. v < 256) vs"
    using assms by (auto simp: mb_reads_def)
  with False show ?thesis
    by (simp add: register_value_def nth_append list_all_length byte_cast)
qed

lemma stringify_numbers:
  "list_all (\<lambda>n. n < 10 ^ 15) ns \<Longrightarrow> stringify_elems e (map JNat ns) = concat (map (\<lambda>i. (if 0 < i then [44] else []) @ show_nat (ns ! i)) [0..<length ns])"
proof (induction ns rule: rev_induct)
  case (snoc n ns)
  have app: "stringify_elems e (xs @ [x]) = stringify_elems e xs @ (if xs = [] then [] else [44]) @ stringify e x" for xs x
    by (induction xs rule: induct_list012) simp_all
  have "stringify e (JNat n) = show_nat n" 
    using snoc.prems by (simp add: JNat_def num_json_safe show_nat_safe)
  moreover have "concat (map (\<lambda>i. (if 0 < i then [44] else []) @ show_nat ((ns @ [n]) ! i)) [0..<length ns])
      = concat (map (\<lambda>i. (if 0 < i then [44] else []) @ show_nat (ns ! i)) [0..<length ns])"
    by (intro arg_cong [of _ _ concat] map_cong) (simp_all add: nth_append)
  ultimately show ?case
    using snoc by (simp add: app)
qed simp

text \<open>The values as the code reads them, whatever the library hands over.\<close>

definition mb_values :: "'m mb_lib \<Rightarrow> modbus_frame \<Rightarrow> 16 word list" where
  "mb_values M f = (case mb_frame_data M f of (regs, code, amount, width) \<Rightarrow>
     (case regs of
        Some rs \<Rightarrow> if \<not> mb_is_error M f then map (\<lambda>i. word_of_nat (register_value rs width i)) [0..<unat amount] else []
      | None \<Rightarrow> []))"

lemma mb_reads_values: "mb_reads M f vs \<Longrightarrow> mb_values M f = vs"
proof -
  assume reads: "mb_reads M f vs"
  obtain regs code amount width where data: "mb_frame_data M f = (regs, code, amount, width)" by (cases "mb_frame_data M f")
  show ?thesis
  proof (cases "\<exists>rs. regs = Some rs \<and> \<not> mb_is_error M f")
    case True
    then obtain rs where rs: "regs = Some rs" "\<not> mb_is_error M f" by blast
    then have "length vs = unat amount" using reads data by (auto simp: mb_reads_def)
    with rs show ?thesis
      using register_reads [OF reads _ rs(2)] data by (auto simp: mb_values_def intro: nth_equalityI)
  next
    case False
    then show ?thesis using reads data by (auto simp: mb_reads_def mb_values_def split: option.splits if_splits)
  qed
qed

lemma holds_registers_text:
  assumes "mb_frame_data M f = (regs, code, amount, width)" and "holds sz t k" and "length t + 6 * unat amount < sz"
  defines "k' \<equiv> (case regs of Some rs \<Rightarrow> if \<not> mb_is_error M f \<and> 0 < amount then fold (write_register sz rs width) [0..<unat amount] k else k
      | None \<Rightarrow> k)"
  shows "holds sz (t @ stringify_elems e (map (\<lambda>v. JNat (unat v)) (mb_values M f))) k'
    \<and> length (stringify_elems e (map (\<lambda>v. JNat (unat v)) (mb_values M f))) \<le> 6 * unat amount"
proof (cases "\<exists>rs. regs = Some rs \<and> \<not> mb_is_error M f \<and> 0 < amount")
  case True
  then obtain rs where rs: "regs = Some rs" "\<not> mb_is_error M f" "0 < amount" by blast
  have small: "unat (word_of_nat (register_value rs width i) :: 16 word) = register_value rs width i" for i
    using register_value_less [of rs width i] by (simp add: unsigned_of_nat take_bit_nat_eq_self)
  let ?ns = "map (register_value rs width) [0..<unat amount]"
  have "concat (map (register_text rs width) [0..<unat amount])
      = concat (map (\<lambda>i. (if 0 < i then [44] else []) @ show_nat (?ns ! i)) [0..<length ?ns])"
    by (intro arg_cong [of _ _ concat] map_cong) (simp_all add: register_text_def)
  also have "\<dots> = stringify_elems e (map JNat ?ns)"
    by (rule stringify_numbers [symmetric]) (use less_trans [OF register_value_less] in \<open>simp add: list_all_iff\<close>)
  finally show ?thesis
    using holds_registers [OF assms(2,3), of rs width] rs by (simp add: k'_def mb_values_def assms(1) small comp_def)
next
  case False
  then have "mb_values M f = []" "k' = k"
    using assms(1) by (auto simp: mb_values_def k'_def word_gt_0 split: option.splits if_splits)
  then show ?thesis using assms(2) by simp
qed

lemma object_text:
  assumes "mb_frame_data M f = (regs, code, amount, width)"
  shows "stringify e (mb_object M f vs) = mb_header M f code amount @ stringify_elems e (map (\<lambda>v. JNat (unat v)) vs) @ [93, 125]"
proof -
  have num: "stringify e (JNat n) = show_nat n" if "n < 65536" for n
    using that by (simp add: JNat_def num_json_safe show_nat_safe)
  have byte: "unat (w :: 8 word) < 65536" for w using less_trans [OF byte_less] by simp
  have name: "quote_json k = 34 # k @ [34]" if "json_plain k" for k using that by (simp add: quote_json_def quote_body_plain)
  have names: "json_plain (lit ''ADR'')" "json_plain (lit ''FN'')" "json_plain (lit ''CV'')" "json_plain (lit ''RA'')"
    "json_plain (lit ''RC'')" "json_plain (lit ''ERR'')" "json_plain (lit ''RD'')"
    by (simp_all add: json_plain_def lit_def)
  show ?thesis
    by (simp add: mb_object_def assms num half_less byte name names mb_header_def del: lit_Cons show_nat_less show_nat_ge)
       (simp add: lit_def)
qed

lemma format_holds:
  assumes "mb_frame_data M f = (regs, code, amount, width)" and "length buf = mb_buffer_size amount"
  shows "holds (mb_buffer_size amount) (stringify e (mb_object M f (mb_values M f))) (format_mb_response M f buf)"
proof -
  let ?sz = "mb_buffer_size amount" and ?h = "mb_header M f code amount"
  let ?elems = "stringify_elems e (map (\<lambda>v. JNat (unat v)) (mb_values M f))"
  have sz: "96 + 9 * unat amount \<le> ?sz" "?sz = 96 + 9 * unat amount" by (auto simp: mb_buffer_size_def word_gt_0)
  have "holds ?sz [] (buf, 0)" using assms(2) sz by (simp add: holds_def)
  from holds_snprintf [OF this, of ?h] have 1: "holds ?sz ?h (snprintf_at ?sz ?h (buf, 0))"
    using header_length [of M f code amount] sz by simp
  define k where "k = (case regs of
      Some rs \<Rightarrow> if \<not> mb_is_error M f \<and> 0 < amount
        then fold (write_register ?sz rs width) [0..<unat amount] (snprintf_at ?sz ?h (buf, 0)) else snprintf_at ?sz ?h (buf, 0)
    | None \<Rightarrow> snprintf_at ?sz ?h (buf, 0))"
  have 2: "holds ?sz (?h @ ?elems) k" "length ?elems \<le> 6 * unat amount"
    using holds_registers_text [OF assms(1) 1] header_length [of M f code amount] sz by (simp_all add: k_def)
  obtain b off where k: "k = (b, off)" by fastforce
  have off: "off = length (?h @ ?elems)" using 2(1) by (simp add: k holds_def)
  have room: "off + 3 \<le> ?sz" "off < ?sz - 2" using off 2(2) header_length [of M f code amount] sz by simp_all
  have "format_mb_response M f buf = (put_at off [93, 125, 0] b, off + 2)"
    using room(2) by (simp add: format_mb_response_def assms(1) Let_def k_def [symmetric] k)
  with holds_put [OF 2(1) [unfolded k], of "[93, 125]" "[0]"] room show ?thesis
    by (simp add: object_text [OF assms(1)])
qed

lemma response_text_object: "mb_response_text M f = stringify e (mb_object M f (mb_values M f))"
proof -
  obtain regs code amount width where data: "mb_frame_data M f = (regs, code, amount, width)" by (cases "mb_frame_data M f")
  from format_holds [OF data, of "replicate (mb_buffer_size amount) 0" e] show ?thesis
    by (simp add: mb_response_text_def data holds_def split: prod.splits)
qed

lemma mb_object_wf: "json_wf (mb_object M f vs)"
proof -
  have "json_wf (JNat (unat (w :: 8 word)))" "json_wf (JNat (unat (v :: 16 word)))" for v w
    using less_trans [OF byte_less] less_trans [OF half_less] by (intro JNat_wf; simp)+
  then show ?thesis by (simp add: mb_object_def JNat_wf list_all_iff split: prod.split)
qed

lemma response_text_parses: "json_parse (mb_response_text M f) = Some (mb_object M f (mb_values M f))"
  unfolding response_text_object [of M f id] by (rule json.dec_enc) (rule mb_object_wf)

text \<open>C31. The Modbus answer fits its buffer. Whatever frame comes back, with up to 255 registers, the buffer that is
  estimated for it is never left and never cut: the text that is sent is exactly the JSON of the frame, with
  the registers as numbers in their order, and reads back as that object.\<close>

theorem modbus_answer_exact:
  assumes "mb_reads M f vs" and "mb_frame_data M f = (regs, code, amount, width)" and "length buf = mb_buffer_size amount"
  shows "case format_mb_response M f buf of (buf', off) \<Rightarrow>
      length buf' = mb_buffer_size amount \<and> off < mb_buffer_size amount \<and> take off buf' = mb_response_text M f
    \<and> json_parse (mb_response_text M f) = Some (mb_object M f vs)"
  using format_holds [OF assms(2,3), of id] response_text_object [of M f id] response_text_parses [of M f] mb_reads_values [OF assms(1)]
  by (simp add: holds_def split: prod.splits)

text \<open>A library with one frame to give: two registers, 1234 and 8765, of device 1.\<close>

definition two_registers :: modbus_frame where
  "two_registers = no_frame\<lparr>fr_addr := 1, fr_func := 3, fr_size := 4, fr_data := Some [0xD2, 0x04, 0x3D, 0x22]\<rparr>"

definition plain_modbus :: "nat mb_lib" where
  "plain_modbus = \<lparr>mb_init = (\<lambda>_ m. m), mb_request = (\<lambda>_ (m, p). (1, None, 0, p)),
     mb_work = (\<lambda>(m, p). (if 2 \<le> m then Some (Some two_registers) else None, Suc m, p)),
     mb_cancel = (\<lambda>_ k. k),
     mb_frame_data = (\<lambda>f. (fr_data f, 0, drop_bit 1 (fr_size f), 2)), mb_is_error = (\<lambda>f. 127 < fr_func f),
     mb_error_flag = 0x80, mb_write_coils = 15, mb_other_int = (\<lambda>_. 0)\<rparr>"

theorem modbus_answer_exact_witness:
  "json_parse (mb_response_text plain_modbus two_registers) = Some (mb_object plain_modbus two_registers [1234, 8765])"
proof -
  have reads: "mb_reads plain_modbus two_registers [1234, 8765]"
    and data: "mb_frame_data plain_modbus two_registers = (Some [0xD2, 0x04, 0x3D, 0x22], 0, 2, 2)"
    by (simp_all add: mb_reads_def plain_modbus_def two_registers_def no_frame_def)
  from modbus_answer_exact [OF reads data, of "replicate 114 0"] show ?thesis
    by (simp add: mb_buffer_size_def split: prod.splits)
qed

subsection \<open>The bytes of a request\<close>

fun be_words :: "8 word list \<Rightarrow> nat list" where
  "be_words (h # l # r) = (256 * unat h + unat l) # be_words r"
| "be_words _ = []"

lemma low_byte: "unat (ucast (v AND 0xFF) :: 8 word) = unat (v :: u32) mod 256"
proof -
  have "v AND 0xFF = take_bit 8 v" by (simp add: take_bit_eq_mask mask_eq_exp_minus_1)
  also have "\<dots> = v mod 256" by (simp add: take_bit_eq_mod)
  finally show ?thesis by (simp add: unsigned_ucast_eq take_bit_eq_mod unat_mod_distrib)
qed

lemma unat_drop: "unat (drop_bit 8 v :: u32) = unat v div 256"
  by (simp add: drop_bit_eq_div unat_div_distrib)

lemma word_sizes:
  "(ucast (word_of_nat n :: u32) :: 8 word) = word_of_nat n" "(ucast (word_of_nat n :: u32) :: 16 word) = word_of_nat n"
  "n < 256 \<Longrightarrow> unat (word_of_nat n :: 8 word) = n" "unat (word_of_nat n :: 16 word) = n mod 65536"
  "n < 2147483648 \<Longrightarrow> unat (word_of_nat n :: u32) = n"
  by (simp_all add: unsigned_of_nat word_of_nat_eq_iff take_bit_nat_eq_self) (simp add: take_bit_eq_mod)

lemma be_word: "256 * (n div 256 mod 256) + n mod 256 = n mod (65536 :: nat)"
  using mod_mult2_eq [of n 256 256] by simp

lemma rd_bytes_facts:
  "be_words (rd_bytes 2 vs) = map (\<lambda>v. unat v mod 65536) vs"
  "map unat (rd_bytes 1 vs) = map (\<lambda>v. unat v mod 256) vs"
  "stride \<in> {1, 2} \<Longrightarrow> length (rd_bytes stride vs) = length vs * stride"
  by (induction vs) (auto simp: rd_bytes_def value_bytes_def low_byte unat_drop be_word)

lemma rd_bytes_values:
  assumes "list_all (\<lambda>n. n < 2147483648) vs" and "stride \<in> {1, 2}"
  defines "ws \<equiv> map word_of_nat vs :: u32 list"
  shows "if stride = 1 then map unat (rd_bytes stride ws) = map (\<lambda>v. v mod 256) vs
    else be_words (rd_bytes stride ws) = map (\<lambda>v. v mod 65536) vs"
proof -
  have "map unat ws = vs" using assms(1) by (simp add: ws_def list_all_iff word_sizes(5) map_idI)
  then have maps: "map (\<lambda>v. unat v mod m) ws = map (\<lambda>v. v mod m) vs" for m
    using map_map [of "\<lambda>v. v mod m" unat ws] by (simp only: comp_def)
  show ?thesis
  proof (cases "stride = 1")
    case True
    then show ?thesis by (simp only: rd_bytes_facts(2) maps if_True simp_thms)
  next
    case False
    then have "stride = 2" using assms(2) by simp
    with False show ?thesis by (simp only: rd_bytes_facts(1) maps if_False)
  qed
qed

lemma elem_value_nat: "cjson_documented L \<Longrightarrow> n < 2147483648 \<Longrightarrow> elem_value L M (JNat n) = word_of_nat n"
  by (simp add: elem_value_def JNat_def cjson_int)

definition mb_stride :: "'m mb_lib \<Rightarrow> nat \<Rightarrow> nat" where
  "mb_stride M fn = (if word_of_nat fn = mb_write_coils M then 1 else 2)"

text \<open>The frame of a request with a device, a function, a register and values.\<close>

definition request_frame :: "cjson_lib \<Rightarrow> json \<Rightarrow> nat \<Rightarrow> nat \<Rightarrow> nat \<Rightarrow> nat \<Rightarrow> u32 list \<Rightarrow> modbus_frame" where
  "request_frame L j adr fn ra stride ws = \<lparr>fr_addr = word_of_nat adr, fr_func = word_of_nat fn, fr_reg = word_of_nat ra,
     fr_count = (case cJSON_ParseInt L ''RVC'' j of Some v \<Rightarrow> ucast v | None \<Rightarrow> 0),
     fr_length_code = word_of_nat (length ws * stride), fr_size = word_of_nat (length ws * stride),
     fr_data = Some (rd_bytes stride ws @ replicate (255 - length ws * stride) 0)\<rparr>"

lemma parse_modbus_form:
  assumes "cjson_documented L" and "c_item L ''ADR'' j = Some (JNat adr)" and "c_item L ''FN'' j = Some (JNat fn)"
    and "c_item L ''RA'' j = Some (JNat ra)" and "c_item L ''RD'' j = Some (JArr (map JNat vs))" and "vs \<noteq> []"
    and "list_all (\<lambda>n. n < 2147483648) (adr # fn # ra # vs)"
  shows "parse_modbus L M j = (if 255 < adr \<or> 127 < fn \<or> 255 < length vs * mb_stride M fn then None
      else Some (request_frame L j adr fn ra (mb_stride M fn) (map word_of_nat vs),
        case cJSON_ParseInt L ''AWT'' j of Some v \<Rightarrow> if 0 < v then v else MB_DEFAULT_AWT_MS | None \<Rightarrow> MB_DEFAULT_AWT_MS))"
proof -
  have nums: "cJSON_ParseInt L ''ADR'' j = Some (word_of_nat adr)" "cJSON_ParseInt L ''FN'' j = Some (word_of_nat fn)"
    "cJSON_ParseInt L ''RA'' j = Some (word_of_nat ra)"
    using assms(2-4,7) by (auto intro!: cJSON_nat [OF assms(1)])
  have less: "255 < (word_of_nat adr :: u32) \<longleftrightarrow> 255 < adr" "127 < (word_of_nat fn :: u32) \<longleftrightarrow> 127 < fn"
    using assms(7) by (simp_all add: word_less_nat_alt word_sizes(5))
  let ?ws = "map word_of_nat vs :: u32 list" and ?st = "mb_stride M fn"
  let ?bs = "rd_bytes ?st ?ws" and ?n = "length vs * mb_stride M fn"
  have elems: "map (elem_value L M) (map JNat vs) = ?ws"
    using assms(1,7) by (simp add: list_all_iff elem_value_nat)
  have st: "?st \<in> {1, 2}" by (simp add: mb_stride_def)
  obtain x xs where vs: "map JNat vs = x # xs" using assms(6) by (cases "map JNat vs") auto
  show ?thesis
  proof (cases "255 < adr \<or> 127 < fn")
    case True
    then show ?thesis by (auto simp: parse_modbus_def nums less split: option.splits)
  next
    case False
    have "length (x # xs) = length vs" "map (elem_value L M) (x # xs) = ?ws" using vs elems by (metis length_map, simp)
    moreover have "(if word_of_nat fn = mb_write_coils M then 1 else 2) = ?st" by (simp add: mb_stride_def)
    moreover have "length ?bs = ?n" using rd_bytes_facts(3) [OF st] by simp
    ultimately show ?thesis
      using False by (simp only: parse_modbus_def nums less assms(5) vs option.case json.case list.case) 
        (simp add: Let_def word_sizes no_frame_def MB_PAYLOAD_SIZE_def request_frame_def)
  qed
qed

text \<open>The bytes of a Modbus request. A request is accepted exactly when the device number fits a byte, the function
  seven bits, and its values the 255 bytes of data; then the frame has this device and function, the
  register reduced to 16 bits, and as data the values in their order, each as one byte when coils are written and
  otherwise as two with the high byte first; the data never leaves its buffer.\<close>

theorem modbus_request_bytes:
  assumes "cjson_documented L" and "c_item L ''ADR'' j = Some (JNat adr)" and "c_item L ''FN'' j = Some (JNat fn)"
    and "c_item L ''RA'' j = Some (JNat ra)" and "c_item L ''RD'' j = Some (JArr (map JNat vs))" and "vs \<noteq> []"
    and "list_all (\<lambda>n. n < 2147483648) (adr # fn # ra # vs)"
  shows "(parse_modbus L M j = None \<longleftrightarrow> 255 < adr \<or> 127 < fn \<or> 255 < length vs * mb_stride M fn)
    \<and> (\<forall>f awt. parse_modbus L M j = Some (f, awt) \<longrightarrow>
        unat (fr_addr f) = adr \<and> unat (fr_func f) = fn \<and> unat (fr_reg f) = ra mod 65536
      \<and> unat (fr_size f) = length vs * mb_stride M fn \<and> fr_length_code f = fr_size f
      \<and> (\<exists>bs. fr_data f = Some bs \<and> length bs = MB_PAYLOAD_SIZE
          \<and> (if mb_stride M fn = 1 then map unat (take (unat (fr_size f)) bs) = map (\<lambda>v. v mod 256) vs
             else be_words (take (unat (fr_size f)) bs) = map (\<lambda>v. v mod 65536) vs)))"
proof -
  let ?ws = "map word_of_nat vs :: u32 list" and ?st = "mb_stride M fn"
  let ?bs = "rd_bytes ?st ?ws" and ?n = "length vs * mb_stride M fn"
  note parse = parse_modbus_form [OF assms]
  have st: "?st \<in> {1, 2}" by (simp add: mb_stride_def)
  have len: "length ?bs = ?n" using rd_bytes_facts(3) [OF st] by simp
  have data: "if ?st = 1 then map unat ?bs = map (\<lambda>v. v mod 256) vs else be_words ?bs = map (\<lambda>v. v mod 65536) vs"
    by (rule rd_bytes_values) (use st assms(7) in simp_all)
  show ?thesis
  proof (cases "255 < adr \<or> 127 < fn \<or> 255 < ?n")
    case True
    then show ?thesis by (simp add: parse)
  next
    case False
    let ?d = "?bs @ replicate (255 - ?n) 0"
    have some: "parse_modbus L M j = Some (f, w) \<Longrightarrow> f = request_frame L j adr fn ra ?st ?ws" for f w
      using False by (simp add: parse)
    have sizes: "unat (word_of_nat ?n :: 8 word) = ?n" "unat (word_of_nat adr :: 8 word) = adr" "unat (word_of_nat fn :: 8 word) = fn"
      using False by (simp_all add: word_sizes del: of_nat_mult)
    have tk: "take ?n ?d = ?bs" and ln: "length ?d = MB_PAYLOAD_SIZE" using len False by (simp_all add: MB_PAYLOAD_SIZE_def)
    have ex: "\<exists>bs. Some ?d = Some bs \<and> length bs = MB_PAYLOAD_SIZE \<and> (if ?st = 1 then map unat (take ?n bs) = map (\<lambda>v. v mod 256) vs
        else be_words (take ?n bs) = map (\<lambda>v. v mod 65536) vs)"
    proof (intro exI [of _ ?d] conjI refl ln)
      show "if ?st = 1 then map unat (take ?n ?d) = map (\<lambda>v. v mod 256) vs else be_words (take ?n ?d) = map (\<lambda>v. v mod 65536) vs"
        unfolding tk by (rule data)
    qed
    have "parse_modbus L M j = None \<longleftrightarrow> 255 < adr \<or> 127 < fn \<or> 255 < ?n" using False by (simp add: parse)
    then show ?thesis
    proof (intro conjI allI impI)
      fix f w assume "parse_modbus L M j = Some (f, w)"
      note f = some [OF this]
      show "unat (fr_addr f) = adr" "unat (fr_func f) = fn" "unat (fr_reg f) = ra mod 65536" "unat (fr_size f) = ?n"
        "fr_length_code f = fr_size f"
        unfolding f request_frame_def length_map modbus_frame.select_convs sizes word_sizes(4) by (rule refl)+
      show "\<exists>bs. fr_data f = Some bs \<and> length bs = MB_PAYLOAD_SIZE
          \<and> (if ?st = 1 then map unat (take (unat (fr_size f)) bs) = map (\<lambda>v. v mod 256) vs
             else be_words (take (unat (fr_size f)) bs) = map (\<lambda>v. v mod 65536) vs)"
        unfolding f request_frame_def length_map modbus_frame.select_convs sizes by (rule ex)
    qed
  qed
qed

definition write_request :: json where
  "write_request = JObj [(lit ''ADR'', JNat 1), (lit ''FN'', JNat 16), (lit ''RA'', JNat 70000), (lit ''RD'', JArr [JNat 258, JNat 3])]"

theorem modbus_request_bytes_witness:
  "\<exists>f awt bs. parse_modbus plain_cjson plain_modbus write_request = Some (f, awt) \<and> unat (fr_reg f) = 4464
     \<and> fr_data f = Some bs \<and> be_words (take (unat (fr_size f)) bs) = [258, 3]"
proof -
  have "c_item plain_cjson k write_request = map_of (map (\<lambda>m. (lower (fst m), snd m))
      [(lit ''ADR'', JNat 1), (lit ''FN'', JNat 16), (lit ''RA'', JNat 70000), (lit ''RD'', JArr [JNat 258, JNat 3])]) (lower (lit k))" for k
    by (simp add: write_request_def cjson_item [OF plain_cjson_documented])
  then have "c_item plain_cjson ''ADR'' write_request = Some (JNat 1)" "c_item plain_cjson ''FN'' write_request = Some (JNat 16)"
    "c_item plain_cjson ''RA'' write_request = Some (JNat 70000)"
    "c_item plain_cjson ''RD'' write_request = Some (JArr (map JNat [258, 3]))"
    by (simp_all add: lower_def lit_def del: One_nat_def)
  from modbus_request_bytes [OF plain_cjson_documented this, of plain_modbus] show ?thesis
    by (cases "parse_modbus plain_cjson plain_modbus write_request") (auto simp: mb_stride_def plain_modbus_def)
qed

subsection \<open>One answer for each request\<close>

text \<open>The clock goes on: whatever the deadline, it is reached some time after any question.\<close>

definition clock_runs :: "hal \<Rightarrow> bool" where
  "clock_runs H \<longleftrightarrow> (\<forall>d n. \<exists>k \<ge> n. 0 \<le> sint (h_tick H k - d))"

lemma wait_ends:
  assumes "clock_runs H"
  shows "\<exists>r. mb_wait M H d (cb, k, n) = Some r"
proof -
  obtain m where m: "n \<le> m" "0 \<le> sint (h_tick H m - d)" using assms by (auto simp: clock_runs_def)
  have "\<exists>r. mb_wait M H d (cb, k, m - j) = Some r" for j
  proof (induction j arbitrary: cb k)
    case 0
    have "\<not> mb_waiting H d (cb, k, m)" using m(2) by (simp add: mb_waiting_def)
    then show ?case by (simp add: mb_wait_def while_option_unfold)
  next
    case (Suc j)
    show ?case
    proof (cases "j < m")
      case True
      then have "Suc (m - Suc j) = m - j" by simp
      then have "mb_wait M H d (cb, k, m - Suc j) = (if mb_waiting H d (cb, k, m - Suc j)
          then case mb_work M k of (r, k') \<Rightarrow> mb_wait M H d (map_option mb_on_complete r, k', m - j) else Some (cb, k, m - Suc j))"
        by (simp add: mb_wait_def mb_turn_def while_option_unfold [of _ _ "(cb, k, m - Suc j)"] split: prod.split)
      then show ?thesis using Suc by (auto split: prod.split)
    qed (use Suc in simp)
  qed
  from this [of "m - n"] m(1) show ?thesis by simp
qed

text \<open>What an answer says: an error code from 2 to 4, or the frame that came back.\<close>

definition mb_answer :: "'m mb_lib \<Rightarrow> jsstr \<Rightarrow> bool" where
  "mb_answer M t \<longleftrightarrow> (\<exists>code \<in> {2, 3, 4}. json_parse t = Some (JObj [(lit ''ERR'', JNat code)]))
     \<or> (\<exists>f. json_parse t = Some (mb_object M f (mb_values M f)))"

lemma error_text_object: "code < 10 \<Longrightarrow> mb_error_text code = stringify e (JObj [(lit ''ERR'', JNat code)])"
proof -
  assume code: "code < 10"
  have "json_plain (lit ''ERR'')" by (simp add: json_plain_def lit_def)
  then have name: "quote_json (lit ''ERR'') = 34 # lit ''ERR'' @ [34]" by (simp add: quote_json_def quote_body_plain del: lit_Cons)
  show ?thesis
    using code name by (simp add: mb_error_text_def JNat_def num_json_safe show_nat_safe del: lit_Cons show_nat_less) (simp add: lit_def)
qed

lemma error_text_parses: "code < 10 \<Longrightarrow> json_parse (mb_error_text code) = Some (JObj [(lit ''ERR'', JNat code)])"
proof -
  assume code: "code < 10"
  then have "json_wf (JObj [(lit ''ERR'', JNat code)])" by (simp add: JNat_wf)
  then show ?thesis unfolding error_text_object [OF code, of id] by (rule json.dec_enc)
qed

lemma exchange_answers:
  assumes "clock_runs H"
  shows "\<exists>t k' n'. modbus_exchange M H f awt k n = Some (t, k', n') \<and> mb_answer M t \<and> \<not> u_rx_locked (snd k')"
proof -
  obtain m p where k: "k = (m, p)" by fastforce
  obtain tid r k1 where req: "mb_request M f (mb_init M (ucast awt) m, gw_uart_lock_rx p) = (tid, r, k1)"
    by (metis prod_cases3)
  obtain cb k2 n2 where wait: "mb_wait M H (h_tick H n + h_ms_to_ticks H (awt + 500)) (map_option mb_on_complete r, k1, Suc n) = Some (cb, k2, n2)"
    using wait_ends [OF assms] by (metis prod_cases3)
  show ?thesis
    using error_text_parses [of 3] error_text_parses [of 4]
    by (cases "tid = 0"; cases cb)
       (auto simp: modbus_exchange_def k req wait mb_answer_def response_text_parses gw_uart_unlock_rx_def)
qed

lemma message_answers:
  assumes "clock_runs H" and "\<not> u_rx_locked (snd k)"
  shows "\<exists>t k' n'. handle_modbus_msg L M H msg k n = Some (t, k', n') \<and> mb_answer M t \<and> \<not> u_rx_locked (snd k')"
proof (cases "\<exists>d ds f awt. m_data msg = Some (d # ds) \<and> Option.bind (c_parse L (d # ds)) (parse_modbus L M) = Some (f, awt)")
  case True
  then obtain d ds f awt where "m_data msg = Some (d # ds)" "Option.bind (c_parse L (d # ds)) (parse_modbus L M) = Some (f, awt)"
    by blast
  then show ?thesis using exchange_answers [OF assms(1), of M f awt k n] by (simp add: handle_modbus_msg_def)
next
  case False
  then have "handle_modbus_msg L M H msg k n = Some (mb_error_text 2, k, n)"
    by (auto simp: handle_modbus_msg_def split: option.split list.split)
  then show ?thesis using assms(2) error_text_parses [of 2] by (auto simp: mb_answer_def)
qed

lemma answer_text: "mb_answer M t \<Longrightarrow> t \<noteq> []"
  by (auto simp: mb_answer_def json_parse_def)

lemma task_step_answers:
  assumes "clock_runs H" and "\<not> u_rx_locked (snd k)" and "queue_receive (s_queues s q) = Some (msg, q')"
  shows "\<exists>t k' n. modbus_task_step L M H q (s, k) = Some (s\<lparr>s_queues := (s_queues s)(q := q'), s_time := n,
      s_worker := queue_offer \<lparr>m_fid = m_fid msg, m_id = m_id msg, m_data = Some t\<rparr> (s_worker s)\<rparr>, k')
    \<and> mb_answer M t \<and> \<not> u_rx_locked (snd k')"
proof -
  obtain t k' n where "handle_modbus_msg L M H msg k (s_time s) = Some (t, k', n)" "mb_answer M t" "\<not> u_rx_locked (snd k')"
    using message_answers [OF assms(1,2)] by blast
  then show ?thesis
    using assms(3) answer_text [of M t] by (auto simp: modbus_task_step_def send_mb_msg_def)
qed


text \<open>A clock that counts its questions, and a request for two registers.\<close>

definition running :: hal where
  "running = always\<lparr>h_tick := word_of_nat\<rparr>"

lemma running_facts: "clock_runs running" "accepting running"
proof -
  have "\<exists>k \<ge> n. 0 \<le> sint (h_tick running k - d)" for d n
    by (rule exI [of _ "n + unat (d - word_of_nat n)"]) (simp add: running_def)
  then show "clock_runs running" by (simp add: clock_runs_def)
qed (simp add: accepting_def running_def)

definition polled :: server where
  "polled = subscribed\<lparr>s_queues := (s_queues subscribed)(0 := \<lparr>q_items = [\<lparr>m_fid = 0x1123, m_id = 7,
     m_data = Some (stringify id write_request)\<rparr>], q_cap = 10\<rparr>)\<rparr>"

lemma polled_ok: "server_ok polled"
proof -
  have "server_ok subscribed" by (rule serving.inv_reachable [OF subscribed_reachable])
  then show ?thesis by (simp add: polled_def server_inv_def queues_ok_def sent_within_def hal.within_def)
qed


text \<open>The Modbus answer reaches its caller. When the worker has nothing else to do, the answer to a request with a
  number is sent by its next turn to the first connected client that waits under this number, in one frame
  under the call's own function and number, to nobody else, and the call stops waiting.\<close>

theorem modbus_answer_reaches_caller:
  assumes "clock_runs H" and "accepting H" and "server_reachable caps L' H' s" and "\<not> u_rx_locked (snd k)"
    and "queue_receive (s_queues s q) = Some (msg, q')" and "m_id msg \<noteq> 0" and "q_items (s_worker s) = []" and "0 < q_cap (s_worker s)"
    and "s_waiting s = xs @ c # ys" and "id_match (m_id msg) c" and "\<forall>d \<in> set xs. \<not> id_match (m_id msg) d"
    and "call_conn (s_sessions s) c = Some conn"
  shows "\<exists>s' k' t. modbus_task_step L M H q (s, k) = Some (s', k') \<and> mb_answer M t
    \<and> s_out (take_message H s') = s_out s @ [(conn, text_frame (response_text (call_fid c) (call_id c) t))]
    \<and> s_waiting (take_message H s') = xs @ ys"
proof -
  obtain t k' n where step: "modbus_task_step L M H q (s, k) = Some (s\<lparr>s_queues := (s_queues s)(q := q'), s_time := n,
      s_worker := queue_offer \<lparr>m_fid = m_fid msg, m_id = m_id msg, m_data = Some t\<rparr> (s_worker s)\<rparr>, k')" "mb_answer M t"
    using task_step_answers [OF assms(1,4,5)] by blast
  let ?m = "\<lparr>m_fid = m_fid msg, m_id = m_id msg, m_data = Some t\<rparr>"
  let ?s = "s\<lparr>s_queues := (s_queues s)(q := q'), s_time := n, s_worker := (s_worker s)\<lparr>q_items := []\<rparr>\<rparr>"
  have take: "take_message H (?s\<lparr>s_worker := queue_offer ?m (s_worker s)\<rparr>) = handle_message H ?m ?s"
    using assms(7,8) by (simp add: take_message_def queue_offer_def queue_send_def queue_receive_def)
  have handle: "handle_message H ?m ?s = rearm_call H c (answer_call H ?m c (?s\<lparr>s_waiting := xs @ ys\<rparr>))"
    using handle_first [of ?s xs c ys ?m H] assms(6,9-11) by simp
  have "call_ok (s_sessions s) c"
    using server_ok_calls(2) [OF serving.inv_reachable [OF assms(3)]] assms(9) by simp
  then have "s_out (answer_call H ?m c (?s\<lparr>s_waiting := xs @ ys\<rparr>)) = s_out s @ answer_frames (s_sessions s) ?m [c]"
    using answer_out [OF assms(2), of "?s\<lparr>s_waiting := xs @ ys\<rparr>" c ?m] assms(10) by (simp add: id_match_def)
  moreover have "answer_frames (s_sessions s) ?m [c] = [(conn, text_frame (response_text (call_fid c) (call_id c) t))]"
    using answer_text [OF step(2)] assms(12) by (simp add: answer_frames_def answer_frame_def split: list.split)
  moreover have "s_waiting (rearm_call H c (answer_call H ?m c (?s\<lparr>s_waiting := xs @ ys\<rparr>))) = xs @ ys"
    by (simp add: rearm_call_def)
  ultimately show ?thesis
    using step take handle by auto
qed

theorem modbus_answer_reaches_caller_witness:
  "\<exists>s' k' t. modbus_task_step plain_cjson plain_modbus running 0 (subscribed, 0, demo_port) = Some (s', k')
     \<and> s_out (take_message running s') = s_out subscribed @ [(1, text_frame (response_text FID_UART_RX 7 t))]"
proof -
  have "\<not> u_rx_locked (snd (0 :: nat, demo_port))" by (simp add: demo_port_def)
  moreover have "queue_receive (s_queues subscribed 0) = Some (request_of (request_call FID_UART_RX 0 False 4 7), \<lparr>q_items = [], q_cap = 10\<rparr>)"
    by (simp add: subscribed_eq queue_receive_def)
  moreover have "m_id (request_of (request_call FID_UART_RX 0 False 4 7)) = 7" by (simp add: request_of_def request_call_def)
  moreover have "q_items (s_worker subscribed) = []" "0 < q_cap (s_worker subscribed)"
    by (simp_all add: subscribed_eq booted_eq ws_server_init_def queue_create_def)
  moreover have "s_waiting subscribed = [] @ waiting_7 # []" "s_sessions subscribed = s_sessions booted" by (simp_all add: subscribed_eq)
  moreover have "id_match 7 waiting_7" using waiting_7_facts(1,4) by (simp add: id_match_def fid_match_def)
  ultimately show ?thesis
    using modbus_answer_reaches_caller [OF running_facts subscribed_reachable, of "(0, demo_port)" 0 _ _ "[]" waiting_7 "[]" 1 plain_cjson plain_modbus]
      waiting_7_facts by auto
qed

end
