(* ===== verification/Page_Modbus.thy ===== *)
theory Page_Modbus
  imports Page_Server Modbus_Properties
begin

section \<open>Pages and the Modbus functions\<close>

text \<open>
  What the pages of the devices have in common in their use of the Modbus functions: the frame of a request without values, and a gateway that
  is ready for a page.
\<close>

lemma modbus_names:
  "json_plain (lit ''FN'')" "json_plain (lit ''ADR'')" "json_plain (lit ''RA'')" "json_plain (lit ''RVC'')" "json_plain (lit ''AWT'')"
  "json_plain (lit ''RD'')" "json_plain (lit ''RDL'')"
  by (simp_all add: json_plain_def lit_def)

lemma long_call_message:
  "request_of (page_call L H a hlr fid flags sid (JObj ms)) = \<lparr>m_fid = word_of_nat fid, m_id = word_of_nat sid, m_data = Some (stringify id (JObj ms))\<rparr>"
  by (simp add: request_of_def page_call_def)

lemma request_call_message:
  "request_of (page_call L H a hlr fid 0 sid arg) = \<lparr>m_fid = word_of_nat fid, m_id = word_of_nat sid, m_data = Some (stringify id arg)\<rparr>"
  by (simp add: request_of_def page_call_def has_flag_def FLAG_NEW_def FLAG_LONG_TERM_def)

text \<open>The frame of a request that reads.\<close>

definition read_frame :: "nat \<Rightarrow> nat \<Rightarrow> nat \<Rightarrow> nat \<Rightarrow> modbus_frame" where
  "read_frame fn adr ra rvc = no_frame\<lparr>fr_addr := word_of_nat adr, fr_func := word_of_nat fn, fr_reg := word_of_nat ra, fr_count := word_of_nat rvc\<rparr>"

lemma parse_read:
  assumes "cjson_documented L" and "c_item L ''ADR'' j = Some (JNat adr)" and "c_item L ''FN'' j = Some (JNat fn)"
    and "c_item L ''RA'' j = Some (JNat ra)" and "c_item L ''RVC'' j = Some (JNat rvc)" and "c_item L ''RD'' j = None"
    and "(case c_item L ''AWT'' j of Some v \<Rightarrow> v = JNat awt | None \<Rightarrow> awt = 500)" and "adr < 256" and "fn < 128" and "ra < 65536" and "rvc < 65536"
    and "0 < awt" and "awt < 65536"
  shows "parse_modbus L M j = Some (read_frame fn adr ra rvc, word_of_nat awt)"
proof -
  have nums: "cJSON_ParseInt L ''ADR'' j = Some (word_of_nat adr)" "cJSON_ParseInt L ''FN'' j = Some (word_of_nat fn)"
    "cJSON_ParseInt L ''RA'' j = Some (word_of_nat ra)" "cJSON_ParseInt L ''RVC'' j = Some (word_of_nat rvc)"
    using assms(2-11) by (auto intro!: cJSON_nat [OF assms(1)])
  have awt: "(case cJSON_ParseInt L ''AWT'' j of Some v \<Rightarrow> if 0 < v then v else MB_DEFAULT_AWT_MS | None \<Rightarrow> MB_DEFAULT_AWT_MS) = word_of_nat awt"
  proof (cases "c_item L ''AWT'' j")
    case None
    then show ?thesis using assms(7) by (simp add: cJSON_ParseInt_def MB_DEFAULT_AWT_MS_def)
  next
    case (Some v)
    then have "cJSON_ParseInt L ''AWT'' j = Some (word_of_nat awt)" using assms(7,13) by (intro cJSON_nat [OF assms(1)]) auto
    then show ?thesis using assms(12,13) by (simp add: word_less_nat_alt word_sizes(5))
  qed
  have less: "\<not> 255 < (word_of_nat adr :: u32)" "\<not> 127 < (word_of_nat fn :: u32)"
    using assms(8-13) by (simp_all add: word_less_nat_alt word_sizes(5))
  show ?thesis
    by (simp add: parse_modbus_def nums less awt assms(6) Let_def word_sizes read_frame_def)
qed

lemma stringify_cons: "\<exists>c cs. stringify ns (JObj ms) = c # cs"
  by simp

text \<open>A gateway with a session for the page and a peripheral for its function.\<close>

definition gateway_ready :: "server \<Rightarrow> nat \<Rightarrow> nat \<Rightarrow> nat \<Rightarrow> bool" where
  "gateway_ready s conn a fid \<longleftrightarrow> s_user s conn = Some a \<and> ws_get_fid_queue (word_of_nat fid) s \<noteq> None"

text \<open>A gateway with the Modbus function of the first port.\<close>

definition metered :: server where
  "metered = snd (ws_server_register_fid_queue always 0x1113 0 booted)"

lemma metered_ready: "gateway_ready metered 1 0 4371"
  by (simp add: gateway_ready_def metered_def ws_server_register_fid_queue_def ws_get_fid_queue_def booted_eq ws_server_init_def always_def)

end
