(* ===== verification/Meter_Properties.thy ===== *)
theory Meter_Properties
  imports Meter_Calm Page_Modbus
begin

section \<open>Properties of the power meter page\<close>

text \<open>
  The page together with the gateway: a poll becomes the Modbus request it means, and the answer is shown as the
  numbers of its registers; a write of the configuration reaches the device as its registers; with one connection at
  a time the page always goes on; and the runs in which page and gateway do not do what they mean to.
\<close>

subsection \<open>Requests of the page\<close>

lemma meter_page_request: "meter_frame (Some (int fid)) sid arg = page_request fid 0 sid arg"
  by (simp add: meter_frame_def page_request_def js_num_nat)

lemma read_request_good:
  "adr < 65536 \<Longrightarrow> ra < 65536 \<Longrightarrow> rvc < 65536 \<Longrightarrow> json_wf (read_request (Some (int adr)) ra rvc) \<and> ascii_json (read_request (Some (int adr)) ra rvc)"
  by (simp add: read_request_def js_num_nat JNat_wf ascii_JNat modbus_names AWT_def)

lemma read_request_items:
  assumes "cjson_documented L"
  shows "c_item L ''ADR'' (read_request (Some (int adr)) ra rvc) = Some (JNat adr)" "c_item L ''FN'' (read_request (Some (int adr)) ra rvc) = Some (JNat 3)"
    "c_item L ''RA'' (read_request (Some (int adr)) ra rvc) = Some (JNat ra)" "c_item L ''RVC'' (read_request (Some (int adr)) ra rvc) = Some (JNat rvc)"
    "c_item L ''RD'' (read_request (Some (int adr)) ra rvc) = None" "c_item L ''AWT'' (read_request (Some (int adr)) ra rvc) = Some (JNat 150)"
  by (simp_all add: cjson_item [OF assms] read_request_def lower_def lit_def js_num_nat AWT_def)

lemma read_request_handled:
  assumes "cjson_documented L" and "adr < 256" and "ra < 65536" and "rvc < 65536"
  shows "handle_modbus_msg L M H \<lparr>m_fid = f, m_id = i, m_data = Some (stringify id (read_request (Some (int adr)) ra rvc))\<rparr> k n
    = modbus_exchange M H (read_frame 3 adr ra rvc) 150 k n"
proof -
  let ?j = "read_request (Some (int adr)) ra rvc"
  have "c_parse L (stringify id ?j) = Some ?j"
    using read_request_good [of adr ra rvc] assms(2-4) by (intro cjson_parse [OF assms(1)]) simp_all
  moreover have "parse_modbus L M ?j = Some (read_frame 3 adr ra rvc, 150)"
    using parse_read [OF assms(1) read_request_items(1-5) [OF assms(1)], of 150] read_request_items(6) [OF assms(1)] assms(2-4) by simp
  moreover obtain c cs where "stringify id ?j = c # cs" using stringify_cons by (auto simp: read_request_def)
  ultimately show ?thesis by (simp add: handle_modbus_msg_def)
qed

text \<open>A page with an open connection and its settings.\<close>

definition page_ready :: "meter \<Rightarrow> nat \<Rightarrow> nat \<Rightarrow> nat \<Rightarrow> bool" where
  "page_ready w i fid adr \<longleftrightarrow> m_ws w = Some i \<and> ready_at (socks w) i = OPEN \<and> getFid w = Some (int fid) \<and> getMbAddr w = Some (int adr)
     \<and> 0 < fid \<and> fid < 65536 \<and> adr < 256"

text \<open>C5. A poll of the page reaches the device. When the poll timer of a page with an open connection fires, the page sends one
  frame; the gateway makes it exactly one call of the selected Modbus function, not repeated and without a delay; and the Modbus task
  makes the exchange for it with the selected device, function 3, the 70 registers from 1000 on, and 150 ms for the answer.\<close>

theorem poll_reaches_device:
  assumes "cjson_documented L" and "page_ready w i fid adr" and "gateway_ready s conn a fid"
  shows "\<exists>f call. sent_at (socks (meter_step E (MeterPoll t c) w)) i = sent_at (socks w) i @ [f]
    \<and> ws_server_on_text L H conn f s = s\<lparr>s_calls := s_calls s @ [call]\<rparr>
    \<and> call_session call = Some a \<and> call_fid call = word_of_nat fid \<and> call_id call = word_of_nat (sid_of (m_sid w))
    \<and> call_flags call = FLAG_NEW \<and> call_poll call = 0
    \<and> handle_modbus_msg L M HH (request_of call) k n = modbus_exchange M HH (read_frame 3 adr 1000 70) 150 k n"
proof -
  let ?arg = "read_request (Some (int adr)) 1000 70"
  let ?f = "stringify (num_str E) (page_request fid 0 (sid_of (m_sid w)) ?arg)"
  let ?call = "page_call L H a (word_of_nat fid \<in> set (s_handlers s)) fid 0 (sid_of (m_sid w)) ?arg"
  have page: "m_ws w = Some i" "ready_at (socks w) i = OPEN" "getFid w = Some (int fid)" "getMbAddr w = Some (int adr)"
    and less: "0 < fid" "fid < 65536" "adr < 256"
    using assms(2) by (simp_all add: page_ready_def)
  have fields: "getFid (w\<lparr>m_pollSent := m\<rparr>) = getFid w" "getMbAddr (w\<lparr>m_pollSent := m\<rparr>) = getMbAddr w" for m
    by (simp_all add: getFid_def getMbAddr_def field_def)
  have "sent_at (socks (meter_step E (MeterPoll t c) w)) i = sent_at (socks w) i @ [?f]"
    using requested_sent [of "w\<lparr>m_pollSent := c_now c\<rparr>" i E "Some (int fid)" ?arg] page
    by (simp add: poll_def stmt_defs set_dom_def send_arg_form report_def fields BATCH_START_def BATCH_COUNT_def meter_page_request)
  moreover have "ws_server_on_text L H conn ?f s = s\<lparr>s_calls := s_calls s @ [?call]\<rparr>"
    using assms(3) less sid_less [of "m_sid w"] read_request_good [of adr 1000 70]
    by (intro page_request_call [OF assms(1)]) (simp_all add: gateway_ready_def)
  moreover have "c_item L ''RDL'' ?arg = None"
    by (simp add: cjson_item [OF assms(1)] read_request_def lower_def lit_def)
  moreover have "handle_modbus_msg L M HH (request_of ?call) k n = modbus_exchange M HH (read_frame 3 adr 1000 70) 150 k n"
    unfolding request_call_message using less by (intro read_request_handled [OF assms(1)]) simp_all
  ultimately show ?thesis by (intro exI [of _ ?f] exI [of _ ?call]) (simp add: page_call_def)
qed

text \<open>A page that has just connected.\<close>

definition demo_env :: meter_env where
  "demo_env = \<lparr>url_ok = (\<lambda>_. True), exn_text = (\<lambda>_. []), num_str = id, max_args = 65536, str_num = id, below = (\<lambda>_. 0), trunc = (\<lambda>_. 0),
     big_fixed = (\<lambda>_. []), host = lit ''192.168.4.1'', elapsed = (\<lambda>_ _. lit ''12.5''), hex_text = id, upper_text = id\<rparr>"

definition demo_clock :: clock where
  "demo_clock = \<lparr>c_now = 1000, c_local = lit ''12:00:00'', c_ru = lit ''12:00:00'', c_ms = 7\<rparr>"

definition demo_meter :: meter where
  "demo_meter = meter_step demo_env (MeterOpen 0 demo_clock) (meter_load demo_env)"

lemma demo_fields: "parse_int 0 (lit ''4371'') = Some 4371" "parse_int 0 (lit ''1'') = Some 1"
  using parse_show_nat [of 4371] parse_show_nat [of 1] by (simp_all add: lit_def)

lemma demo_doc: "meter_doc (''uart-sel'', ''value'') = lit ''4371''" "meter_doc (''mb-addr'', ''value'') = lit ''1''"
  by (simp_all add: meter_doc_def)

lemma demo_load: "meter_load demo_env = blank_meter\<lparr>socks := [fresh_socket demo_env], m_ws := Some 0\<rparr>"
  by (simp add: meter_load_def report_def meter_connect_form reaches_def demo_env_def blank_meter_def)

lemma demo_meter_ready: "page_ready demo_meter 0 4371 1"
proof -
  have "getFid w = Some 4371" "getMbAddr w = Some 1" if "doc w (''uart-sel'', ''value'') = lit ''4371''" "doc w (''mb-addr'', ''value'') = lit ''1''" for w :: meter
    using that by (simp_all add: getFid_def getMbAddr_def field_def demo_fields or_default_def)
  moreover have "doc demo_meter (''uart-sel'', ''value'') = lit ''4371''" "doc demo_meter (''mb-addr'', ''value'') = lit ''1''"
    "m_ws demo_meter = Some 0" "ready_at (socks demo_meter) 0 = OPEN"
    by (simp_all add: demo_meter_def demo_load blank_meter_def onOpen_def startPoll_def poll_def setStatus_def set_dom_def stmt_defs send_arg_form
        report_def ready_now_def demo_doc set_timeout_def ready_at_def upd_at_def requested_def)
  ultimately show ?thesis by (simp add: page_ready_def)
qed

theorem poll_reaches_device_witness:
  "\<exists>f call. sent_at (socks (meter_step demo_env (MeterPoll 1 demo_clock) demo_meter)) 0 = sent_at (socks demo_meter) 0 @ [f]
    \<and> s_calls (ws_server_on_text plain_cjson always 1 f metered) = s_calls metered @ [call] \<and> call_fid call = 0x1113"
  using poll_reaches_device [OF plain_cjson_documented demo_meter_ready metered_ready, of demo_env 1 demo_clock always plain_modbus running "(0, demo_port)" 0]
  by auto

subsection \<open>Answers on the page\<close>

text \<open>The members of a Modbus answer that names no error.\<close>

lemma mb_members:
  assumes "\<not> mb_is_error M g"
  shows "regs_answer (mb_object M g vs) (unat (fr_reg g)) (map unat vs)"
proof -
  obtain regs code amount width where data: "mb_frame_data M g = (regs, code, amount, width)" by (cases "mb_frame_data M g")
  then show ?thesis
    using assms half_less [of "fr_reg g"] by (simp add: regs_answer_def mb_object_def get_prop_def comp_def) (simp add: lit_def)
qed

lemma page_gets_answer:
  assumes "getFid w = Some (int fid)" and "fid < 65536" and "mb_reads M g vs" and "\<not> mb_is_error M g"
  shows "onMsg E (Text (response_text (word_of_nat fid) sid (mb_response_text M g))) c w = handleResp E c (Some (mb_object M g vs)) w"
proof -
  have fid: "uint (word_of_nat fid :: 32 word) = int fid"
    using assms(2) by (simp add: unsigned_of_nat take_bit_nat_eq_self)
  have "json_parse (data_text (Text (response_text (word_of_nat fid) sid (mb_response_text M g))))
      = Some (response_object (word_of_nat fid) sid (mb_object M g vs))"
    unfolding response_text_object [of M g id] mb_reads_values [OF assms(3)]
    by (rule response_data) (rule mb_object_wf)
  then show ?thesis
    using assms(1,4) by (intro message_regs) (auto simp: response_members parse_value_hex fid intro!: mb_members)
qed

text \<open>C6. Measurements are shown. When the answer to a poll comes back with the 70 registers from 1000 on, whatever they are, each of
  the 35 measurements shows the number of its own two registers, the first one as the high half, and nothing fails; the first answer of a connection
  makes the page ask for the device information, once.\<close>

theorem measurements_are_shown:
  assumes "getFid w = Some (int fid)" and "fid < 65536" and "mb_reads M g vs" and "\<not> mb_is_error M g" and "fr_reg g = 1000" and "length vs = 70"
    and "w' = meter_step E (MeterMessage i (Text (response_text (word_of_nat fid) sid (mb_response_text M g))) c) w"
  shows "(\<forall>j < 35. doc w' (val_id (1000 + 2 * j), ''textContent'') = float_text E (unat (vs ! (2 * j)) * 65536 + unat (vs ! (2 * j + 1))))
    \<and> m_infoRequested w' \<and> uncaught w' = uncaught w
    \<and> (\<forall>k. m_ws w = Some k \<and> ready_at (socks w) k = OPEN \<longrightarrow> sent_at (socks w') k = sent_at (socks w) k @
        (if m_infoRequested w then [] else [stringify (num_str E) (meter_frame (Some (int fid)) (sid_of (m_sid w)) (read_request (getMbAddr w) 60 24))]))"
proof -
  let ?vs = "map unat vs"
  have regs: "regs_answer (mb_object M g vs) 1000 ?vs" using mb_members [OF assms(4), of vs] assms(5) by simp
  have vals: "length ?vs = 70" "list_all (\<lambda>v. v < 65536) ?vs" using assms(6) half_less by (simp_all add: list_all_iff)
  have step: "w' = report (show_batch E c (map JNat ?vs)) w"
    using page_gets_answer [OF assms(1-4), of E sid c] handle_regs [OF regs, of E c w]
    by (simp add: assms(7) report_def stmt_defs)
  let ?u = "w\<lparr>doc := batch_doc E c ?vs w, m_pollSent := 0\<rparr>"
  have fields: "getFid ?u = getFid w" "getMbAddr ?u = getMbAddr w"
    by (simp_all add: getFid_def getMbAddr_def field_def batch_doc_def rendered_others val_id_def)
  have w': "w' = (if m_infoRequested w then ?u else requested E (getFid w) (read_request (getMbAddr w) 60 24) (?u\<lparr>m_infoRequested := True\<rparr>))"
    using show_batch_form [OF vals, of E c w] by (simp add: step report_def Let_def fields)
  have "doc w' (val_id (1000 + 2 * j), ''textContent'') = float_text E (unat (vs ! (2 * j)) * 65536 + unat (vs ! (2 * j + 1)))" if "j < 35" for j
  proof -
    have "1000 + 2 * j \<in> set meas_addrs" using that by (auto simp: meas_addrs_def)
    then show ?thesis using that assms(6) by (simp add: w' batch_doc_def rendered_once float_at_def)
  qed
  moreover have "m_infoRequested w'" "uncaught w' = uncaught w" by (simp_all add: w')
  moreover have "sent_at (socks w') k = sent_at (socks w) k @
      (if m_infoRequested w then [] else [stringify (num_str E) (meter_frame (Some (int fid)) (sid_of (m_sid w)) (read_request (getMbAddr w) 60 24))])"
    if "m_ws w = Some k" "ready_at (socks w) k = OPEN" for k
    using requested_sent [of "?u\<lparr>m_infoRequested := True\<rparr>" k E "Some (int fid)"] that assms(1) by (simp add: w')
  ultimately show ?thesis by blast
qed

text \<open>The answer of a meter whose first two registers are 0x4366 and 0x8000: 230.5.\<close>

definition batch_regs :: "16 word list" where
  "batch_regs = [0x4366, 0x8000] @ replicate 68 0"

definition batch_frame :: modbus_frame where
  "batch_frame = no_frame\<lparr>fr_addr := 1, fr_func := 3, fr_reg := 1000, fr_size := 140,
     fr_data := Some (concat (map (\<lambda>v. [ucast v, ucast (drop_bit 8 v)]) batch_regs))\<rparr>"

lemma float_230: "float_text E (0x4366 * 65536 + 0x8000) = lit ''230.500''"
proof -
  have "f32_exp 0x43668000 = 134" "\<not> f32_neg 0x43668000" "f32_num 0x43668000 = 15106048 * 2 ^ 133"
    by (simp_all add: f32_exp_def f32_neg_def f32_num_def)
  moreover have "fixed_int 3 (15106048 * 2 ^ 133, 149) = 230500"
    by (simp add: fixed_int_def)
  moreover have "\<not> 10 ^ 21 * 2 ^ 149 \<le> (15106048 * 2 ^ 133 :: nat)" by simp
  ultimately show ?thesis
    by (simp add: float_text_def to_fixed_def point_def pad_start_def lit_def)
qed

theorem measurements_are_shown_witness:
  "doc (meter_step demo_env (MeterMessage 0 (Text (response_text (word_of_nat 4371) 1 (mb_response_text plain_modbus batch_frame))) demo_clock) demo_meter)
     (''val-1000'', ''textContent'') = lit ''230.500''"
proof -
  have "getFid demo_meter = Some (int 4371)" using demo_meter_ready by (simp add: page_ready_def)
  moreover have "mb_reads plain_modbus batch_frame batch_regs" "\<not> mb_is_error plain_modbus batch_frame" "fr_reg batch_frame = 1000" "length batch_regs = 70"
    by (auto simp: mb_reads_def plain_modbus_def batch_frame_def no_frame_def batch_regs_def word_less_nat_alt)
  moreover have "val_id 1000 = ''val-1000''" by (simp add: val_id_def char_of_eq_iff)
  ultimately show ?thesis
    using measurements_are_shown [of demo_meter 4371 plain_modbus batch_frame batch_regs _ demo_env 0 1 demo_clock] float_230 [of demo_env]
    by (auto simp: batch_regs_def dest: spec [of _ 0])
qed

lemma rounding_error: "q = (2 * a + k) div (2 * k) \<Longrightarrow> 0 < k \<Longrightarrow> 2 * (q * k) \<le> 2 * a + k \<and> 2 * a < 2 * (q * k) + (k :: nat)"
  using div_times_less_eq_dividend [of "2 * a + k" "2 * k"] dividend_less_div_times [of "2 * k" "2 * a + k"] by (simp add: algebra_simps)

lemma fixed_three: "fixed_int 3 (n, k) = (2 * (n * 1000) + 2 ^ k) div (2 * 2 ^ k)"
  by (simp add: fixed_int_def)

text \<open>A shown number is the nearest one. For every float that is a number below 10 to the 21 in absolute value, the text is the sign and a number with three decimals
  that differs from the value of the float, its numerator over 2 to the 149, by no more than half of the last decimal.\<close>

theorem shown_number_is_nearest:
  assumes "f32_exp b \<noteq> 255" and "f32_num b < 10 ^ 21 * 2 ^ 149"
  shows "\<exists>q. float_text E b = (if f32_neg b \<and> 0 < f32_num b then lit ''-'' else []) @ show_nat (q div 1000) @ lit ''.'' @ pad_start 3 48 (show_nat (q mod 1000))
    \<and> 2 * (q * 2 ^ 149) \<le> 2 * (f32_num b * 1000) + 2 ^ 149 \<and> 2 * (f32_num b * 1000) < 2 * (q * 2 ^ 149) + 2 ^ 149"
proof -
  define n q where "n = f32_num b" and "q = fixed_int 3 (n, 149)"
  have "q = (2 * (n * 1000) + 2 ^ 149) div (2 * 2 ^ 149)" by (simp only: q_def fixed_three)
  from rounding_error [OF this] have near: "2 * (q * 2 ^ 149) \<le> 2 * (n * 1000) + 2 ^ 149" "2 * (n * 1000) < 2 * (q * 2 ^ 149) + 2 ^ 149"
    by (simp_all only: zero_less_power zero_less_numeral simp_thms)
  have "float_text E b = (if f32_neg b \<and> 0 < n then lit ''-'' else []) @ point 3 (pad_start 4 48 (show_nat q))"
    using assms by (simp add: float_text_def to_fixed_def q_def n_def lit_def)
  with near show ?thesis
    by (intro exI [of _ q]) (simp only: point_3 n_def append.simps lit_def list.map, simp)
qed

theorem shown_number_is_nearest_witness:
  "\<exists>q. float_text demo_env 0x43668000 = show_nat (q div 1000) @ lit ''.'' @ pad_start 3 48 (show_nat (q mod 1000))
    \<and> 2 * (q * 2 ^ 149) \<le> 2 * (15106048 * 2 ^ 133 * 1000) + 2 ^ 149"
proof -
  have facts: "f32_exp 0x43668000 \<noteq> 255" "f32_num 0x43668000 = 15106048 * 2 ^ 133" "\<not> f32_neg 0x43668000"
    by (simp_all add: f32_exp_def f32_neg_def f32_num_def)
  then have "f32_num 0x43668000 < 10 ^ 21 * 2 ^ 149" by simp
  from shown_number_is_nearest [OF facts(1) this, of demo_env] show ?thesis
    unfolding facts(2) using facts(3) by auto
qed

text \<open>Device information is shown. When the answer to the second request comes back, whose registers hold a model name in UTF-8, a serial number, a firmware
  version and a clock, the page shows exactly this model, this number in decimal, this version and this date and time, and nothing else changes.\<close>

theorem device_is_shown:
  assumes "getFid w = Some (int fid)" and "fid < 65536" and "mb_reads M g vs" and "\<not> mb_is_error M g" and "fr_reg g = 60"
    and "map unat vs = device_regs d r73 r74 rest" and "device_ok d"
  shows "meter_step E (MeterMessage i (Text (response_text (word_of_nat fid) sid (mb_response_text M g))) c) w = w\<lparr>doc := device_doc d (doc w)\<rparr>"
proof -
  have regs: "regs_answer (mb_object M g vs) 60 (device_regs d r73 r74 rest)"
    using mb_members [OF assms(4), of vs] assms(5,6) by simp
  have "list_all (\<lambda>v. v < 65536) (map unat vs)" using half_less by (simp add: list_all_iff)
  then have "list_all (\<lambda>v. v < 65536) (r73 # r74 # rest)"
    unfolding assms(6) by (simp add: device_regs_def split: prod.splits)
  then show ?thesis
    using page_gets_answer [OF assms(1-4), of E sid c] handle_regs [OF regs, of E c w]
    by (simp add: report_def stmt_defs parse_device [OF assms(7)])
qed

definition demo_device :: device where
  "demo_device = \<lparr>d_model = lit ''S111'', d_serial = 70000, d_firmware = (1, 4), d_date = (2024, 5, 6), d_time = (7, 8, 9)\<rparr>"

definition device_words :: "16 word list" where
  "device_words = map word_of_nat (device_regs demo_device 0 0 [0, 0, 0, 0, 0])"

definition device_frame :: modbus_frame where
  "device_frame = no_frame\<lparr>fr_addr := 1, fr_func := 3, fr_reg := 60, fr_size := 48,
     fr_data := Some (concat (map (\<lambda>v. [ucast v, ucast (drop_bit 8 v)]) device_words))\<rparr>"

lemma demo_device_ok: "device_ok demo_device"
  by (simp add: device_ok_def demo_device_def plain_text_def lit_def high_sur_def low_sur_def js_trim_def js_space_def text_encode_def utf8_bytes_def)

theorem device_is_shown_witness:
  "doc (meter_step demo_env (MeterMessage 0 (Text (response_text (word_of_nat 4371) 2 (mb_response_text plain_modbus device_frame))) demo_clock) demo_meter)
     (''dev-time'', ''textContent'') = lit ''2024-05-06 07:08:09''"
proof -
  have fid: "getFid demo_meter = Some (int 4371)" using demo_meter_ready by (simp add: page_ready_def)
  have model: "text_encode (lit ''S111'') = lit ''S111''"
    by (simp add: lit_def text_encode_def utf8_bytes_def high_sur_def low_sur_def)
  have regs: "device_regs demo_device 0 0 [0, 0, 0, 0, 0] = [21297, 12593, 0, 0, 0, 0, 0, 0, 0, 0, 1, 4464, 260, 0, 0, 2024, 1286, 1800, 9, 0, 0, 0, 0, 0]"
  proof -
    have "replicate 16 (0 :: nat) = [0, 0, 0, 0, 0, 0, 0, 0, 0, 0, 0, 0, 0, 0, 0, 0]" by (simp add: eval_nat_numeral)
    moreover have "text_encode (lit ''S111'') = [83, 49, 49, 49]" unfolding model by (simp add: lit_def)
    ultimately show ?thesis by (simp add: device_regs_def demo_device_def)
  qed
  then have words: "map unat device_words = device_regs demo_device 0 0 [0, 0, 0, 0, 0]" "length device_words = 24"
    by (simp_all add: device_words_def)
  have reads: "mb_reads plain_modbus device_frame device_words" "\<not> mb_is_error plain_modbus device_frame" "fr_reg device_frame = 60"
    using words(2) by (auto simp: mb_reads_def plain_modbus_def device_frame_def no_frame_def word_less_nat_alt)
  have "device_doc demo_device f (''dev-time'', ''textContent'') = lit ''2024-05-06 07:08:09''" for f
    by (simp add: device_doc_def demo_device_def two_digits_def pad_start_def lit_def)
  then show ?thesis
    using device_is_shown [OF fid _ reads words(1) demo_device_ok, of demo_env 0 2 demo_clock] by simp
qed

subsection \<open>Writes\<close>

lemma write_request_good:
  assumes "adr < 256" and "length regs < 65536" and "list_all (\<lambda>n. n < 65536) regs"
  shows "json_wf (write_request_json (Some (int adr)) (map (\<lambda>n. Some (int n)) regs))
    \<and> ascii_json (write_request_json (Some (int adr)) (map (\<lambda>n. Some (int n)) regs))"
  using assms by (auto simp: write_request_json_def js_num_nat JNat_wf ascii_JNat modbus_names list_all_iff)

lemma write_request_items:
  assumes "cjson_documented L"
  defines "j adr regs \<equiv> write_request_json (Some (int adr)) (map (\<lambda>n. Some (int n)) regs)"
  shows "c_item L ''ADR'' (j adr regs) = Some (JNat adr)" "c_item L ''FN'' (j adr regs) = Some (JNat 16)" "c_item L ''RA'' (j adr regs) = Some (JNat 300)"
    "c_item L ''RD'' (j adr regs) = Some (JArr (map JNat regs))" "c_item L ''RVC'' (j adr regs) = Some (JNat (length regs))"
    "c_item L ''AWT'' (j adr regs) = Some (JNat 2000)" "c_item L ''RDL'' (j adr regs) = None"
  by (simp_all add: j_def cjson_item [OF assms(1)] write_request_json_def lower_def lit_def js_num_nat comp_def)

text \<open>The frame of a write, with the values as its bytes.\<close>

definition write_frame :: "nat \<Rightarrow> nat list \<Rightarrow> modbus_frame" where
  "write_frame adr regs = \<lparr>fr_addr = word_of_nat adr, fr_func = 16, fr_reg = 300, fr_count = word_of_nat (length regs),
     fr_length_code = word_of_nat (2 * length regs), fr_size = word_of_nat (2 * length regs),
     fr_data = Some (rd_bytes 2 (map word_of_nat regs) @ replicate (255 - 2 * length regs) 0)\<rparr>"

lemma write_request_handled:
  assumes "cjson_documented L" and "adr < 256" and "regs \<noteq> []" and "2 * length regs < 256" and "list_all (\<lambda>n. n < 65536) regs" and "mb_write_coils M \<noteq> 16"
  shows "handle_modbus_msg L M H \<lparr>m_fid = f, m_id = i, m_data = Some (stringify id (write_request_json (Some (int adr)) (map (\<lambda>n. Some (int n)) regs)))\<rparr> k n
    = modbus_exchange M H (write_frame adr regs) 2000 k n"
proof -
  let ?j = "write_request_json (Some (int adr)) (map (\<lambda>n. Some (int n)) regs)"
  note items = write_request_items [OF assms(1), of adr regs]
  have "c_parse L (stringify id ?j) = Some ?j"
    using write_request_good [of adr regs] assms(2,4,5) by (intro cjson_parse [OF assms(1)]) simp_all
  moreover have "parse_modbus L M ?j = Some (write_frame adr regs, 2000)"
  proof -
    have "cJSON_ParseInt L ''AWT'' ?j = Some 2000" "cJSON_ParseInt L ''RVC'' ?j = Some (word_of_nat (length regs))"
      using cJSON_nat [OF assms(1) _ items(6)] cJSON_nat [OF assms(1) _ items(5)] assms(4) by simp_all
    moreover have "mb_stride M 16 = 2" using assms(6) by (auto simp: mb_stride_def)
    moreover have "list_all (\<lambda>n. n < 2147483648) (adr # 16 # 300 # regs)" using assms(2,5) by (auto simp: list_all_iff)
    ultimately show ?thesis
      using parse_modbus_form [OF assms(1) items(1-4) assms(3), of M] assms(2,4)
      by (simp add: request_frame_def write_frame_def word_sizes mult.commute)
  qed
  moreover obtain c cs where "stringify id ?j = c # cs" using stringify_cons by (auto simp: write_request_json_def)
  ultimately show ?thesis by (simp add: handle_modbus_msg_def)
qed

lemma write_frame_words:
  assumes "2 * length regs < 256" and "list_all (\<lambda>n. n < 65536) regs"
  shows "\<exists>bs. fr_data (write_frame adr regs) = Some bs \<and> be_words (take (unat (fr_size (write_frame adr regs))) bs) = regs"
proof -
  have "list_all (\<lambda>n. n < 2147483648) regs" using assms(2) by (auto simp: list_all_iff)
  then have words: "be_words (rd_bytes 2 (map word_of_nat regs)) = map (\<lambda>v. v mod 65536) regs"
    using rd_bytes_values [of regs 2] by simp
  have "map (\<lambda>v. v mod 65536) regs = regs" using assms(2) by (simp add: list_all_iff map_idI)
  moreover have "unat (word_of_nat (2 * length regs) :: 8 word) = length (rd_bytes 2 (map word_of_nat regs))"
    using assms(1) rd_bytes_facts(3) [of 2 "map word_of_nat regs"] by (simp add: word_sizes(3) del: of_nat_mult)
  ultimately show ?thesis
    using words by (simp add: write_frame_def)
qed

text \<open>C9. A write reaches the device. When the user writes the communication parameters over an open connection, the page sends one frame, the
  gateway makes it one call, and the Modbus task writes to the selected device, with function 16 and 2 s for the answer, five registers from 300 on:
  the number of the instruction, 1210, and then address, baud rate, parity and stop bits of the form.\<close>

theorem write_reaches_device:
  assumes "cjson_documented L" and "page_ready w i fid adr" and "gateway_ready s conn a fid" and "mb_write_coils M \<noteq> 16"
    and "or_default (parse_int 0 (field ''cfg-addr'' w)) 1 = Some (int address)" and "parse_int 0 (field ''cfg-baud'' w) = Some (int baud)"
    and "parse_int 0 (field ''cfg-parity'' w) = Some (int par)" and "parse_int 0 (field ''cfg-stop'' w) = Some (int stop)"
    and "list_all (\<lambda>n. n < 65536) [address, baud, par, stop]"
  shows "\<exists>f call g bs. sent_at (socks (meter_step E (MeterCommParams c) w)) i = sent_at (socks w) i @ [f]
    \<and> ws_server_on_text L H conn f s = s\<lparr>s_calls := s_calls s @ [call]\<rparr> \<and> call_fid call = word_of_nat fid
    \<and> handle_modbus_msg L M HH (request_of call) k n = modbus_exchange M HH g 2000 k n
    \<and> fr_addr g = word_of_nat adr \<and> fr_func g = 16 \<and> fr_reg g = 300 \<and> fr_count g = 5 \<and> fr_data g = Some bs
    \<and> be_words (take (unat (fr_size g)) bs) = [1210, address, baud, par, stop]"
proof -
  let ?regs = "[1210, address, baud, par, stop]"
  let ?arg = "write_request_json (Some (int adr)) (map (\<lambda>n. Some (int n)) ?regs)"
  let ?f = "stringify (num_str E) (page_request fid 0 (sid_of (m_sid w)) ?arg)"
  let ?call = "page_call L H a (word_of_nat fid \<in> set (s_handlers s)) fid 0 (sid_of (m_sid w)) ?arg"
  have page: "m_ws w = Some i" "ready_at (socks w) i = OPEN" "getFid w = Some (int fid)" "getMbAddr w = Some (int adr)"
    and less: "0 < fid" "fid < 65536" "adr < 256"
    using assms(2) by (simp_all add: page_ready_def)
  have regs: "list_all (\<lambda>n. n < 65536) ?regs" "2 * length ?regs < 256" "length ?regs < 65536" using assms(9) by simp_all
  define u where "u = snd (block [assign (\<lambda>w. w\<lparr>m_writeSent := c_now c\<rparr>), set_dom ''wt-sent'' ''textContent'' (fmtTime c),
      set_dom ''wt-recv'' ''textContent'' dash, set_dom ''wt-rtt'' ''textContent'' (dash @ ru_ms), set_dom ''wt-rtt'' ''className'' (lit ''wt-val wt-rtt'')] w)"
  have u: "m_ws u = m_ws w" "socks u = socks w" "getFid u = getFid w" "getMbAddr u = getMbAddr w" "m_sid u = m_sid w"
    by (simp_all add: u_def assign_def set_dom_def getFid_def getMbAddr_def field_def)
  have "meter_step E (MeterCommParams c) w = requested E (getFid u) ?arg u"
    using assms(5-8) page(4)
    by (simp add: report_def sendCommParams_def sendInstr_def send_arg_form set_dom_def assign_def u_def getMbAddr_def field_def)
  then have "sent_at (socks (meter_step E (MeterCommParams c) w)) i = sent_at (socks w) i @ [?f]"
    using requested_sent [of u i E "Some (int fid)" ?arg] page by (simp add: u meter_page_request)
  moreover have "ws_server_on_text L H conn ?f s = s\<lparr>s_calls := s_calls s @ [?call]\<rparr>"
    using assms(3) less sid_less [of "m_sid w"] write_request_good [OF less(3) regs(3,1)]
    by (intro page_request_call [OF assms(1)]) (simp_all add: gateway_ready_def)
  moreover have "handle_modbus_msg L M HH (request_of ?call) k n = modbus_exchange M HH (write_frame adr ?regs) 2000 k n"
    unfolding request_call_message by (rule write_request_handled [OF assms(1) less(3) _ regs(2,1) assms(4)]) simp
  moreover have "fr_addr (write_frame adr ?regs) = word_of_nat adr" "fr_func (write_frame adr ?regs) = 16" "fr_reg (write_frame adr ?regs) = 300"
    "fr_count (write_frame adr ?regs) = 5" by (simp_all add: write_frame_def)
  moreover have "call_fid ?call = word_of_nat fid" by (simp add: page_call_def)
  ultimately show ?thesis using write_frame_words [OF regs(2,1), of adr] by blast
qed

lemma demo_form: "doc demo_meter (''cfg-addr'', ''value'') = lit ''1''" "doc demo_meter (''cfg-baud'', ''value'') = lit ''2''"
  "doc demo_meter (''cfg-parity'', ''value'') = lit ''0''" "doc demo_meter (''cfg-stop'', ''value'') = lit ''1''"
  by (simp_all add: demo_meter_def demo_load blank_meter_def onOpen_def startPoll_def poll_def setStatus_def set_dom_def stmt_defs send_arg_form
      report_def ready_now_def set_timeout_def meter_doc_def)

theorem write_reaches_device_witness:
  "\<exists>f call g bs. sent_at (socks (meter_step demo_env (MeterCommParams demo_clock) demo_meter)) 0 = sent_at (socks demo_meter) 0 @ [f]
    \<and> s_calls (ws_server_on_text plain_cjson always 1 f metered) = s_calls metered @ [call]
    \<and> fr_data (g :: modbus_frame) = Some bs \<and> be_words (take (unat (fr_size g)) bs) = [1210, 1, 2, 0, 1]"
proof -
  have digit: "parse_int 0 (lit ''0'') = Some 0" "parse_int 0 (lit ''2'') = Some 2"
    using parse_show_nat [of 0] parse_show_nat [of 2] by (simp_all add: lit_def)
  have form: "or_default (parse_int 0 (field ''cfg-addr'' demo_meter)) 1 = Some (int 1)" "parse_int 0 (field ''cfg-baud'' demo_meter) = Some (int 2)"
    "parse_int 0 (field ''cfg-parity'' demo_meter) = Some (int 0)" "parse_int 0 (field ''cfg-stop'' demo_meter) = Some (int 1)"
    by (simp_all add: field_def demo_form digit demo_fields or_default_def)
  have "mb_write_coils plain_modbus \<noteq> 16" "list_all (\<lambda>n. n < 65536) [1, 2, 0, 1 :: nat]" by (simp_all add: plain_modbus_def)
  from write_reaches_device [OF plain_cjson_documented demo_meter_ready metered_ready this(1) form this(2), of demo_env demo_clock always running "(0, demo_port)" 0]
  obtain f call g bs where sent: "sent_at (socks (meter_step demo_env (MeterCommParams demo_clock) demo_meter)) 0 = sent_at (socks demo_meter) 0 @ [f]"
    and served: "ws_server_on_text plain_cjson always 1 f metered = metered\<lparr>s_calls := s_calls metered @ [call]\<rparr>"
    and data: "fr_data (g :: modbus_frame) = Some bs" "be_words (take (unat (fr_size g)) bs) = [1210, 1, 2, 0, 1]"
    by blast
  show ?thesis
    using sent data by (intro exI [of _ f] exI [of _ call] exI [of _ g] exI [of _ bs]) (simp add: served del: One_nat_def)
qed

text \<open>A code as the gateway sends it when an exchange fails: 2 for a bad request, 3 for a refusal, 4 for a timeout.\<close>

lemma page_gets_error:
  assumes "getFid w = Some (int fid)" and "fid < 65536" and "0 < code" and "code < 10" and "0 < m_writeSent w"
  shows "onMsg E (Text (response_text (word_of_nat fid) sid (mb_error_text code))) c w
    = (None, write_shown c (lit ''ERR: '' @ show_nat code) (lit ''wt-val wt-err'') w)"
proof -
  let ?v = "JObj [(lit ''ERR'', JNat code)]"
  have fid: "uint (word_of_nat fid :: 32 word) = int fid"
    using assms(2) by (simp add: unsigned_of_nat take_bit_nat_eq_self)
  have "mb_error_text code = stringify id ?v" using assms(4) by (rule error_text_object)
  then have parse: "json_parse (data_text (Text (response_text (word_of_nat fid) sid (mb_error_text code)))) = Some (response_object (word_of_nat fid) sid ?v)"
    using assms(4) by (simp only:) (rule response_data, simp add: JNat_wf)
  have "onMsg E (Text (response_text (word_of_nat fid) sid (mb_error_text code))) c w = handleResp E c (Some ?v) w"
    using parse assms(1) by (simp add: onMsg_def stmt_defs response_members parse_value_hex fid error_members truthy_obj no_status)
  then show ?thesis using error_answer [of code w E c] assms(3-5) by simp
qed

text \<open>An error of a poll is taken for the error of a write. The page does not look at the number of an answer, and an error names no register: when a
  write waits for its answer and an earlier poll fails at the gateway, with whatever number, the page says that the write has failed; and the answer of the device that
  has taken the write then changes nothing on the page.\<close>

theorem poll_error_hides_write:
  assumes "getFid w = Some (int fid)" and "fid < 65536" and "code \<in> {2, 3, 4}" and "0 < m_writeSent w"
    and "mb_reads M g []" and "\<not> mb_is_error M g" and "fr_reg g = 300"
    and "w1 = meter_step E (MeterMessage i (Text (response_text (word_of_nat fid) poll_sid (mb_error_text code))) c) w"
  shows "doc w1 (''wt-rtt'', ''textContent'') = lit ''ERR: '' @ show_nat code
    \<and> meter_step E (MeterMessage i (Text (response_text (word_of_nat fid) write_sid (mb_response_text M g))) c') w1 = w1"
proof -
  have code: "0 < code" "code < 10" using assms(3) by auto
  have w1: "w1 = write_shown c (lit ''ERR: '' @ show_nat code) (lit ''wt-val wt-err'') w"
    using page_gets_error [OF assms(1,2) code assms(4), of E poll_sid c] by (simp add: assms(8) report_def)
  have fid: "getFid w1 = Some (int fid)" using assms(1) by (simp add: w1 write_shown_def getFid_def field_def)
  have regs: "regs_answer (mb_object M g []) 300 []" using mb_members [OF assms(6), of "[]"] assms(7) by simp
  have "m_writeSent w1 = 0" by (simp add: w1 write_shown_def)
  then have "handleResp E c' (Some (mb_object M g [])) w1 = (None, w1)"
    by (simp add: handle_regs [OF regs] stmt_defs)
  then have "meter_step E (MeterMessage i (Text (response_text (word_of_nat fid) write_sid (mb_response_text M g))) c') w1 = w1"
    using page_gets_answer [OF fid assms(2,5,6), of E write_sid c'] by (simp add: report_def)
  then show ?thesis by (simp add: w1 write_shown_def)
qed

definition written_frame :: modbus_frame where
  "written_frame = no_frame\<lparr>fr_addr := 1, fr_func := 16, fr_reg := 300\<rparr>"

theorem poll_error_hides_write_witness:
  "\<exists>w1. w1 = meter_step demo_env (MeterMessage 0 (Text (response_text (word_of_nat 4371) 1 (mb_error_text 4))) demo_clock) (demo_meter\<lparr>m_writeSent := 900\<rparr>)
    \<and> meter_step demo_env (MeterMessage 0 (Text (response_text (word_of_nat 4371) 2 (mb_response_text plain_modbus written_frame))) demo_clock) w1 = w1"
proof -
  have "getFid (demo_meter\<lparr>m_writeSent := 900\<rparr>) = Some (int 4371)"
    using demo_meter_ready by (simp add: page_ready_def getFid_def field_def)
  moreover have "mb_reads plain_modbus written_frame []" "\<not> mb_is_error plain_modbus written_frame" "fr_reg written_frame = 300"
    by (simp_all add: mb_reads_def plain_modbus_def written_frame_def no_frame_def)
  ultimately show ?thesis
    using poll_error_hides_write [of "demo_meter\<lparr>m_writeSent := 900\<rparr>" 4371 4 plain_modbus written_frame _ demo_env 0 1 demo_clock 2 demo_clock] by simp
qed

subsection \<open>The serial port of the gateway\<close>

text \<open>What the page asks for, and the configuration it means.\<close>

definition uart_arg :: "nat \<Rightarrow> nat \<Rightarrow> nat \<Rightarrow> nat \<Rightarrow> json" where
  "uart_arg baud wl par sb = JObj [(lit ''BR'', JNat baud), (lit ''WL'', JNat wl), (lit ''PAR'', JNat par), (lit ''SB'', JNat sb)]"

lemma uart_arg_good: "baud < 10 ^ 15 \<Longrightarrow> wl < 10 ^ 15 \<Longrightarrow> par < 10 ^ 15 \<Longrightarrow> sb < 10 ^ 15 \<Longrightarrow> json_wf (uart_arg baud wl par sb) \<and> ascii_json (uart_arg baud wl par sb)"
  by (simp add: uart_arg_def JNat_wf ascii_JNat ascii_config)

lemma uart_arg_parsed:
  assumes "cjson_documented L" and "baud < 2147483648" and "wl < 2147483648" and "par < 4" and "sb < 4"
  shows "parse_uart_params L (stringify ns (uart_arg baud wl par sb))
    = Some \<lparr>cmd_wl = Some (wl mod 4), cmd_boud = Some (word_of_nat baud), cmd_par = Some par, cmd_sb = Some sb\<rparr>"
proof -
  let ?j = "uart_arg baud wl par sb"
  have parse: "c_parse L (stringify ns ?j) = Some ?j"
    using uart_arg_good [of baud wl par sb] assms(2-5) by (intro cjson_parse [OF assms(1)]) simp_all
  have items: "c_item L ''BR'' ?j = Some (JNat baud)" "c_item L ''WL'' ?j = Some (JNat wl)" "c_item L ''PAR'' ?j = Some (JNat par)" "c_item L ''SB'' ?j = Some (JNat sb)"
    by (simp_all add: uart_arg_def cjson_item [OF assms(1)] lower_def lit_def)
  have two: "two_bits (word_of_nat n) = n mod 4" if "n < 2147483648" for n
    using that by (simp add: two_bits_def word_sizes(5))
  show ?thesis
    using assms(2-5)
    by (simp add: parse_uart_params_def parse cJSON_nat [OF assms(1) _ items(1)] cJSON_nat [OF assms(1) _ items(2)]
        cJSON_nat [OF assms(1) _ items(3)] cJSON_nat [OF assms(1) _ items(4)] two)
qed

lemma uart_arg_handled:
  assumes "cjson_documented L" and "baud < 2147483648" and "wl < 2147483648" and "par < 4" and "sb < 4"
  shows "handle_cnf L U \<lparr>m_fid = f, m_id = n, m_data = Some (stringify id (uart_arg baud wl par sb))\<rparr> p
    = (Some (uart_response L n f (Some (uart_arg baud (wl mod 4) par sb))),
       snd (gw_uart_set U \<lparr>cf_bits = wl mod 4, cf_boud = word_of_nat baud, cf_parity = par, cf_stop = sb\<rparr> p))"
  using uart_arg_parsed [OF assms, of id] word_sizes(5) [OF assms(2)]
  by (simp add: handle_cnf_def uart_config_def set_to_def Let_def) (simp add: format_uart_resp_def uart_arg_def)

lemma data_bits_set:
  assumes "c = \<lparr>cf_bits = wl mod 4, cf_boud = baud, cf_parity = par, cf_stop = sb\<rparr>" and "wl \<in> {5, 6, 7, 8}" and "par \<le> 2" and "sb \<in> {1, 2}"
    and "\<forall>c. ul_config U c"
  shows "if wl = 8 then map_option cf_bits (gw_uart_get (snd (gw_uart_set U c p))) = Some 0
    else if wl = 5 then map_option cf_bits (gw_uart_get (snd (gw_uart_set U c p))) = Some 1 else snd (gw_uart_set U c p) = p"
proof (cases "wl = 8 \<or> wl = 5")
  case True
  then have sup: "supported c" using assms(2-4) by (auto simp: supported_def assms(1))
  then have "gw_uart_get (snd (gw_uart_set U c p)) = Some c"
    using assms(5) get_driver_config [OF sup] by (simp add: set_supported)
  then show ?thesis using True by (auto simp: assms(1))
next
  case False
  then have "\<not> supported c" using assms(2) by (auto simp: supported_def assms(1))
  then show ?thesis using False by (simp add: set_unsupported)
qed

text \<open>C36. Page and gateway disagree about the data bits. When the user asks for 8 data bits, the page sends WL 8, the gateway keeps the two low bits, and the
  selected port then works with 7; when the user asks for 5, it works with 8; and for 6 and 7 it stays as it was, while the answer to all four repeats what was asked for.\<close>

theorem data_bits_misread:
  assumes "cjson_documented L" and "page_ready w i fid adr" and "gateway_ready s conn a (config_fid (Some (int fid)))"
    and "parse_int 0 (field ''uart-baud'' w) = Some (int baud)" and "parse_int 0 (field ''uart-wl'' w) = Some (int wl)"
    and "parse_int 0 (field ''uart-par'' w) = Some (int par)" and "parse_int 0 (field ''uart-sb'' w) = Some (int sb)"
    and "baud < 2147483648" and "wl \<in> {5, 6, 7, 8}" and "par \<le> 2" and "sb \<in> {1, 2}" and "\<forall>c. ul_config U c"
  shows "\<exists>f call. sent_at (socks (meter_step E MeterUartConfig w)) i = sent_at (socks w) i @ [f]
    \<and> ws_server_on_text L H conn f s = s\<lparr>s_calls := s_calls s @ [call]\<rparr> \<and> call_fid call = (if fid = 0x1113 then 0x1010 else 0x1020)
    \<and> (case handle_cnf L U (request_of call) p of (r, p') \<Rightarrow>
        r = Some (uart_response L (call_id call) (call_fid call) (Some (uart_arg baud (wl mod 4) par sb)))
      \<and> (if wl = 8 then map_option cf_bits (gw_uart_get p') = Some 0
         else if wl = 5 then map_option cf_bits (gw_uart_get p') = Some 1 else p' = p))"
proof -
  let ?cfid = "config_fid (Some (int fid))"
  let ?arg = "uart_arg baud wl par sb"
  let ?f = "stringify (num_str E) (page_request ?cfid 0 (sid_of (m_sid w)) ?arg)"
  let ?call = "page_call L H a (word_of_nat ?cfid \<in> set (s_handlers s)) ?cfid 0 (sid_of (m_sid w)) ?arg"
  have page: "m_ws w = Some i" "ready_at (socks w) i = OPEN" "ws_open w" "getFid w = Some (int fid)"
    using assms(2) by (simp_all add: page_ready_def ws_open_def)
  have cfid: "?cfid = (if fid = 0x1113 then 0x1010 else 0x1020)" by (simp add: config_fid_def)
  have small: "wl < 10 ^ 15" "par < 10 ^ 15" "sb < 10 ^ 15" "baud < 10 ^ 15" using assms(8-11) by auto
  have "uart_config_arg w = ?arg" by (simp add: uart_config_arg_def uart_arg_def assms(4-7) js_num_nat)
  then have sent: "sent_at (socks (meter_step E MeterUartConfig w)) i = sent_at (socks w) i @ [?f]"
    using requested_sent [of w i E "Some (int ?cfid)" ?arg] page
    by (simp add: sendUartConfig_def stmt_defs send_request_form report_def meter_page_request del: of_nat_numeral)
  have served: "ws_server_on_text L H conn ?f s = s\<lparr>s_calls := s_calls s @ [?call]\<rparr>"
    using assms(3) sid_less [of "m_sid w"] uart_arg_good [of baud wl par sb] small
    by (intro page_request_call [OF assms(1)]) (simp_all add: gateway_ready_def cfid)
  have call: "call_fid ?call = (if fid = 0x1113 then 0x1010 else 0x1020)"
    "request_of ?call = \<lparr>m_fid = call_fid ?call, m_id = call_id ?call, m_data = Some (stringify id ?arg)\<rparr>"
    unfolding request_call_message by (simp_all add: page_call_def cfid)
  have "wl < 2147483648" "par < 4" "sb < 4" using assms(9-11) by auto
  note handled = uart_arg_handled [OF assms(1,8) this, of U "call_fid ?call" "call_id ?call" p]
  show ?thesis
    by (rule exI [of _ ?f], rule exI [of _ ?call], unfold call(2) handled prod.case)
       (intro conjI sent served call(1) refl data_bits_set [OF refl assms(9-12)])
qed

text \<open>The page as it is loaded asks for 8 data bits, and the port of the Modbus function it selects gets 7.\<close>

definition configurable :: server where
  "configurable = snd (ws_server_register_fid_queue always 0x1010 0 booted)"

lemma demo_uart: "doc demo_meter (''uart-baud'', ''value'') = lit ''115200''" "doc demo_meter (''uart-wl'', ''value'') = lit ''8''"
  "doc demo_meter (''uart-par'', ''value'') = lit ''0''" "doc demo_meter (''uart-sb'', ''value'') = lit ''1''"
  by (simp_all add: demo_meter_def demo_load blank_meter_def onOpen_def startPoll_def poll_def setStatus_def set_dom_def stmt_defs send_arg_form
      report_def ready_now_def set_timeout_def meter_doc_def)

theorem data_bits_misread_witness:
  "\<exists>f call. sent_at (socks (meter_step demo_env MeterUartConfig demo_meter)) 0 = sent_at (socks demo_meter) 0 @ [f]
    \<and> s_calls (ws_server_on_text plain_cjson always 1 f configurable) = s_calls configurable @ [call]
    \<and> map_option cf_bits (gw_uart_get demo_port) = Some 1
    \<and> map_option cf_bits (gw_uart_get (snd (handle_cnf plain_cjson (plain_uart\<lparr>ul_config := \<lambda>_. True\<rparr>) (request_of call) demo_port))) = Some 0"
proof -
  have ready: "gateway_ready configurable 1 0 (config_fid (Some (int 4371)))"
    by (simp add: config_fid_def gateway_ready_def configurable_def ws_server_register_fid_queue_def ws_get_fid_queue_def booted_eq ws_server_init_def always_def)
  have "parse_int 0 (lit ''115200'') = Some 115200" "parse_int 0 (lit ''8'') = Some 8" "parse_int 0 (lit ''0'') = Some 0"
    using parse_show_nat [of 115200] parse_show_nat [of 8] parse_show_nat [of 0] by (simp_all add: lit_def)
  then have form: "parse_int 0 (field ''uart-baud'' demo_meter) = Some (int 115200)" "parse_int 0 (field ''uart-wl'' demo_meter) = Some (int 8)"
    "parse_int 0 (field ''uart-par'' demo_meter) = Some (int 0)" "parse_int 0 (field ''uart-sb'' demo_meter) = Some (int 1)"
    by (simp_all add: field_def demo_uart demo_fields)
  have facts: "(115200 :: nat) < 2147483648" "(8 :: nat) \<in> {5, 6, 7, 8}" "(0 :: nat) \<le> 2" "(1 :: nat) \<in> {1, 2}"
    "\<forall>c. ul_config (plain_uart\<lparr>ul_config := \<lambda>_. True\<rparr>) c" by simp_all
  obtain f call where sent: "sent_at (socks (meter_step demo_env MeterUartConfig demo_meter)) 0 = sent_at (socks demo_meter) 0 @ [f]"
    and served: "ws_server_on_text plain_cjson always 1 f configurable = configurable\<lparr>s_calls := s_calls configurable @ [call]\<rparr>"
    and bits: "map_option cf_bits (gw_uart_get (snd (handle_cnf plain_cjson (plain_uart\<lparr>ul_config := \<lambda>_. True\<rparr>) (request_of call) demo_port))) = Some 0"
    using data_bits_misread [OF plain_cjson_documented demo_meter_ready ready form facts, of demo_env always demo_port]
    by (auto simp: case_prod_unfold simp del: One_nat_def)
  show ?thesis
    using sent bits by (intro exI [of _ f] exI [of _ call]) (simp add: served gw_uart_get_def demo_port_def default_config_def del: One_nat_def)
qed

subsection \<open>Connections\<close>

text \<open>C11. The page always goes on. If the user does not reconnect while the page waits to connect again, then in every reachable state its connection is the last it made, every
  earlier one is closed or closing, and there is exactly one thing to wait for: the opening of the connection without any timer, or the open connection with exactly one timer, the poll
  timer that the page will stop, or with a closed connection exactly one timer, which connects again.\<close>

theorem meter_goes_on:
  assumes "reaches E" and "reachable (meter_load E) meter_calm_enabled (meter_step E) w"
  shows "\<exists>i. m_ws w = Some i \<and> Suc i = length (socks w) \<and> (\<forall>j < i. ready_at (socks w) j \<in> {CLOSING, CLOSED})
    \<and> (case ready_at (socks w) i of
         CONNECTING \<Rightarrow> timers w = [] \<and> m_pollTimer w = None
       | OPEN \<Rightarrow> \<exists>t. timers w = [\<lparr>t_id = t, t_delay = 500, t_cb = PollTimer\<rparr>] \<and> m_pollTimer w = Some t
       | CLOSING \<Rightarrow> False
       | CLOSED \<Rightarrow> \<exists>t. timers w = [\<lparr>t_id = t, t_delay = 2000, t_cb = ConnectTimer\<rparr>] \<and> m_pollTimer w = None)"
  using meter_calmly.inv_reachable [OF assms(2)] assms(1)
  by (auto simp: meter_calm_def goes_on_def split: option.splits)

theorem meter_goes_on_witness:
  "\<exists>t. timers demo_meter = [\<lparr>t_id = t, t_delay = 500, t_cb = PollTimer\<rparr>] \<and> m_pollTimer demo_meter = Some t"
proof -
  have "reachable (meter_load demo_env) meter_calm_enabled (meter_step demo_env) demo_meter"
    unfolding demo_meter_def by (rule reach_step [OF reach_init]) (simp add: demo_load ready_at_def fresh_socket_def)
  moreover have "ready_at (socks demo_meter) 0 = OPEN" "m_ws demo_meter = Some 0" using demo_meter_ready by (simp_all add: page_ready_def)
  moreover have "reaches demo_env" by (simp add: reaches_def demo_env_def)
  ultimately show ?thesis using meter_goes_on [of demo_env demo_meter] by auto
qed

text \<open>The user changes the port or presses the button while the page waits to connect again after a lost connection.\<close>

definition impatient_run :: "clock \<Rightarrow> meter_event list" where
  "impatient_run c = [MeterClosed 0, MeterReconnect, MeterConnect 1, MeterOpen 1 c, MeterOpen 2 c, MeterClosed 2, MeterClosed 1]"

lemma impatient_state:
  assumes "reaches E" and "w = run_events (meter_step E) (impatient_run c) (meter_load E)"
  shows "all_enabled meter_enabled (meter_step E) (impatient_run c) (meter_load E)
    \<and> link_state w = ([CLOSED, CLOSED, CLOSED], [\<lparr>t_id = 2, t_delay = 500, t_cb = PollTimer\<rparr>, \<lparr>t_id = 4, t_delay = 2000, t_cb = ConnectTimer\<rparr>,
        \<lparr>t_id = 5, t_delay = 2000, t_cb = ConnectTimer\<rparr>], Some 2, None, [0], 6)"
proof -
  define s1 where "s1 = meter_step E (MeterClosed 0) (meter_load E)"
  define s2 where "s2 = meter_step E MeterReconnect s1"
  define s3 where "s3 = meter_step E (MeterConnect 1) s2"
  define s4 where "s4 = meter_step E (MeterOpen 1 c) s3"
  define s5 where "s5 = meter_step E (MeterOpen 2 c) s4"
  define s6 where "s6 = meter_step E (MeterClosed 2) s5"
  let ?p = "\<lambda>n. \<lparr>t_id = n, t_delay = 500, t_cb = PollTimer\<rparr>" and ?k = "\<lambda>n. \<lparr>t_id = n, t_delay = 2000, t_cb = ConnectTimer\<rparr>"
  have l0: "link_state (meter_load E) = ([CONNECTING], [], Some 0, None, [], 1)"
    by (simp add: meter_load_def report_def meter_connect_form [OF assms(1)] blank_meter_def link_state_def fresh_socket_def)
  have l1: "link_state s1 = ([CLOSED], [?k 1], Some 0, None, [], 2)"
    using link_closed [OF link_now [OF l0, of 0 CLOSED]] l0 by (simp add: s1_def) (simp add: link_state_def)
  have l2: "link_state s2 = ([CLOSED, CONNECTING], [?k 1], Some 1, None, [0], 2)"
    using link_reconnect [OF assms(1) l1] by (simp add: s2_def)
  have l3: "link_state s3 = ([CLOSED, CONNECTING, CONNECTING], [], Some 2, None, [0], 2)"
    using link_connect [OF assms(1) l2, of 1] by (simp add: s3_def)
  have l4: "link_state s4 = ([CLOSED, OPEN, CONNECTING], [?p 2], Some 2, Some 2, [0], 3)"
    using link_open [OF link_now [OF l3, of 1 OPEN], of E c] by (simp add: s4_def)
  have l5: "link_state s5 = ([CLOSED, OPEN, OPEN], [?p 2, ?p 3], Some 2, Some 3, [0], 4)"
    using link_open [OF link_now [OF l4, of 2 OPEN], of E c] by (simp add: s5_def numeral_2_eq_2)
  have l6: "link_state s6 = ([CLOSED, OPEN, CLOSED], [?p 2, ?k 4], Some 2, None, [0], 5)"
    using link_closed [OF link_now [OF l5, of 2 CLOSED]] l5 by (simp add: s6_def numeral_2_eq_2) (simp add: link_state_def)
  have w: "w = meter_step E (MeterClosed 1) s6"
    by (simp add: assms(2) impatient_run_def s1_def s2_def s3_def s4_def s5_def s6_def)
  have "link_state w = ([CLOSED, CLOSED, CLOSED], [?p 2, ?k 4, ?k 5], Some 2, None, [0], 6)"
    using link_closed [OF link_now [OF l6, of 1 CLOSED]] l6 by (simp add: w) (simp add: link_state_def)
  moreover have "all_enabled meter_enabled (meter_step E) (impatient_run c) (meter_load E) \<longleftrightarrow> meter_enabled (meter_load E) (MeterClosed 0)
      \<and> meter_enabled s1 MeterReconnect \<and> meter_enabled s2 (MeterConnect 1) \<and> meter_enabled s3 (MeterOpen 1 c) \<and> meter_enabled s4 (MeterOpen 2 c)
      \<and> meter_enabled s5 (MeterClosed 2) \<and> meter_enabled s6 (MeterClosed 1)"
    by (simp only: impatient_run_def all_enabled.simps s6_def s5_def s4_def s3_def s2_def s1_def simp_thms)
  moreover have \<dots>
    using link_facts [OF l0] link_facts [OF l2] link_facts [OF l3] link_facts [OF l4] link_facts [OF l5] link_facts [OF l6]
    by (simp add: numeral_2_eq_2)
  ultimately show ?thesis by blast
qed

text \<open>Reconnecting too early leaves a second connection and a poll timer for ever. If the connection is lost and the user changes the port or reconnects within the two seconds,
  the waiting timer still connects, so that two connections open; the page keeps the identifier of one poll timer only. When both connections are lost, two timers wait to
  connect again, no connection is open, and a poll timer runs that the page no longer knows; whatever happens from then on, that timer stays.\<close>

theorem early_reconnect_leaks:
  assumes "reaches E" and "w = run_events (meter_step E) (impatient_run c) (meter_load E)"
  shows "meter_reachable E w \<and> map s_ready (socks w) = [CLOSED, CLOSED, CLOSED] \<and> m_pollTimer w = None
    \<and> map t_cb (timers w) = [PollTimer, ConnectTimer, ConnectTimer]
    \<and> (\<forall>es. all_enabled meter_enabled (meter_step E) es w \<longrightarrow> waits (run_events (meter_step E) es w) PollTimer 2)"
proof -
  note state = impatient_state [OF assms]
  have "meter_reachable E w"
    unfolding assms(2) by (rule reachable_run [OF reach_init]) (use state in simp)
  moreover have "lost_poll 2 w" "m_ws w \<noteq> None" using state by (simp_all add: link_state_def lost_poll_def waits_def)
  then have "waits (run_events (meter_step E) es w) PollTimer 2" if "all_enabled meter_enabled (meter_step E) es w" for es
    using lost_forever [OF assms(1) _ _ that, of 2] by (simp add: lost_poll_def)
  ultimately show ?thesis using state by (simp add: link_state_def)
qed

theorem early_reconnect_leaks_witness:
  "waits (run_events (meter_step demo_env) [MeterConnect 4, MeterReconnect]
     (run_events (meter_step demo_env) (impatient_run demo_clock) (meter_load demo_env))) PollTimer 2"
proof -
  let ?w = "run_events (meter_step demo_env) (impatient_run demo_clock) (meter_load demo_env)"
  have reach: "reaches demo_env" by (simp add: reaches_def demo_env_def)
  have "all_enabled meter_enabled (meter_step demo_env) [MeterConnect 4, MeterReconnect] ?w"
    using impatient_state [OF reach refl, of demo_clock] by (simp add: link_state_def waits_def)
  then show ?thesis using early_reconnect_leaks [OF reach refl, of demo_clock] by blast
qed

end
