(* ===== verification/Drive_Page.thy ===== *)
theory Drive_Page
  imports Page_Base "HOL-Library.Word"
begin

section \<open>The pages of the frequency converters\<close>

text \<open>
  The inline scripts of src/main/flash_data/innovert.html and innovert_isd.html: a page that subscribes to all registers of an
  Innovert converter, shows the value and the meaning of each in a table, and writes single registers. The two scripts differ in
  their table of registers, which is a parameter here (the theory \<open>Drive_Tables\<close> has both); a number of JavaScript is kept as its text. The
  record \<open>drive\<close> has the object \<open>x\<close> and the variables of the script on top of the browser's state. Left out are the drawing of the gauges but for
  their numbers, the style and the developer console.
\<close>

unbundle bit_operations_syntax

subsection \<open>Registers\<close>

text \<open>The member \<open>OPT\<close> of a register, with what may be missing; \<open>RANGE\<close> only limits what the spin buttons of a field do.\<close>

record reg_opt =
  o_enum :: "(nat \<times> jsstr) list option"
  o_mask :: "(nat \<times> jsstr) list option"
  o_bcd :: "nat list option"
  o_scale :: "nat option"
  o_desc :: jsstr

record reg =
  r_adr :: nat
  r_access :: nat
  r_opt :: reg_opt
  r_value :: jsstr

definition no_opt :: reg_opt where
  "no_opt = \<lparr>o_enum = None, o_mask = None, o_bcd = None, o_scale = None, o_desc = []\<rparr>"

subsection \<open>The page and what is outside it\<close>

text \<open>What the user sees next to the button of a register: a selection, boxes with their values, or a field.\<close>

datatype control = Select jsstr | Checks "(bool \<times> nat) list" | Field jsstr

datatype drive_cb = ExchangeTimer | GaugeTimer

record drive = "drive_cb browser" +
  d_ws :: "nat option"
  d_regs :: "reg list"
  d_inputs :: "nat \<Rightarrow> control option"
  d_sid :: nat
  d_silent :: "nat list"
  d_alerts :: "jsstr list"

text \<open>
  The host of the page; and, beyond small integers: the text of a quotient, its \<open>toFixed\<close>, the sum of a number and an index as a key of the
  map of registers, the double of a decimal text, and \<open>toLowerCase\<close> outside ASCII.
\<close>

record drive_env = engine +
  d_host :: jsstr
  quotient :: "jsstr \<Rightarrow> nat \<Rightarrow> jsstr"
  quotient_fixed :: "nat \<Rightarrow> jsstr \<Rightarrow> nat \<Rightarrow> jsstr"
  plus_index :: "jsstr \<Rightarrow> nat \<Rightarrow> int option"
  big_decimal :: "jsstr \<Rightarrow> nat \<times> nat"
  lower_text :: "jsstr \<Rightarrow> jsstr"

text \<open>Registr ne naiden, Nevernyi format BCD, Nekorrektnoe znachenie, Soedinenie ne ustanovleno.\<close>

definition ru_no_register :: jsstr where
  "ru_no_register = [1056, 1077, 1075, 1080, 1089, 1090, 1088, 32, 1085, 1077, 32, 1085, 1072, 1081, 1076, 1077, 1085]"

definition ru_bad_bcd :: jsstr where
  "ru_bad_bcd = [1053, 1077, 1074, 1077, 1088, 1085, 1099, 1081, 32, 1092, 1086, 1088, 1084, 1072, 1090, 32, 66, 67, 68]"

definition ru_bad_value :: jsstr where
  "ru_bad_value = [1053, 1077, 1082, 1086, 1088, 1088, 1077, 1082, 1090, 1085, 1086, 1077, 32, 1079, 1085, 1072, 1095, 1077,
     1085, 1080, 1077]"

definition ru_not_established :: jsstr where
  "ru_not_established = [1057, 1086, 1077, 1076, 1080, 1085, 1077, 1085, 1080, 1077, 32, 1085, 1077, 32, 1091, 1089, 1090, 1072, 1085,
     1086, 1074, 1083, 1077, 1085, 1086]"

subsection \<open>The meaning of a value\<close>

fun join_texts :: "jsstr \<Rightarrow> jsstr list \<Rightarrow> jsstr" where
  "join_texts sep [] = []"
| "join_texts sep [s] = s"
| "join_texts sep (s # t # r) = s @ sep @ join_texts sep (t # r)"

text \<open>The 32 bits that the operators \<open>&\<close>, \<open>|\<close>, \<open><<\<close> and \<open>>>\<close> take of a number.\<close>

definition int32 :: "'z engine_scheme \<Rightarrow> jsstr \<Rightarrow> 32 word" where
  "int32 E t = word_of_int (int_part E t)"

text \<open>The loop from the last part to the first one.\<close>

fun bcd_parts :: "nat list \<Rightarrow> 32 word \<Rightarrow> jsstr list \<Rightarrow> jsstr list" where
  "bcd_parts [] rem parts = parts"
| "bcd_parts (n # ns) rem parts =
     (let bits = n * 4 mod 32; mask = push_bit bits 1 - 1
      in bcd_parts ns (signed_drop_bit bits rem) (pad_start n 48 (hex_digits (unat (rem AND mask))) # parts))"

definition scale_digits :: "nat \<Rightarrow> nat" where
  "scale_digits n = (if 100 \<le> n then 2 else if 10 \<le> n then 1 else 0)"

text \<open>\<open>(v / n).toFixed(d)\<close>.\<close>

definition fixed_quotient_text :: "'z drive_env_scheme \<Rightarrow> nat \<Rightarrow> jsstr \<Rightarrow> nat \<Rightarrow> jsstr" where
  "fixed_quotient_text E d t n =
     (if safe_int t then to_fixed E d (read_int t < 0) (js_div (nat \<bar>read_int t\<bar>) n)
      else if t = lit ''NaN'' then t else quotient_fixed E d t n)"

definition getRegDescription :: "'z drive_env_scheme \<Rightarrow> reg \<Rightarrow> jsstr" where
  "getRegDescription E reg = (let opt = r_opt reg; v = r_value reg in
     case o_enum opt of
       Some es \<Rightarrow> (case find (\<lambda>e. show_nat (fst e) = v) es of Some e \<Rightarrow> snd e | None \<Rightarrow> [])
     | None \<Rightarrow> (case o_mask opt of
         Some ms \<Rightarrow> (let s = join_texts (lit '', '')
             (filter (\<lambda>d. d \<noteq> []) (map snd (filter (\<lambda>m. int32 E v AND word_of_nat (fst m) \<noteq> 0) ms)))
           in if s = [] then lit ''None'' else s)
       | None \<Rightarrow> (case o_bcd opt of
           Some ns \<Rightarrow> join_texts (lit ''.'') (bcd_parts (rev ns) (int32 E v) [])
         | None \<Rightarrow> (case o_scale opt of
             Some n \<Rightarrow> fixed_quotient_text E (scale_digits n) v n @ (if o_desc opt = [] then [] else 32 # o_desc opt)
           | None \<Rightarrow> []))))"

subsection \<open>The table\<close>

definition rv_id :: "nat \<Rightarrow> string" where
  "rv_id adr = ''rv_'' @ map char_of (show_nat adr)"

definition rd_id :: "nat \<Rightarrow> string" where
  "rd_id adr = ''rd_'' @ map char_of (show_nat adr)"

definition show_reg :: "'z drive_env_scheme \<Rightarrow> reg \<Rightarrow> drive stmt" where
  "show_reg E reg = block
     [set_dom (rv_id (r_adr reg)) ''textContent'' (r_value reg),
      set_dom (rd_id (r_adr reg)) ''textContent'' (getRegDescription E reg)]"

definition updateRegistersTable :: "'z drive_env_scheme \<Rightarrow> drive stmt" where
  "updateRegistersTable E w = block (map (show_reg E) (d_regs w)) w"

text \<open>The text of \<open>v / n\<close>.\<close>

definition quotient_text :: "'z drive_env_scheme \<Rightarrow> jsstr \<Rightarrow> nat \<Rightarrow> jsstr" where
  "quotient_text E t n = (if safe_int t \<and> read_int t mod int n = 0 then show_int (read_int t div int n) else quotient E t n)"

text \<open>What the table puts next to the button: a selection shows an option it has, or none.\<close>

definition first_control :: "'z drive_env_scheme \<Rightarrow> reg \<Rightarrow> control option" where
  "first_control E reg = (let opt = r_opt reg; v = r_value reg in
     if r_access reg < 2 then None
     else Some (case o_enum opt of
       Some es \<Rightarrow> Select (if list_ex (\<lambda>e. show_nat (fst e) = v) es then v else [])
     | None \<Rightarrow> (case o_mask opt of
         Some ms \<Rightarrow> Checks (map (\<lambda>m. (int32 E v AND word_of_nat (fst m) \<noteq> 0, fst m)) ms)
       | None \<Rightarrow> (case o_bcd opt of
           Some ns \<Rightarrow> Field []
         | None \<Rightarrow> Field (case o_scale opt of Some n \<Rightarrow> quotient_text E v n | None \<Rightarrow> v)))))"

definition control_at :: "'z drive_env_scheme \<Rightarrow> reg list \<Rightarrow> nat \<Rightarrow> control option" where
  "control_at E regs adr = Option.bind (find (\<lambda>r. r_adr r = adr) regs) (first_control E)"

definition createRegistersTable :: "'z drive_env_scheme \<Rightarrow> drive stmt" where
  "createRegistersTable E w = block
     [(\<lambda>w. block (map (show_reg E) (d_regs w)) w),
      assign (\<lambda>w. w\<lparr>d_inputs := control_at E (d_regs w)\<rparr>)] w"

subsection \<open>Writing\<close>

definition getMbFid :: "('cb, 'z) browser_scheme \<Rightarrow> int option" where
  "getMbFid w = parse_int 0 (field ''uart-sel'' w)"

definition drive_addr :: "('cb, 'z) browser_scheme \<Rightarrow> int option" where
  "drive_addr w = or_default (parse_int 0 (field ''mb-addr'' w)) 1"

definition js_lower :: "'z drive_env_scheme \<Rightarrow> jsstr \<Rightarrow> jsstr" where
  "js_lower E s = (if list_all (\<lambda>c. c < 128) s then map (\<lambda>c. if 65 \<le> c \<and> c \<le> 90 then c + 32 else c) s else lower_text E s)"

fun split_on :: "nat \<Rightarrow> jsstr \<Rightarrow> jsstr list" where
  "split_on c [] = [[]]"
| "split_on c (d # s) = (if d = c then [] # split_on c s
     else (case split_on c s of p # ps \<Rightarrow> (d # p) # ps | [] \<Rightarrow> [[d]]))"

text \<open>\<open>(val << (n * 4)) | parseInt(part.padStart(n, '0'), 16)\<close>, over the parts; NaN counts as 0.\<close>

fun bcd_value :: "nat list \<Rightarrow> jsstr list \<Rightarrow> 32 word \<Rightarrow> 32 word" where
  "bcd_value (n # ns) (p # ps) val = bcd_value ns ps (push_bit (n * 4 mod 32) val OR
     (case parse_int 16 (pad_start n 48 p) of Some z \<Rightarrow> word_of_int z | None \<Rightarrow> 0))"
| "bcd_value _ _ val = val"

text \<open>\<open>parseFloat\<close> of what a field of numbers holds: a decimal number or nothing. The sign, and a double as \<open>m / 2 ^ k\<close>.\<close>

definition parse_float :: "'z drive_env_scheme \<Rightarrow> jsstr \<Rightarrow> (bool \<times> nat \<times> nat) option" where
  "parse_float E s =
     (let t = dropWhile js_space s;
          neg = (t \<noteq> [] \<and> hd t = 45);
          u = (if t \<noteq> [] \<and> hd t \<in> {43, 45} then tl t else t);
          whole = takeWhile digit u;
          r = dropWhile digit u;
          frac = (case r of c # q \<Rightarrow> if c = 46 then takeWhile digit q else [] | [] \<Rightarrow> []);
          rest = (case r of c # q \<Rightarrow> if c = 46 then dropWhile digit q else r | [] \<Rightarrow> [])
      in if whole = [] \<and> frac = [] then None
         else Some (neg, if read_nat (whole @ frac) < 2 ^ 53 \<and> length frac \<le> 300 \<and> (rest = [] \<or> hd rest \<notin> {69, 101})
                         then js_div (read_nat (whole @ frac)) (10 ^ length frac) else big_decimal E u))"

text \<open>\<open>Math.round\<close>, and the product with a scale as a double.\<close>

definition math_round :: "bool \<times> nat \<times> nat \<Rightarrow> int" where
  "math_round x = (case x of (neg, m, k) \<Rightarrow> (2 * (if neg then - int m else int m) + 2 ^ k) div 2 ^ (k + 1))"

definition js_times :: "bool \<times> nat \<times> nat \<Rightarrow> nat \<Rightarrow> bool \<times> nat \<times> nat" where
  "js_times x n = (case x of (neg, m, k) \<Rightarrow> (neg, round53 (m * n), k))"

text \<open>The value to write, or what the page complains of.\<close>

definition control_value :: "'z drive_env_scheme \<Rightarrow> reg \<Rightarrow> control \<Rightarrow> jsstr + int option" where
  "control_value E reg inp = (case inp of
       Select s \<Rightarrow> Inr (parse_int 0 s)
     | Checks cs \<Rightarrow> Inr (Some (sint (foldl (\<lambda>a c. a OR (if fst c then word_of_nat (snd c) else 0)) (0 :: 32 word) cs)))
     | Field s \<Rightarrow> (case o_bcd (r_opt reg) of
         Some ns \<Rightarrow> (let parts = split_on 46 (js_lower E s) in
           if length parts \<noteq> length ns then Inl ru_bad_bcd else Inr (Some (sint (bcd_value ns parts 0))))
       | None \<Rightarrow> (case parse_float E s of
           None \<Rightarrow> Inl ru_bad_value
         | Some x \<Rightarrow> Inr (Some (math_round (case o_scale (r_opt reg) of Some n \<Rightarrow> js_times x n | None \<Rightarrow> x))))))"

text \<open>The frames are template literals.\<close>

definition write_text :: "'z drive_env_scheme \<Rightarrow> int option \<Rightarrow> nat \<Rightarrow> int option \<Rightarrow> nat \<Rightarrow> int option \<Rightarrow> jsstr" where
  "write_text E fid sid adr ra v =
     lit ''{\"FID\":'' @ num_tmpl (num_str E) fid @ lit '',\"FLAGS\":0,\"SID\":'' @ show_nat sid @
     lit '',\"ARG\":{\"FN\":6,\"ADR\":'' @ num_tmpl (num_str E) adr @ lit '',\"RA\":'' @ show_nat ra @
     lit '',\"RVC\":'' @ num_tmpl (num_str E) v @ lit ''}}''"

definition subscribe_text :: "'z drive_env_scheme \<Rightarrow> int option \<Rightarrow> nat \<Rightarrow> int option \<Rightarrow> nat \<Rightarrow> nat \<Rightarrow> jsstr" where
  "subscribe_text E fid sid adr s n =
     lit ''{\"FID\":'' @ num_tmpl (num_str E) fid @ lit '',\"FLAGS\":4,\"SID\":'' @ show_nat sid @
     lit '',\"ARG\":{\"AWT\":500,\"RDL\":250,\"FN\":3,\"ADR\":'' @ num_tmpl (num_str E) adr @ lit '',\"RA\":'' @ show_nat s @
     lit '',\"RVC\":'' @ show_nat n @ lit ''}}''"

definition drive_open :: "drive \<Rightarrow> bool" where
  "drive_open w \<longleftrightarrow> (case d_ws w of None \<Rightarrow> False | Some i \<Rightarrow> ready_at (socks w) i = OPEN)"

definition drive_send :: "jsstr \<Rightarrow> drive stmt" where
  "drive_send txt w = (case d_ws w of None \<Rightarrow> (Some TypeError, w) | Some i \<Rightarrow> sock_send i txt w)"

definition drive_alert :: "jsstr \<Rightarrow> drive stmt" where
  "drive_alert txt = assign (\<lambda>w. w\<lparr>d_alerts := d_alerts w @ [txt]\<rparr>)"

definition next_sid :: "drive stmt" where
  "next_sid = assign (\<lambda>w. w\<lparr>d_sid := Suc (d_sid w)\<rparr>)"

definition find_reg :: "int \<Rightarrow> reg list \<Rightarrow> reg option" where
  "find_reg k regs = find (\<lambda>r. int (r_adr r) = k) regs"

definition writeRegister :: "'z drive_env_scheme \<Rightarrow> nat \<Rightarrow> control \<Rightarrow> drive stmt" where
  "writeRegister E adr inp w = (case find_reg (int adr) (d_regs w) of
       None \<Rightarrow> drive_alert ru_no_register w
     | Some reg \<Rightarrow> (case control_value E reg inp of
         Inl msg \<Rightarrow> drive_alert msg w
       | Inr v \<Rightarrow> (let req = write_text E (getMbFid w) (sid_of (d_sid w)) (drive_addr w) adr v in
           block [next_sid,
             ifelse drive_open [drive_send req] [drive_alert ru_not_established]] w)))"

subsection \<open>Subscriptions\<close>

text \<open>Runs of addresses, at most a hundred long. The tables are not empty.\<close>

fun range_loop :: "nat \<Rightarrow> nat \<Rightarrow> nat list \<Rightarrow> (nat \<times> nat) list" where
  "range_loop s e [] = [(s, e - s + 1)]"
| "range_loop s e (a # as) = (if a = e + 1 \<and> e - s < 99 then range_loop s a as else (s, e - s + 1) # range_loop a a as)"

definition sub_ranges :: "nat list \<Rightarrow> (nat \<times> nat) list" where
  "sub_ranges adrs = (case sort adrs of [] \<Rightarrow> [] | a # as \<Rightarrow> range_loop a a as)"

definition subscribe_range :: "'z drive_env_scheme \<Rightarrow> int option \<Rightarrow> int option \<Rightarrow> nat \<times> nat \<Rightarrow> drive stmt" where
  "subscribe_range E fid adr r w = (let req = subscribe_text E fid (sid_of (d_sid w)) adr (fst r) (snd r) in
     block [next_sid, ifthen drive_open [drive_send req]] w)"

definition subscribeRegs :: "'z drive_env_scheme \<Rightarrow> drive stmt" where
  "subscribeRegs E w = block (map (subscribe_range E (getMbFid w) (drive_addr w)) (sub_ranges (map r_adr (d_regs w)))) w"

definition drive_config_arg :: "('cb, 'z) browser_scheme \<Rightarrow> json" where
  "drive_config_arg w = JObj [(lit ''BR'', js_num (parse_int 0 (field ''uart-baud'' w))),
     (lit ''PAR'', js_num (parse_int 0 (field ''uart-par'' w))), (lit ''SB'', js_num (parse_int 0 (field ''uart-sb'' w)))]"

definition getCnfFid :: "('cb, 'z) browser_scheme \<Rightarrow> nat" where
  "getCnfFid w = (if getMbFid w = Some 0x1113 then 0x1010 else 0x1020)"

definition drive_sendUartConfig :: "'z drive_env_scheme \<Rightarrow> drive stmt" where
  "drive_sendUartConfig E = ifthen drive_open
     [(\<lambda>w. let req = stringify (num_str E) (JObj [(lit ''FID'', JNat (getCnfFid w)), (lit ''FLAGS'', JNat 0),
          (lit ''SID'', JNat (sid_of (d_sid w))), (lit ''ARG'', drive_config_arg w)])
        in block [next_sid, drive_send req] w)]"

end
