(* ===== verification/Drive_Run.thy ===== *)
theory Drive_Run
  imports Drive_Page
begin

section \<open>The pages of the frequency converters: answers and events\<close>

text \<open>
  The second half of the scripts of src/main/flash_data/innovert.html and innovert_isd.html: the connection, what a message does to the
  registers, the numbers of the gauges, and the event loop, with one event per button, field, socket callback and timer.
\<close>

subsection \<open>Answers\<close>

definition set_reg :: "int option \<Rightarrow> jsstr \<Rightarrow> reg list \<Rightarrow> reg list" where
  "set_reg k v regs = (case k of
       None \<Rightarrow> regs
     | Some z \<Rightarrow> map (\<lambda>r. if int (r_adr r) = z then r\<lparr>r_value := v\<rparr> else r) regs)"

text \<open>\<open>start + i\<close> as a key of the map; of a text or an object it is a text, which is no key.\<close>

definition reg_key :: "'z drive_env_scheme \<Rightarrow> json \<Rightarrow> nat \<Rightarrow> jsexn + int option" where
  "reg_key E start i = (case start of
       JNum l \<Rightarrow> (let t = num_text (num_str E) l in Inr (if safe_int t then Some (read_int t + int i) else plus_index E t i))
     | JBool b \<Rightarrow> Inr (Some ((if b then 1 else 0) + int i))
     | _ \<Rightarrow> (case to_js_string (num_str E) start of Inl e \<Rightarrow> Inl e | Inr s \<Rightarrow> Inr None))"

fun parse_all :: "'z engine_scheme \<Rightarrow> json list \<Rightarrow> jsexn + int option list" where
  "parse_all E [] = Inr []"
| "parse_all E (v # vs) = (case parse_value E 0 (Some v) of
       Inl e \<Rightarrow> Inl e
     | Inr z \<Rightarrow> (case parse_all E vs of Inl e \<Rightarrow> Inl e | Inr zs \<Rightarrow> Inr (z # zs)))"

text \<open>\<open>arg.RD.map(...)\<close>: only arrays have it.\<close>

definition answer_values :: "'z engine_scheme \<Rightarrow> json \<Rightarrow> jsexn + int option list" where
  "answer_values E rd = (case rd of JArr vs \<Rightarrow> parse_all E vs | _ \<Rightarrow> Inl TypeError)"

definition update_regs :: "'z drive_env_scheme \<Rightarrow> json \<Rightarrow> json \<Rightarrow> int option list \<Rightarrow> drive stmt" where
  "update_regs E start cnt values = with_val (\<lambda>_. num_of E cnt) (\<lambda>c.
     map (\<lambda>i. with_val (\<lambda>_. reg_key E start i) (\<lambda>k.
         [assign (\<lambda>w. w\<lparr>d_regs := set_reg k (num_tmpl (num_str E) (values ! i)) (d_regs w)\<rparr>)]))
       [0..<min (count_below E c) (length values)])"

definition is_null :: "json option \<Rightarrow> bool" where
  "is_null v \<longleftrightarrow> v = None \<or> v = Some JNull"

definition modbusHandler :: "'z drive_env_scheme \<Rightarrow> json option \<Rightarrow> drive stmt" where
  "modbusHandler E arg = (case arg of
       None \<Rightarrow> block []
     | Some a \<Rightarrow> ifthen (\<lambda>_. a \<noteq> JNull)
        [with_val (\<lambda>_. get_prop ''RA'' a) (\<lambda>ra. [with_val (\<lambda>_. get_prop ''RC'' a) (\<lambda>rc. [with_val (\<lambda>_. get_prop ''RD'' a) (\<lambda>rd.
          [ifthen (\<lambda>_. \<not> is_null ra \<and> truthy (num_str E) rc \<and> truthy (num_str E) rd)
            [with_val (\<lambda>_. answer_values E (the rd)) (\<lambda>values.
               [update_regs E (the ra) (the rc) values,
                updateRegistersTable E])]])])])])"

definition wsMessage :: "'z drive_env_scheme \<Rightarrow> ws_data \<Rightarrow> drive stmt" where
  "wsMessage E data = (case json_parse (data_text data) of
       None \<Rightarrow> throw SyntaxError
     | Some obj \<Rightarrow> with_val (\<lambda>_. case get_prop ''FID'' obj of Inl e \<Rightarrow> Inl e | Inr v \<Rightarrow> parse_value E 16 v) (\<lambda>fid.
        [ifthen (\<lambda>w. fid \<noteq> Some 0x1010 \<and> fid \<noteq> Some 0x1020 \<and> fid = getMbFid w \<and> fid \<noteq> None)
          [with_val (\<lambda>_. get_prop ''ARG'' obj) (\<lambda>arg. [modbusHandler E arg])]]))"

subsection \<open>Connection\<close>

definition runExchange :: "'z drive_env_scheme \<Rightarrow> drive stmt" where
  "runExchange E w =
     (let url = lit ''ws://'' @ d_host E @ lit '':81/ws''
      in if url_ok E url
         then (None, w\<lparr>socks := socks w @ [\<lparr>s_url = url, s_ready = CONNECTING, s_sent = []\<rparr>], d_ws := Some (length (socks w))\<rparr>)
         else (Some SyntaxError, w))"

definition exchange_open :: "'z drive_env_scheme \<Rightarrow> drive stmt" where
  "exchange_open E = block
     [setStatus True,
      drive_sendUartConfig E,
      subscribeRegs E]"

definition exchange_close :: "drive stmt" where
  "exchange_close = block
     [setStatus False,
      assign (set_timeout ExchangeTimer 500)]"

definition reconnectWs :: "'z drive_env_scheme \<Rightarrow> drive stmt" where
  "reconnectWs E = block
     [(\<lambda>w. case d_ws w of
         None \<Rightarrow> (None, w)
       | Some i \<Rightarrow> block [assign (\<lambda>w. w\<lparr>d_silent := i # d_silent w\<rparr>), sock_close i] w),
      setStatus False,
      runExchange E]"

subsection \<open>Gauges\<close>

text \<open>The number a gauge shows: the value of a register over a scale, kept between 0 and the end of the gauge. The registers of
  the gauges start as 0 and take what \<open>parseInt\<close> gives, so that they are integers or NaN.\<close>

definition gauge_text :: "'z drive_env_scheme \<Rightarrow> nat \<Rightarrow> nat \<Rightarrow> reg option \<Rightarrow> jsstr" where
  "gauge_text E lim scale reg = (let t = (case reg of Some r \<Rightarrow> r_value r | None \<Rightarrow> lit ''0''); z = int_part E t in
     if t = lit ''NaN'' then t
     else to_fixed E 1 False (if z < 0 then (0, 0) else if int (lim * scale) < z then (lim, 0) else js_div (nat z) scale))"

text \<open>The register, the scale and the end of each gauge; the two pages differ in two ends.\<close>

definition refreshGauges :: "'z drive_env_scheme \<Rightarrow> nat \<Rightarrow> nat \<Rightarrow> drive stmt" where
  "refreshGauges E rpm_top i_top w =
     (let show = (\<lambda>el adr scale lim. set_dom el ''textContent'' (gauge_text E lim scale (find_reg adr (d_regs w)))) in block
       [show ''gauge_fb'' 2 10 60,
        show ''gauge_rpm'' 4 1 rpm_top,
        show ''gauge_i'' 3 10 i_top,
        show ''gauge_v'' 5 10 800,
        assign (set_timeout GaugeTimer 150)] w)"

subsection \<open>The page and its events\<close>

text \<open>The fields of the page before anything happens; the two pages differ in the speed they propose.\<close>

definition drive_doc :: "jsstr \<Rightarrow> string \<times> string \<Rightarrow> jsstr" where
  "drive_doc baud p = (case map_of [((''uart-sel'', ''value''), lit ''4387''), ((''mb-addr'', ''value''), lit ''1''),
        ((''ws-status'', ''className''), lit ''badge err''), ((''ws-status'', ''textContent''), ru_no_connection),
        ((''uart-baud'', ''value''), baud), ((''uart-par'', ''value''), lit ''0''), ((''uart-sb'', ''value''), lit ''1''),
        ((''gauge_fb'', ''textContent''), dash), ((''gauge_rpm'', ''textContent''), dash), ((''gauge_i'', ''textContent''), dash),
        ((''gauge_v'', ''textContent''), dash)] p of
      Some s \<Rightarrow> s
    | None \<Rightarrow> [])"

definition blank_drive :: "jsstr \<Rightarrow> reg list \<Rightarrow> drive" where
  "blank_drive baud regs = \<lparr>socks = [], timers = [], next_timer = 1, doc = drive_doc baud, listeners = [], console = [], uncaught = [],
     d_ws = None, d_regs = regs, d_inputs = (\<lambda>_. None), d_sid = 1, d_silent = [], d_alerts = []\<rparr>"

text \<open>The constructor, and the end of the script.\<close>

definition drive_load :: "'z drive_env_scheme \<Rightarrow> jsstr \<Rightarrow> reg list \<Rightarrow> drive" where
  "drive_load E baud regs = report (block
     [runExchange E,
      createRegistersTable E,
      assign (set_timeout GaugeTimer 0)]) (blank_drive baud regs)"

datatype drive_event =
    DriveField string jsstr
  | DriveInput nat control
  | DriveWrite nat
  | DriveReconnect
  | DriveUartConfig
  | DriveOpen nat
  | DriveMessage nat ws_data
  | DriveClosed nat
  | DriveExchange nat
  | DriveGauges nat

text \<open>What a field of numbers can hold, and what the controls of a register can be changed to.\<close>

definition exponent_part :: "jsstr \<Rightarrow> bool" where
  "exponent_part s = (case s of
       [] \<Rightarrow> True
     | c # q \<Rightarrow> c \<in> {69, 101} \<and> (let d = (if q \<noteq> [] \<and> hd q \<in> {43, 45} then tl q else q) in d \<noteq> [] \<and> list_all digit d))"

definition number_field :: "jsstr \<Rightarrow> bool" where
  "number_field s \<longleftrightarrow> s = [] \<or>
     (let u = (if hd s = 45 then tl s else s); r = dropWhile digit u
      in if r \<noteq> [] \<and> hd r = 46 then takeWhile digit (tl r) \<noteq> [] \<and> exponent_part (dropWhile digit (tl r))
         else takeWhile digit u \<noteq> [] \<and> exponent_part r)"

fun same_kind :: "reg_opt \<Rightarrow> control \<Rightarrow> control \<Rightarrow> bool" where
  "same_kind opt (Select s) (Select t) \<longleftrightarrow> t \<in> show_nat ` fst ` set (the (o_enum opt))"
| "same_kind opt (Checks cs) (Checks ds) \<longleftrightarrow> map snd ds = map snd cs"
| "same_kind opt (Field s) (Field t) \<longleftrightarrow> o_bcd opt \<noteq> None \<or> number_field t"
| "same_kind opt _ _ \<longleftrightarrow> False"

fun drive_enabled :: "drive \<Rightarrow> drive_event \<Rightarrow> bool" where
  "drive_enabled w (DriveInput adr c) \<longleftrightarrow> (case (d_inputs w adr, find_reg (int adr) (d_regs w)) of
       (Some c', Some reg) \<Rightarrow> same_kind (r_opt reg) c' c
     | _ \<Rightarrow> False)"
| "drive_enabled w (DriveWrite adr) \<longleftrightarrow> d_inputs w adr \<noteq> None"
| "drive_enabled w (DriveOpen i) \<longleftrightarrow> i < length (socks w) \<and> ready_at (socks w) i = CONNECTING"
| "drive_enabled w (DriveMessage i data) \<longleftrightarrow> i < length (socks w) \<and> ready_at (socks w) i = OPEN"
| "drive_enabled w (DriveClosed i) \<longleftrightarrow> i < length (socks w) \<and> ready_at (socks w) i \<noteq> CLOSED"
| "drive_enabled w (DriveExchange t) \<longleftrightarrow> waits w ExchangeTimer t"
| "drive_enabled w (DriveGauges t) \<longleftrightarrow> waits w GaugeTimer t"
| "drive_enabled w _ \<longleftrightarrow> True"

text \<open>The ends of the gauges of speed and current come with the page.\<close>

fun drive_step :: "'z drive_env_scheme \<Rightarrow> nat \<times> nat \<Rightarrow> drive_event \<Rightarrow> drive \<Rightarrow> drive" where
  "drive_step E g (DriveField el s) w = w\<lparr>doc := (doc w)((el, ''value'') := s)\<rparr>"
| "drive_step E g (DriveInput adr c) w = w\<lparr>d_inputs := (d_inputs w)(adr := Some c)\<rparr>"
| "drive_step E g (DriveWrite adr) w = (case d_inputs w adr of None \<Rightarrow> w | Some c \<Rightarrow> report (writeRegister E adr c) w)"
| "drive_step E g DriveReconnect w = report (reconnectWs E) w"
| "drive_step E g DriveUartConfig w = report (drive_sendUartConfig E) w"
| "drive_step E g (DriveOpen i) w = report (exchange_open E) (ready_now i OPEN w)"
| "drive_step E g (DriveMessage i data) w = report (wsMessage E data) w"
| "drive_step E g (DriveClosed i) w =
     (if i \<in> set (d_silent w) then ready_now i CLOSED w else report exchange_close (ready_now i CLOSED w))"
| "drive_step E g (DriveExchange t) w = report (runExchange E) (expire t w)"
| "drive_step E g (DriveGauges t) w = report (refreshGauges E (fst g) (snd g)) (expire t w)"

end
