(* ===== verification/Drive_Tables.thy ===== *)
theory Drive_Tables
  imports Drive_Run
begin

section \<open>The registers of the converters\<close>

text \<open>
  The tables of the constructors of src/main/flash_data/innovert.html and innovert_isd.html: address, access, options and first value of each register, in
  the order of the source. The descriptions are a parameter: the text of a value of a register, and the unit of a register
  under the value 0.
\<close>

definition plain_reg :: "nat \<Rightarrow> nat \<Rightarrow> string \<Rightarrow> reg" where
  "plain_reg adr access v = \<lparr>r_adr = adr, r_access = access, r_opt = no_opt, r_value = lit v\<rparr>"

definition scaled_reg :: "nat \<Rightarrow> nat \<Rightarrow> nat \<Rightarrow> string \<Rightarrow> reg" where
  "scaled_reg adr access n v = \<lparr>r_adr = adr, r_access = access, r_opt = no_opt\<lparr>o_scale := Some n\<rparr>, r_value = lit v\<rparr>"

definition unit_reg :: "(nat \<Rightarrow> nat \<Rightarrow> jsstr) \<Rightarrow> nat \<Rightarrow> nat \<Rightarrow> nat \<Rightarrow> string \<Rightarrow> reg" where
  "unit_reg D adr access n v =
     \<lparr>r_adr = adr, r_access = access, r_opt = no_opt\<lparr>o_scale := Some n, o_desc := D adr 0\<rparr>, r_value = lit v\<rparr>"

definition enum_reg :: "(nat \<Rightarrow> nat \<Rightarrow> jsstr) \<Rightarrow> nat \<Rightarrow> nat \<Rightarrow> nat list \<Rightarrow> string \<Rightarrow> reg" where
  "enum_reg D adr access vals v =
     \<lparr>r_adr = adr, r_access = access, r_opt = no_opt\<lparr>o_enum := Some (map (\<lambda>x. (x, D adr x)) vals)\<rparr>, r_value = lit v\<rparr>"

definition mask_reg :: "(nat \<Rightarrow> nat \<Rightarrow> jsstr) \<Rightarrow> nat \<Rightarrow> nat \<Rightarrow> nat list \<Rightarrow> string \<Rightarrow> reg" where
  "mask_reg D adr access vals v =
     \<lparr>r_adr = adr, r_access = access, r_opt = no_opt\<lparr>o_mask := Some (map (\<lambda>x. (x, D adr x)) vals)\<rparr>, r_value = lit v\<rparr>"

definition bcd_reg :: "nat \<Rightarrow> nat \<Rightarrow> nat list \<Rightarrow> string \<Rightarrow> reg" where
  "bcd_reg adr access ns v = \<lparr>r_adr = adr, r_access = access, r_opt = no_opt\<lparr>o_bcd := Some ns\<rparr>, r_value = lit v\<rparr>"

definition idd_regs :: "(nat \<Rightarrow> nat \<Rightarrow> jsstr) \<Rightarrow> reg list" where
  "idd_regs D = [
    enum_reg D 0 2 [0, 1, 2, 3, 4, 5, 7, 8] ''0'', unit_reg D 1 0 10 ''0'', unit_reg D 2 0 10 ''0'', unit_reg D 3 0 10 ''0'', unit_reg D 4 0 1 ''0'',
    unit_reg D 5 0 10 ''0'', scaled_reg 7 0 100 ''0'', unit_reg D 8 0 1 ''0'', unit_reg D 9 0 1 ''0'',
    enum_reg D 10 0 [0, 2, 3, 4, 5, 6, 7, 8, 9, 10, 11, 14, 15, 16, 24, 27, 28, 29, 31] ''0'', plain_reg 11 0 ''0'', plain_reg 12 0 ''0'',
    plain_reg 13 0 ''0'', unit_reg D 14 0 10 ''0'', unit_reg D 15 0 10 ''0'', unit_reg D 16 0 10 ''0'', unit_reg D 17 0 10 ''0'',
    unit_reg D 18 0 10 ''0'', mask_reg D 21 0 [1, 2, 4, 8] ''0'', enum_reg D 22 0 [0, 1] ''0'', unit_reg D 23 0 100 ''0'',
    enum_reg D 27 0 [0, 2, 3, 4, 5, 6, 7, 8, 9, 10, 11, 14, 15, 16, 24, 27, 28, 29, 31] ''0'', enum_reg D 28 0 [0, 1, 2] ''0'',
    bcd_reg 50 0 [2, 2] ''0'', unit_reg D 100 2 10 ''0'', enum_reg D 101 2 [0, 1, 2, 3, 4, 5, 6, 7, 8] ''3'', enum_reg D 102 2 [0, 1, 2] ''0'',
    enum_reg D 103 2 [0, 1] ''1'', plain_reg 104 0 ''0'', unit_reg D 105 2 10 ''50'', unit_reg D 106 2 10 ''0'', unit_reg D 107 2 10 ''0'',
    unit_reg D 108 2 10 ''0'', unit_reg D 109 2 10 ''0'', unit_reg D 110 2 10 ''50'', unit_reg D 111 2 10 ''0'', unit_reg D 112 2 10 ''2.5'',
    unit_reg D 113 2 10 ''0'', unit_reg D 114 2 10 ''1.2'', unit_reg D 115 2 10 ''0'', enum_reg D 117 2 [8] ''0'', enum_reg D 118 2 [0, 1] ''0'',
    plain_reg 119 0 ''0'', enum_reg D 120 2 [0, 1, 2, 3, 4, 5, 6, 7, 8] ''0'',
    enum_reg D 121 2 [0, 1, 2, 3, 4, 11, 13, 14, 21, 23, 24, 31, 33, 34] ''0'', enum_reg D 122 2 [0, 1] ''0'', unit_reg D 123 2 1 ''100'',
    unit_reg D 124 2 10 ''0'', enum_reg D 125 2 [0, 1] ''1'', unit_reg D 126 2 10 ''50'', enum_reg D 127 2 [0, 1, 2] ''0'',
    enum_reg D 200 2 [0, 1] ''0'', enum_reg D 201 2 [0, 1] ''0'', unit_reg D 202 2 10 ''0.5'', unit_reg D 203 2 10 ''0.5'',
    unit_reg D 204 2 10 ''0'', unit_reg D 205 2 10 ''0'', unit_reg D 206 2 10 ''0'', unit_reg D 207 2 10 ''0'', unit_reg D 208 2 1 ''3'',
    unit_reg D 209 2 1 ''380'', unit_reg D 210 2 10 ''0'', unit_reg D 211 2 10 ''50'', unit_reg D 212 2 1 ''1460'', scaled_reg 213 2 1 ''4'',
    plain_reg 214 0 ''0'', unit_reg D 215 2 10 ''50'', unit_reg D 216 2 10 ''0'', unit_reg D 217 2 10 ''0'', unit_reg D 218 2 10 ''0'',
    unit_reg D 219 2 10 ''0'', unit_reg D 300 2 10 ''0'', unit_reg D 301 2 10 ''10'', unit_reg D 302 2 10 ''0.1'', unit_reg D 303 2 10 ''4'',
    unit_reg D 304 2 10 ''20'', unit_reg D 305 2 10 ''1'', unit_reg D 310 2 10 ''0'', unit_reg D 312 2 10 ''50'',
    enum_reg D 315 2 [0, 1, 2, 3, 4, 5, 6, 7, 8, 9, 10, 11, 12, 13, 14, 15, 16, 17, 18, 19, 20, 21, 22, 23, 24, 25, 26] ''0'',
    enum_reg D 316 2 [0, 1, 2, 3, 4, 5, 6, 7, 8, 9, 10, 11, 12, 13, 14, 15, 16, 17, 18, 19, 20, 21, 22, 23, 24, 25, 26] ''0'',
    enum_reg D 317 2 [0, 1, 2, 3, 4, 5, 6, 7, 8, 9, 10, 11, 12, 13, 14, 15, 16, 17, 18, 19, 20, 21, 22, 23, 24, 25, 26] ''0'',
    enum_reg D 318 2 [0, 1, 2, 3, 4, 5, 6, 7, 8, 9, 10, 11, 12, 13, 14, 15, 16, 17, 18, 19, 20, 21, 22, 23, 24, 25, 26] ''0'',
    enum_reg D 325 2 [0, 1, 2, 3, 4, 5, 6, 7, 8, 9, 10, 11, 12, 13, 14, 15, 16, 17, 18, 27, 28, 29, 30] ''1'', plain_reg 328 0 ''0'',
    enum_reg D 329 2 [0, 1, 2, 3] ''0'', unit_reg D 330 2 100 ''1'', enum_reg D 331 2 [0, 1] ''0'', unit_reg D 332 2 10 ''0'',
    unit_reg D 333 2 10 ''0'', unit_reg D 334 2 10 ''0'', mask_reg D 335 0 [1, 2, 4, 8] ''0'', unit_reg D 400 2 10 ''5'', unit_reg D 401 2 10 ''10'',
    unit_reg D 402 2 10 ''10'', unit_reg D 403 2 10 ''10'', unit_reg D 404 2 10 ''10'', unit_reg D 405 2 10 ''10'', unit_reg D 406 2 10 ''10'',
    unit_reg D 407 2 1 ''100'', unit_reg D 408 2 1 ''50'', unit_reg D 409 2 1 ''150'', unit_reg D 410 2 1 ''20'', enum_reg D 411 2 [0, 1] ''1'',
    unit_reg D 412 2 1 ''10'', unit_reg D 413 2 1 ''50'', unit_reg D 414 2 10 ''0'', unit_reg D 415 2 1 ''100'', enum_reg D 416 2 [0, 1] ''0'',
    enum_reg D 417 2 [0, 1, 2] ''0'', unit_reg D 418 2 1 ''150'', unit_reg D 419 2 1 ''5'', unit_reg D 420 2 1 ''0'', unit_reg D 421 2 10 ''1'',
    plain_reg 422 0 ''0'', unit_reg D 423 2 1 ''150'', unit_reg D 424 2 10 ''60'', unit_reg D 425 2 10 ''0'', unit_reg D 426 2 10 ''0'',
    unit_reg D 427 2 10 ''10'', unit_reg D 428 2 10 ''20'', unit_reg D 429 2 10 ''0'', unit_reg D 430 2 10 ''5'', unit_reg D 431 2 100 ''0'',
    unit_reg D 432 2 100 ''0'', unit_reg D 433 2 100 ''0'', enum_reg D 500 2 [0, 1] ''0'', enum_reg D 501 2 [0, 1] ''0'',
    enum_reg D 502 2 [0, 1, 2] ''0'', unit_reg D 503 2 10 ''20'', unit_reg D 504 2 10 ''10'', unit_reg D 505 2 10 ''20'', unit_reg D 506 2 10 ''25'',
    unit_reg D 507 2 10 ''30'', unit_reg D 508 2 10 ''35'', unit_reg D 509 2 10 ''40'', unit_reg D 510 2 10 ''45'', unit_reg D 511 2 10 ''50'',
    unit_reg D 512 2 10 ''10'', unit_reg D 513 2 10 ''10'', unit_reg D 514 2 10 ''10'', unit_reg D 515 2 10 ''10'', unit_reg D 516 2 10 ''10'',
    unit_reg D 517 2 10 ''10'', unit_reg D 518 2 1 ''3'', unit_reg D 519 2 1 ''4'', unit_reg D 520 2 1 ''5'', unit_reg D 521 2 1 ''0'',
    unit_reg D 522 2 1 ''0'', unit_reg D 523 2 1 ''0'', unit_reg D 524 2 1 ''0'', unit_reg D 525 2 1 ''0'', unit_reg D 526 2 1 ''0'',
    unit_reg D 527 2 1 ''0'', unit_reg D 528 2 1 ''0'', unit_reg D 529 2 1 ''0'', unit_reg D 530 2 1 ''0'', unit_reg D 531 2 1 ''0'',
    unit_reg D 532 2 1 ''0'', enum_reg D 537 2 [0, 1] ''0'', unit_reg D 539 2 1 ''0'', unit_reg D 540 2 1 ''0'', unit_reg D 541 2 1 ''0'',
    unit_reg D 542 2 1 ''0'', unit_reg D 543 2 1 ''0'', unit_reg D 544 2 1 ''0'', unit_reg D 545 2 1 ''0'', unit_reg D 546 2 1 ''0'',
    unit_reg D 547 2 1 ''0'', unit_reg D 548 2 1 ''0'', unit_reg D 549 2 1 ''0'', unit_reg D 550 2 1 ''0'', unit_reg D 551 2 1 ''0'',
    unit_reg D 552 2 1 ''0'', unit_reg D 553 2 1 ''0'', enum_reg D 600 2 [0, 1, 2] ''0'', enum_reg D 601 2 [0, 1] ''0'',
    enum_reg D 602 2 [0, 1, 2] ''0'', enum_reg D 603 2 [0] ''0'', scaled_reg 604 2 10 ''2.5'', scaled_reg 605 2 10 ''10'', scaled_reg 606 2 10 ''0'',
    unit_reg D 607 2 10 ''100'', unit_reg D 608 2 10 ''2'', unit_reg D 609 2 100 ''0'', unit_reg D 610 2 10 ''2'', unit_reg D 611 2 10 ''25'',
    unit_reg D 612 2 1 ''10'', unit_reg D 613 2 10 ''90'', scaled_reg 614 2 100 ''10'', unit_reg D 615 2 1 ''4'', unit_reg D 616 2 1 ''2'',
    unit_reg D 617 2 10 ''48'', unit_reg D 618 2 10 ''20'', unit_reg D 620 2 10 ''0.1'', enum_reg D 621 2 [0, 1, 2] ''0'',
    unit_reg D 622 2 10 ''0.5'', unit_reg D 623 2 10 ''1'', unit_reg D 624 2 100 ''0'', unit_reg D 625 2 100 ''0.1'', unit_reg D 626 2 100 ''0'',
    unit_reg D 627 2 100 ''0'', unit_reg D 628 2 100 ''0'', unit_reg D 630 2 10 ''100'', unit_reg D 631 2 10 ''2'', unit_reg D 632 2 100 ''0'',
    enum_reg D 633 2 [0, 1, 2] ''0'', unit_reg D 634 2 10 ''5'', unit_reg D 635 2 10 ''10'', unit_reg D 636 2 10 ''0'', unit_reg D 637 2 100 ''0'',
    enum_reg D 639 2 [0, 1] ''0'', enum_reg D 640 2 [0, 1] ''0'', scaled_reg 641 2 10 ''0.5'', unit_reg D 642 2 1 ''10'', unit_reg D 643 2 1 ''10'',
    unit_reg D 644 2 1 ''100'', enum_reg D 645 2 [0, 1] ''0'', unit_reg D 646 2 1 ''600'', unit_reg D 647 2 1 ''60'', enum_reg D 648 2 [0, 1] ''0'',
    unit_reg D 649 2 1 ''900'', unit_reg D 650 2 1 ''30'', unit_reg D 651 2 10 ''15'', unit_reg D 652 2 10 ''0.5'', unit_reg D 653 2 10 ''0.6'',
    unit_reg D 654 2 10 ''0.3'', unit_reg D 655 2 1 ''10'', unit_reg D 656 2 10 ''42'', unit_reg D 657 2 1 ''4'', enum_reg D 700 2 [0, 1] ''0'',
    enum_reg D 701 2 [0, 1, 2, 3, 4, 5] ''1'', unit_reg D 702 2 1 ''0'', enum_reg D 703 2 [0, 1, 2] ''0'', unit_reg D 704 2 10 ''5'',
    enum_reg D 800 2 [0, 1] ''1'', enum_reg D 801 2 [0, 1] ''0'', plain_reg 803 2 ''0'', plain_reg 804 2 ''0'', unit_reg D 806 2 10 ''2'',
    unit_reg D 807 2 1 ''0'', unit_reg D 808 2 1 ''0'', enum_reg D 812 2 [0, 1] ''0'', enum_reg D 816 2 [0, 1] ''1'']"

definition isd_regs :: "(nat \<Rightarrow> nat \<Rightarrow> jsstr) \<Rightarrow> reg list" where
  "isd_regs D = [
    enum_reg D 0 2 [0, 1, 2, 3, 4] ''0'', unit_reg D 1 0 10 ''0'', unit_reg D 2 0 10 ''0'', unit_reg D 3 0 10 ''0'', unit_reg D 4 0 1 ''0'',
    unit_reg D 5 0 10 ''0'', scaled_reg 7 0 100 ''0'', enum_reg D 10 0 [0, 2, 3, 4, 5, 6, 7, 8, 9, 10, 11, 14, 15, 16, 24, 27, 28, 31] ''0'',
    enum_reg D 11 0 [0, 2, 3, 4, 5, 6, 7, 8, 9, 10, 11, 14, 15, 16, 24, 27, 28, 31] ''0'',
    enum_reg D 12 0 [0, 2, 3, 4, 5, 6, 7, 8, 9, 10, 11, 14, 15, 16, 24, 27, 28, 31] ''0'', unit_reg D 14 0 10 ''0'', unit_reg D 15 0 10 ''0'',
    unit_reg D 16 0 10 ''0'', unit_reg D 17 0 1 ''0'', unit_reg D 18 0 10 ''0'',
    enum_reg D 27 0 [0, 2, 3, 4, 5, 6, 7, 8, 9, 10, 11, 14, 15, 16, 24, 27, 28, 31] ''0'', bcd_reg 50 0 [2, 2] ''0'', unit_reg D 100 2 10 ''0'',
    enum_reg D 101 2 [0, 1, 2, 3, 4, 5, 6, 7, 8] ''3'', enum_reg D 102 2 [0, 1, 2] ''0'', enum_reg D 103 2 [0, 1] ''1'',
    enum_reg D 104 2 [0, 1] ''0'', unit_reg D 105 2 10 ''50'', unit_reg D 106 2 10 ''0'', unit_reg D 107 2 10 ''0'', unit_reg D 108 2 10 ''0'',
    unit_reg D 109 2 10 ''380'', unit_reg D 110 2 10 ''50'', unit_reg D 111 2 10 ''0'', unit_reg D 112 2 10 ''2.5'', unit_reg D 113 2 10 ''0'',
    unit_reg D 114 2 10 ''1.2'', unit_reg D 115 2 1 ''4'', unit_reg D 116 2 1 ''3'', enum_reg D 117 2 [0, 8] ''0'', enum_reg D 118 2 [0, 1] ''0'',
    unit_reg D 119 2 10 ''0'', enum_reg D 120 2 [0, 1, 2, 3, 4, 5, 6, 7, 8] ''0'', enum_reg D 121 2 [0, 1, 2, 3, 4, 11, 21, 31] ''0'',
    enum_reg D 200 2 [0, 1] ''0'', enum_reg D 201 2 [0, 1] ''0'', unit_reg D 202 2 10 ''0.5'', unit_reg D 203 2 10 ''0.5'',
    unit_reg D 204 2 10 ''0'', unit_reg D 205 2 1 ''50'', unit_reg D 206 2 10 ''0'', unit_reg D 207 2 1 ''60'', unit_reg D 208 2 10 ''0'',
    unit_reg D 209 2 10 ''380'', unit_reg D 210 2 100 ''0'', unit_reg D 211 2 100 ''0'', unit_reg D 212 2 1 ''1460'', scaled_reg 213 2 1 ''4'',
    scaled_reg 214 2 1 ''4'', unit_reg D 215 2 10 ''0'', unit_reg D 300 2 100 ''0'', unit_reg D 301 2 100 ''10'', unit_reg D 302 2 100 ''0.1'',
    unit_reg D 303 2 10 ''4'', unit_reg D 304 2 10 ''20'', unit_reg D 305 2 100 ''2.5'', unit_reg D 306 2 100 ''0'', unit_reg D 307 2 100 ''10'',
    unit_reg D 308 2 100 ''0.1'', unit_reg D 310 2 10 ''0'', unit_reg D 311 2 10 ''50'', unit_reg D 312 2 10 ''0'', enum_reg D 313 2 [0, 1] ''0'',
    enum_reg D 314 2 [0, 1] ''0'', enum_reg D 315 2 [0, 1, 2, 5, 6, 8, 9, 10, 11, 12, 13, 14, 15, 16, 17, 18, 19, 20, 21, 22, 23, 24, 25, 26] ''5'',
    enum_reg D 316 2 [0, 1, 2, 5, 6, 8, 9, 10, 11, 12, 13, 14, 15, 16, 17, 18, 19, 20, 21, 22, 23, 24, 25, 26] ''7'',
    enum_reg D 317 2 [0, 1, 2, 5, 6, 8, 9, 10, 11, 12, 13, 14, 15, 16, 17, 18, 19, 20, 21, 22, 23, 24, 25, 26] ''18'',
    enum_reg D 318 2 [0, 1, 2, 5, 6, 8, 9, 10, 11, 12, 13, 14, 15, 16, 17, 18, 19, 20, 21, 22, 23, 24, 25, 26] ''9'',
    enum_reg D 325 2 [0, 1, 2, 3, 4, 5, 6, 7, 8, 9, 10, 11, 12, 13, 14, 15, 16, 17, 18, 27, 28, 29, 30] ''3'', enum_reg D 329 2 [0, 1, 2, 3] ''0'',
    unit_reg D 400 2 10 ''5'', unit_reg D 401 2 10 ''10'', unit_reg D 402 2 10 ''10'', unit_reg D 403 2 10 ''10'', unit_reg D 404 2 10 ''10'',
    unit_reg D 405 2 10 ''10'', unit_reg D 406 2 10 ''10'', scaled_reg 407 2 1 ''100'', scaled_reg 408 2 1 ''50'', unit_reg D 409 2 1 ''150'',
    unit_reg D 410 2 1 ''20'', enum_reg D 411 2 [0, 1] ''1'', unit_reg D 412 2 10 ''5'', unit_reg D 413 2 10 ''5'', unit_reg D 424 2 10 ''10'',
    unit_reg D 425 2 10 ''20'', enum_reg D 500 2 [0, 1] ''0'', enum_reg D 501 2 [0, 1] ''0'', enum_reg D 502 2 [0, 1, 2] ''0'',
    unit_reg D 503 2 10 ''5'', unit_reg D 504 2 10 ''20'', unit_reg D 505 2 10 ''10'', unit_reg D 506 2 10 ''20'', unit_reg D 507 2 10 ''25'',
    unit_reg D 508 2 10 ''30'', unit_reg D 509 2 10 ''35'', unit_reg D 510 2 10 ''40'', unit_reg D 511 2 10 ''45'', unit_reg D 512 2 10 ''50'',
    unit_reg D 513 2 10 ''10'', unit_reg D 514 2 10 ''10'', unit_reg D 515 2 10 ''10'', unit_reg D 516 2 10 ''10'', unit_reg D 517 2 10 ''10'',
    unit_reg D 518 2 1 ''3'', unit_reg D 519 2 1 ''4'', unit_reg D 520 2 1 ''5'', unit_reg D 521 2 1 ''0'', unit_reg D 522 2 1 ''0'',
    unit_reg D 523 2 1 ''0'', unit_reg D 524 2 1 ''0'', unit_reg D 525 2 1 ''0'', unit_reg D 526 2 1 ''0'', unit_reg D 527 2 1 ''0'',
    unit_reg D 528 2 1 ''0'', unit_reg D 529 2 1 ''0'', unit_reg D 530 2 1 ''0'', unit_reg D 531 2 1 ''0'', unit_reg D 532 2 1 ''0'',
    enum_reg D 600 2 [0, 1, 2] ''0'', enum_reg D 601 2 [0, 1] ''0'', enum_reg D 602 2 [0, 1, 2] ''0'', enum_reg D 603 2 [0, 1, 2] ''0'',
    scaled_reg 604 2 100 ''2.5'', scaled_reg 605 2 100 ''50'', scaled_reg 606 2 100 ''0'', unit_reg D 607 2 10 ''100'', unit_reg D 608 2 100 ''2'',
    unit_reg D 609 2 1000 ''0'', unit_reg D 610 2 100 ''2'', unit_reg D 611 2 10 ''25'', unit_reg D 612 2 1 ''10'', unit_reg D 613 2 10 ''90'',
    scaled_reg 614 2 100 ''10'', unit_reg D 617 2 10 ''48'', unit_reg D 618 2 10 ''20'', unit_reg D 620 2 10 ''0.1'',
    enum_reg D 621 2 [0, 1, 2] ''0'', unit_reg D 622 2 100 ''0.5'', enum_reg D 700 2 [0, 1, 2, 3, 4, 5] ''1'',
    enum_reg D 701 2 [0, 1, 2, 3, 4, 5] ''3'', unit_reg D 702 2 1 ''1'', enum_reg D 703 2 [0, 1, 2] ''0'']"

end
