(* ===== verification/Drive_Forms.thy ===== *)
theory Drive_Forms
  imports Drive_Tables
begin

section \<open>The pages of the frequency converters: what their parts do\<close>

text \<open>
  The runs of addresses the page subscribes to, the registers an answer changes and what the table shows then, and the numbers typed
  into a field.
\<close>

subsection \<open>Runs of addresses\<close>

abbreviation run_adrs :: "nat \<times> nat \<Rightarrow> nat list" where
  "run_adrs r \<equiv> [fst r..<fst r + snd r]"

lemma range_loop_cover: "s \<le> e \<Longrightarrow> concat (map run_adrs (range_loop s e as)) = [s..<Suc e] @ as"
  by (induction s e as rule: range_loop.induct) auto

lemma range_loop_sizes: "s \<le> e \<Longrightarrow> e - s \<le> 99 \<Longrightarrow> list_all (\<lambda>r. 1 \<le> snd r \<and> snd r \<le> 100) (range_loop s e as)"
  by (induction s e as rule: range_loop.induct) auto

text \<open>A run ends where the next address does not follow, or after a hundred.\<close>

definition run_ends :: "nat \<times> nat \<Rightarrow> nat \<times> nat \<Rightarrow> bool" where
  "run_ends r r' \<longleftrightarrow> snd r = 100 \<or> fst r' \<noteq> fst r + snd r"

lemma range_loop_head: "\<exists>n rs. range_loop s e as = (s, n) # rs"
  by (induction s e as rule: range_loop.induct) auto

lemma range_loop_ends: "s \<le> e \<Longrightarrow> e - s \<le> 99 \<Longrightarrow> successively run_ends (range_loop s e as)"
proof (induction s e as rule: range_loop.induct)
  case (2 s e a as)
  obtain n rs where "range_loop a a as = (a, n) # rs" using range_loop_head by blast
  with 2 show ?case by (auto simp: run_ends_def)
qed simp

lemma sub_ranges_facts:
  "concat (map run_adrs (sub_ranges adrs)) = sort adrs"
  "list_all (\<lambda>r. 1 \<le> snd r \<and> snd r \<le> 100) (sub_ranges adrs)"
  "successively run_ends (sub_ranges adrs)"
  by (simp_all add: sub_ranges_def range_loop_cover range_loop_ends del: One_nat_def split: list.split)
     (simp add: range_loop_sizes del: One_nat_def)

lemmas table_lines = plain_reg_def scaled_reg_def unit_reg_def enum_reg_def mask_reg_def bcd_reg_def

lemma line_adrs:
  "r_adr (plain_reg a x v) = a" "r_adr (scaled_reg a x n v) = a" "r_adr (unit_reg D a x n v) = a" "r_adr (enum_reg D a x vs v) = a"
  "r_adr (mask_reg D a x vs v) = a" "r_adr (bcd_reg a x ns v) = a"
  by (simp_all add: table_lines)

text \<open>An ascending list read in one pass.\<close>

fun ascends :: "nat \<Rightarrow> nat list \<Rightarrow> bool" where
  "ascends a [] \<longleftrightarrow> True"
| "ascends a (b # r) \<longleftrightarrow> a < b \<and> ascends b r"

lemma ascends_sorted: "ascends a as \<Longrightarrow> sorted (a # as) \<and> distinct (a # as)"
  by (induction a as rule: ascends.induct) auto

lemma ascending_runs: "ascends a as \<Longrightarrow> sub_ranges (a # as) = range_loop a a as"
proof -
  assume "ascends a as"
  then have "sort (a # as) = a # as" using ascends_sorted [of a as] by (intro sorted_sort_id) blast
  then show ?thesis by (simp only: sub_ranges_def list.case)
qed

lemma idd_adrs: "\<exists>as. map r_adr (idd_regs D) = 0 # as \<and> ascends 0 as \<and> length (range_loop 0 0 as) = 28"
  unfolding idd_regs_def list.map line_adrs
  by (intro exI conjI) (rule refl, simp, simp)

lemma isd_adrs: "\<exists>as. map r_adr (isd_regs D) = 0 # as \<and> ascends 0 as \<and> length (range_loop 0 0 as) = 19"
  unfolding isd_regs_def list.map line_adrs
  by (intro exI conjI) (rule refl, simp, simp)

lemma tables_runs: "length (sub_ranges (map r_adr (idd_regs D))) = 28" "length (sub_ranges (map r_adr (isd_regs D))) = 19"
  using idd_adrs [of D] isd_adrs [of D] ascending_runs by fastforce+

lemma idd_small: "list_all (\<lambda>r. r_adr r < 65536) (idd_regs D)"
proof -
  have "list_all (\<lambda>x. x < 65536) (map r_adr (idd_regs D))"
    unfolding idd_regs_def list.map line_adrs by simp
  then show ?thesis by (simp add: list_all_iff)
qed

lemma tables_distinct: "distinct (map r_adr (idd_regs D))" "distinct (map r_adr (isd_regs D))"
  using idd_adrs [of D] isd_adrs [of D] ascends_sorted by fastforce+

subsection \<open>The table shows the registers\<close>

definition reg_doc :: "'z drive_env_scheme \<Rightarrow> reg \<Rightarrow> (string \<times> string \<Rightarrow> jsstr) \<Rightarrow> string \<times> string \<Rightarrow> jsstr" where
  "reg_doc E r d = d((rv_id (r_adr r), ''textContent'') := r_value r, (rd_id (r_adr r), ''textContent'') := getRegDescription E r)"

definition page_shown :: "'z drive_env_scheme \<Rightarrow> drive \<Rightarrow> drive" where
  "page_shown E w = w\<lparr>doc := fold (reg_doc E) (d_regs w) (doc w)\<rparr>"

lemma show_regs_form: "block (map (show_reg E) rs) w = (None, w\<lparr>doc := fold (reg_doc E) rs (doc w)\<rparr>)"
proof -
  have "block (map (show_reg E) rs) w = (None, fold (\<lambda>r. doc_update (reg_doc E r)) rs w)"
    by (rule block_map) (simp add: show_reg_def set_dom_def assign_def reg_doc_def [abs_def] comp_def)
  then show ?thesis by (cases w) (simp add: fold_doc)
qed

lemma table_form: "updateRegistersTable E w = (None, page_shown E w)"
  by (simp add: updateRegistersTable_def show_regs_form page_shown_def)

lemma reg_ids [simp]: "rv_id a = rv_id b \<longleftrightarrow> a = b" "rd_id a = rd_id b \<longleftrightarrow> a = b" "rv_id a \<noteq> rd_id b" "rd_id a \<noteq> rv_id b"
proof -
  show "rv_id a = rv_id b \<longleftrightarrow> a = b" unfolding rv_id_def by (rule numbered_inj)
  show "rd_id a = rd_id b \<longleftrightarrow> a = b" unfolding rd_id_def by (rule numbered_inj)
  show "rv_id a \<noteq> rd_id b" "rd_id a \<noteq> rv_id b" by (simp_all add: rv_id_def rd_id_def)
qed

definition shows_reg :: "'z drive_env_scheme \<Rightarrow> (string \<times> string \<Rightarrow> jsstr) \<Rightarrow> reg \<Rightarrow> bool" where
  "shows_reg E d r \<longleftrightarrow> d (rv_id (r_adr r), ''textContent'') = r_value r \<and> d (rd_id (r_adr r), ''textContent'') = getRegDescription E r"

definition table_shows :: "'z drive_env_scheme \<Rightarrow> drive \<Rightarrow> bool" where
  "table_shows E w \<longleftrightarrow> (\<forall>r \<in> set (d_regs w). shows_reg E (doc w) r)"

lemma fold_shows:
  assumes "distinct (map r_adr rs)" and "r \<in> set rs"
  shows "shows_reg E (fold (reg_doc E) rs d) r"
  using assms
proof (induction rs rule: rev_induct)
  case (snoc x xs)
  show ?case
  proof (cases "r = x")
    case False
    then have "r \<in> set xs" "r_adr r \<noteq> r_adr x" using snoc.prems by (auto simp: rev_image_eqI)
    then show ?thesis using snoc by (simp add: shows_reg_def reg_doc_def)
  qed (simp add: shows_reg_def reg_doc_def)
qed simp

lemma fold_others: "\<forall>a. el \<noteq> rv_id a \<and> el \<noteq> rd_id a \<Longrightarrow> fold (reg_doc E) rs d (el, p) = d (el, p)"
  by (induction rs rule: rev_induct) (auto simp: reg_doc_def)

lemma shown_shows: "distinct (map r_adr (d_regs w)) \<Longrightarrow> table_shows E (page_shown E w)"
  by (simp add: table_shows_def page_shown_def fold_shows)

subsection \<open>The registers an answer changes\<close>

definition answered :: "nat \<Rightarrow> nat list \<Rightarrow> reg \<Rightarrow> reg" where
  "answered ra vs r = (if ra \<le> r_adr r \<and> r_adr r < ra + length vs then r\<lparr>r_value := show_nat (vs ! (r_adr r - ra))\<rparr> else r)"

lemma answered_adr [simp]: "r_adr (answered ra vs r) = r_adr r"
  by (simp add: answered_def)

lemma answered_snoc: "set_reg (Some (int (ra + length vs))) (show_nat v) (map (answered ra vs) rs) = map (answered ra (vs @ [v])) rs"
  by (auto simp: set_reg_def answered_def nth_append)

lemma answered_fold:
  "fold (\<lambda>i. set_reg (Some (int (ra + i))) (show_nat (vs ! i))) [0..<length vs] rs = map (answered ra vs) rs"
proof (induction vs rule: rev_induct)
  case Nil
  have "answered ra [] = (\<lambda>r. r)" by (rule ext) (auto simp: answered_def)
  then show ?case by simp
next
  case (snoc v vs)
  have "fold (\<lambda>i. set_reg (Some (int (ra + i))) (show_nat ((vs @ [v]) ! i))) [0..<length vs] rs
      = fold (\<lambda>i. set_reg (Some (int (ra + i))) (show_nat (vs ! i))) [0..<length vs] rs"
    by (rule fold_cong) (simp_all add: nth_append)
  then show ?case using answered_snoc [of ra vs v rs] by (simp add: snoc del: of_nat_add)
qed

lemma parse_all_nats: "list_all (\<lambda>v. v < 65536) vs \<Longrightarrow> parse_all E (map JNat vs) = Inr (map (\<lambda>v. Some (int v)) vs)"
  by (induction vs) (simp_all add: number_values(5))

lemma num_tmpl_nat: "n < 10 ^ 15 \<Longrightarrow> num_tmpl ns (Some (int n)) = show_nat n"
  by (simp add: num_tmpl_def safe_show_nat)

lemma fold_regs: "fold (\<lambda>i w. w\<lparr>d_regs := f i (d_regs w)\<rparr>) is w = w\<lparr>d_regs := fold f is (d_regs w)\<rparr>"
  by (induction "is" arbitrary: w) simp_all

lemma with_val_step: "g w = Inr a \<Longrightarrow> with_val g k w = block (k a) w"
  by (simp add: with_val_def)

lemma update_regs_form:
  assumes "ra < 65536" and "length vs \<le> n" and "n < 65536" and "list_all (\<lambda>v. v < 65536) vs"
  shows "update_regs E (JNat ra) (JNat n) (map (\<lambda>v. Some (int v)) vs) w = (None, w\<lparr>d_regs := map (answered ra vs) (d_regs w)\<rparr>)"
proof -
  have num: "num_of E (JNat n) = Inr (show_nat n)" "count_below E (show_nat n) = n"
    using assms(3) by (simp_all add: number_values)
  let ?F = "\<lambda>i. with_val (\<lambda>_. reg_key E (JNat ra) i) (\<lambda>k.
    [assign (\<lambda>w. w\<lparr>d_regs := set_reg k (num_tmpl (num_str E) (map (\<lambda>v. Some (int v)) vs ! i)) (d_regs w)\<rparr>)])"
  let ?g = "\<lambda>i. set_reg (Some (int (ra + i))) (show_nat (vs ! i))"
  have "block (map ?F [0..<length vs]) w = (None, fold (\<lambda>i w. w\<lparr>d_regs := ?g i (d_regs w)\<rparr>) [0..<length vs] w)"
  proof (rule block_map)
    fix i and w :: drive
    assume "i \<in> set [0..<length vs]"
    then have i: "i < length vs" "vs ! i < 65536" using assms(4) by (simp_all add: list_all_length)
    have key: "reg_key E (JNat ra) i = Inr (Some (int (ra + i)))"
      using assms(1) by (simp add: reg_key_def JNat_def safe_show_nat show_nat_safe read_int_nat)
    show "?F i w = (None, w\<lparr>d_regs := ?g i (d_regs w)\<rparr>)"
      using i by (simp add: stmt_defs key num_tmpl_nat)
  qed
  moreover have "fold (\<lambda>i w. w\<lparr>d_regs := ?g i (d_regs w)\<rparr>) [0..<length vs] w = w\<lparr>d_regs := map (answered ra vs) (d_regs w)\<rparr>"
    unfolding fold_regs [of ?g] answered_fold ..
  ultimately show ?thesis using assms(2) by (simp only: update_regs_def with_val_step [of "\<lambda>_. num_of E (JNat n)", OF num(1)] num(2) min_absorb2 length_map)
qed

lemma number_not_null: "\<not> is_null (Some (JNat n))"
  by (simp add: is_null_def JNat_def)

lemma modbusHandler_form:
  assumes "get_prop ''RA'' (JObj ms) = Inr (Some (JNat ra))" and "get_prop ''RC'' (JObj ms) = Inr (Some (JNat n))"
    and "get_prop ''RD'' (JObj ms) = Inr (Some (JArr (map JNat vs)))"
    and "ra < 65536" and "length vs \<le> n" and "n < 65536" and "list_all (\<lambda>v. v < 65536) vs"
  shows "modbusHandler E (Some (JObj ms)) w = (None, if n = 0 then w else page_shown E (w\<lparr>d_regs := map (answered ra vs) (d_regs w)\<rparr>))"
proof -
  have n: "n < 10 ^ 15" using assms(6) by simp
  show ?thesis
    by (simp add: modbusHandler_def stmt_defs assms(1-3) number_not_null truthy_nat [OF n] truthy_arr answer_values_def
        parse_all_nats [OF assms(7)] update_regs_form [OF assms(4-7)] table_form)
qed

subsection \<open>Sending\<close>

definition frames_sent :: "jsstr list \<Rightarrow> drive \<Rightarrow> drive" where
  "frames_sent fs w = (case d_ws w of None \<Rightarrow> w | Some i \<Rightarrow> w\<lparr>socks := upd_at i (s_sent_update (\<lambda>l. l @ fs)) (socks w)\<rparr>)"

lemma frames_fields [simp]:
  "doc (frames_sent fs w) = doc w" "d_ws (frames_sent fs w) = d_ws w" "d_sid (frames_sent fs w) = d_sid w" "d_regs (frames_sent fs w) = d_regs w"
  "timers (frames_sent fs w) = timers w" "d_silent (frames_sent fs w) = d_silent w" "d_alerts (frames_sent fs w) = d_alerts w"
  "uncaught (frames_sent fs w) = uncaught w" "d_inputs (frames_sent fs w) = d_inputs w" "next_timer (frames_sent fs w) = next_timer w"
  "ready_at (socks (frames_sent fs w)) j = ready_at (socks w) j" "length (socks (frames_sent fs w)) = length (socks w)"
  "drive_open (frames_sent fs w) = drive_open w" "drive_open (w\<lparr>d_sid := n\<rparr>) = drive_open w"
  by (auto simp: frames_sent_def drive_open_def split: option.split)

lemma drive_send_form: "drive_open w \<Longrightarrow> drive_send f w = (None, frames_sent [f] w)"
  by (auto simp: drive_open_def drive_send_def sock_send_def frames_sent_def split: option.splits)

lemma upd_twice: "upd_at i f (upd_at i g ss) = upd_at i (\<lambda>x. f (g x)) ss"
  by (simp add: upd_at_def)

lemma frames_append: "frames_sent fs (frames_sent gs w) = frames_sent (gs @ fs) w"
proof -
  have "s_sent_update (\<lambda>l. l @ fs) (s_sent_update (\<lambda>l. l @ gs) x) = s_sent_update (\<lambda>l. l @ gs @ fs) x" for x :: socket by simp
  then show ?thesis by (simp add: frames_sent_def upd_twice comp_def split: option.split)
qed

lemma frames_sid: "frames_sent fs (w\<lparr>d_sid := n\<rparr>) = (frames_sent fs w)\<lparr>d_sid := n\<rparr>"
  by (simp add: frames_sent_def split: option.split)

lemma frames_doc: "frames_sent fs (w\<lparr>doc := d\<rparr>) = (frames_sent fs w)\<lparr>doc := d\<rparr>"
  by (simp add: frames_sent_def split: option.split)

lemma frames_sent_at: "d_ws w = Some i \<Longrightarrow> i < length (socks w) \<Longrightarrow> sent_at (socks (frames_sent fs w)) i = sent_at (socks w) i @ fs"
  by (simp add: frames_sent_def sent_at_def upd_at_def)

text \<open>Subscriptions with the counter from \<open>n\<close> on.\<close>

fun sub_texts :: "'z drive_env_scheme \<Rightarrow> int option \<Rightarrow> int option \<Rightarrow> nat \<Rightarrow> (nat \<times> nat) list \<Rightarrow> jsstr list" where
  "sub_texts E fid adr n [] = []"
| "sub_texts E fid adr n (r # rs) = subscribe_text E fid (sid_of n) adr (fst r) (snd r) # sub_texts E fid adr (Suc n) rs"

lemma frames_none: "frames_sent [] w = w"
proof -
  have eq: "s_sent_update (\<lambda>l. l) x = x" for x :: socket by simp
  have "upd_at i (s_sent_update (\<lambda>l. l @ [])) ss = ss" for i ss
    unfolding upd_at_def append_Nil2 eq list_update_id by simp
  then show ?thesis by (simp add: frames_sent_def split: option.split)
qed

lemma subscribe_form:
  "drive_open w \<Longrightarrow> block (map (subscribe_range E fid adr) rs) w
    = (None, (frames_sent (sub_texts E fid adr (d_sid w) rs) w)\<lparr>d_sid := d_sid w + length rs\<rparr>)"
proof (induction rs arbitrary: w)
  case (Cons r rs)
  let ?w = "(frames_sent [subscribe_text E fid (sid_of (d_sid w)) adr (fst r) (snd r)] w)\<lparr>d_sid := Suc (d_sid w)\<rparr>"
  have "subscribe_range E fid adr r w = (None, ?w)"
    using Cons.prems by (simp add: subscribe_range_def next_sid_def stmt_defs drive_send_form frames_sid Let_def)
  moreover have "drive_open ?w" using Cons.prems by simp
  ultimately show ?case using Cons.IH [of ?w] by (simp add: frames_append frames_sid)
qed (simp add: frames_none)

lemma subscribe_closed: "\<not> drive_open w \<Longrightarrow> block (map (subscribe_range E fid adr) rs) w = (None, w\<lparr>d_sid := d_sid w + length rs\<rparr>)"
  by (induction rs arbitrary: w) (simp_all add: subscribe_range_def next_sid_def stmt_defs)

definition config_text :: "'z drive_env_scheme \<Rightarrow> drive \<Rightarrow> jsstr" where
  "config_text E w = stringify (num_str E) (JObj [(lit ''FID'', JNat (getCnfFid w)), (lit ''FLAGS'', JNat 0),
     (lit ''SID'', JNat (sid_of (d_sid w))), (lit ''ARG'', drive_config_arg w)])"

lemma config_form:
  "drive_sendUartConfig E w = (None, if drive_open w then (frames_sent [config_text E w] w)\<lparr>d_sid := Suc (d_sid w)\<rparr> else w)"
  by (simp add: drive_sendUartConfig_def stmt_defs next_sid_def drive_send_form frames_sid config_text_def Let_def)

lemma status_form: "setStatus b w = (None, w\<lparr>doc := (doc w)((''ws-status'', ''className'') := lit ''badge '' @ (if b then lit ''ok'' else lit ''err''),
    (''ws-status'', ''textContent'') := (if b then ru_online else ru_no_connection))\<rparr>)"
  by (simp add: setStatus_def set_dom_def assign_def fun_upd_def)

text \<open>A new connection: the configuration, then the subscriptions.\<close>

lemma open_sends:
  assumes "d_ws w = Some i" and "ready_at (socks w) i = OPEN"
  shows "exchange_open E w = (None, (frames_sent (config_text E w # sub_texts E (getMbFid w) (drive_addr w) (Suc (d_sid w))
      (sub_ranges (map r_adr (d_regs w)))) w)\<lparr>doc := (doc w)((''ws-status'', ''className'') := lit ''badge ok'', (''ws-status'', ''textContent'') := ru_online), d_sid := Suc (d_sid w) + length (sub_ranges (map r_adr (d_regs w)))\<rparr>)"
proof -
  let ?d = "(doc w)((''ws-status'', ''className'') := lit ''badge ok'', (''ws-status'', ''textContent'') := ru_online)"
  let ?w = "w\<lparr>doc := ?d\<rparr>"
  let ?v = "(frames_sent [config_text E ?w] ?w)\<lparr>d_sid := Suc (d_sid w)\<rparr>"
  have open_w: "drive_open ?w" using assms by (simp add: drive_open_def)
  have fields: "getMbFid ?v = getMbFid w" "drive_addr ?v = drive_addr w" "config_text E ?w = config_text E w"
    by (simp_all add: getMbFid_def drive_addr_def field_def config_text_def getCnfFid_def drive_config_arg_def)
  have "setStatus True w = (None, ?w)" by (simp add: status_form) (simp add: lit_def)
  moreover have "drive_sendUartConfig E ?w = (None, ?v)" using open_w by (simp add: config_form)
  moreover have "drive_open ?v" using open_w by simp
  then have "subscribeRegs E ?v = (None, (frames_sent (sub_texts E (getMbFid w) (drive_addr w) (Suc (d_sid w)) (sub_ranges (map r_adr (d_regs w)))) ?v)
      \<lparr>d_sid := Suc (d_sid w) + length (sub_ranges (map r_adr (d_regs w)))\<rparr>)"
    unfolding subscribeRegs_def fields(1,2) by (subst subscribe_form) simp_all
  ultimately show ?thesis
    by (simp add: exchange_open_def frames_append frames_sid frames_doc fields(3))
qed

subsection \<open>The page after loading\<close>

definition drive_reaches :: "'z drive_env_scheme \<Rightarrow> bool" where
  "drive_reaches E \<longleftrightarrow> url_ok E (lit ''ws://'' @ d_host E @ lit '':81/ws'')"

definition drive_socket :: "'z drive_env_scheme \<Rightarrow> socket" where
  "drive_socket E = \<lparr>s_url = lit ''ws://'' @ d_host E @ lit '':81/ws'', s_ready = CONNECTING, s_sent = []\<rparr>"

lemma exchange_form:
  "drive_reaches E \<Longrightarrow> runExchange E w = (None, w\<lparr>socks := socks w @ [drive_socket E], d_ws := Some (length (socks w))\<rparr>)"
  by (simp add: runExchange_def drive_reaches_def drive_socket_def)

lemma load_form:
  assumes "drive_reaches E"
  shows "drive_load E baud regs = \<lparr>socks = [drive_socket E], timers = [\<lparr>t_id = 1, t_delay = 0, t_cb = GaugeTimer\<rparr>], next_timer = 2,
    doc = fold (reg_doc E) regs (drive_doc baud), listeners = [], console = [], uncaught = [], d_ws = Some 0, d_regs = regs,
    d_inputs = control_at E regs, d_sid = 1, d_silent = [], d_alerts = []\<rparr>"
  by (simp add: drive_load_def report_def exchange_form [OF assms] createRegistersTable_def show_regs_form assign_def blank_drive_def
      set_timeout_def numeral_2_eq_2)

lemma load_fields:
  assumes "drive_reaches E"
  shows "getMbFid (drive_load E baud regs) = Some 4387" "drive_addr (drive_load E baud regs) = Some 1"
proof -
  have ids: "''uart-sel'' \<noteq> rv_id a \<and> ''uart-sel'' \<noteq> rd_id a" "''mb-addr'' \<noteq> rv_id a \<and> ''mb-addr'' \<noteq> rd_id a" for a
    by (simp_all add: rv_id_def rd_id_def)
  have "field ''uart-sel'' (drive_load E baud regs) = show_nat 4387" "field ''mb-addr'' (drive_load E baud regs) = show_nat 1"
    using ids by (simp_all add: field_def load_form [OF assms] fold_others drive_doc_def) (simp_all add: lit_def)
  then show "getMbFid (drive_load E baud regs) = Some 4387" "drive_addr (drive_load E baud regs) = Some 1"
    using parse_show_nat [of 4387] parse_show_nat [of 1] by (simp_all add: getMbFid_def drive_addr_def or_default_def del: show_nat_less show_nat_ge)
qed

end
