(* ===== verification/Drive_Values.thy ===== *)
theory Drive_Values
  imports Drive_Forms
begin

section \<open>The pages of the frequency converters: values shown and typed\<close>

text \<open>
  Numbers of the page are doubles: a register is shown as its value over a scale, and a typed number times the scale is written. The roundings on the way
  are too small to matter for 16-bit values.
\<close>

subsection \<open>Quotients and products\<close>

lemma js_div_facts:
  assumes "0 < b" and "b \<le> 100" and "v < 65536"
  shows "\<exists>q k. js_div v b = (q, k) \<and> 36 \<le> k \<and> k \<le> 60 \<and> 2 * (q * b) \<le> 2 * (v * 2 ^ k) + b \<and> 2 * (v * 2 ^ k) \<le> 2 * (q * b) + b"
proof -
  have bits: "bit_size b \<le> 7" "bit_size v \<le> 16" using assms by (simp_all add: bit_size_le)
  define k where "k = (if 2 ^ 53 \<le> v * 2 ^ (53 + bit_size b - bit_size v) div b then 53 + bit_size b - bit_size v - 1 else 53 + bit_size b - bit_size v)"
  have "js_div v b = (near_quot (v * 2 ^ k) b, k)" by (simp only: js_div_def k_def Let_def)
  moreover have "36 \<le> k" "k \<le> 60" using bits by (auto simp: k_def)
  ultimately show ?thesis using near_quot_error [OF assms(1), of "v * 2 ^ k"] by auto
qed

lemma round53_error: "round53 n \<le> n + 2 ^ (bit_size n - 53) \<and> n \<le> round53 n + 2 ^ (bit_size n - 53)"
proof -
  let ?d = "2 ^ (bit_size n - 53) :: nat"
  have n: "n = n div ?d * ?d + n mod ?d" "n mod ?d < ?d" by (simp_all only: div_mult_mod_eq mod_less_divisor zero_less_power zero_less_numeral)
  have "round53 n = n div ?d * ?d \<or> round53 n = n div ?d * ?d + ?d"
    by (auto simp: round53_def round_even_def Let_def)
  then show ?thesis using n by linarith
qed

lemma round_near:
  assumes "2 * m < 2 * (v * 2 ^ k) + 2 ^ k" and "2 * (v * 2 ^ k) \<le> 2 * m + (2 :: nat) ^ k"
  shows "math_round (False, m, k) = int v"
proof -
  have "(2 * m + 2 ^ k) div 2 ^ (k + 1) = v"
    by (rule div_nat_eqI) (use assms in \<open>simp_all add: algebra_simps\<close>)
  then have "int ((2 * m + 2 ^ k) div 2 ^ (k + 1)) = int v" by simp
  then show ?thesis by (simp only: math_round_def prod.case if_False) (simp add: zdiv_int)
qed

lemma scaled_back:
  assumes "0 < b" and "b \<le> 100" and "v < 65536"
  shows "math_round (js_times (False, js_div v b) b) = int v" "b = 1 \<Longrightarrow> math_round (False, js_div v b) = int v"
proof -
  obtain q k where q: "js_div v b = (q, k)" "36 \<le> k" "k \<le> 60" "2 * (q * b) \<le> 2 * (v * 2 ^ k) + b" "2 * (v * 2 ^ k) \<le> 2 * (q * b) + b"
    using js_div_facts [OF assms] by blast
  have small: "(2 :: nat) ^ 36 \<le> 2 ^ k" "(2 :: nat) ^ k \<le> 2 ^ 60"
    using q(2,3) by (simp_all add: power_increasing del: power_numeral)
  have "v * 2 ^ k < 65536 * 2 ^ k" using assms(3) by simp
  also have "\<dots> \<le> 65536 * 2 ^ 60" using small(2) by (rule mult_le_mono2)
  finally have "q * b < 2 ^ 77" using q(4) assms(2) by simp
  then have "bit_size (q * b) - 53 \<le> 24" using bit_size_le by fastforce
  then have "(2 :: nat) ^ (bit_size (q * b) - 53) \<le> 2 ^ 24" by (rule power_increasing) simp
  then have near: "round53 (q * b) \<le> q * b + 2 ^ 24" "q * b \<le> round53 (q * b) + 2 ^ 24"
    using round53_error [of "q * b"] by linarith+
  have "math_round (False, round53 (q * b), k) = int v"
    by (rule round_near) (use near q(4,5) assms(2) small(1) in simp_all)
  then show "math_round (js_times (False, js_div v b) b) = int v" by (simp add: js_times_def q(1))
  have "math_round (False, q, k) = int v" if "b = 1"
    by (rule round_near) (use q(4,5) small(1) that in simp_all)
  then show "b = 1 \<Longrightarrow> math_round (False, js_div v b) = int v" unfolding q(1) .
qed

subsection \<open>Texts with a decimal point\<close>

lemma read_zeros: "read_nat (replicate n 48 @ s) = read_nat s"
  by (induction n) (simp_all add: read_nat_def)

lemma digit_start: "digit c \<Longrightarrow> \<not> js_space c \<and> c \<noteq> 45 \<and> c \<noteq> 43"
  by (auto simp: digit_def js_space_def)

lemma parse_decimal:
  assumes "list_all digit (c # whole)" and "list_all digit frac" and "read_nat (c # whole @ frac) < 2 ^ 53" and "length frac \<le> 300"
  shows "parse_float E (c # whole @ 46 # frac) = Some (False, js_div (read_nat (c # whole @ frac)) (10 ^ length frac))"
proof -
  have "takeWhile digit (whole @ 46 # frac) = whole" "dropWhile digit (whole @ 46 # frac) = 46 # frac"
    using assms(1) by (simp_all add: takeWhile_append dropWhile_append list_all_iff digit_def)
  moreover have "takeWhile digit frac = frac" "dropWhile digit frac = []" using assms(2) by (simp_all add: list_all_iff)
  ultimately show ?thesis
    using digit_start [of c] assms by (simp add: parse_float_def Let_def del: takeWhile_eq_all_conv dropWhile_eq_Nil_conv)
qed

lemma parse_whole:
  assumes "list_all digit (c # s)" and "read_nat (c # s) < 2 ^ 53"
  shows "parse_float E (c # s) = Some (False, js_div (read_nat (c # s)) 1)"
proof -
  have "takeWhile digit s = s" "dropWhile digit s = []" using assms(1) by (simp_all add: list_all_iff)
  then show ?thesis
    using digit_start [of c] assms by (simp add: parse_float_def Let_def del: takeWhile_eq_all_conv dropWhile_eq_Nil_conv)
qed

lemma point_digits:
  assumes "list_all digit s" and "d < length s" and "read_nat s < 2 ^ 53" and "d \<le> 300"
  shows "parse_float E (point d s) = Some (False, js_div (read_nat s) (10 ^ d))"
proof (cases "d = 0")
  case True
  obtain c r where "s = c # r" using assms(2) by (cases s) auto
  then show ?thesis using True parse_whole [of c r E] assms by (simp add: point_def)
next
  case False
  obtain c w where w: "take (length s - d) s = c # w" using assms(2) by (cases "take (length s - d) s") auto
  define f where "f = drop (length s - d) s"
  have s: "s = c # w @ f" using append_take_drop_id [of "length s - d" s] by (simp add: w f_def)
  moreover have "length f = d" using assms(2) by (simp add: f_def)
  moreover have "point d s = c # w @ 46 # f" using False by (simp add: point_def w f_def)
  ultimately show ?thesis using parse_decimal [of c w f E] assms by simp
qed

lemma fixed_text:
  assumes "v < 65536" and "d \<le> 2"
  shows "to_fixed E d False (js_div v (10 ^ d)) = point d (pad_start (d + 1) 48 (show_nat v))"
proof -
  have b: "0 < (10 :: nat) ^ d" "(10 :: nat) ^ d \<le> 100" using assms(2) power_increasing [of d 2 "10 :: nat"] by simp_all
  obtain q k where q: "js_div v (10 ^ d) = (q, k)" "36 \<le> k" "k \<le> 60" "2 * (q * 10 ^ d) \<le> 2 * (v * 2 ^ k) + 10 ^ d"
    "2 * (v * 2 ^ k) \<le> 2 * (q * 10 ^ d) + 10 ^ d"
    using js_div_facts [OF b assms(1)] by blast
  have "(2 :: nat) ^ 36 \<le> 2 ^ k" using q(2) by (rule power_increasing) simp
  then have "10 ^ d < (2 :: nat) ^ k" using b(2) by simp
  then have fixed: "fixed_int d (q, k) = v" by (rule fixed_quotient [OF q(4,5)])
  have "q * 1 \<le> q * 10 ^ d" using b(1) by (intro mult_le_mono2) simp
  moreover have "v * 2 ^ k \<le> 65536 * 2 ^ k" using assms(1) by simp
  moreover have "(1 :: nat) \<le> 2 ^ k" by simp
  ultimately have "q < 1000000000000000000000 * 2 ^ k" using q(4) b(2) by linarith
  then show ?thesis by (simp add: to_fixed_def q(1) fixed)
qed

text \<open>A value shown over a scale of 1, 10 or 100, typed back.\<close>

lemma typed_back:
  assumes "v < 65536" and "d \<le> 2"
  shows "\<exists>x. parse_float E (to_fixed E d False (js_div v (10 ^ d))) = Some x \<and> math_round (js_times x (10 ^ d)) = int v"
proof -
  let ?s = "pad_start (d + 1) 48 (show_nat v)"
  have b: "0 < (10 :: nat) ^ d" "(10 :: nat) ^ d \<le> 100" using assms(2) power_increasing [of d 2 "10 :: nat"] by simp_all
  have "read_nat ?s = v" "list_all digit ?s" "d < length ?s"
    using show_nat_digits [of v] by (auto simp: pad_start_def read_zeros read_show_nat list_all_iff digit_def)
  then have "parse_float E (point d ?s) = Some (False, js_div v (10 ^ d))"
    using point_digits [of ?s d E] assms by simp
  then show ?thesis using scaled_back(1) [OF b assms(1)] by (simp add: fixed_text [OF assms])
qed

end
