(* ===== verification/Drive_Calm.thy ===== *)
theory Drive_Calm
  imports Drive_Forms "HOL-Library.Multiset"
begin

section \<open>The pages of the frequency converters: what every run keeps\<close>

text \<open>
  The table always shows the registers, whatever comes in; and with one connection at a time the page always goes on. Both are
  invariants, as interpretations of \<open>loop_invariant\<close>.
\<close>

subsection \<open>The table\<close>

definition same_table :: "drive \<Rightarrow> drive \<Rightarrow> bool" where
  "same_table w w' \<longleftrightarrow> d_regs w' = d_regs w \<and> (\<forall>a. doc w' (rv_id a, ''textContent'') = doc w (rv_id a, ''textContent'')
     \<and> doc w' (rd_id a, ''textContent'') = doc w (rd_id a, ''textContent''))"

interpretation table_frame: state_frame same_table
  by unfold_locales (simp_all add: same_table_def)

named_theorems table_intros

lemmas table_control [table_intros] = table_frame.keeps_control

lemma table_dom [table_intros]:
  "\<forall>a. el \<noteq> rv_id a \<and> el \<noteq> rd_id a \<Longrightarrow> keeps same_table (set_dom el p v)"
  "\<forall>a. el \<noteq> rv_id a \<and> el \<noteq> rd_id a \<Longrightarrow> keeps same_table (\<lambda>w. set_dom el p (f w) w)"
  by (auto simp: keeps_def set_dom_def assign_def same_table_def)

lemma plain_ids [table_intros]:
  "\<forall>a. ''ws-status'' \<noteq> rv_id a \<and> ''ws-status'' \<noteq> rd_id a" "\<forall>a. ''gauge_fb'' \<noteq> rv_id a \<and> ''gauge_fb'' \<noteq> rd_id a"
  "\<forall>a. ''gauge_rpm'' \<noteq> rv_id a \<and> ''gauge_rpm'' \<noteq> rd_id a" "\<forall>a. ''gauge_i'' \<noteq> rv_id a \<and> ''gauge_i'' \<noteq> rd_id a"
  "\<forall>a. ''gauge_v'' \<noteq> rv_id a \<and> ''gauge_v'' \<noteq> rd_id a"
  by (simp_all add: rv_id_def rd_id_def)

lemma table_fields [table_intros]:
  "keeps same_table (assign (\<lambda>w. w\<lparr>d_alerts := f w\<rparr>))" "keeps same_table (assign (\<lambda>w. w\<lparr>d_sid := n w\<rparr>))"
  "keeps same_table (assign (\<lambda>w. w\<lparr>d_silent := l w\<rparr>))" "keeps same_table (assign (set_timeout cb d))"
  by (simp_all add: keeps_def assign_def same_table_def set_timeout_def)

lemma table_sockets [table_intros]: "keeps same_table (drive_send f)" "keeps same_table (sock_close i)" "keeps same_table (runExchange E)"
  by (auto simp: keeps_def drive_send_def sock_send_def sock_close_def runExchange_def same_table_def Let_def split: option.split ready.split)

lemma table_handlers:
  "keeps same_table (drive_sendUartConfig E)" "keeps same_table (subscribeRegs E)" "keeps same_table (writeRegister E adr inp)"
  "keeps same_table (setStatus b)"
proof -
  have config: "keeps same_table (\<lambda>w. block [next_sid, drive_send (f w)] w)" for f
    unfolding keeps_def next_sid_def by (intro allI table_frame.same_block table_intros)
  then show "keeps same_table (drive_sendUartConfig E)"
    unfolding drive_sendUartConfig_def Let_def by (intro table_intros)
  have "keeps same_table (subscribe_range E fid adr r)" for fid adr r
    unfolding keeps_def subscribe_range_def Let_def next_sid_def by (intro allI table_frame.same_block table_intros)
  then show "keeps same_table (subscribeRegs E)"
    unfolding keeps_def [of _ "subscribeRegs E"] subscribeRegs_def by (intro allI table_frame.same_block) (simp add: list_all_iff)
  have alert: "same_table w (snd (drive_alert t w))" for t w
    by (simp add: drive_alert_def assign_def same_table_def)
  have "same_table w (snd (block [next_sid, ifelse drive_open [drive_send req] [drive_alert t]] w))" for req t w
    unfolding next_sid_def drive_alert_def by (intro table_frame.same_block table_intros)
  then show "keeps same_table (writeRegister E adr inp)"
    unfolding keeps_def writeRegister_def Let_def using alert by (auto split: option.split sum.split)
  show "keeps same_table (setStatus b)" unfolding setStatus_def by (intro table_intros)
qed

lemma table_connection:
  "keeps same_table (exchange_open E)" "keeps same_table exchange_close" "keeps same_table (reconnectWs E)" "keeps same_table (refreshGauges E a b)"
proof -
  show "keeps same_table (exchange_open E)" unfolding exchange_open_def by (intro table_intros table_handlers)
  show "keeps same_table exchange_close" unfolding exchange_close_def by (intro table_intros table_handlers)
  have "same_table w (snd (block [assign (\<lambda>w. w\<lparr>d_silent := i # d_silent w\<rparr>), sock_close i] w))" for i w
    by (intro table_frame.same_block table_intros)
  then have "keeps same_table (\<lambda>w. case d_ws w of None \<Rightarrow> (None, w)
       | Some i \<Rightarrow> block [assign (\<lambda>w. w\<lparr>d_silent := i # d_silent w\<rparr>), sock_close i] w)"
    by (auto simp: keeps_def table_frame.same_refl split: option.split)
  then show "keeps same_table (reconnectWs E)" unfolding reconnectWs_def by (intro table_intros table_handlers)
  show "keeps same_table (refreshGauges E a b)"
    unfolding keeps_def refreshGauges_def Let_def by (intro allI table_frame.same_block table_intros)
qed

text \<open>An answer changes values and shows them, or nothing.\<close>

definition table_updated :: "'z drive_env_scheme \<Rightarrow> drive \<Rightarrow> drive \<Rightarrow> bool" where
  "table_updated E w w' \<longleftrightarrow> w' = w \<or> (\<exists>rs. map r_adr rs = map r_adr (d_regs w) \<and> w' = page_shown E (w\<lparr>d_regs := rs\<rparr>))"

lemma reg_key_uniform: "(\<exists>e. \<forall>i. reg_key E v i = Inl e) \<or> (\<forall>i. \<exists>k. reg_key E v i = Inr k)"
  by (cases v) (auto simp: reg_key_def Let_def split: sum.split)

lemma set_reg_adrs: "map r_adr (set_reg k v rs) = map r_adr rs"
  by (auto simp: set_reg_def split: option.split)

lemma update_block:
  assumes "\<forall>i. \<exists>k. reg_key E v i = Inr k"
  shows "\<exists>rs. map r_adr rs = map r_adr (d_regs w) \<and>
    block (map (\<lambda>i. with_val (\<lambda>_. reg_key E v i) (\<lambda>k. [assign (\<lambda>w. w\<lparr>d_regs := set_reg k (f i) (d_regs w)\<rparr>)])) is) w = (None, w\<lparr>d_regs := rs\<rparr>)"
proof (induction "is" arbitrary: w)
  case Nil
  show ?case by (intro exI [of _ "d_regs w"]) simp
next
  case (Cons i js)
  obtain k where k: "reg_key E v i = Inr k" using assms by blast
  let ?w = "w\<lparr>d_regs := set_reg k (f i) (d_regs w)\<rparr>"
  from Cons.IH [of ?w] obtain rs where "map r_adr rs = map r_adr (d_regs w)"
    "block (map (\<lambda>i. with_val (\<lambda>_. reg_key E v i) (\<lambda>k. [assign (\<lambda>w. w\<lparr>d_regs := set_reg k (f i) (d_regs w)\<rparr>)])) js) ?w = (None, ?w\<lparr>d_regs := rs\<rparr>)"
    by (auto simp: set_reg_adrs)
  moreover have "with_val (\<lambda>_. reg_key E v i) (\<lambda>k. [assign (\<lambda>w. w\<lparr>d_regs := set_reg k (f i) (d_regs w)\<rparr>)]) w = (None, ?w)"
    by (simp add: stmt_defs k)
  ultimately show ?case by (intro exI [of _ rs]) simp
qed

lemma update_regs_cases:
  "(\<exists>e. update_regs E v cnt vs w = (Some e, w))
   \<or> (\<exists>rs. map r_adr rs = map r_adr (d_regs w) \<and> update_regs E v cnt vs w = (None, w\<lparr>d_regs := rs\<rparr>))"
proof (cases "num_of E cnt")
  case (Inr c)
  let ?n = "min (count_below E c) (length vs)"
  consider (bad) e where "\<forall>i. reg_key E v i = Inl e" | (good) "\<forall>i. \<exists>k. reg_key E v i = Inr k"
    using reg_key_uniform [of E v] by blast
  then show ?thesis
  proof cases
    case bad
    then show ?thesis
      by (cases "[0..<?n]") (auto simp: update_regs_def with_val_def Inr intro: exI [of _ "d_regs w"])
  next
    case good
    then show ?thesis using update_block [OF good, of w _ "[0..<?n]"] by (simp add: update_regs_def with_val_step Inr)
  qed
qed (simp add: update_regs_def with_val_def)

lemma handler_updates: "table_updated E w (snd (modbusHandler E arg w))"
proof -
  have "table_updated E w (snd (block [update_regs E v cnt vs, updateRegistersTable E] w))" for v cnt vs
    using update_regs_cases [of E v cnt vs w] by (auto simp: table_updated_def table_form)
  then show ?thesis
    by (auto simp: modbusHandler_def stmt_defs table_updated_def split: option.split sum.split)
qed

lemma message_updates: "table_updated E w (snd (wsMessage E data w))"
  using handler_updates [of E w] by (auto simp: wsMessage_def stmt_defs table_updated_def split: option.split sum.split)

lemma table_shows_same: "same_table w w' \<Longrightarrow> table_shows E w \<Longrightarrow> table_shows E w'"
  by (simp add: same_table_def table_shows_def shows_reg_def)

definition table_inv :: "'z drive_env_scheme \<Rightarrow> reg list \<Rightarrow> drive \<Rightarrow> bool" where
  "table_inv E regs w \<longleftrightarrow> map r_adr (d_regs w) = map r_adr regs \<and> table_shows E w"

lemma table_inv_same: "same_table w w' \<Longrightarrow> table_inv E regs w \<Longrightarrow> table_inv E regs w'"
  unfolding table_inv_def by (intro conjI) (simp add: same_table_def, rule table_shows_same, assumption, erule conjunct2)

lemma report_table: "keeps same_table c \<Longrightarrow> same_table w (report c w)"
  by (rule report_keeps [of same_table]) (assumption, simp add: same_table_def)

lemma table_inv_updated:
  assumes "distinct (map r_adr regs)" and "table_updated E w w'" and "table_inv E regs w"
  shows "table_inv E regs w'"
proof (cases "w' = w")
  case False
  then obtain rs where rs: "map r_adr rs = map r_adr (d_regs w)" "w' = page_shown E (w\<lparr>d_regs := rs\<rparr>)"
    using assms(2) by (auto simp: table_updated_def)
  then have "distinct (map r_adr (d_regs (w\<lparr>d_regs := rs\<rparr>)))" using assms(1,3) by (simp add: table_inv_def)
  then show ?thesis using rs assms(3) shown_shows [of "w\<lparr>d_regs := rs\<rparr>" E] by (simp add: table_inv_def) (simp add: page_shown_def)
qed (use assms in simp)

lemma table_inv_report: "table_inv E regs w \<Longrightarrow> table_inv E regs (w\<lparr>uncaught := l\<rparr>)"
  by (simp add: table_inv_def table_shows_def)

lemma table_now: "same_table w (ready_now i r w)" "same_table w (expire t w)" "same_table w (w\<lparr>doc := (doc w)((el, ''value'') := v)\<rparr>)"
  "same_table w (w\<lparr>d_inputs := f\<rparr>)"
  by (simp_all add: same_table_def ready_now_def expire_def)

lemma table_step:
  assumes "distinct (map r_adr regs)" and "table_inv E regs w"
  shows "table_inv E regs (drive_step E g e w)"
proof (cases e)
  case (DriveMessage i data)
  obtain r w' where c: "wsMessage E data w = (r, w')" by fastforce
  then have "table_inv E regs w'" using table_inv_updated [OF assms(1) message_updates assms(2), of data] by simp
  then show ?thesis using DriveMessage by (cases r) (simp_all add: report_def c table_inv_report)
qed (use assms(2) in \<open>auto intro!: table_inv_same [OF report_table] table_inv_same [OF table_now(1)] table_inv_same [OF table_now(2)]
    table_inv_same [OF table_now(3)] table_inv_same [OF table_now(4)] table_handlers table_connection table_sockets split: option.split\<close>)

lemma table_load: "drive_reaches E \<Longrightarrow> distinct (map r_adr regs) \<Longrightarrow> table_inv E regs (drive_load E baud regs)"
  by (simp add: table_inv_def table_shows_def load_form fold_shows)

interpretation drive_table: loop_invariant "drive_load E baud regs" drive_enabled "drive_step E g"
  "\<lambda>w. drive_reaches E \<and> distinct (map r_adr regs) \<longrightarrow> table_inv E regs w"
  by unfold_locales (simp_all add: table_load table_step)

subsection \<open>One connection at a time\<close>

definition same_line :: "drive \<Rightarrow> drive \<Rightarrow> bool" where
  "same_line w w' \<longleftrightarrow> d_ws w' = d_ws w \<and> d_silent w' = d_silent w \<and> timers w' = timers w \<and> next_timer w' = next_timer w
     \<and> length (socks w') = length (socks w) \<and> (\<forall>j. ready_at (socks w') j = ready_at (socks w) j)"

interpretation line_frame: state_frame same_line
  by unfold_locales (simp_all add: same_line_def)

named_theorems line_intros

lemmas line_control [line_intros] = line_frame.keeps_control

lemma line_simple [line_intros]:
  "keeps same_line (set_dom el p v)" "keeps same_line (assign (\<lambda>w. w\<lparr>d_alerts := f w\<rparr>))" "keeps same_line (assign (\<lambda>w. w\<lparr>d_sid := n w\<rparr>))"
  "keeps same_line (assign (\<lambda>w. w\<lparr>d_regs := h w\<rparr>))" "keeps same_line (drive_send t)"
  by (auto simp: keeps_def set_dom_def assign_def same_line_def drive_send_def sock_send_def split: option.split ready.split)

lemma line_table: "keeps same_line (updateRegistersTable E)"
  by (simp add: keeps_def table_form page_shown_def same_line_def)

lemma line_handlers:
  "keeps same_line (drive_sendUartConfig E)" "keeps same_line (subscribeRegs E)" "keeps same_line (writeRegister E adr inp)"
  "keeps same_line (setStatus b)" "keeps same_line (wsMessage E data)"
proof -
  have config: "keeps same_line (\<lambda>w. block [next_sid, drive_send (f w)] w)" for f
    unfolding keeps_def next_sid_def by (intro allI line_frame.same_block line_intros)
  then show "keeps same_line (drive_sendUartConfig E)"
    unfolding drive_sendUartConfig_def Let_def by (intro line_intros)
  have "keeps same_line (subscribe_range E fid adr r)" for fid adr r
    unfolding keeps_def subscribe_range_def Let_def next_sid_def by (intro allI line_frame.same_block line_intros)
  then show "keeps same_line (subscribeRegs E)"
    unfolding keeps_def [of _ "subscribeRegs E"] subscribeRegs_def by (intro allI line_frame.same_block) (simp add: list_all_iff)
  have alert: "same_line w (snd (drive_alert t w))" for t w
    by (simp add: drive_alert_def assign_def same_line_def)
  have "same_line w (snd (block [next_sid, ifelse drive_open [drive_send req] [drive_alert t]] w))" for req t w
    unfolding next_sid_def drive_alert_def by (intro line_frame.same_block line_intros)
  then show "keeps same_line (writeRegister E adr inp)"
    unfolding keeps_def writeRegister_def Let_def using alert by (auto split: option.split sum.split)
  show "keeps same_line (setStatus b)" unfolding setStatus_def by (intro line_intros)
  have upd: "same_line w w'" if "table_updated E w w'" for w w'
    using that by (auto simp: table_updated_def page_shown_def same_line_def)
  show "keeps same_line (wsMessage E data)" unfolding keeps_def by (intro allI) (rule upd [OF message_updates])
qed

lemma report_line: "keeps same_line c \<Longrightarrow> same_line w (report c w)"
  by (rule report_keeps [of same_line]) (assumption, simp add: same_line_def)

text \<open>What keeps the page going: the timer of the gauges, and with a closed connection the one that connects again.\<close>

definition drive_waits :: "ready \<Rightarrow> drive_cb timer list \<Rightarrow> bool" where
  "drive_waits r ts \<longleftrightarrow> r \<noteq> CLOSING
     \<and> mset (map t_cb ts) = (if r = CLOSED then {#GaugeTimer, ExchangeTimer#} else {#GaugeTimer#})"

definition drive_calm :: "drive \<Rightarrow> bool" where
  "drive_calm w \<longleftrightarrow> (case d_ws w of
       None \<Rightarrow> False
     | Some i \<Rightarrow> Suc i = length (socks w) \<and> list_all (\<lambda>j. j < i) (d_silent w)
         \<and> (\<forall>j < i. ready_at (socks w) j = CLOSED \<or> ready_at (socks w) j = CLOSING \<and> j \<in> set (d_silent w))
         \<and> drive_waits (ready_at (socks w) i) (timers w))
     \<and> distinct (map t_id (timers w)) \<and> list_all (\<lambda>x. t_id x < next_timer w) (timers w)"

fun drive_calm_enabled :: "drive \<Rightarrow> drive_event \<Rightarrow> bool" where
  "drive_calm_enabled w DriveReconnect \<longleftrightarrow> \<not> list_ex (\<lambda>x. t_cb x = ExchangeTimer) (timers w)"
| "drive_calm_enabled w e \<longleftrightarrow> drive_enabled w e"

lemma same_line_calm: "same_line w w' \<Longrightarrow> drive_calm w \<Longrightarrow> drive_calm w'"
  by (auto simp: same_line_def drive_calm_def split: option.splits)

lemma expired_timers:
  assumes "distinct (map t_id ts)" and "list_ex (\<lambda>x. t_id x = t \<and> t_cb x = cb) ts"
  shows "mset (map t_cb (filter (\<lambda>x. t_id x \<noteq> t) ts)) = mset (map t_cb ts) - {#cb#}"
  using assms
proof (induction ts)
  case (Cons x ts)
  show ?case
  proof (cases "t_id x = t")
    case True
    then have "filter (\<lambda>y. t_id y \<noteq> t) ts = ts" using Cons.prems(1) by (intro filter_True) (auto simp: rev_image_eqI)
    moreover have "\<not> list_ex (\<lambda>y. t_id y = t \<and> t_cb y = cb) ts" using Cons.prems(1) True by (auto simp: list_ex_iff rev_image_eqI)
    ultimately show ?thesis using True Cons.prems(2) by simp
  next
    case False
    then have IH: "mset (map t_cb (filter (\<lambda>x. t_id x \<noteq> t) ts)) = mset (map t_cb ts) - {#cb#}" using Cons by simp
    have "cb \<in># mset (map t_cb ts)" using Cons.prems(2) False by (auto simp: list_ex_iff)
    then show ?thesis using IH False by simp
  qed
qed simp

lemma calm_waiting:
  assumes "drive_calm w" and "waits w ExchangeTimer t"
  obtains k where "d_ws w = Some k" and "Suc k = length (socks w)" and "ready_at (socks w) k = CLOSED"
proof -
  obtain k where k: "d_ws w = Some k" "Suc k = length (socks w)" "drive_waits (ready_at (socks w) k) (timers w)"
    using assms(1) by (auto simp: drive_calm_def split: option.splits)
  have "ExchangeTimer \<in># mset (map t_cb (timers w))" using assms(2) by (auto simp: waits_def list_ex_iff rev_image_eqI)
  then have "ExchangeTimer \<in># (if ready_at (socks w) k = CLOSED then {#GaugeTimer, ExchangeTimer#} else {#GaugeTimer#})"
    using k(3) by (simp only: drive_waits_def)
  then have "ready_at (socks w) k = CLOSED" by (cases "ready_at (socks w) k = CLOSED") simp_all
  with k show thesis by (intro that)
qed

lemma expire_calm:
  assumes "drive_calm w"
  shows "distinct (map t_id (timers (expire t w)))" "list_all (\<lambda>x. t_id x < next_timer w) (timers (expire t w))"
  using assms by (auto simp: drive_calm_def expire_def list_all_iff distinct_map_filter)

lemma drive_calm_exchange:
  assumes "drive_reaches E" and "drive_calm w" and "waits w ExchangeTimer t"
  shows "drive_calm (report (runExchange E) (expire t w))"
proof -
  obtain k where k: "d_ws w = Some k" "Suc k = length (socks w)" "ready_at (socks w) k = CLOSED"
    using calm_waiting [OF assms(2,3)] by blast
  have "mset (map t_cb (timers (expire t w))) = {#GaugeTimer, ExchangeTimer#} - {#ExchangeTimer#}"
    using expired_timers [of "timers w" t ExchangeTimer] assms(2,3) k by (auto simp: drive_calm_def expire_def waits_def drive_waits_def)
  moreover have "j < length (socks w) \<longleftrightarrow> j < k \<or> j = k" for j using k(2) by auto
  ultimately show ?thesis
    using k assms(2) expire_calm [OF assms(2), of t]
    by (auto simp: report_def exchange_form [OF assms(1)] drive_calm_def ready_append drive_waits_def drive_socket_def list_all_iff expire_def)
qed

lemma gauges_form:
  obtains d where "refreshGauges E a b w = (None, set_timeout GaugeTimer 150 (w\<lparr>doc := d\<rparr>))"
  by (rule that [of "doc (snd (refreshGauges E a b w))"])
     (cases w, simp add: refreshGauges_def set_dom_def assign_def Let_def set_timeout_def)

lemma drive_calm_gauges:
  assumes "drive_calm w" and "waits w GaugeTimer t"
  shows "drive_calm (report (refreshGauges E a b) (expire t w))"
proof -
  let ?w = "expire t w"
  have gauges: "mset (map t_cb (timers ?w)) = mset (map t_cb (timers w)) - {#GaugeTimer#}"
    using expired_timers [of "timers w" t GaugeTimer] assms by (simp add: drive_calm_def expire_def waits_def)
  have ids: "distinct (map t_id (timers ?w))" "list_all (\<lambda>x. t_id x < next_timer ?w) (timers ?w)"
    using expire_calm [OF assms(1), of t] by (simp_all add: expire_def)
  obtain d where form: "refreshGauges E a b ?w = (None, set_timeout GaugeTimer 150 (?w\<lparr>doc := d\<rparr>))"
    by (rule gauges_form)
  have "drive_waits r (timers (set_timeout GaugeTimer 150 (?w\<lparr>doc := d\<rparr>)))" if "drive_waits r (timers w)" for r
    using that gauges by (auto simp: drive_waits_def set_timeout_def)
  moreover have "distinct (map t_id (timers (set_timeout GaugeTimer 150 (?w\<lparr>doc := d\<rparr>))))"
    using ids by (auto simp: set_timeout_def list_all_iff)
  moreover have "list_all (\<lambda>x. t_id x < next_timer (set_timeout GaugeTimer 150 (?w\<lparr>doc := d\<rparr>))) (timers (set_timeout GaugeTimer 150 (?w\<lparr>doc := d\<rparr>)))"
    using ids by (auto simp: set_timeout_def list_all_iff)
  moreover have "socks (set_timeout GaugeTimer 150 (?w\<lparr>doc := d\<rparr>)) = socks w" "d_ws (set_timeout GaugeTimer 150 (?w\<lparr>doc := d\<rparr>)) = d_ws w"
    "d_silent (set_timeout GaugeTimer 150 (?w\<lparr>doc := d\<rparr>)) = d_silent w"
    by (simp_all add: set_timeout_def expire_def)
  ultimately have "drive_calm (set_timeout GaugeTimer 150 (?w\<lparr>doc := d\<rparr>))"
    using assms(1) by (auto simp only: drive_calm_def split: option.splits)
  then show ?thesis by (simp add: report_def form)
qed

lemma drive_calm_open:
  assumes "drive_calm w" and "i < length (socks w)" and "ready_at (socks w) i = CONNECTING"
  shows "drive_calm (report (exchange_open E) (ready_now i OPEN w))"
proof -
  obtain k where k: "d_ws w = Some k" "Suc k = length (socks w)" using assms(1) by (auto simp: drive_calm_def split: option.splits)
  have "i = k"
  proof (rule ccontr)
    assume "i \<noteq> k"
    then have "i < k" using assms(2) k(2) by simp
    then show False using assms(1,3) k(1) by (auto simp: drive_calm_def)
  qed
  then have "drive_calm (ready_now i OPEN w)"
    using assms k by (auto simp: drive_calm_def ready_now_def ready_change drive_waits_def)
  moreover have "keeps same_line (exchange_open E)"
    unfolding exchange_open_def by (intro line_intros line_handlers)
  ultimately show ?thesis using same_line_calm report_line by blast
qed

lemma drive_calm_closed:
  assumes "drive_calm w" and "i < length (socks w)" and "ready_at (socks w) i \<noteq> CLOSED"
  shows "drive_calm (if i \<in> set (d_silent w) then ready_now i CLOSED w else report exchange_close (ready_now i CLOSED w))"
proof -
  obtain k where k: "d_ws w = Some k" "Suc k = length (socks w)" using assms(1) by (auto simp: drive_calm_def split: option.splits)
  show ?thesis
  proof (cases "i = k")
    case True
    then have "i \<notin> set (d_silent w)" using assms(1) k by (auto simp: drive_calm_def list_all_iff)
    moreover have "report exchange_close (ready_now i CLOSED w)
        = set_timeout ExchangeTimer 500 ((ready_now i CLOSED w)\<lparr>doc := doc (snd (setStatus False (ready_now i CLOSED w)))\<rparr>)"
      by (simp add: report_def exchange_close_def status_form assign_def)
    moreover have "drive_calm \<dots>"
      using assms k True
      by (auto simp: drive_calm_def ready_now_def ready_change set_timeout_def drive_waits_def list_all_iff)
    ultimately show ?thesis by simp
  next
    case False
    then have "i < k" using assms(2) k(2) by simp
    then have "i \<in> set (d_silent w)" using assms(1,3) k by (auto simp: drive_calm_def)
    then show ?thesis using assms k False by (auto simp: drive_calm_def ready_now_def ready_change)
  qed
qed

lemma drive_calm_reconnect:
  assumes "drive_reaches E" and "drive_calm w" and "\<not> list_ex (\<lambda>x. t_cb x = ExchangeTimer) (timers w)"
  shows "drive_calm (report (reconnectWs E) w)"
proof -
  obtain k where k: "d_ws w = Some k" "Suc k = length (socks w)" "drive_waits (ready_at (socks w) k) (timers w)"
    using assms(2) by (auto simp: drive_calm_def split: option.splits)
  have "ExchangeTimer \<notin># mset (map t_cb (timers w))" using assms(3) by (auto simp: list_ex_iff)
  then have live: "ready_at (socks w) k = CONNECTING \<or> ready_at (socks w) k = OPEN" "mset (map t_cb (timers w)) = {#GaugeTimer#}"
    using k(3) unfolding drive_waits_def by (cases "ready_at (socks w) k"; simp)+
  let ?d = "(doc w)((''ws-status'', ''className'') := lit ''badge '' @ lit ''err'', (''ws-status'', ''textContent'') := ru_no_connection)"
  have "reconnectWs E w = (None, w\<lparr>doc := ?d, d_silent := k # d_silent w, d_ws := Some (length (socks w)),
      socks := upd_at k (s_ready_update (\<lambda>_. CLOSING)) (socks w) @ [drive_socket E]\<rparr>)"
    using k(1) live(1) by (auto simp: reconnectWs_def assign_def sock_close_def status_form exchange_form [OF assms(1)])
  moreover have "j < length (socks w) \<longleftrightarrow> j < k \<or> j = k" for j using k(2) by auto
  ultimately show ?thesis
    using assms(2) k live by (auto simp: report_def drive_calm_def ready_append ready_change drive_waits_def drive_socket_def list_all_iff)
qed

lemma drive_calm_load: "drive_reaches E \<Longrightarrow> drive_calm (drive_load E baud regs)"
  by (simp add: load_form drive_calm_def drive_waits_def ready_at_def drive_socket_def)

lemma drive_calm_step:
  assumes "drive_reaches E" and "drive_calm w" and "drive_calm_enabled w e"
  shows "drive_calm (drive_step E g e w)"
proof (cases e)
  case (DriveField el v)
  then show ?thesis using same_line_calm [OF _ assms(2), of "drive_step E g e w"] by (simp add: same_line_def)
next
  case (DriveInput adr c)
  then show ?thesis using same_line_calm [OF _ assms(2), of "drive_step E g e w"] by (simp add: same_line_def)
next
  case (DriveOpen i)
  then show ?thesis using assms(3) by (simp add: drive_calm_open [OF assms(2)])
next
  case (DriveClosed i)
  then show ?thesis using drive_calm_closed [OF assms(2)] assms(3) by simp
next
  case (DriveExchange t)
  then show ?thesis using drive_calm_exchange [OF assms(1,2)] assms(3) by simp
next
  case (DriveGauges t)
  then show ?thesis using drive_calm_gauges [OF assms(2)] assms(3) by simp
next
  case DriveReconnect
  then show ?thesis using drive_calm_reconnect [OF assms(1,2)] assms(3) by simp
qed (use assms(2) in \<open>auto simp: same_line_calm [OF report_line] line_handlers split: option.split\<close>)

interpretation drive_calmly: loop_invariant "drive_load E baud regs" drive_calm_enabled "drive_step E g" "\<lambda>w. drive_reaches E \<longrightarrow> drive_calm w"
  by unfold_locales (simp_all add: drive_calm_load drive_calm_step)

end
