(* ===== verification/Drive_Properties.thy ===== *)
theory Drive_Properties
  imports Drive_Values Drive_Calm Page_Modbus
begin

section \<open>Properties of the pages of the frequency converters\<close>

text \<open>
  The page together with the gateway: a new connection subscribes to every register of the table once, an answer changes the registers
  it has and the table shows them, and a value written by the user reaches the converter.
\<close>

subsection \<open>The frames of the page\<close>

definition sub_arg :: "nat \<Rightarrow> nat \<Rightarrow> nat \<Rightarrow> json" where
  "sub_arg adr s n = JObj [(lit ''AWT'', JNat 500), (lit ''RDL'', JNat 250), (lit ''FN'', JNat 3), (lit ''ADR'', JNat adr),
     (lit ''RA'', JNat s), (lit ''RVC'', JNat n)]"

definition write_arg :: "nat \<Rightarrow> nat \<Rightarrow> nat \<Rightarrow> json" where
  "write_arg adr ra v = JObj [(lit ''FN'', JNat 6), (lit ''ADR'', JNat adr), (lit ''RA'', JNat ra), (lit ''RVC'', JNat v)]"

lemma number_text: "n < 10 ^ 15 \<Longrightarrow> stringify ns (JNat n) = show_nat n"
  by (simp add: JNat_def num_json_safe show_nat_safe)

lemma name_text: "json_plain k \<Longrightarrow> quote_json k = 34 # k @ [34]"
  by (simp add: quote_json_def quote_body_plain)

lemma subscribe_text_json:
  assumes "fid < 65536" and "sid < 65536" and "adr < 65536" and "s < 65536" and "n < 65536"
  shows "subscribe_text E (Some (int fid)) sid (Some (int adr)) s n = stringify ns (page_request fid 4 sid (sub_arg adr s n))"
  using assms
  by (simp add: subscribe_text_def page_request_def sub_arg_def number_text name_text modbus_names ascii_names num_tmpl_nat
      del: lit_Cons show_nat_less show_nat_ge) (simp add: lit_def)

lemma write_text_json:
  assumes "fid < 65536" and "sid < 65536" and "adr < 65536" and "ra < 65536" and "v < 65536"
  shows "write_text E (Some (int fid)) sid (Some (int adr)) ra (Some (int v)) = stringify ns (page_request fid 0 sid (write_arg adr ra v))"
  using assms
  by (simp add: write_text_def page_request_def write_arg_def number_text name_text modbus_names ascii_names num_tmpl_nat
      del: lit_Cons show_nat_less show_nat_ge) (simp add: lit_def)

subsection \<open>Subscriptions\<close>

lemma drive_arg_good:
  "adr < 65536 \<Longrightarrow> s < 65536 \<Longrightarrow> n < 65536 \<Longrightarrow> json_wf (sub_arg adr s n) \<and> ascii_json (sub_arg adr s n)"
  "adr < 65536 \<Longrightarrow> ra < 65536 \<Longrightarrow> v < 65536 \<Longrightarrow> json_wf (write_arg adr ra v) \<and> ascii_json (write_arg adr ra v)"
  by (simp_all add: sub_arg_def write_arg_def JNat_wf ascii_JNat modbus_names)

lemma drive_arg_items:
  assumes "cjson_documented L"
  shows "c_item L ''ADR'' (sub_arg adr s n) = Some (JNat adr)" "c_item L ''FN'' (sub_arg adr s n) = Some (JNat 3)"
    "c_item L ''RA'' (sub_arg adr s n) = Some (JNat s)" "c_item L ''RVC'' (sub_arg adr s n) = Some (JNat n)"
    "c_item L ''RD'' (sub_arg adr s n) = None" "c_item L ''AWT'' (sub_arg adr s n) = Some (JNat 500)"
    "c_item L ''RDL'' (sub_arg adr s n) = Some (JNat 250)"
    "c_item L ''ADR'' (write_arg adr ra v) = Some (JNat adr)" "c_item L ''FN'' (write_arg adr ra v) = Some (JNat 6)"
    "c_item L ''RA'' (write_arg adr ra v) = Some (JNat ra)" "c_item L ''RVC'' (write_arg adr ra v) = Some (JNat v)"
    "c_item L ''RD'' (write_arg adr ra v) = None" "c_item L ''AWT'' (write_arg adr ra v) = None"
    "c_item L ''RDL'' (write_arg adr ra v) = None"
  by (simp_all add: cjson_item [OF assms] sub_arg_def write_arg_def lower_def lit_def)

text \<open>What the Modbus task makes of a call whose argument is an object.\<close>

lemma object_call_handled:
  assumes "cjson_documented L" and "json_wf (JObj ms)" and "ascii_json (JObj ms)" and "parse_modbus L M (JObj ms) = Some (f, awt)"
  shows "handle_modbus_msg L M HH (request_of (page_call L H a hlr fid flags sid (JObj ms))) k n = modbus_exchange M HH f awt k n"
proof -
  have "c_parse L (stringify id (JObj ms)) = Some (JObj ms)" by (rule cjson_parse [OF assms(1-3)])
  moreover obtain c cs where "stringify id (JObj ms) = c # cs" using stringify_cons by auto
  ultimately show ?thesis unfolding long_call_message by (simp add: handle_modbus_msg_def assms(4))
qed

text \<open>The calls of a list of subscriptions, with the numbers from \<open>m\<close> on.\<close>

fun sub_calls :: "cjson_lib \<Rightarrow> hal \<Rightarrow> nat \<Rightarrow> bool \<Rightarrow> nat \<Rightarrow> nat \<Rightarrow> nat \<Rightarrow> (nat \<times> nat) list \<Rightarrow> call list" where
  "sub_calls L H a hlr fid adr m [] = []"
| "sub_calls L H a hlr fid adr m (r # rs) = page_call L H a hlr fid 4 (sid_of m) (sub_arg adr (fst r) (snd r)) # sub_calls L H a hlr fid adr (Suc m) rs"

lemma gateway_subscribed:
  assumes "cjson_documented L" and "0 < fid" and "fid < 65536" and "adr < 256"
    and "list_all (\<lambda>r. fst r < 65536 \<and> snd r < 65536) rs" and "gateway_ready s conn a fid"
  shows "fold (ws_server_on_text L H conn) (sub_texts E (Some (int fid)) (Some (int adr)) m rs) s
    = s\<lparr>s_calls := s_calls s @ sub_calls L H a (word_of_nat fid \<in> set (s_handlers s)) fid adr m rs\<rparr>"
  using assms(5,6)
proof (induction rs arbitrary: m s)
  case (Cons r rs)
  let ?s = "s\<lparr>s_calls := s_calls s @ [page_call L H a (word_of_nat fid \<in> set (s_handlers s)) fid 4 (sid_of m) (sub_arg adr (fst r) (snd r))]\<rparr>"
  have "ws_server_on_text L H conn (stringify ns (page_request fid 4 (sid_of m) (sub_arg adr (fst r) (snd r)))) s = ?s" for ns
    using Cons.prems assms(1-4) sid_less [of m] drive_arg_good(1) [of adr "fst r" "snd r"]
    by (intro page_request_call) (simp_all add: gateway_ready_def)
  moreover have "gateway_ready ?s conn a fid"
    using Cons.prems(2) by (simp add: gateway_ready_def ws_get_fid_queue_def)
  moreover have "subscribe_text E (Some (int fid)) (sid_of m) (Some (int adr)) (fst r) (snd r)
      = stringify id (page_request fid 4 (sid_of m) (sub_arg adr (fst r) (snd r)))"
    using Cons.prems(1) assms(3,4) sid_less [of m] by (intro subscribe_text_json) simp_all
  ultimately show ?case
    using Cons.IH [of ?s "Suc m"] Cons.prems(1) by simp
qed simp

text \<open>A long-term call that reads a run of registers.\<close>

definition subscription :: "cjson_lib \<Rightarrow> 'm mb_lib \<Rightarrow> hal \<Rightarrow> hal \<Rightarrow> nat \<Rightarrow> nat \<Rightarrow> nat \<Rightarrow> nat \<times> nat \<Rightarrow> call \<Rightarrow> bool" where
  "subscription L M H HH a fid adr r call \<longleftrightarrow> call_session call = Some a \<and> call_fid call = word_of_nat fid
     \<and> has_flag FLAG_LONG_TERM call \<and> call_poll call = h_ms_to_ticks H 250
     \<and> (\<forall>k n. handle_modbus_msg L M HH (request_of call) k n = modbus_exchange M HH (read_frame 3 adr (fst r) (snd r)) 500 k n)"

lemma sub_calls_subscriptions:
  assumes "cjson_documented L" and "adr < 256" and "list_all (\<lambda>r. fst r < 65536 \<and> snd r < 65536) rs"
  shows "list_all2 (subscription L M H HH a fid adr) rs (sub_calls L H a hlr fid adr m rs)"
  using assms(3)
proof (induction rs arbitrary: m)
  case (Cons r rs)
  let ?arg = "sub_arg adr (fst r) (snd r)"
  have "parse_modbus L M ?arg = Some (read_frame 3 adr (fst r) (snd r), word_of_nat 500)"
    by (rule parse_read [OF assms(1) drive_arg_items(1-5) [OF assms(1)]])
      (use assms(2) Cons.prems in \<open>simp_all add: drive_arg_items(6) [OF assms(1)]\<close>)
  then have "handle_modbus_msg L M HH (request_of (page_call L H a hlr fid 4 (sid_of m) ?arg)) k n
      = modbus_exchange M HH (read_frame 3 adr (fst r) (snd r)) 500 k n" for k n
    using drive_arg_good(1) [of adr "fst r" "snd r"] assms(2) Cons.prems
    unfolding sub_arg_def by (intro object_call_handled [OF assms(1)]) simp_all
  moreover have "call_poll (page_call L H a hlr fid 4 (sid_of m) ?arg) = h_ms_to_ticks H 250"
    using cjson_int [OF assms(1), of 250] by (simp add: page_call_def drive_arg_items(7) [OF assms(1)] JNat_def del: show_nat_less show_nat_ge)
  moreover have "has_flag FLAG_LONG_TERM (page_call L H a hlr fid 4 (sid_of m) ?arg)"
    by (simp add: has_flag_def page_call_def FLAG_LONG_TERM_def FLAG_NEW_def)
  ultimately have "subscription L M H HH a fid adr r (page_call L H a hlr fid 4 (sid_of m) ?arg)"
    by (simp add: subscription_def page_call_def)
  then show ?case using Cons by simp
qed simp

lemma range_bounds:
  assumes "list_all (\<lambda>x. x < 65536) adrs"
  shows "list_all (\<lambda>r. fst r < 65536 \<and> snd r < 65536) (sub_ranges adrs)"
proof -
  have "fst r < 65536 \<and> snd r < 65536" if r: "r \<in> set (sub_ranges adrs)" for r
  proof -
    have n: "1 \<le> snd r" "snd r \<le> 100" using sub_ranges_facts(2) [of adrs] r by (simp_all add: list_all_iff)
    then have "fst r \<in> set (run_adrs r)" by simp
    then have "fst r \<in> set (concat (map run_adrs (sub_ranges adrs)))" using r by auto
    then have "fst r \<in> set adrs" by (simp only: sub_ranges_facts(1) set_sort)
    then show ?thesis using assms n by (auto simp: list_all_iff)
  qed
  then show ?thesis by (simp add: list_all_iff)
qed

text \<open>A page whose connection is about to open, and its settings.\<close>

definition drive_connecting :: "drive \<Rightarrow> nat \<Rightarrow> nat \<Rightarrow> nat \<Rightarrow> bool" where
  "drive_connecting w i fid adr \<longleftrightarrow> d_ws w = Some i \<and> i < length (socks w) \<and> getMbFid w = Some (int fid) \<and> drive_addr w = Some (int adr)
     \<and> 0 < fid \<and> fid < 65536 \<and> adr < 256 \<and> list_all (\<lambda>r. r_adr r < 65536) (d_regs w)"

text \<open>C7. A new connection subscribes to every register. When the connection of the page opens, the page sends the configuration of the port and then requests for runs of
  registers, which together are the registers of the table, each once, in ascending order, and at most a hundred in one run; no run could be longer. The gateway makes
  each request one long-term call that is repeated every 250 ms, and the Modbus task makes the exchange for it with the selected device,
  function 3, the registers of the run, and 500 ms for the answer.\<close>

theorem every_register_is_subscribed:
  assumes "cjson_documented L" and "drive_connecting w i fid adr" and "gateway_ready s conn a fid"
  shows "\<exists>cfg fs runs calls. sent_at (socks (drive_step E g (DriveOpen i) w)) i = sent_at (socks w) i @ cfg # fs
    \<and> fold (ws_server_on_text L H conn) fs s = s\<lparr>s_calls := s_calls s @ calls\<rparr>
    \<and> list_all2 (subscription L M H HH a fid adr) runs calls
    \<and> concat (map (\<lambda>r. [fst r..<fst r + snd r]) runs) = sort (map r_adr (d_regs w))
    \<and> list_all (\<lambda>r. 1 \<le> snd r \<and> snd r \<le> 100) runs \<and> successively run_ends runs"
proof -
  let ?w = "ready_now i OPEN w" and ?runs = "sub_ranges (map r_adr (d_regs w))"
  let ?fs = "sub_texts E (Some (int fid)) (Some (int adr)) (Suc (d_sid w)) ?runs"
  have page: "d_ws w = Some i" "i < length (socks w)" "getMbFid w = Some (int fid)" "drive_addr w = Some (int adr)"
    and less: "0 < fid" "fid < 65536" "adr < 256" and bounds: "list_all (\<lambda>x. x < 65536) (map r_adr (d_regs w))"
    using assms(2) by (simp_all add: drive_connecting_def list_all_iff)
  have now: "d_ws ?w = Some i" "ready_at (socks ?w) i = OPEN" "i < length (socks ?w)" "getMbFid ?w = getMbFid w" "drive_addr ?w = drive_addr w"
    "d_regs ?w = d_regs w" "d_sid ?w = d_sid w"
    using page(1,2) by (simp_all add: ready_now_def ready_change getMbFid_def drive_addr_def field_def)
  have before: "sent_at (socks ?w) i = sent_at (socks w) i"
    using page(2) by (simp add: ready_now_def sent_at_def upd_at_def)
  have "\<exists>d. exchange_open E ?w = (None, (frames_sent (config_text E ?w # ?fs) ?w)\<lparr>doc := d, d_sid := Suc (d_sid w) + length ?runs\<rparr>)"
    using open_sends [OF now(1,2), of E] now page(3,4) by auto
  then obtain d where "exchange_open E ?w = (None, (frames_sent (config_text E ?w # ?fs) ?w)\<lparr>doc := d, d_sid := Suc (d_sid w) + length ?runs\<rparr>)" ..
  then have "sent_at (socks (drive_step E g (DriveOpen i) w)) i = sent_at (socks w) i @ config_text E ?w # ?fs"
    using frames_sent_at [OF now(1,3)] before by (simp add: report_def)
  moreover note range_bounds [OF bounds]
  ultimately show ?thesis
    using gateway_subscribed [OF assms(1) less _ assms(3), of ?runs H E "Suc (d_sid w)"] sub_calls_subscriptions [OF assms(1) less(3), of ?runs]
      sub_ranges_facts [of "map r_adr (d_regs w)"]
    by blast
qed

text \<open>The page of the first converter, and a gateway with the Modbus function of the second port.\<close>

definition demo_drive_env :: drive_env where
  "demo_drive_env = \<lparr>url_ok = (\<lambda>_. True), exn_text = (\<lambda>_. []), num_str = id, max_args = 65536, str_num = id, below = (\<lambda>_. 0), trunc = (\<lambda>_. 0),
     big_fixed = (\<lambda>_. []), d_host = lit ''192.168.4.1'', quotient = (\<lambda>t _. t), quotient_fixed = (\<lambda>_ t _. t), plus_index = (\<lambda>_ _. None),
     big_decimal = (\<lambda>_. (0, 0)), lower_text = id\<rparr>"

definition demo_drive :: drive where
  "demo_drive = drive_load demo_drive_env (lit ''115200'') (idd_regs (\<lambda>_ _. []))"

lemma demo_drive_reaches: "drive_reaches demo_drive_env"
  by (simp add: drive_reaches_def demo_drive_env_def)

lemma demo_drive_connecting: "drive_connecting demo_drive 0 4387 1"
  using load_fields [OF demo_drive_reaches, of "lit ''115200''" "idd_regs (\<lambda>_ _. [])"] idd_small [of "\<lambda>_ _. []"]
  by (simp add: drive_connecting_def demo_drive_def) (simp add: load_form [OF demo_drive_reaches])

definition second_port :: server where
  "second_port = snd (ws_server_register_fid_queue always 0x1123 0 booted)"

lemma second_port_ready: "gateway_ready second_port 1 0 4387"
  by (simp add: gateway_ready_def second_port_def ws_server_register_fid_queue_def ws_get_fid_queue_def booted_eq ws_server_init_def always_def)

theorem every_register_is_subscribed_witness:
  "\<exists>cfg fs calls. sent_at (socks (drive_step demo_drive_env (2000, 20) (DriveOpen 0) demo_drive)) 0 = sent_at (socks demo_drive) 0 @ cfg # fs
    \<and> s_calls (fold (ws_server_on_text plain_cjson always 1) fs second_port) = s_calls second_port @ calls"
  using every_register_is_subscribed [OF plain_cjson_documented demo_drive_connecting second_port_ready, of demo_drive_env "(2000, 20)" always plain_modbus always]
  by auto

subsection \<open>Answers\<close>

lemma mb_values_amount:
  assumes "mb_frame_data M f = (regs, code, amount, width)"
  shows "length (mb_values M f) \<le> unat amount"
  by (simp add: mb_values_def assms split: option.split)

lemma mb_object_members:
  assumes "mb_frame_data M f = (regs, code, amount, width)"
  shows "\<exists>ms. mb_object M f vs = JObj ms \<and> get_prop ''RA'' (JObj ms) = Inr (Some (JNat (unat (fr_reg f))))
    \<and> get_prop ''RC'' (JObj ms) = Inr (Some (JNat (unat amount))) \<and> get_prop ''RD'' (JObj ms) = Inr (Some (JArr (map JNat (map unat vs))))"
  by (simp add: mb_object_def assms get_prop_def comp_def) (simp add: lit_def)

lemma drive_gets_answer:
  assumes "getMbFid w = Some (int fid)" and "fid < 65536" and "fid \<noteq> 0x1010" and "fid \<noteq> 0x1020"
  shows "\<exists>n :: nat. wsMessage E (Text (response_text (word_of_nat fid) sid (mb_response_text M f))) w
      = (None, if n = 0 then w else page_shown E (w\<lparr>d_regs := map (answered (unat (fr_reg f)) (map unat (mb_values M f))) (d_regs w)\<rparr>))
    \<and> (n = 0 \<longrightarrow> mb_values M f = [])"
proof -
  obtain regs code amount width where data: "mb_frame_data M f = (regs, code, amount, width)" by (cases "mb_frame_data M f")
  obtain ms where ms: "mb_object M f (mb_values M f) = JObj ms" "get_prop ''RA'' (JObj ms) = Inr (Some (JNat (unat (fr_reg f))))"
    "get_prop ''RC'' (JObj ms) = Inr (Some (JNat (unat amount)))" "get_prop ''RD'' (JObj ms) = Inr (Some (JArr (map JNat (map unat (mb_values M f)))))"
    using mb_object_members [OF data] by blast
  have fid: "uint (word_of_nat fid :: 32 word) = int fid"
    using assms(2) by (simp add: unsigned_of_nat take_bit_nat_eq_self)
  have "json_parse (data_text (Text (response_text (word_of_nat fid) sid (mb_response_text M f))))
      = Some (response_object (word_of_nat fid) sid (JObj ms))"
    unfolding response_text_object [of M f id] ms(1) [symmetric] by (rule response_data) (rule mb_object_wf)
  then have "wsMessage E (Text (response_text (word_of_nat fid) sid (mb_response_text M f))) w = modbusHandler E (Some (JObj ms)) w"
    using assms by (simp add: wsMessage_def stmt_defs response_members parse_value_hex fid split: prod.split option.split)
  moreover have "modbusHandler E (Some (JObj ms)) w
      = (None, if unat amount = 0 then w else page_shown E (w\<lparr>d_regs := map (answered (unat (fr_reg f)) (map unat (mb_values M f))) (d_regs w)\<rparr>))"
    by (rule modbusHandler_form [OF ms(2-4) half_less])
      (use mb_values_amount [OF data] less_trans [OF byte_less, of 65536 amount] half_less in \<open>simp_all add: list_all_iff\<close>)
  moreover have "unat amount = 0 \<longrightarrow> mb_values M f = []" using mb_values_amount [OF data] by auto
  ultimately show ?thesis by (intro exI [of _ "unat amount"]) (simp only: simp_thms)
qed


text \<open>A page with an open connection and its settings; an answer with two registers.\<close>

definition drive_ready :: "drive \<Rightarrow> nat \<Rightarrow> nat \<Rightarrow> nat \<Rightarrow> bool" where
  "drive_ready w i fid adr \<longleftrightarrow> d_ws w = Some i \<and> i < length (socks w) \<and> ready_at (socks w) i = OPEN \<and> getMbFid w = Some (int fid)
     \<and> drive_addr w = Some (int adr) \<and> 0 < fid \<and> fid < 65536 \<and> adr < 256"

definition open_drive :: drive where
  "open_drive = drive_step demo_drive_env (2000, 20) (DriveOpen 0) demo_drive"

lemma opened:
  assumes "drive_reaches E"
  shows "\<exists>d. drive_step E g (DriveOpen 0) (drive_load E baud regs)
    = (frames_sent (config_text E (drive_load E baud regs) # sub_texts E (Some 4387) (Some 1) 2 (sub_ranges (map r_adr regs))) (ready_now 0 OPEN (drive_load E baud regs)))
        \<lparr>doc := d, d_sid := 2 + length (sub_ranges (map r_adr regs))\<rparr>
    \<and> (\<forall>el. d (el, ''value'') = doc (drive_load E baud regs) (el, ''value''))"
proof -
  let ?w = "drive_load E baud regs"
  have now: "d_ws (ready_now 0 OPEN ?w) = Some 0" "ready_at (socks (ready_now 0 OPEN ?w)) 0 = OPEN" "d_sid (ready_now 0 OPEN ?w) = 1"
    "d_regs (ready_now 0 OPEN ?w) = regs" "doc (ready_now 0 OPEN ?w) = doc ?w"
    by (simp_all add: ready_now_def load_form [OF assms] ready_change)
  have fields: "getMbFid (ready_now 0 OPEN ?w) = Some 4387" "drive_addr (ready_now 0 OPEN ?w) = Some 1" "config_text E (ready_now 0 OPEN ?w) = config_text E ?w"
    using load_fields [OF assms, of baud regs]
    by (simp_all add: ready_now_def getMbFid_def drive_addr_def field_def config_text_def getCnfFid_def drive_config_arg_def)
  have "exchange_open E (ready_now 0 OPEN ?w) = (None, (frames_sent (config_text E ?w # sub_texts E (Some 4387) (Some 1) 2 (sub_ranges (map r_adr regs))) (ready_now 0 OPEN ?w))
      \<lparr>doc := (doc ?w)((''ws-status'', ''className'') := lit ''badge ok'', (''ws-status'', ''textContent'') := ru_online),
       d_sid := 2 + length (sub_ranges (map r_adr regs))\<rparr>)"
    using open_sends [OF now(1,2), of E] by (simp add: now(3-5) fields numeral_2_eq_2)
  then show ?thesis by (intro exI conjI) (simp only: drive_step.simps report_def prod.case option.case, simp)
qed

lemma open_fields:
  assumes "drive_reaches E" and "w = drive_step E g (DriveOpen 0) (drive_load E baud regs)"
  shows "drive_ready w 0 4387 1" "d_regs w = regs" "d_inputs w = control_at E regs" "d_sid w = 2 + length (sub_ranges (map r_adr regs))"
proof -
  let ?w = "drive_load E baud regs"
  obtain d where d: "w = (frames_sent (config_text E ?w # sub_texts E (Some 4387) (Some 1) 2 (sub_ranges (map r_adr regs))) (ready_now 0 OPEN ?w))
      \<lparr>doc := d, d_sid := 2 + length (sub_ranges (map r_adr regs))\<rparr>" "\<forall>el. d (el, ''value'') = doc ?w (el, ''value'')"
    using opened [OF assms(1), of g baud regs] unfolding assms(2) by blast
  have now: "d_ws (ready_now 0 OPEN ?w) = Some 0" "ready_at (socks (ready_now 0 OPEN ?w)) 0 = OPEN" "length (socks (ready_now 0 OPEN ?w)) = 1"
    "d_regs (ready_now 0 OPEN ?w) = regs" "d_inputs (ready_now 0 OPEN ?w) = control_at E regs"
    by (simp_all add: ready_now_def load_form [OF assms(1)] ready_change)
  have "getMbFid w = getMbFid ?w" "drive_addr w = drive_addr ?w"
    using d(2) by (simp_all add: d(1) getMbFid_def drive_addr_def field_def)
  moreover have "length (socks w) = 1" "d_ws w = Some 0" "ready_at (socks w) 0 = OPEN" by (simp_all add: d(1) now)
  ultimately show "drive_ready w 0 4387 1" using load_fields [OF assms(1), of baud regs] by (simp add: drive_ready_def)
  show "d_regs w = regs" "d_inputs w = control_at E regs" "d_sid w = 2 + length (sub_ranges (map r_adr regs))"
    by (simp_all add: d(1) now)
qed

lemma open_drive_fields: "drive_ready open_drive 0 4387 1" "d_regs open_drive = idd_regs (\<lambda>_ _. [])"
  using open_fields(1,2) [OF demo_drive_reaches refl, of "(2000, 20)" "lit ''115200''" "idd_regs (\<lambda>_ _. [])"] by (simp_all add: open_drive_def demo_drive_def)

lemma find_lines: "find_reg k (r # rs) = (if int (r_adr r) = k then Some r else find_reg k rs)"
  by (simp add: find_reg_def)

text \<open>Some registers of the first converter: frequency and current, the maximum frequency, and the initialisation.\<close>

lemma idd_105: "find_reg 105 (idd_regs D) = Some (unit_reg D 105 2 10 ''50'')"
  unfolding idd_regs_def by (simp add: find_lines line_adrs)

lemma idd_117: "find_reg 117 (idd_regs D) = Some (enum_reg D 117 2 [8] ''0'')"
  unfolding idd_regs_def by (simp add: find_lines line_adrs)

lemma idd_2_3: "find_reg 2 (idd_regs D) = Some (unit_reg D 2 0 10 ''0'')" "find_reg 3 (idd_regs D) = Some (unit_reg D 3 0 10 ''0'')"
  unfolding idd_regs_def by (simp_all add: find_lines line_adrs)

lemma find_reg_map: "(\<And>r. r_adr (F r) = r_adr r) \<Longrightarrow> find_reg k (map F rs) = map_option F (find_reg k rs)"
  by (induction rs) (simp_all add: find_reg_def)

lemma find_reg_in: "find_reg k rs = Some r \<Longrightarrow> r \<in> set rs"
  by (auto simp: find_reg_def find_Some_iff)

definition freq_frame :: modbus_frame where
  "freq_frame = \<lparr>fr_addr = 1, fr_func = 3, fr_reg = 2, fr_count = 2, fr_length_code = 0, fr_size = 4,
     fr_data = Some [0xF4, 0x01, 0x2A, 0x00]\<rparr>"


text \<open>C12. The table always shows the registers. Whatever the user does and whatever comes in over the connections, also texts that are no answers, in every reachable state the
  two cells of each register of the table show its value and the description of this value, and the registers are those of the table.\<close>

theorem table_is_current:
  assumes "drive_reaches E" and "distinct (map r_adr regs)" and "reachable (drive_load E baud regs) drive_enabled (drive_step E g) w"
  shows "map r_adr (d_regs w) = map r_adr regs
    \<and> (\<forall>r \<in> set (d_regs w). doc w (rv_id (r_adr r), ''textContent'') = r_value r \<and> doc w (rd_id (r_adr r), ''textContent'') = getRegDescription E r)"
  using drive_table.inv_reachable [OF assms(3)] assms(1,2) by (simp add: table_inv_def table_shows_def shows_reg_def)

theorem table_is_current_witness:
  "doc open_drive (rv_id 105, ''textContent'') = lit ''50''"
proof -
  have "reachable (drive_load demo_drive_env (lit ''115200'') (idd_regs (\<lambda>_ _. []))) drive_enabled (drive_step demo_drive_env (2000, 20)) open_drive"
    unfolding open_drive_def demo_drive_def
    by (rule reach_step [OF reach_init]) (simp add: load_form [OF demo_drive_reaches] ready_at_def drive_socket_def)
  moreover have "unit_reg (\<lambda>_ _. []) 105 2 10 ''50'' \<in> set (d_regs open_drive)"
    unfolding open_drive_fields(2) by (rule find_reg_in [OF idd_105])
  ultimately show ?thesis
    using table_is_current [OF demo_drive_reaches tables_distinct(1)] by (fastforce simp: unit_reg_def)
qed

subsection \<open>Writes\<close>

lemma write_form:
  assumes "drive_ready w i fid adr" and "find_reg (int ra) (d_regs w) = Some reg" and "control_value E reg c = Inr v"
  shows "writeRegister E ra c w = (None, (frames_sent [write_text E (Some (int fid)) (sid_of (d_sid w)) (Some (int adr)) ra v] w)\<lparr>d_sid := Suc (d_sid w)\<rparr>)"
proof -
  have "drive_open w" "getMbFid w = Some (int fid)" "drive_addr w = Some (int adr)" using assms(1) by (simp_all add: drive_ready_def drive_open_def)
  then show ?thesis
    by (simp add: writeRegister_def assms(2,3) stmt_defs next_sid_def drive_send_form frames_sid Let_def)
qed

lemma write_sends:
  assumes "drive_ready w i fid adr" and "d_inputs w ra = Some c" and "find_reg (int ra) (d_regs w) = Some reg" and "control_value E reg c = Inr v"
  shows "sent_at (socks (drive_step E g (DriveWrite ra) w)) i
    = sent_at (socks w) i @ [write_text E (Some (int fid)) (sid_of (d_sid w)) (Some (int adr)) ra v]"
proof -
  have "d_ws w = Some i" "i < length (socks w)" using assms(1) by (simp_all add: drive_ready_def)
  then show ?thesis using frames_sent_at [of w i] by (simp add: assms(2) report_def write_form [OF assms(1,3,4)])
qed

text \<open>C10. A value the user writes reaches the converter. When the user presses the button of a register and its control holds a value below 65536, the page sends one frame over its
  open connection, the gateway makes it one call that is not repeated, and the Modbus task makes the exchange for it with the selected device, function 6, the address
  of the register, the value, and 500 ms for the answer.\<close>

theorem register_write_reaches_device:
  assumes "cjson_documented L" and "drive_ready w i fid adr" and "gateway_ready s conn a fid"
    and "d_inputs w ra = Some c" and "find_reg (int ra) (d_regs w) = Some reg" and "control_value E reg c = Inr (Some (int v))"
    and "ra < 65536" and "v < 65536"
  shows "\<exists>f call. sent_at (socks (drive_step E g (DriveWrite ra) w)) i = sent_at (socks w) i @ [f]
    \<and> ws_server_on_text L H conn f s = s\<lparr>s_calls := s_calls s @ [call]\<rparr>
    \<and> call_session call = Some a \<and> call_fid call = word_of_nat fid \<and> call_flags call = FLAG_NEW \<and> call_poll call = 0
    \<and> handle_modbus_msg L M HH (request_of call) k n = modbus_exchange M HH (read_frame 6 adr ra v) 500 k n"
proof -
  have page: "0 < fid" "fid < 65536" "adr < 256" using assms(2) by (simp_all add: drive_ready_def)
  let ?arg = "write_arg adr ra v" and ?hlr = "word_of_nat fid \<in> set (s_handlers s)" and ?sid = "sid_of (d_sid w)"
  let ?f = "stringify id (page_request fid 0 ?sid ?arg)" and ?call = "page_call L H a ?hlr fid 0 ?sid ?arg"
  have good: "json_wf ?arg" "ascii_json ?arg" using drive_arg_good(2) [of adr ra v] page assms(7,8) by simp_all
  have "write_text E (Some (int fid)) ?sid (Some (int adr)) ra (Some (int v)) = ?f"
    using page assms(7,8) sid_less [of "d_sid w"] by (intro write_text_json) simp_all
  then have "sent_at (socks (drive_step E g (DriveWrite ra) w)) i = sent_at (socks w) i @ [?f]"
    using write_sends [OF assms(2,4,5,6), of g] by simp
  moreover have "ws_server_on_text L H conn ?f s = s\<lparr>s_calls := s_calls s @ [?call]\<rparr>"
    using assms(3) page sid_less [of "d_sid w"] good by (intro page_request_call [OF assms(1)]) (simp_all add: gateway_ready_def)
  moreover have "parse_modbus L M ?arg = Some (read_frame 6 adr ra v, word_of_nat 500)"
    by (rule parse_read [OF assms(1) drive_arg_items(8-12) [OF assms(1)]])
      (use page assms(7,8) in \<open>simp_all add: drive_arg_items(13) [OF assms(1)]\<close>)
  then have "handle_modbus_msg L M HH (request_of ?call) k n = modbus_exchange M HH (read_frame 6 adr ra v) 500 k n"
    using good unfolding write_arg_def by (intro object_call_handled [OF assms(1)]) simp_all
  ultimately show ?thesis
    by (intro exI [of _ ?f] exI [of _ ?call]) (simp add: page_call_def drive_arg_items(14) [OF assms(1)])
qed

lemma scaled_description:
  assumes "o_enum (r_opt reg) = None" and "o_mask (r_opt reg) = None" and "o_bcd (r_opt reg) = None" and "o_scale (r_opt reg) = Some (10 ^ d)" and "d \<le> 2"
    and "r_value reg = show_nat v" and "v < 65536"
  shows "getRegDescription E reg = to_fixed E d False (js_div v (10 ^ d)) @ (if o_desc (r_opt reg) = [] then [] else 32 # o_desc (r_opt reg))"
proof -
  have "scale_digits (10 ^ d) = d"
    using assms(5) by (auto simp: scale_digits_def numeral_2_eq_2 le_Suc_eq)
  then show ?thesis
    using assms(7) by (simp add: getRegDescription_def assms(1-4,6) Let_def fixed_quotient_text_def show_nat_safe read_int_nat)
qed

lemma scaled_control:
  assumes "o_bcd (r_opt reg) = None" and "o_scale (r_opt reg) = Some (10 ^ d)" and "d \<le> 2" and "v < 65536"
  shows "control_value E reg (Field (to_fixed E d False (js_div v (10 ^ d)))) = Inr (Some (int v))"
proof -
  obtain x where "parse_float E (to_fixed E d False (js_div v (10 ^ d))) = Some x" "math_round (js_times x (10 ^ d)) = int v"
    using typed_back [OF assms(4,3), of E] by blast
  then show ?thesis by (simp add: control_value_def assms(1,2))
qed

lemma typed_495: "control_value demo_drive_env (unit_reg D 105 2 10 ''50'') (Field (lit ''49.5'')) = Inr (Some (int 495))"
proof -
  have "to_fixed demo_drive_env 1 False (js_div 495 (10 ^ 1)) = lit ''49.5''"
    by (subst fixed_text) (simp_all add: point_def pad_start_def lit_def)
  then show ?thesis
    using scaled_control [of "unit_reg D 105 2 10 ''50''" 1 495 demo_drive_env] by (simp add: unit_reg_def no_opt_def)
qed

theorem register_write_reaches_device_witness:
  "let w = drive_step demo_drive_env (2000, 20) (DriveInput 105 (Field (lit ''49.5''))) open_drive
   in \<exists>f call. sent_at (socks (drive_step demo_drive_env (2000, 20) (DriveWrite 105) w)) 0 = sent_at (socks w) 0 @ [f]
     \<and> s_calls (ws_server_on_text plain_cjson always 1 f second_port) = s_calls second_port @ [call]
     \<and> handle_modbus_msg plain_cjson plain_modbus running (request_of call) (0, demo_port) 0
         = modbus_exchange plain_modbus running (read_frame 6 1 105 495) 500 (0, demo_port) 0"
proof -
  let ?w = "drive_step demo_drive_env (2000, 20) (DriveInput 105 (Field (lit ''49.5''))) open_drive"
  have "drive_ready ?w 0 4387 1" using open_drive_fields(1) by (simp add: drive_ready_def getMbFid_def drive_addr_def field_def)
  moreover have "d_inputs ?w 105 = Some (Field (lit ''49.5''))" by simp
  moreover have "find_reg (int 105) (d_regs ?w) = Some (unit_reg (\<lambda>_ _. []) 105 2 10 ''50'')" by (simp add: open_drive_fields(2) idd_105)
  ultimately show ?thesis
    using register_write_reaches_device [OF plain_cjson_documented _ second_port_ready _ _ typed_495 [of "\<lambda>_ _. []"], of ?w 0 1 105 "(2000, 20)" always
        plain_modbus running "(0, demo_port)" 0]
    by (auto simp: Let_def simp del: drive_step.simps)
qed

text \<open>C21. What the table shows can be typed back. For a register with a scale of 1, 10 or 100 and any value below 65536, the description that the table shows is a decimal number and
  the unit, and the page writes exactly the value of the register when the user types this number: the divisions and products in double precision lose nothing.\<close>

theorem shown_number_writes_back:
  assumes "o_enum (r_opt reg) = None" and "o_mask (r_opt reg) = None" and "o_bcd (r_opt reg) = None" and "o_scale (r_opt reg) = Some (10 ^ d)" and "d \<le> 2"
    and "r_value reg = show_nat v" and "v < 65536"
  shows "\<exists>t. getRegDescription E reg = t @ (if o_desc (r_opt reg) = [] then [] else 32 # o_desc (r_opt reg)) \<and> control_value E reg (Field t) = Inr (Some (int v))"
  using scaled_description [OF assms] scaled_control [OF assms(3,4,5,7), of E] by blast

theorem shown_number_writes_back_witness:
  "getRegDescription demo_drive_env (unit_reg (\<lambda>_ _. lit ''Hz'') 105 2 10 ''495'') = lit ''49.5 Hz''
   \<and> (\<exists>t. lit ''49.5 Hz'' = t @ 32 # lit ''Hz'' \<and> control_value demo_drive_env (unit_reg (\<lambda>_ _. lit ''Hz'') 105 2 10 ''495'') (Field t) = Inr (Some 495))"
proof -
  let ?r = "unit_reg (\<lambda>_ _. lit ''Hz'') 105 2 10 ''495''"
  have reg: "o_enum (r_opt ?r) = None" "o_mask (r_opt ?r) = None" "o_bcd (r_opt ?r) = None" "o_scale (r_opt ?r) = Some (10 ^ 1)" "r_value ?r = show_nat 495"
    "o_desc (r_opt ?r) = lit ''Hz''"
    by (simp_all add: unit_reg_def no_opt_def) (simp add: lit_def)
  have shown_text: "getRegDescription demo_drive_env ?r = lit ''49.5 Hz''"
  proof -
    have "to_fixed demo_drive_env 1 False (js_div 495 (10 ^ 1)) = lit ''49.5''"
      by (subst fixed_text) (simp_all add: point_def pad_start_def lit_def)
    then show ?thesis
      using scaled_description [OF reg(1-4) _ reg(5), of demo_drive_env] by (simp add: reg(6)) (simp add: lit_def)
  qed
  moreover have "lit ''Hz'' \<noteq> []" by (simp add: lit_def)
  ultimately show ?thesis
    using shown_number_writes_back [OF reg(1-4) _ reg(5), of demo_drive_env] by (simp add: reg(6))
qed

text \<open>The controls of the first table before the user touches them.\<close>

lemma control_found: "find_reg (int adr) regs = Some r \<Longrightarrow> control_at E regs adr = first_control E r"
  by (simp add: control_at_def find_reg_def)

lemma untouched_105:
  "first_control E (unit_reg D 105 2 10 ''50'') = Some (Field (lit ''5''))"
  "control_value E (unit_reg D 105 2 10 ''50'') (Field (lit ''5'')) = Inr (Some 50)"
proof -
  have five: "lit ''50'' = show_nat 50" "lit ''5'' = show_nat 5" by (simp_all add: lit_def)
  have "quotient_text E (lit ''50'') 10 = lit ''5''"
    unfolding five quotient_text_def read_int_nat using show_nat_safe [of 50] show_int_nat [of 5] by simp
  then show "first_control E (unit_reg D 105 2 10 ''50'') = Some (Field (lit ''5''))"
    by (simp add: first_control_def unit_reg_def no_opt_def Let_def)
  have "parse_float E (lit ''5'') = Some (False, js_div 5 1)"
    using parse_whole [of 53 "[]" E] by (simp add: lit_def digit_def read_nat_def)
  moreover have "js_div 5 1 = (5629499534213120, 50)" by (simp add: js_div_def near_quot_def bit_size.simps Let_def)
  moreover have "bit_size 56294995342131200 = 56" by (simp add: bit_size.simps)
  then have "round53 56294995342131200 = 56294995342131200" by (simp add: round53_def round_even_def)
  then have "math_round (js_times (False, 5629499534213120, 50) 10) = 50" by (simp add: js_times_def math_round_def)
  ultimately show "control_value E (unit_reg D 105 2 10 ''50'') (Field (lit ''5'')) = Inr (Some 50)"
    by (simp add: control_value_def unit_reg_def no_opt_def)
qed

lemma untouched_117:
  "first_control E (enum_reg D 117 2 [8] ''0'') = Some (Select [])" "control_value E (enum_reg D 117 2 [8] ''0'') (Select []) = Inr None"
  by (simp_all add: first_control_def enum_reg_def no_opt_def Let_def control_value_def parse_int_def lit_def)

lemma nan_text: "json_parse (write_text E (Some 4387) 30 (Some 1) 117 None) = None"
proof -
  have nums: "num_tmpl (num_str E) (Some 4387) = show_nat 4387" "num_tmpl (num_str E) (Some 1) = show_nat 1"
    using num_tmpl_nat [of 4387 "num_str E"] num_tmpl_nat [of 1 "num_str E"] by simp_all
  have chars: "write_text E (Some 4387) 30 (Some 1) 117 None = [123, 34, 70, 73, 68, 34, 58, 52, 51, 56, 55, 44, 34, 70, 76, 65, 71, 83, 34, 58, 48, 44, 34, 83, 73, 68, 34, 58, 51, 48, 44, 34, 65, 82, 71, 34, 58,
      123, 34, 70, 78, 34, 58, 54, 44, 34, 65, 68, 82, 34, 58, 49, 44, 34, 82, 65, 34, 58, 49, 49, 55, 44, 34, 82, 86, 67, 34, 58, 78, 97, 78, 125, 125]"
    unfolding write_text_def nums by (simp add: num_tmpl_def lit_def)
  show ?thesis unfolding chars by code_simp
qed

lemma described_50: "getRegDescription E (unit_reg D 105 2 10 ''50'') = lit ''5.0'' @ (if D 105 0 = [] then [] else 32 # D 105 0)"
proof -
  have "to_fixed E 1 False (js_div 50 (10 ^ 1)) = lit ''5.0''"
    by (subst fixed_text) (simp_all add: point_def pad_start_def lit_def)
  moreover have "lit ''50'' = show_nat 50" by (simp add: lit_def)
  ultimately show ?thesis
    using scaled_description [of "unit_reg D 105 2 10 ''50''" 1 50 E] by (simp add: unit_reg_def no_opt_def)
qed

text \<open>C37. An untouched field writes a tenth of the value it stands for. The table gives the maximum frequency (register 105) as 50.0 with a range in hertz, but the page takes this number for the value
  of the register, in tenths of a hertz: right after loading the first page shows it as 5.0, puts 5 into its field, and the button next to the field, which nothing has changed, writes 50,
  that is 5 hertz. And the selection of register 117, whose value is not among its options, writes a frame with NaN, which is no JSON.\<close>

theorem untouched_button_writes_wrong:
  assumes "drive_reaches E" and "w = drive_step E g (DriveOpen 0) (drive_load E baud (idd_regs D))"
  shows "doc w (rd_id 105, ''textContent'') = lit ''5.0'' @ (if D 105 0 = [] then [] else 32 # D 105 0)
    \<and> d_inputs w 105 = Some (Field (lit ''5''))
    \<and> sent_at (socks (drive_step E g (DriveWrite 105) w)) 0 = sent_at (socks w) 0 @ [write_text E (Some 4387) 30 (Some 1) 105 (Some 50)]
    \<and> (\<exists>f. sent_at (socks (drive_step E g (DriveWrite 117) w)) 0 = sent_at (socks w) 0 @ [f] \<and> json_parse f = None)"
proof -
  note page = open_fields [OF assms]
  have sid: "sid_of (d_sid w) = 30" using tables_runs(1) [of D] by (simp add: page(4) sid_of_def)
  have "control_at E (idd_regs D) 105 = first_control E (unit_reg D 105 2 10 ''50'')" "control_at E (idd_regs D) 117 = first_control E (enum_reg D 117 2 [8] ''0'')"
    by (rule control_found; simp add: idd_105 idd_117)+
  then have inputs: "d_inputs w 105 = Some (Field (lit ''5''))" "d_inputs w 117 = Some (Select [])"
    by (simp_all add: page(3) untouched_105 untouched_117)
  have regs: "find_reg (int 105) (d_regs w) = Some (unit_reg D 105 2 10 ''50'')" "find_reg (int 117) (d_regs w) = Some (enum_reg D 117 2 [8] ''0'')"
    by (simp_all add: page(2) idd_105 idd_117)
  have "sent_at (socks (drive_step E g (DriveWrite 105) w)) 0 = sent_at (socks w) 0 @ [write_text E (Some 4387) 30 (Some 1) 105 (Some 50)]"
    using write_sends [OF page(1) inputs(1) regs(1) untouched_105(2), of E g] by (simp add: sid)
  moreover have "sent_at (socks (drive_step E g (DriveWrite 117) w)) 0 = sent_at (socks w) 0 @ [write_text E (Some 4387) 30 (Some 1) 117 None]"
    using write_sends [OF page(1) inputs(2) regs(2) untouched_117(2), of E g] by (simp add: sid)
  moreover have "unit_reg D 105 2 10 ''50'' \<in> set (d_regs w)"
    by (rule find_reg_in [OF regs(1)])
  moreover have "reachable (drive_load E baud (idd_regs D)) drive_enabled (drive_step E g) w"
    unfolding assms(2) by (rule reach_step [OF reach_init]) (simp add: load_form [OF assms(1)] ready_at_def drive_socket_def)
  then have "table_inv E (idd_regs D) w" using drive_table.inv_reachable assms(1) tables_distinct(1) by blast
  ultimately have "doc w (rd_id 105, ''textContent'') = getRegDescription E (unit_reg D 105 2 10 ''50'')"
    by (auto simp: table_inv_def table_shows_def shows_reg_def unit_reg_def)
  then show ?thesis
    using nan_text [of E] inputs(1) \<open>sent_at (socks (drive_step E g (DriveWrite 105) w)) 0 = _\<close> \<open>sent_at (socks (drive_step E g (DriveWrite 117) w)) 0 = _\<close>
    by (auto simp only: described_50)
qed

theorem untouched_button_writes_wrong_witness:
  "sent_at (socks (drive_step demo_drive_env (2000, 20) (DriveWrite 105) open_drive)) 0
     = sent_at (socks open_drive) 0 @ [write_text demo_drive_env (Some 4387) 30 (Some 1) 105 (Some 50)]"
  using untouched_button_writes_wrong [OF demo_drive_reaches, of open_drive "(2000, 20)" "lit ''115200''" "\<lambda>_ _. []"] by (simp add: open_drive_def demo_drive_def del: drive_step.simps)

subsection \<open>Connections\<close>

text \<open>C13. The page of a converter always goes on. If the user does not reconnect while the page waits to connect again, then in every reachable state its connection is the last it made, every earlier
  one is closed or closing, and the timers are the one of the gauges and, exactly when the connection is closed, one that connects again.\<close>

theorem drive_goes_on:
  assumes "drive_reaches E" and "reachable (drive_load E baud regs) drive_calm_enabled (drive_step E g) w"
  shows "\<exists>i. d_ws w = Some i \<and> Suc i = length (socks w) \<and> (\<forall>j < i. ready_at (socks w) j \<in> {CLOSING, CLOSED}) \<and> ready_at (socks w) i \<noteq> CLOSING
    \<and> mset (map t_cb (timers w)) = (if ready_at (socks w) i = CLOSED then {#GaugeTimer, ExchangeTimer#} else {#GaugeTimer#})"
proof -
  have "drive_calm w" using drive_calmly.inv_reachable [OF assms(2)] assms(1) by simp
  then show ?thesis by (auto simp only: drive_calm_def drive_waits_def split: option.splits)
qed

theorem drive_goes_on_witness:
  "ready_at (socks open_drive) 0 = OPEN \<and> mset (map t_cb (timers open_drive)) = {#GaugeTimer#}"
proof -
  have "reachable (drive_load demo_drive_env (lit ''115200'') (idd_regs (\<lambda>_ _. []))) drive_calm_enabled (drive_step demo_drive_env (2000, 20)) open_drive"
    unfolding open_drive_def demo_drive_def
    by (rule reach_step [OF reach_init]) (simp add: load_form [OF demo_drive_reaches] ready_at_def drive_socket_def)
  moreover have "d_ws open_drive = Some 0" "ready_at (socks open_drive) 0 = OPEN" using open_drive_fields(1) by (simp_all add: drive_ready_def)
  ultimately show ?thesis using drive_goes_on [OF demo_drive_reaches, of "lit ''115200''" "idd_regs (\<lambda>_ _. [])" "(2000, 20)" open_drive] by auto
qed

end
