(* ===== verification/File_Server.thy ===== *)
theory File_Server
  imports Gateway_Prelude
begin

section \<open>The file server\<close>

text \<open>
  The handlers of src/main/web_file_server.c: files of the flash are sent, listed, uploaded and deleted over HTTP, and the script of
  src/main/upload_script.html that uploads one. Texts of C are lists of bytes without the terminating 0. The file system behind
  the C library is a parameter, the record \<open>vfs\<close>, with what the code relies on in \<open>vfs_documented\<close>; a request comes with its
  URI, its length and what arrives over the connection. Memory is taken to suffice; the log is left out.
\<close>

subsection \<open>The file system\<close>

datatype node = IsFile | IsDir

record 'f vfs =
  v_stat :: "jsstr \<Rightarrow> 'f \<Rightarrow> node option"
  v_content :: "jsstr \<Rightarrow> 'f \<Rightarrow> nat list"
  v_opens :: "jsstr \<Rightarrow> 'f \<Rightarrow> bool"
  v_create :: "jsstr \<Rightarrow> 'f \<Rightarrow> 'f option"
  v_write :: "jsstr \<Rightarrow> nat list \<Rightarrow> 'f \<Rightarrow> nat \<times> 'f"
  v_unlink :: "jsstr \<Rightarrow> 'f \<Rightarrow> 'f"

text \<open>\<open>fopen\<close> for writing makes an empty file, \<open>fwrite\<close> appends what it says, \<open>unlink\<close> removes a file. Of other paths nothing
  is said, as two paths may name one file.\<close>

definition vfs_documented :: "'f vfs \<Rightarrow> bool" where
  "vfs_documented V \<longleftrightarrow>
     (\<forall>p f g. v_create V p f = Some g \<longrightarrow> v_stat V p g = Some IsFile \<and> v_content V p g = [])
   \<and> (\<forall>p bs f n g. v_stat V p f = Some IsFile \<and> v_write V p bs f = (n, g)
        \<longrightarrow> n \<le> length bs \<and> v_stat V p g = Some IsFile \<and> v_content V p g = v_content V p f @ take n bs)
   \<and> (\<forall>p f. v_stat V p f = Some IsFile \<longrightarrow> v_stat V p (v_unlink V p f) = None)"

subsection \<open>Paths\<close>

definition FILE_PATH_MAX :: nat where
  "FILE_PATH_MAX = 256"

definition MAX_FILE_SIZE :: nat where
  "MAX_FILE_SIZE = 500 * 1024"

definition BASE_PATH :: jsstr where
  "BASE_PATH = lit ''/lfs''"

text \<open>The distance to the first \<open>c\<close>, or to the end.\<close>

definition str_chr :: "nat \<Rightarrow> jsstr \<Rightarrow> nat" where
  "str_chr c s = length (takeWhile (\<lambda>x. x \<noteq> c) s)"

definition get_path_from_uri :: "jsstr \<Rightarrow> jsstr \<Rightarrow> nat \<Rightarrow> jsstr option" where
  "get_path_from_uri base uri destsize =
     (let pathlen = min (min (length uri) (str_chr 63 uri)) (str_chr 35 uri)
      in if length base + pathlen + 1 > destsize then None else Some (base @ take pathlen uri))"

text \<open>The loop that looks for the last separator: \<open>None\<close> when it reads behind the end of the text.\<close>

function dir_sep :: "jsstr \<Rightarrow> nat \<Rightarrow> nat option" where
  "dir_sep uri sign =
     (let sep = sign + 1 in
      if length uri < sep + 1 then None
      else let d = sep + 1 + str_chr 47 (drop (sep + 1) uri)
      in if d < length uri then dir_sep uri d else Some sep)"
  by pat_completeness auto
termination by (relation "measure (\<lambda>(uri, sign). length uri - sign)") (auto simp: Let_def)

datatype 'a c_result = Fine 'a | TooLong | OutOfBounds

definition get_dir_from_uri :: "jsstr \<Rightarrow> jsstr \<Rightarrow> nat \<Rightarrow> jsstr c_result" where
  "get_dir_from_uri base uri destsize = (case dir_sep uri 0 of
       None \<Rightarrow> OutOfBounds
     | Some sep \<Rightarrow> if length base + sep + 2 > destsize then TooLong else Fine (base @ take sep uri))"

subsection \<open>Replies\<close>

text \<open>An error page; a file with its type and the chunks sent, to the end or not; the redirection after a change; a list of files;
  and nothing that C defines: reading through a null pointer, or behind the end of a text.\<close>

datatype reply =
    HttpError nat string
  | HttpFile string "nat list list"
  | HttpBroken string "nat list list"
  | HttpSeeOther
  | HttpList "jsstr list"
  | HttpUndefined

definition char_lower :: "nat \<Rightarrow> nat" where
  "char_lower c = (if 65 \<le> c \<and> c \<le> 90 then c + 32 else c)"

definition is_file_ext :: "jsstr \<Rightarrow> string \<Rightarrow> bool" where
  "is_file_ext filename ext \<longleftrightarrow> map char_lower (drop (length filename - length ext) filename) = lit ext"

definition content_type :: "jsstr \<Rightarrow> string" where
  "content_type filename =
     (if is_file_ext filename ''.pdf'' then ''application/pdf''
      else if is_file_ext filename ''.html'' then ''text/html''
      else if is_file_ext filename ''.jpeg'' then ''image/jpeg''
      else if is_file_ext filename ''.ico'' then ''image/x-icon''
      else if is_file_ext filename ''.css'' then ''text/css''
      else if is_file_ext filename ''.js'' then ''application/javascript''
      else ''text/plain'')"

subsection \<open>Sending a file\<close>

text \<open>What \<open>fread\<close> gives, chunk by chunk, and the loop that sends the chunks until one is refused.\<close>

function read_chunks :: "nat \<Rightarrow> nat list \<Rightarrow> nat list list" where
  "read_chunks n bs = (if bs = [] \<or> n = 0 then [] else take n bs # read_chunks n (drop n bs))"
  by pat_completeness auto
termination by (relation "measure (\<lambda>(n, bs). length bs)") auto

declare read_chunks.simps [simp del] dir_sep.simps [simp del]

fun send_chunks :: "string \<Rightarrow> (nat \<Rightarrow> bool) \<Rightarrow> nat \<Rightarrow> nat list list \<Rightarrow> nat list list \<Rightarrow> reply" where
  "send_chunks ty ok i sent [] = HttpFile ty sent"
| "send_chunks ty ok i sent (c # cs) = (if ok i then send_chunks ty ok (Suc i) (sent @ [c]) cs else HttpBroken ty sent)"

definition index_path :: "'f vfs \<Rightarrow> jsstr \<Rightarrow> 'f \<Rightarrow> jsstr option" where
  "index_path V p f = (case v_stat V p f of
       None \<Rightarrow> None
     | Some IsFile \<Rightarrow> Some p
     | Some IsDir \<Rightarrow>
         if length p + 11 + 1 \<ge> FILE_PATH_MAX then None
         else if v_stat V (p @ lit ''index.html'') f = None then None else Some (p @ lit ''index.html''))"

definition common_http_handler :: "'f vfs \<Rightarrow> (nat \<Rightarrow> bool) \<Rightarrow> jsstr \<Rightarrow> 'f \<Rightarrow> reply" where
  "common_http_handler V ok uri f = (case get_path_from_uri BASE_PATH uri FILE_PATH_MAX of
       None \<Rightarrow> HttpUndefined
     | Some p \<Rightarrow> (case index_path V p f of
         None \<Rightarrow> HttpError 404 ''File does not exist''
       | Some q \<Rightarrow> if \<not> v_opens V q f then HttpError 500 ''Failed to read existing file''
           else send_chunks (content_type q) ok 0 [] (read_chunks 4096 (v_content V q f))))"

subsection \<open>Uploads\<close>

text \<open>What the connection gives next: bytes, none of them when it is closed or broken, or nothing in time. A call takes no more than
  it asks for.\<close>

datatype arrival = Segment "nat list" | TimedOut

text \<open>The loop that receives and writes, with what is still to come; \<open>None\<close> while it waits.\<close>

definition leftover :: "nat \<Rightarrow> nat list \<Rightarrow> arrival list \<Rightarrow> arrival list" where
  "leftover n bs as = (if n < length bs then Segment (drop n bs) # as else as)"

function receive_file :: "'f vfs \<Rightarrow> jsstr \<Rightarrow> nat \<Rightarrow> arrival list \<Rightarrow> 'f \<Rightarrow> (reply \<times> 'f) option" where
  "receive_file V p 0 as f = Some (HttpSeeOther, f)"
| "receive_file V p (Suc n) [] f = None"
| "receive_file V p (Suc n) (TimedOut # as) f = receive_file V p (Suc n) as f"
| "receive_file V p (Suc n) (Segment [] # as) f = Some (HttpError 500 ''Failed to receive file'', v_unlink V p f)"
| "receive_file V p (Suc n) (Segment (b # bs) # as) f =
     (let asked = min (Suc n) 512; got = take asked (b # bs) in
      case v_write V p got f of (k, g) \<Rightarrow>
        if k \<noteq> length got then Some (HttpError 500 ''Failed to write file to storage'', v_unlink V p g)
        else receive_file V p (Suc n - length got) (leftover asked (b # bs) as) g)"
  by pat_completeness auto
termination
  by (relation "measures [\<lambda>(V, p, remaining, as, f). remaining, \<lambda>(V, p, remaining, as, f). length as]") (auto simp: Let_def)

declare receive_file.simps(5) [simp del]

definition upload_post_handler :: "'f vfs \<Rightarrow> jsstr \<Rightarrow> nat \<Rightarrow> arrival list \<Rightarrow> 'f \<Rightarrow> (reply \<times> 'f) option" where
  "upload_post_handler V uri content_len as f = (case get_path_from_uri BASE_PATH (drop 7 uri) FILE_PATH_MAX of
       None \<Rightarrow> Some (HttpError 500 ''Filename too long'', f)
     | Some p \<Rightarrow>
         if last p = 47 then Some (HttpError 500 ''Invalid filename'', f)
         else if v_stat V p f \<noteq> None then Some (HttpError 400 ''File already exists'', f)
         else if content_len > MAX_FILE_SIZE then Some (HttpError 400 ''File size must be less than 500KB!'', f)
         else (case v_create V p f of
             None \<Rightarrow> Some (HttpError 500 ''Failed to create file'', f)
           | Some g \<Rightarrow> receive_file V p content_len as g))"

definition delete_post_handler :: "'f vfs \<Rightarrow> jsstr \<Rightarrow> 'f \<Rightarrow> reply \<times> 'f" where
  "delete_post_handler V uri f = (case get_path_from_uri BASE_PATH (drop 7 uri) FILE_PATH_MAX of
       None \<Rightarrow> (HttpError 500 ''Filename too long'', f)
     | Some p \<Rightarrow>
         if last p = 47 then (HttpError 500 ''Invalid filename'', f)
         else if v_stat V p f = None then (HttpError 400 ''File does not exist'', f)
         else (HttpSeeOther, v_unlink V p f))"

subsection \<open>Listing a directory\<close>

record dir_entry =
  de_name :: jsstr
  de_dir :: bool
  de_size :: jsstr

text \<open>The path of an entry, cut off at the end of its buffer; a row of the table; the entries whose \<open>stat\<close> fails are left out.\<close>

definition entry_path :: "jsstr \<Rightarrow> dir_entry \<Rightarrow> jsstr" where
  "entry_path dirpath e = dirpath @ take (FILE_PATH_MAX - length dirpath - 1) (de_name e)"

definition delete_action :: "jsstr \<Rightarrow> dir_entry \<Rightarrow> jsstr" where
  "delete_action dirpath e = lit ''/delete'' @ drop (length BASE_PATH) (entry_path dirpath e)"

definition entry_link :: "jsstr \<Rightarrow> jsstr \<Rightarrow> dir_entry \<Rightarrow> jsstr" where
  "entry_link uri dirpath e =
     (if de_dir e then uri @ de_name e @ lit ''/'' else drop (length BASE_PATH) (entry_path dirpath e))"

definition entry_row :: "jsstr \<Rightarrow> jsstr \<Rightarrow> dir_entry \<Rightarrow> jsstr" where
  "entry_row uri dirpath e = lit ''<tr><td><a href=\"'' @ entry_link uri dirpath e @ lit ''\">'' @ de_name e @
     lit ''</a></td><td>'' @ (if de_dir e then lit ''directory'' else lit ''file'') @ lit ''</td><td>'' @ de_size e @
     lit ''</td><td>'' @ lit ''<form method=\"post\" action=\"'' @ delete_action dirpath e @
     lit ''\"><button type=\"submit\">Delete</button></form>'' @ lit ''</td></tr>'' @ [10]"

text \<open>What \<open>opendir\<close> finds, if it does; the rows of the reply, without the frame of the page. A path that is too long is a null pointer
  that is read, and a separator at the end makes the search for separators read behind the text.\<close>

definition dir_http_handler :: "'f vfs \<Rightarrow> (jsstr \<Rightarrow> 'f \<Rightarrow> dir_entry list option) \<Rightarrow> jsstr \<Rightarrow> 'f \<Rightarrow> reply" where
  "dir_http_handler V opendir uri f = (case get_dir_from_uri BASE_PATH (drop 4 uri) FILE_PATH_MAX of
       Fine d \<Rightarrow> (case opendir d f of
           None \<Rightarrow> HttpError 404 ''Directory does not exist''
         | Some es \<Rightarrow> HttpList (map (entry_row uri d) (filter (\<lambda>e. v_stat V (entry_path d e) f \<noteq> None) es)))
     | _ \<Rightarrow> HttpUndefined)"

subsection \<open>The upload page\<close>

text \<open>What \<open>upload\<close> of the script does with the text of the path field and the chosen file: an alert, or a request.\<close>

datatype page_action = PageAlert string | PagePost jsstr "nat list"

definition upload :: "jsstr \<Rightarrow> nat list option \<Rightarrow> page_action" where
  "upload filePath chosen = (case chosen of
       None \<Rightarrow> PageAlert ''No file selected!''
     | Some body \<Rightarrow>
         if filePath = [] then PageAlert ''File path on server is not set!''
         else if 32 \<in> set filePath then PageAlert ''File path on server cannot have spaces!''
         else if last filePath = 47 then PageAlert ''File name not specified after path!''
         else if length body > 200 * 1024 then PageAlert ''File size must be less than 200KB!''
         else PagePost (lit ''/upload/'' @ filePath) body)"

end
