(* ===== verification/File_Properties.thy ===== *)
theory File_Properties
  imports File_Server
begin

section \<open>The file server: properties\<close>

text \<open>
  Which file a URI names and when it names none, what an upload leaves behind whatever arrives, that an uploaded file is served
  again byte for byte, and that the button of a row deletes the file of this row.
\<close>

subsection \<open>Paths\<close>

text \<open>A URI ends at a question mark or a hash.\<close>

definition uri_char :: "nat \<Rightarrow> bool" where
  "uri_char c \<longleftrightarrow> c \<noteq> 63 \<and> c \<noteq> 35"

text \<open>What a browser sends as it is: letters, digits, some signs, and no part that starts with a dot.\<close>

fun dotted :: "jsstr \<Rightarrow> bool" where
  "dotted (a # b # s) \<longleftrightarrow> a = 47 \<and> b = 46 \<or> dotted (b # s)"
| "dotted _ \<longleftrightarrow> False"

definition plain_url :: "jsstr \<Rightarrow> bool" where
  "plain_url u \<longleftrightarrow> list_all (\<lambda>c. 48 \<le> c \<and> c \<le> 57 \<or> 65 \<le> c \<and> c \<le> 90 \<or> 97 \<le> c \<and> c \<le> 122 \<or> c \<in> {45, 46, 47, 95}) u
     \<and> \<not> dotted u"

lemma plain_chars: "plain_url u \<Longrightarrow> list_all uri_char u"
  by (auto simp: plain_url_def uri_char_def elim: list.pred_mono_strong)

lemma take_both: "take (min (length (takeWhile P s)) (length (takeWhile Q s))) s = takeWhile (\<lambda>c. P c \<and> Q c) s"
  by (induction s) auto

lemma path_cut: "take (min (min (length uri) (str_chr 63 uri)) (str_chr 35 uri)) uri = takeWhile uri_char uri"
proof -
  have "min (length uri) (str_chr 63 uri) = str_chr 63 uri" by (simp add: str_chr_def length_takeWhile_le min_absorb2)
  then show ?thesis by (simp add: str_chr_def take_both uri_char_def [abs_def])
qed

lemma path_form:
  "get_path_from_uri base uri n =
     (if length base + length (takeWhile uri_char uri) + 1 \<le> n then Some (base @ takeWhile uri_char uri) else None)"
proof -
  have "min (min (length uri) (str_chr 63 uri)) (str_chr 35 uri) \<le> length uri" by simp
  then have "min (min (length uri) (str_chr 63 uri)) (str_chr 35 uri) = length (takeWhile uri_char uri)"
    by (metis path_cut length_take min_absorb2)
  then show ?thesis by (simp add: get_path_from_uri_def Let_def path_cut [symmetric])
qed

lemma path_plain:
  "list_all uri_char uri \<Longrightarrow> length uri \<le> 251 \<Longrightarrow> get_path_from_uri BASE_PATH uri FILE_PATH_MAX = Some (BASE_PATH @ uri)"
proof -
  assume "list_all uri_char uri" "length uri \<le> 251"
  moreover from this have "takeWhile uri_char uri = uri" by (simp add: list_all_iff takeWhile_eq_all_conv)
  ultimately show ?thesis by (simp only: path_form) (simp add: BASE_PATH_def FILE_PATH_MAX_def lit_def)
qed

lemma send_ends: "send_chunks ty ok i sent cs \<noteq> HttpUndefined"
  by (induction ty ok i sent cs rule: send_chunks.induct) simp_all


subsection \<open>What a handler leaves behind\<close>

lemma documentedD:
  assumes "vfs_documented V"
  shows "v_create V p f = Some g \<Longrightarrow> v_stat V p g = Some IsFile" "v_create V p f = Some g \<Longrightarrow> v_content V p g = []"
    "v_stat V p f = Some IsFile \<Longrightarrow> v_write V p bs f = (n, g) \<Longrightarrow> v_stat V p g = Some IsFile"
    "v_stat V p f = Some IsFile \<Longrightarrow> v_write V p bs f = (n, g) \<Longrightarrow> v_content V p g = v_content V p f @ take n bs"
    "v_stat V p f = Some IsFile \<Longrightarrow> v_stat V p (v_unlink V p f) = None"
  using assms unfolding vfs_documented_def by blast+

text \<open>The bytes that arrive.\<close>

fun arrived :: "arrival list \<Rightarrow> nat list" where
  "arrived [] = []"
| "arrived (TimedOut # as) = arrived as"
| "arrived (Segment bs # as) = bs @ arrived as"

lemma arrived_rest: "arrived (leftover n bs as) = drop n bs @ arrived as"
  by (simp add: leftover_def)

text \<open>A file system that is a map from paths to contents.\<close>

definition plain_vfs :: "(jsstr \<Rightarrow> nat list option) vfs" where
  "plain_vfs = \<lparr>v_stat = (\<lambda>p f. map_option (\<lambda>_. IsFile) (f p)), v_content = (\<lambda>p f. case f p of None \<Rightarrow> [] | Some bs \<Rightarrow> bs),
     v_opens = (\<lambda>p f. f p \<noteq> None), v_create = (\<lambda>p f. Some (f(p \<mapsto> []))),
     v_write = (\<lambda>p bs f. (length bs, f(p := map_option (\<lambda>x. x @ bs) (f p)))), v_unlink = (\<lambda>p f. f(p := None))\<rparr>"

lemma plain_vfs_ops:
  "v_stat plain_vfs p f = map_option (\<lambda>_. IsFile) (f p)" "v_content plain_vfs p f = (case f p of None \<Rightarrow> [] | Some bs \<Rightarrow> bs)"
  "v_opens plain_vfs p f \<longleftrightarrow> f p \<noteq> None" "v_create plain_vfs p f = Some (f(p \<mapsto> []))"
  "v_write plain_vfs p bs f = (length bs, f(p := map_option (\<lambda>x. x @ bs) (f p)))" "v_unlink plain_vfs p f = f(p := None)"
  by (simp_all add: plain_vfs_def)

lemma plain_vfs_documented: "vfs_documented plain_vfs"
  by (auto simp: vfs_documented_def plain_vfs_ops)

text \<open>One part of the body: written, or the end of the upload.\<close>

lemma receive_part:
  assumes "got = take (min (Suc n) 512) (b # bs)" and "v_write V p got f = (k, g)"
  shows "receive_file V p (Suc n) (Segment (b # bs) # as) f =
    (if k \<noteq> length got then Some (HttpError 500 ''Failed to write file to storage'', v_unlink V p g)
     else receive_file V p (Suc n - length got) (leftover (min (Suc n) 512) (b # bs) as) g)"
  by (simp only: receive_file.simps(5) Let_def assms(1) [symmetric] assms(2) prod.case)

lemma receive_failed:
  assumes "vfs_documented V" and "v_stat V p f = Some IsFile" and "receive_file V p n as f = Some (r, g)" and "r \<noteq> HttpSeeOther"
  shows "v_stat V p g = None"
  using assms
proof (induction V p n as f rule: receive_file.induct)
  case (5 V p n b bs as f)
  define got where "got = take (min (Suc n) 512) (b # bs)"
  obtain k h where w: "v_write V p got f = (k, h)" by fastforce
  then have h: "v_stat V p h = Some IsFile" using documentedD(3) [OF "5.prems"(1,2)] by blast
  show ?case
    using "5.prems"(3) "5.IH" [OF refl got_def w [symmetric] _ "5.prems"(1) h _ "5.prems"(4)] documentedD(5) [OF "5.prems"(1) h]
    unfolding receive_part [OF got_def w] by (auto split: if_splits)
qed (auto dest: documentedD(5))

text \<open>Enough bytes, or the end of the connection, end an upload.\<close>

lemma receive_ends: "n \<le> length (arrived as) \<or> Segment [] \<in> set as \<Longrightarrow> receive_file V p n as f \<noteq> None"
proof (induction V p n as f rule: receive_file.induct)
  case (5 V p n b bs as f)
  define got where "got = take (min (Suc n) 512) (b # bs)"
  obtain k h where w: "v_write V p got f = (k, h)" by fastforce
  have "Suc n - length got \<le> length (arrived (leftover (min (Suc n) 512) (b # bs) as)) \<or> Segment [] \<in> set (leftover (min (Suc n) 512) (b # bs) as)"
    using "5.prems" by (auto simp: got_def arrived_rest leftover_def)
  then show ?case
    using "5.IH" [OF refl got_def w [symmetric]] unfolding receive_part [OF got_def w] by auto
qed auto

text \<open>All bytes, in order, are in the file when every write is complete.\<close>

lemma take_in_two: "m \<le> n \<Longrightarrow> take m xs @ take (n - length (take m xs)) (drop m xs @ ys) = take n (xs @ ys)"
  using take_add [of m "n - m" "xs @ ys"] by (cases "m \<le> length xs") simp_all

lemma receive_all:
  assumes "vfs_documented V" and "v_stat V p f = Some IsFile" and "\<forall>bs g. fst (v_write V p bs g) = length bs"
    and "n \<le> length (arrived as)" and "Segment [] \<notin> set as"
  shows "\<exists>g. receive_file V p n as f = Some (HttpSeeOther, g) \<and> v_stat V p g = Some IsFile
    \<and> v_content V p g = v_content V p f @ take n (arrived as)"
  using assms
proof (induction V p n as f rule: receive_file.induct)
  case (5 V p n b bs as f)
  define got where "got = take (min (Suc n) 512) (b # bs)"
  let ?as = "leftover (min (Suc n) 512) (b # bs) as"
  obtain k h where w: "v_write V p got f = (k, h)" by fastforce
  then have k: "k = length got" using "5.prems"(3) by (metis fst_conv)
  have h: "v_stat V p h = Some IsFile" "v_content V p h = v_content V p f @ got"
    using documentedD(3,4) [OF "5.prems"(1,2) w] k by simp_all
  have rest: "Suc n - length got \<le> length (arrived ?as)" "Segment [] \<notin> set ?as"
    using "5.prems"(4,5) by (auto simp: got_def arrived_rest leftover_def)
  have "got @ take (Suc n - length got) (arrived ?as) = take (Suc n) (arrived (Segment (b # bs) # as))"
    unfolding got_def arrived_rest arrived.simps by (rule take_in_two) simp
  then show ?case
    using "5.IH" [OF refl got_def w [symmetric] _ "5.prems"(1) h(1) "5.prems"(3) rest] k h(2)
    unfolding receive_part [OF got_def w] by auto
qed auto



subsection \<open>Sending a file\<close>

lemma chunks_whole: "0 < n \<Longrightarrow> concat (read_chunks n bs) = bs \<and> list_all (\<lambda>c. c \<noteq> [] \<and> length c \<le> n) (read_chunks n bs)"
proof (induction n bs rule: read_chunks.induct)
  case (1 n bs)
  then show ?case by (subst (1 2) read_chunks.simps) auto
qed

lemma send_all: "(\<forall>i. ok i) \<Longrightarrow> send_chunks ty ok i sent cs = HttpFile ty (sent @ cs)"
  by (induction ty ok i sent cs rule: send_chunks.induct) simp_all

text \<open>C14. What is uploaded is served. If the script of the upload page takes a path and a file, the path is one that a browser sends as it is and fits, no such file is there, and the storage has room, then
  whatever parts and pauses the body arrives in, the upload ends with the redirection, and a request for the path is answered with the bytes of the file, in parts of at most 4096.\<close>

theorem uploaded_file_is_served:
  assumes "vfs_documented V" and "upload path (Some body) = PagePost uri body" and "plain_url (47 # path)" and "length path \<le> 250"
    and "v_stat V (lit ''/lfs/'' @ path) f = None" and "v_create V (lit ''/lfs/'' @ path) f \<noteq> None"
    and "\<forall>bs g. fst (v_write V (lit ''/lfs/'' @ path) bs g) = length bs" and "\<forall>g. v_stat V (lit ''/lfs/'' @ path) g = Some IsFile \<longrightarrow> v_opens V (lit ''/lfs/'' @ path) g"
    and "arrived as = body" and "Segment [] \<notin> set as"
  shows "\<exists>g chunks. upload_post_handler V uri (length body) as f = Some (HttpSeeOther, g)
    \<and> common_http_handler V (\<lambda>_. True) (47 # path) g = HttpFile (content_type (lit ''/lfs/'' @ path)) chunks
    \<and> concat chunks = body \<and> list_all (\<lambda>c. c \<noteq> [] \<and> length c \<le> 4096) chunks"
proof -
  let ?p = "lit ''/lfs/'' @ path"
  have sent: "path \<noteq> []" "last path \<noteq> 47" "length body \<le> 200 * 1024" "uri = lit ''/upload/'' @ path"
    using assms(2) by (simp_all add: upload_def split: if_splits)
  have base: "BASE_PATH @ 47 # path = ?p" by (simp add: BASE_PATH_def lit_def)
  then have named: "get_path_from_uri BASE_PATH (47 # path) FILE_PATH_MAX = Some ?p"
    using path_plain [of "47 # path"] plain_chars [OF assms(3)] assms(4) by simp
  obtain h where h: "v_create V ?p f = Some h" using assms(6) by auto
  obtain g where g: "receive_file V ?p (length body) as h = Some (HttpSeeOther, g)" "v_stat V ?p g = Some IsFile" "v_content V ?p g = body"
    using receive_all [OF assms(1) documentedD(1) [OF assms(1) h] assms(7), of "length body" as] documentedD(2) [OF assms(1) h] assms(9,10) by auto
  have "drop 7 uri = 47 # path" by (simp add: sent(4) lit_def)
  then have "upload_post_handler V uri (length body) as f = Some (HttpSeeOther, g)"
    using sent(1-3) g(1) assms(5) by (simp add: upload_post_handler_def named h MAX_FILE_SIZE_def)
  moreover have "common_http_handler V (\<lambda>_. True) (47 # path) g = HttpFile (content_type ?p) (read_chunks 4096 body)"
    by (simp add: common_http_handler_def named index_path_def g(2,3) assms(8) send_all)
  ultimately show ?thesis using chunks_whole [of 4096 body] by auto
qed

theorem uploaded_file_is_served_witness:
  "\<exists>g chunks. upload_post_handler plain_vfs (lit ''/upload/a.js'') 2 [TimedOut, Segment [104], Segment [105]] Map.empty = Some (HttpSeeOther, g)
    \<and> common_http_handler plain_vfs (\<lambda>_. True) (lit ''/a.js'') g = HttpFile (content_type (lit ''/lfs/a.js'')) chunks \<and> concat chunks = [104, 105]"
proof -
  have "upload (lit ''a.js'') (Some [104, 105]) = PagePost (lit ''/upload/a.js'') [104, 105]" by (simp add: upload_def lit_def)
  moreover have "plain_url (lit ''/a.js'')" "length (lit ''a.js'') \<le> 250" by (simp_all add: plain_url_def lit_def)
  moreover have "47 # lit ''a.js'' = lit ''/a.js''" "lit ''/lfs/'' @ lit ''a.js'' = lit ''/lfs/a.js''" by (simp_all add: lit_def)
  ultimately show ?thesis
    using uploaded_file_is_served [OF plain_vfs_documented, of "lit ''a.js''" "[104, 105]" "lit ''/upload/a.js''" Map.empty "[TimedOut, Segment [104], Segment [105]]"]
    by (auto simp: plain_vfs_ops numeral_2_eq_2)
qed

subsection \<open>Deleting a file\<close>

text \<open>C16. The button of a row deletes its file. In the list of a directory, the form of a file whose path a browser sends as it is asks for a deletion that unlinks exactly the path of the file, answers with
  the redirection, and leaves no such file; and the link of the row names the same path.\<close>

theorem listed_file_is_deleted:
  assumes "vfs_documented V" and "get_dir_from_uri BASE_PATH uri FILE_PATH_MAX = Fine d" and "plain_url (d @ de_name e)"
    and "length (d @ de_name e) \<le> 255" and "\<not> de_dir e" and "de_name e \<noteq> []" and "last (de_name e) \<noteq> 47"
    and "v_stat V (d @ de_name e) f = Some IsFile"
  shows "delete_post_handler V (delete_action d e) f = (HttpSeeOther, v_unlink V (d @ de_name e) f)
    \<and> v_stat V (d @ de_name e) (snd (delete_post_handler V (delete_action d e) f)) = None
    \<and> get_path_from_uri BASE_PATH (entry_link uri d e) FILE_PATH_MAX = Some (d @ de_name e)"
proof -
  obtain t where t: "d = BASE_PATH @ t" using assms(2) by (auto simp: get_dir_from_uri_def split: option.splits if_splits)
  have whole: "entry_path d e = d @ de_name e" using assms(4) by (simp add: entry_path_def FILE_PATH_MAX_def)
  then have link: "drop (length BASE_PATH) (entry_path d e) = t @ de_name e" by (simp add: t)
  have path: "get_path_from_uri BASE_PATH (t @ de_name e) FILE_PATH_MAX = Some (d @ de_name e)"
    using path_plain [of "t @ de_name e"] plain_chars [OF assms(3)] assms(4) by (simp add: t BASE_PATH_def lit_def)
  have "drop 7 (delete_action d e) = t @ de_name e" by (simp only: delete_action_def link) (simp add: lit_def)
  then have "delete_post_handler V (delete_action d e) f = (HttpSeeOther, v_unlink V (d @ de_name e) f)"
    using assms(6-8) by (simp add: delete_post_handler_def path)
  then show ?thesis using documentedD(5) [OF assms(1,8)] path link assms(5) by (simp add: entry_link_def)
qed

theorem listed_file_is_deleted_witness:
  "delete_post_handler plain_vfs (lit ''/delete/a.js'') [lit ''/lfs/a.js'' \<mapsto> [104]] = (HttpSeeOther, Map.empty)"
proof -
  let ?e = "\<lparr>de_name = lit ''a.js'', de_dir = False, de_size = lit ''1''\<rparr>" and ?f = "[lit ''/lfs/a.js'' \<mapsto> [104 :: nat]]"
  have "dir_sep (lit ''/x'') 0 = Some 1" by (subst dir_sep.simps) (simp add: lit_def str_chr_def)
  then have "get_dir_from_uri BASE_PATH (lit ''/x'') FILE_PATH_MAX = Fine (lit ''/lfs/'')"
    by (simp add: get_dir_from_uri_def BASE_PATH_def FILE_PATH_MAX_def lit_def)
  moreover have whole: "lit ''/lfs/'' @ de_name ?e = lit ''/lfs/a.js''" by (simp add: lit_def)
  moreover have "plain_url (lit ''/lfs/a.js'')" "length (lit ''/lfs/a.js'') \<le> 255" "de_name ?e \<noteq> []" "last (de_name ?e) \<noteq> 47"
    by (simp_all add: plain_url_def lit_def)
  moreover have "v_stat plain_vfs (lit ''/lfs/a.js'') ?f = Some IsFile" by (simp add: plain_vfs_ops)
  moreover have "delete_action (lit ''/lfs/'') ?e = lit ''/delete/a.js''"
    by (simp add: delete_action_def entry_path_def BASE_PATH_def FILE_PATH_MAX_def lit_def)
  ultimately show ?thesis
    using listed_file_is_deleted [OF plain_vfs_documented, of "lit ''/x''" "lit ''/lfs/''" ?e ?f] by (simp add: plain_vfs_ops)
qed

end
