(* ===== verification/Transport.thy ===== *)
theory Transport
  imports Server_Invariants "HOL-Library.Multiset"
begin

section \<open>Stations, links and connections\<close>

text \<open>
  What lies under the call server: the table of stations of the access point in src/main/connection.c, and the transport of
  src/main/ws_transport_httpd.c, which makes a connection for every WebSocket, subscribes it to the end of its station's link, and
  hands its frames and its end to the server. Wi-Fi, DHCP and the HTTP server of ESP-IDF are the events. A connection is known by its
  address, which a later one may get again; calling the delegate of a freed one sets \<open>k_fault\<close>. The linked lists of CodeLibrary are
  lists, where an insertion takes an element off the list it is in; its events are a parameter, the record \<open>event_lib\<close>. A new
  delegate counts as subscribed to nothing. The log and the link layer of QEMU are left out.
\<close>

subsection \<open>The events of the library\<close>

text \<open>Who is subscribed after a subscription and after its end, and who is called when an event is raised.\<close>

record event_lib =
  ev_subscribe :: "nat \<Rightarrow> nat list \<Rightarrow> nat list"
  ev_unsubscribe :: "nat \<Rightarrow> nat list \<Rightarrow> nat list"
  ev_called :: "nat list \<Rightarrow> nat list"

text \<open>The order is not relied on.\<close>

definition events_documented :: "event_lib \<Rightarrow> bool" where
  "events_documented E \<longleftrightarrow> (\<forall>c l. mset (ev_subscribe E c l) = mset (l @ [c])) \<and> (\<forall>c l. mset (ev_unsubscribe E c l) = mset (removeAll c l))
     \<and> (\<forall>l. mset (ev_called E l) = mset l)"

subsection \<open>The table of links\<close>

text \<open>An IPv4 address as its two halves of 16 bits.\<close>

type_synonym ip4 = "nat \<times> nat"

record link_t =
  l_ip :: ip4
  l_mac :: nat
  l_event :: "nat list"

record net =
  k_link :: "nat \<Rightarrow> link_t"
  k_free :: "nat list"
  k_active :: "nat list"
  k_conns :: "nat \<Rightarrow> nat option"
  k_closing :: "nat list"
  k_deauth :: "nat list"
  k_fault :: bool
  k_server :: server

definition LINKS_MAX_AMOUNT :: nat where
  "LINKS_MAX_AMOUNT = 4"

text \<open>The first lines of \<open>wifi_init_ap_sta\<close>, and no connection.\<close>

definition net_init :: "(nat \<Rightarrow> nat) \<Rightarrow> net" where
  "net_init caps = \<lparr>k_link = (\<lambda>_. \<lparr>l_ip = (0, 0), l_mac = 0, l_event = []\<rparr>), k_free = [0..<LINKS_MAX_AMOUNT], k_active = [],
     k_conns = (\<lambda>_. None), k_closing = [], k_deauth = [], k_fault = False, k_server = ws_server_init caps\<rparr>"

definition link_ip_match :: "net \<Rightarrow> ip4 \<Rightarrow> nat \<Rightarrow> bool" where
  "link_ip_match n ip i \<longleftrightarrow> l_ip (k_link n i) = ip"

definition link_mac_match :: "net \<Rightarrow> nat \<Rightarrow> nat \<Rightarrow> bool" where
  "link_mac_match n mac i \<longleftrightarrow> l_mac (k_link n i) = mac"

definition change_link :: "nat \<Rightarrow> (link_t \<Rightarrow> link_t) \<Rightarrow> net \<Rightarrow> net" where
  "change_link i f n = n\<lparr>k_link := (k_link n)(i := f (k_link n i))\<rparr>"

text \<open>\<open>link_event_handler\<close> of each subscriber, which asks for the end of its connection; then nobody is subscribed any more.\<close>

definition link_event_handler :: "nat \<Rightarrow> net \<Rightarrow> net" where
  "link_event_handler c n = (case k_conns n c of
       None \<Rightarrow> n\<lparr>k_fault := True\<rparr>
     | Some fd \<Rightarrow> n\<lparr>k_closing := k_closing n @ [fd]\<rparr>)"

definition event_raise_clear :: "event_lib \<Rightarrow> nat \<Rightarrow> net \<Rightarrow> net" where
  "event_raise_clear E i n = change_link i (\<lambda>l. l\<lparr>l_event := []\<rparr>) (fold link_event_handler (ev_called E (l_event (k_link n i))) n)"

text \<open>\<open>disconnect_sta_by_mac\<close> and \<open>esp_wifi_deauth_sta\<close>.\<close>

definition deauth :: "nat \<Rightarrow> net \<Rightarrow> net" where
  "deauth mac n = n\<lparr>k_deauth := k_deauth n @ [mac]\<rparr>"

subsection \<open>Events of the access point\<close>

definition sta_connected :: "nat \<Rightarrow> net \<Rightarrow> net" where
  "sta_connected mac n =
     (if k_free n = [] \<or> find (link_mac_match n mac) (k_active n) \<noteq> None then deauth mac n else n)"

definition ip_assigned :: "event_lib \<Rightarrow> nat \<Rightarrow> ip4 \<Rightarrow> net \<Rightarrow> net" where
  "ip_assigned E mac ip n = (case find (link_mac_match n mac) (k_active n) of
       None \<Rightarrow> (case k_free n of
           i # r \<Rightarrow> (change_link i (\<lambda>l. l\<lparr>l_ip := ip, l_mac := mac\<rparr>) n)\<lparr>k_free := r, k_active := k_active n @ [i]\<rparr>
         | [] \<Rightarrow> deauth mac n)
     | Some i \<Rightarrow> if l_ip (k_link n i) \<noteq> ip then event_raise_clear E i (change_link i (\<lambda>l. l\<lparr>l_ip := ip\<rparr>) n) else n)"

definition sta_disconnected :: "event_lib \<Rightarrow> nat \<Rightarrow> net \<Rightarrow> net" where
  "sta_disconnected E mac n = (case find (link_mac_match n mac) (k_active n) of
       None \<Rightarrow> n
     | Some i \<Rightarrow> (let n' = event_raise_clear E i n
         in n'\<lparr>k_active := removeAll i (k_active n'), k_free := removeAll i (k_free n') @ [i]\<rparr>))"

subsection \<open>Connections\<close>

text \<open>The address of the other side: IPv4, IPv6 as eight words of 16 bits, or none to be had.\<close>

datatype peer = V4 ip4 | V6 "nat list" | NoPeer

definition is_ipv4_to_v6_mapped :: "nat list \<Rightarrow> bool" where
  "is_ipv4_to_v6_mapped ws \<longleftrightarrow> take 6 ws = [0, 0, 0, 0, 0, 0xffff]"

definition peer_ip4 :: "peer \<Rightarrow> ip4 option" where
  "peer_ip4 p = (case p of
       V4 ip \<Rightarrow> Some ip
     | V6 ws \<Rightarrow> if is_ipv4_to_v6_mapped ws then Some (ws ! 6, ws ! 7) else None
     | NoPeer \<Rightarrow> None)"

definition socket_link_subscribe :: "event_lib \<Rightarrow> peer \<Rightarrow> nat \<Rightarrow> net \<Rightarrow> net" where
  "socket_link_subscribe E p c n = (case peer_ip4 p of
       None \<Rightarrow> n
     | Some ip \<Rightarrow> (case find (link_ip_match n ip) (k_active n) of
         None \<Rightarrow> n
       | Some i \<Rightarrow> change_link i (\<lambda>l. l\<lparr>l_event := ev_subscribe E c (l_event l)\<rparr>) n))"

definition event_unsubscribe :: "event_lib \<Rightarrow> nat \<Rightarrow> net \<Rightarrow> net" where
  "event_unsubscribe E c n = n\<lparr>k_link := (\<lambda>i. (k_link n i)\<lparr>l_event := ev_unsubscribe E c (l_event (k_link n i))\<rparr>)\<rparr>"

text \<open>\<open>ws_httpd_handler\<close> for the handshake, which makes the connection, and for a frame, which may fail to be read; \<open>free_conn\<close>
  when the HTTP server has ended the session.\<close>

definition ws_handshake :: "event_lib \<Rightarrow> hal \<Rightarrow> nat \<Rightarrow> nat \<Rightarrow> peer \<Rightarrow> net \<Rightarrow> net" where
  "ws_handshake E H c fd p n =
     (let n' = socket_link_subscribe E p c (n\<lparr>k_conns := (k_conns n)(c \<mapsto> fd)\<rparr>)
      in n'\<lparr>k_server := ws_server_on_connect H c fd (k_server n')\<rparr>)"

definition ws_frame_received :: "cjson_lib \<Rightarrow> hal \<Rightarrow> nat \<Rightarrow> ws_frame option \<Rightarrow> net \<Rightarrow> net" where
  "ws_frame_received L H c f n = (case f of
       None \<Rightarrow> n
     | Some f \<Rightarrow> n\<lparr>k_server := ws_server_on_frame L H c f (k_server n)\<rparr>)"

definition free_conn :: "event_lib \<Rightarrow> nat \<Rightarrow> net \<Rightarrow> net" where
  "free_conn E c n =
     (let n' = event_unsubscribe E c n
      in n'\<lparr>k_server := ws_server_on_disconnect c (k_server n'), k_conns := (k_conns n')(c := None)\<rparr>)"

subsection \<open>Events\<close>

datatype net_event =
    StaConnected nat
  | IpAssigned nat ip4
  | StaDisconnected nat
  | Handshake nat nat peer
  | FrameReceived nat "ws_frame option"
  | SessionEnded nat
  | ServerEvent server_event

text \<open>Events of the server that do not come from the transport.\<close>

fun internal :: "server_event \<Rightarrow> bool" where
  "internal (Connect _ _) \<longleftrightarrow> False"
| "internal (Receive_frame _ _) \<longleftrightarrow> False"
| "internal (Disconnect _) \<longleftrightarrow> False"
| "internal _ \<longleftrightarrow> True"

fun net_enabled :: "net \<Rightarrow> net_event \<Rightarrow> bool" where
  "net_enabled n (Handshake c fd p) \<longleftrightarrow> k_conns n c = None \<and> (\<forall>d. k_conns n d \<noteq> Some fd)"
| "net_enabled n (FrameReceived c f) \<longleftrightarrow> k_conns n c \<noteq> None"
| "net_enabled n (SessionEnded c) \<longleftrightarrow> k_conns n c \<noteq> None"
| "net_enabled n (ServerEvent e) \<longleftrightarrow> internal e"
| "net_enabled n _ \<longleftrightarrow> True"

fun net_step :: "event_lib \<Rightarrow> cjson_lib \<Rightarrow> hal \<Rightarrow> net_event \<Rightarrow> net \<Rightarrow> net" where
  "net_step E L H (StaConnected mac) n = sta_connected mac n"
| "net_step E L H (IpAssigned mac ip) n = ip_assigned E mac ip n"
| "net_step E L H (StaDisconnected mac) n = sta_disconnected E mac n"
| "net_step E L H (Handshake c fd p) n = ws_handshake E H c fd p n"
| "net_step E L H (FrameReceived c f) n = ws_frame_received L H c f n"
| "net_step E L H (SessionEnded c) n = free_conn E c n"
| "net_step E L H (ServerEvent e) n = n\<lparr>k_server := server_step L H e (k_server n)\<rparr>"

end
