(* ===== verification/Transport_Properties.thy ===== *)
theory Transport_Properties
  imports Transport Server_Safety
begin

section \<open>Stations, links and connections: properties\<close>

text \<open>
  The table of links and the connections in every reachable state, that the transport keeps what the call server relies on, and
  that the end of a station's link asks for the end of exactly its connections.
\<close>

subsection \<open>The events of the library\<close>

lemma eventsD:
  assumes "events_documented E"
  shows "set (ev_subscribe E c l) = insert c (set l)" "distinct (ev_subscribe E c l) \<longleftrightarrow> c \<notin> set l \<and> distinct l"
    "set (ev_unsubscribe E c l) = set l - {c}" "distinct l \<Longrightarrow> distinct (ev_unsubscribe E c l)"
    "mset (ev_called E l) = mset l" "set (ev_called E l) = set l"
proof -
  have sub: "mset (ev_subscribe E c l) = mset (l @ [c])" and off: "mset (ev_unsubscribe E c l) = mset (removeAll c l)"
    and called: "mset (ev_called E l) = mset l" using assms by (simp_all only: events_documented_def)
  show "set (ev_subscribe E c l) = insert c (set l)" "distinct (ev_subscribe E c l) \<longleftrightarrow> c \<notin> set l \<and> distinct l"
    using mset_eq_setD [OF sub] mset_eq_imp_distinct_iff [OF sub] by auto
  show "set (ev_unsubscribe E c l) = set l - {c}" "distinct l \<Longrightarrow> distinct (ev_unsubscribe E c l)"
    using mset_eq_setD [OF off] mset_eq_imp_distinct_iff [OF off] by (auto simp: distinct_removeAll)
  show "mset (ev_called E l) = mset l" "set (ev_called E l) = set l" using called mset_eq_setD [OF called] by simp_all
qed

definition plain_events :: event_lib where
  "plain_events = \<lparr>ev_subscribe = (\<lambda>c l. l @ [c]), ev_unsubscribe = removeAll, ev_called = (\<lambda>l. l)\<rparr>"

lemma plain_events_documented: "events_documented plain_events"
  by (simp add: events_documented_def plain_events_def)

subsection \<open>Who is connected\<close>

text \<open>The connections the server knows, with the descriptors of their sessions. Only a handshake and an end change them.\<close>

definition client_of :: "session option \<Rightarrow> (nat \<times> nat) option" where
  "client_of = map_option (\<lambda>ss. (ss_conn ss, ss_fd ss))"

definition clients :: "server \<Rightarrow> (nat \<Rightarrow> nat option) \<times> (nat \<Rightarrow> (nat \<times> nat) option)" where
  "clients s = (s_user s, \<lambda>a. client_of (s_sessions s a))"

lemma clients_update [simp]:
  "clients (s\<lparr>s_calls := cs\<rparr>) = clients s" "clients (s\<lparr>s_waiting := cs\<rparr>) = clients s" "clients (s\<lparr>s_queues := qs\<rparr>) = clients s"
  "clients (s\<lparr>s_worker := q\<rparr>) = clients s" "clients (s\<lparr>s_handled := hs\<rparr>) = clients s" "clients (s\<lparr>s_handlers := fs\<rparr>) = clients s"
  "clients (s\<lparr>s_routes := rs\<rparr>) = clients s" "clients (s\<lparr>s_out := out\<rparr>) = clients s" "clients (tick s) = clients s" "clients (fault s) = clients s"
  by (simp_all add: clients_def tick_def fault_def)

lemma clients_ping:
  "s_sessions s a = Some ss \<Longrightarrow> ss_conn x = ss_conn ss \<Longrightarrow> ss_fd x = ss_fd ss \<Longrightarrow> clients (s\<lparr>s_sessions := (s_sessions s)(a \<mapsto> x)\<rparr>) = clients s"
  by (auto simp: clients_def client_of_def)

lemma clients_sent [simp]:
  "clients (snd (ws_conn_send_async H conn f s)) = clients s" "clients (snd (bApiCallSendJson H c j s)) = clients s"
  "clients (snd (bApiCallSendStatus H c sta s)) = clients s"
  by (simp_all add: clients_def)

lemma clients_checked [simp]: "clients (check_calls cs s) = clients s"
  by (simp add: check_calls_def)

lemma clients_broken [simp]: "clients (vBreakApiCallsByFd fd s) = clients s" "clients (vBreakApiCallsByFid fid s) = clients s"
  by (simp_all add: vBreakApiCallsByFd_def vBreakApiCallsByFid_def Let_def)

lemma clients_transfer [simp]: "clients (vWsTransferComplete_cb H err fd s) = clients s"
  by (simp add: vWsTransferComplete_cb_def)

lemma clients_tables [simp]:
  "clients (snd (bApiCallRegister H fid s)) = clients s" "clients (snd (bApiCallUnregister H fid s)) = clients s"
  "clients (snd (ws_server_register_fid_queue H fid q s)) = clients s"
  by (simp_all add: bApiCallRegister_def bApiCallUnregister_def ws_server_register_fid_queue_def)

lemma clients_to_session [simp]: "clients (snd (send_to_session H a t s)) = clients s"
  by (simp add: send_to_session_def split: option.split)

lemma clients_to_each [simp]: "clients (snd (send_to_each H t cs r)) = clients (snd r)"
  by (induction H t cs r rule: send_to_each.induct) simp_all

lemma clients_publish [simp]: "clients (snd (bApiCallSendJsonFidGroup H fid json s)) = clients s"
  by (simp add: bApiCallSendJsonFidGroup_def Let_def)

lemma clients_answered [simp]: "clients (answer_call H m c s) = clients s" "clients (rearm_call H c s) = clients s"
  by (simp_all add: answer_call_def run_handler_def rearm_call_def Let_def split: option.split list.split)

lemma clients_broadcast [simp]: "clients (broadcast H m cs s) = clients s"
  by (induction H m cs s rule: broadcast.induct) simp_all

lemma clients_message [simp]: "clients (take_message H s) = clients s"
  by (simp add: take_message_def handle_message_def split: option.split prod.split)

lemma clients_serve_call: "clients (snd (vServeApiCall H c s)) = clients s"
proof (cases "call_session c")
  case (Some a)
  show ?thesis
  proof (cases "s_sessions s a")
    case (Some ss)
    obtain ok s2 where sent: "ws_conn_send_async H (ss_conn ss) ping_frame (tick s) = (ok, s2)" by fastforce
    from arg_cong [OF this, of "\<lambda>r. s_sessions (snd r)"] have same: "s_sessions s2 = s_sessions s" by simp
    from arg_cong [OF sent, of "\<lambda>r. clients (snd r)"] have "clients s2 = clients s" by simp
    moreover have "clients (s2\<lparr>s_sessions := (s_sessions s2)(a \<mapsto> ss\<lparr>ss_ping := t\<rparr>)\<rparr>) = clients s2" for t
      by (rule clients_ping) (simp_all add: same Some)
    ultimately show ?thesis
      using \<open>call_session c = Some a\<close> Some by (simp add: vServeApiCall_def Let_def sent same split: bool.split)
  qed (simp add: vServeApiCall_def \<open>call_session c = Some a\<close>)
qed (simp add: vServeApiCall_def)

lemma clients_serve_calls: "clients (snd (serve_calls H cs s)) = clients s"
proof (induction cs arbitrary: s)
  case (Cons c cs)
  obtain r s1 where "vServeApiCall H c s = (r, s1)" by fastforce
  with clients_serve_call [of H c s] Cons.IH [of s1] show ?case by (auto split: option.split prod.split)
qed simp

lemma clients_serve [simp]: "clients (serve_pass H s) = clients s"
proof -
  obtain cs s1 where a: "serve_calls H (s_calls s) s = (cs, s1)" by fastforce
  obtain ws s2 where b: "serve_calls H (s_waiting s) (s1\<lparr>s_calls := cs\<rparr>) = (ws, s2)" by fastforce
  from clients_serve_calls [of H "s_calls s" s] clients_serve_calls [of H "s_waiting s" "s1\<lparr>s_calls := cs\<rparr>"]
  show ?thesis by (simp add: serve_pass_def a b)
qed

lemma clients_told: "clients (snd (tell_new H c s)) = clients s"
  by (simp add: tell_new_def case_prod_unfold)

lemma clients_forwarded: "clients (snd (vForwardCallToPeripheral H c q s)) = clients s"
  by (simp add: vForwardCallToPeripheral_def split: option.split)

lemma clients_routed: "clients (snd (snd (route_call H ds c cs s))) = clients s"
proof (cases "ws_get_fid_queue (call_fid c) s")
  case (Some q)
  obtain c1 s1 where a: "vForwardCallToPeripheral H c q s = (c1, s1)" by fastforce
  obtain c2 s2 where b: "tell_new H c1 s1 = (c2, s2)" by fastforce
  from clients_forwarded [of H c q s] clients_told [of H c1 s1] show ?thesis by (simp add: route_call_def Some a b)
qed (simp add: route_call_def)

lemma clients_forward_one: "clients (snd (snd (forward_one H (ds, rest, s)))) = clients s"
  by (simp add: forward_one_def delete_call_def Let_def clients_routed split: list.split)

lemma clients_forward_calls: "clients (snd (snd (forward_calls H r))) = clients (snd (snd r))"
proof (induction H r rule: forward_calls.induct)
  case (2 H ds c cs s)
  then show ?case using clients_forward_one [of H ds "c # cs" s] by simp
qed simp

lemma clients_forward [simp]: "clients (forward_pass H s) = clients s"
proof -
  obtain ds r s' where "forward_calls H ([], s_calls s, s) = (ds, r, s')" by (metis prod_cases3)
  with clients_forward_calls [of H "([], s_calls s, s)"] show ?thesis by (simp add: forward_pass_def)
qed

lemma clients_internal: "internal e \<Longrightarrow> clients (server_step L H e s) = clients s"
  by (cases e) (simp_all split: option.split prod.split)

lemma clients_text: "clients (ws_server_on_text L H c t s) = clients s"
  by (simp add: ws_server_on_text_def Let_def split: option.split)

lemma clients_alive: "clients (note_alive H c s) = clients s"
  by (auto simp: note_alive_def clients_ping split: option.split)

lemma clients_frame: "clients (ws_server_on_frame L H c f s) = clients s"
  by (simp add: ws_server_on_frame_def Let_def clients_text clients_alive split: ws_frame_type.split)

lemma clients_connected:
  "clients (ws_server_on_connect H c fd s) = ((fst (clients s))(c \<mapsto> s_next s), (snd (clients s))(s_next s \<mapsto> (c, fd)))"
  by (auto simp: ws_server_on_connect_def Let_def clients_def client_of_def tick_def)

lemma clients_gone:
  assumes "s_user s c = Some a" and "s_sessions s a = Some ss"
  shows "clients (ws_server_on_disconnect c s) = ((fst (clients s))(c := None), (snd (clients s))(a := None))"
proof -
  let ?s1 = "vBreakApiCallsByFd (ss_fd ss) (s\<lparr>s_user := (s_user s)(c := None)\<rparr>)"
  have "clients ?s1 = clients (s\<lparr>s_user := (s_user s)(c := None)\<rparr>)" by simp
  then have "s_user ?s1 = (s_user s)(c := None)" "(\<lambda>a. client_of (s_sessions ?s1 a)) = (\<lambda>a. client_of (s_sessions s a))"
    by (simp_all add: clients_def)
  then show ?thesis
    by (auto simp: ws_server_on_disconnect_def assms Let_def clients_def fun_eq_iff) (simp add: client_of_def)
qed

subsection \<open>The links\<close>

definition links_ok :: "net \<Rightarrow> bool" where
  "links_ok n \<longleftrightarrow> distinct (k_free n @ k_active n) \<and> set (k_free n @ k_active n) = {..<LINKS_MAX_AMOUNT}
     \<and> distinct (map (\<lambda>i. l_mac (k_link n i)) (k_active n)) \<and> \<not> k_fault n"

definition subs_ok :: "net \<Rightarrow> bool" where
  "subs_ok n \<longleftrightarrow> (\<forall>i. distinct (l_event (k_link n i)))
     \<and> (\<forall>i c. c \<in> set (l_event (k_link n i)) \<longrightarrow> k_conns n c \<noteq> None \<and> i \<in> set (k_active n))
     \<and> (\<forall>i j c. c \<in> set (l_event (k_link n i)) \<and> c \<in> set (l_event (k_link n j)) \<longrightarrow> i = j)"

definition conns_ok :: "net \<Rightarrow> bool" where
  "conns_ok n \<longleftrightarrow> (\<forall>c. k_conns n c = None \<longleftrightarrow> fst (clients (k_server n)) c = None)
     \<and> (\<forall>a c fd. snd (clients (k_server n)) a = Some (c, fd) \<longrightarrow> k_conns n c = Some fd)
     \<and> (\<forall>c d fd. k_conns n c = Some fd \<and> k_conns n d = Some fd \<longrightarrow> c = d)"

lemma raise_form:
  assumes "\<forall>c \<in> set cs. k_conns n c \<noteq> None"
  shows "fold link_event_handler cs n = n\<lparr>k_closing := k_closing n @ map (\<lambda>c. the (k_conns n c)) cs\<rparr>"
  using assms
proof (induction cs arbitrary: n)
  case (Cons c cs)
  then obtain fd where "k_conns n c = Some fd" by auto
  with Cons show ?case by (simp add: link_event_handler_def)
qed simp

lemma raise_clear_form:
  assumes "events_documented E" and "subs_ok n"
  shows "event_raise_clear E i n = n\<lparr>k_link := (k_link n)(i := (k_link n i)\<lparr>l_event := []\<rparr>),
     k_closing := k_closing n @ map (\<lambda>c. the (k_conns n c)) (ev_called E (l_event (k_link n i)))\<rparr>"
proof -
  have "\<forall>c \<in> set (ev_called E (l_event (k_link n i))). k_conns n c \<noteq> None"
    using assms(2) by (auto simp: subs_ok_def eventsD [OF assms(1)])
  then show ?thesis by (simp add: event_raise_clear_def raise_form change_link_def)
qed

lemma raised_server [simp]: "k_server (fold link_event_handler cs n) = k_server n"
  by (induction cs arbitrary: n) (simp_all add: link_event_handler_def split: option.split)

lemma links_server [simp]:
  "k_server (change_link i f n) = k_server n" "k_server (event_raise_clear E i n) = k_server n" "k_server (deauth mac n) = k_server n"
  "k_server (sta_connected mac n) = k_server n" "k_server (ip_assigned E mac ip n) = k_server n" "k_server (sta_disconnected E mac n) = k_server n"
  "k_server (socket_link_subscribe E p c n) = k_server n"
  by (simp_all add: change_link_def event_raise_clear_def deauth_def socket_link_subscribe_def sta_connected_def ip_assigned_def sta_disconnected_def Let_def
      split: option.split list.split)

lemma found_mac: "find (link_mac_match n mac) (k_active n) = Some i \<Longrightarrow> i \<in> set (k_active n) \<and> l_mac (k_link n i) = mac"
  by (auto simp: find_Some_iff link_mac_match_def)

lemma no_mac: "find (link_mac_match n mac) (k_active n) = None \<Longrightarrow> i \<in> set (k_active n) \<Longrightarrow> l_mac (k_link n i) \<noteq> mac"
  by (auto simp: find_None_iff link_mac_match_def)

lemma cleared_ok: "subs_ok n \<Longrightarrow> subs_ok (n\<lparr>k_link := (k_link n)(i := (k_link n i)\<lparr>l_event := []\<rparr>), k_closing := x\<rparr>)"
  by (auto simp: subs_ok_def)

lemma links_ok_same:
  "links_ok n \<Longrightarrow> k_free n' = k_free n \<Longrightarrow> k_active n' = k_active n \<Longrightarrow> k_fault n' = k_fault n
    \<Longrightarrow> (\<And>i. l_mac (k_link n' i) = l_mac (k_link n i)) \<Longrightarrow> links_ok n'"
  by (simp add: links_ok_def)

lemma subs_ok_same:
  "subs_ok n \<Longrightarrow> k_active n' = k_active n \<Longrightarrow> k_conns n' = k_conns n \<Longrightarrow> (\<And>i. l_event (k_link n' i) = l_event (k_link n i)) \<Longrightarrow> subs_ok n'"
  by (simp add: subs_ok_def)

lemma conns_ok_same: "conns_ok n \<Longrightarrow> k_conns n' = k_conns n \<Longrightarrow> clients (k_server n') = clients (k_server n) \<Longrightarrow> conns_ok n'"
  by (simp add: conns_ok_def)

lemmas parts_same = links_ok_same subs_ok_same conns_ok_same

definition net_ok :: "net \<Rightarrow> bool" where
  "net_ok n \<longleftrightarrow> links_ok n \<and> subs_ok n \<and> conns_ok n"

lemma ok_new_link:
  assumes "net_ok n" and "find (link_mac_match n mac) (k_active n) = None" and "k_free n = i # r"
  shows "net_ok ((change_link i (\<lambda>l. l\<lparr>l_ip := ip, l_mac := mac\<rparr>) n)\<lparr>k_free := r, k_active := k_active n @ [i]\<rparr>)"
proof -
  let ?n = "(change_link i (\<lambda>l. l\<lparr>l_ip := ip, l_mac := mac\<rparr>) n)\<lparr>k_free := r, k_active := k_active n @ [i]\<rparr>"
  have free: "i \<notin> set (k_active n)" using assms(1,3) by (auto simp: net_ok_def links_ok_def)
  then have macs: "map (\<lambda>j. l_mac (k_link ?n j)) (k_active n) = map (\<lambda>j. l_mac (k_link n j)) (k_active n)"
    by (auto simp: change_link_def)
  have "mac \<notin> (\<lambda>j. l_mac (k_link n j)) ` set (k_active n)" using no_mac [OF assms(2)] by auto
  moreover have "l_mac (k_link ?n i) = mac" by (simp add: change_link_def)
  moreover have "distinct (map (\<lambda>j. l_mac (k_link n j)) (k_active n))" using assms(1) by (simp add: net_ok_def links_ok_def)
  ultimately have "distinct (map (\<lambda>j. l_mac (k_link ?n j)) (k_active n @ [i]))"
    by (simp only: map_append macs) simp
  moreover have "distinct (r @ k_active n @ [i])" "set (r @ k_active n @ [i]) = {..<LINKS_MAX_AMOUNT}" "\<not> k_fault n"
    using assms(1,3) by (auto simp: net_ok_def links_ok_def)
  ultimately have "links_ok ?n" by (simp add: links_ok_def change_link_def)
  moreover have "subs_ok ?n"
  proof -
    have "l_event (k_link ?n j) = l_event (k_link n j)" for j by (simp add: change_link_def)
    moreover have "k_conns ?n = k_conns n" "k_active ?n = k_active n @ [i]" by (simp_all add: change_link_def)
    ultimately show ?thesis using assms(1) unfolding net_ok_def subs_ok_def by (metis Un_iff set_append)
  qed
  moreover have "conns_ok ?n"
    by (rule conns_ok_same [of n]) (use assms(1) in \<open>simp_all add: net_ok_def change_link_def\<close>)
  ultimately show ?thesis by (simp add: net_ok_def)
qed

lemma ok_raise:
  assumes "events_documented E" and "net_ok n"
  shows "net_ok (event_raise_clear E i n)"
proof -
  have subs: "subs_ok n" using assms(2) by (simp add: net_ok_def)
  have "links_ok (event_raise_clear E i n)"
    by (rule links_ok_same [of n]) (use assms(2) in \<open>simp_all add: raise_clear_form [OF assms(1) subs] net_ok_def\<close>)
  moreover have "subs_ok (event_raise_clear E i n)" unfolding raise_clear_form [OF assms(1) subs] by (rule cleared_ok [OF subs])
  ultimately show ?thesis using assms(2) by (simp add: net_ok_def conns_ok_def raise_clear_form [OF assms(1) subs])
qed

lemma ok_new_ip: "net_ok n \<Longrightarrow> net_ok (change_link i (\<lambda>l. l\<lparr>l_ip := ip\<rparr>) n)"
  using parts_same [of n "change_link i (\<lambda>l. l\<lparr>l_ip := ip\<rparr>) n"] by (simp add: net_ok_def change_link_def)

lemma ok_deauth: "net_ok n \<Longrightarrow> net_ok (deauth mac n)"
  using parts_same [of n "deauth mac n"] by (simp add: net_ok_def deauth_def)

lemma ok_sta_connected: "net_ok n \<Longrightarrow> net_ok (sta_connected mac n)"
  by (simp add: sta_connected_def ok_deauth)

lemma ok_ip_assigned: "events_documented E \<Longrightarrow> net_ok n \<Longrightarrow> net_ok (ip_assigned E mac ip n)"
  unfolding ip_assigned_def by (auto simp only: split: option.split list.split if_split intro: ok_deauth ok_new_link ok_raise ok_new_ip)

lemma sta_gone_form:
  assumes "events_documented E" and "net_ok n" and "find (link_mac_match n mac) (k_active n) = Some i"
  shows "sta_disconnected E mac n = n\<lparr>k_link := (k_link n)(i := (k_link n i)\<lparr>l_event := []\<rparr>),
     k_closing := k_closing n @ map (\<lambda>c. the (k_conns n c)) (ev_called E (l_event (k_link n i))), k_active := removeAll i (k_active n), k_free := k_free n @ [i]\<rparr>"
proof -
  have "subs_ok n" "i \<notin> set (k_free n)"
    using assms(2) found_mac [OF assms(3)] by (auto simp: net_ok_def links_ok_def)
  then show ?thesis by (simp add: sta_disconnected_def assms(3) raise_clear_form [OF assms(1)] Let_def)
qed

lemma ok_sta_disconnected:
  assumes "events_documented E" and "net_ok n"
  shows "net_ok (sta_disconnected E mac n)"
proof (cases "find (link_mac_match n mac) (k_active n)")
  case (Some i)
  have active: "i \<in> set (k_active n)" using found_mac [OF Some] by simp
  let ?n = "sta_disconnected E mac n"
  have "map (\<lambda>j. l_mac (k_link ?n j)) (k_active ?n) = map (\<lambda>j. l_mac (k_link n j)) (removeAll i (k_active n))"
    by (simp add: sta_gone_form [OF assms Some])
  moreover have "distinct (map (\<lambda>j. l_mac (k_link n j)) (removeAll i (k_active n)))"
    using assms by (simp add: net_ok_def links_ok_def distinct_map inj_on_diff distinct_removeAll)
  ultimately have "distinct (map (\<lambda>j. l_mac (k_link ?n j)) (k_active ?n))" by simp
  moreover have "distinct (k_free ?n @ k_active ?n)" "set (k_free ?n @ k_active ?n) = {..<LINKS_MAX_AMOUNT}" "\<not> k_fault ?n"
    using assms active by (auto simp: sta_gone_form [OF assms Some] net_ok_def links_ok_def distinct_removeAll)
  ultimately have "links_ok ?n" by (simp only: links_ok_def) simp
  moreover have "subs_ok ?n" using assms by (auto simp: sta_gone_form [OF assms Some] net_ok_def subs_ok_def)
  ultimately show ?thesis using assms by (simp add: net_ok_def conns_ok_def sta_gone_form [OF assms Some])
qed (simp add: sta_disconnected_def assms)

subsection \<open>The connections\<close>

lemma subscribed_form: "\<exists>K. socket_link_subscribe E p c n = n\<lparr>k_link := K\<rparr> \<and> (\<forall>i. l_mac (K i) = l_mac (k_link n i))
    \<and> (K = k_link n \<or> (\<exists>i \<in> set (k_active n). K = (k_link n)(i := (k_link n i)\<lparr>l_event := ev_subscribe E c (l_event (k_link n i))\<rparr>)))"
proof -
  have same: "\<exists>K. n = n\<lparr>k_link := K\<rparr> \<and> (\<forall>i. l_mac (K i) = l_mac (k_link n i)) \<and> (K = k_link n \<or> Q K)" for Q
    by (rule exI [of _ "k_link n"]) simp
  show ?thesis
  proof (cases "\<exists>ip i. peer_ip4 p = Some ip \<and> find (link_ip_match n ip) (k_active n) = Some i")
    case True
    then obtain ip i where found: "peer_ip4 p = Some ip" "find (link_ip_match n ip) (k_active n) = Some i" by blast
    then have "i \<in> set (k_active n)" by (auto simp: find_Some_iff)
    then show ?thesis
      by (intro exI [of _ "(k_link n)(i := (k_link n i)\<lparr>l_event := ev_subscribe E c (l_event (k_link n i))\<rparr>)"])
        (auto simp: socket_link_subscribe_def found change_link_def)
  next
    case False
    then have "socket_link_subscribe E p c n = n" by (auto simp: socket_link_subscribe_def split: option.splits)
    then show ?thesis using same by simp
  qed
qed

lemma ok_handshake:
  assumes lib: "events_documented E" and "net_ok n" and "net_enabled n (Handshake c fd p)"
  shows "net_ok (ws_handshake E H c fd p n)"
proof -
  let ?n = "n\<lparr>k_conns := (k_conns n)(c \<mapsto> fd)\<rparr>"
  obtain K where K: "socket_link_subscribe E p c ?n = ?n\<lparr>k_link := K\<rparr>" "\<forall>i. l_mac (K i) = l_mac (k_link n i)"
    "K = k_link n \<or> (\<exists>i \<in> set (k_active n). K = (k_link n)(i := (k_link n i)\<lparr>l_event := ev_subscribe E c (l_event (k_link n i))\<rparr>))"
    using subscribed_form [of E p c ?n] by auto
  let ?s = "k_server n" and ?m = "ws_handshake E H c fd p n"
  have form: "?m = ?n\<lparr>k_link := K, k_server := ws_server_on_connect H c fd ?s\<rparr>" by (simp add: ws_handshake_def K(1) Let_def)
  have new: "k_conns n c = None" "\<forall>d. k_conns n d \<noteq> Some fd" using assms(3) by simp_all
  have "links_ok ?m" by (rule links_ok_same [of n]) (use assms(2) K(2) in \<open>simp_all add: form net_ok_def\<close>)
  moreover have "\<forall>i. c \<notin> set (l_event (k_link n i))" using assms(2) new(1) by (metis net_ok_def subs_ok_def)
  then have "subs_ok ?m" using assms(2) K(3) by (auto simp: form net_ok_def subs_ok_def eventsD [OF lib] split: if_splits) blast+
  moreover have "snd (clients ?s) a \<noteq> Some (c, d)" for a d
    using assms(2) new(1) unfolding net_ok_def conns_ok_def by (metis option.distinct(1))
  then have "conns_ok ?m" using assms(2) new by (auto simp: form net_ok_def conns_ok_def clients_connected)
  ultimately show ?thesis by (simp add: net_ok_def)
qed

lemma ok_free_conn:
  assumes lib: "events_documented E" and "net_ok n" and "server_ok (k_server n)" and "k_conns n c \<noteq> None"
  shows "net_ok (free_conn E c n)"
proof -
  have "s_user (k_server n) c \<noteq> None" using assms(2,4) by (auto simp: net_ok_def conns_ok_def clients_def)
  then obtain a ss where a: "s_user (k_server n) c = Some a" "s_sessions (k_server n) a = Some ss" "ss_conn ss = c"
    using sessions_okD(1) assms(3) by (fastforce simp: server_inv_def)
  have only: "b = a" if "s_sessions (k_server n) b = Some tt" "ss_conn tt = c" for b tt
    using that a(1) sessions_okD(3) assms(3) by (fastforce simp: server_inv_def)
  note form = free_conn_def event_unsubscribe_def Let_def
  have "links_ok (free_conn E c n)" by (rule links_ok_same [of n]) (use assms(2) in \<open>simp_all add: form net_ok_def\<close>)
  moreover have "subs_ok (free_conn E c n)" using assms(2) by (auto simp: form net_ok_def subs_ok_def eventsD [OF lib]) blast
  moreover have "b = a" if "snd (clients (k_server n)) b = Some (c, fd)" for b fd
    using that only by (auto simp: clients_def client_of_def)
  then have "conns_ok (free_conn E c n)"
    using assms(2) by (auto simp: form net_ok_def conns_ok_def clients_gone [OF a(1,2)])
  ultimately show ?thesis by (simp add: net_ok_def)
qed

lemma ok_server: "net_ok n \<Longrightarrow> clients s = clients (k_server n) \<Longrightarrow> net_ok (n\<lparr>k_server := s\<rparr>)"
  using parts_same [of n "n\<lparr>k_server := s\<rparr>"] by (simp add: net_ok_def)

subsection \<open>Every reachable state\<close>

definition net_inv :: "(nat \<Rightarrow> nat) \<Rightarrow> cjson_lib \<Rightarrow> hal \<Rightarrow> net \<Rightarrow> bool" where
  "net_inv caps L H n \<longleftrightarrow> server_reachable caps L H (k_server n) \<and> net_ok n"

lemma net_server_ok: "net_inv caps L H n \<Longrightarrow> server_ok (k_server n)"
  by (auto simp: net_inv_def intro: serving.inv_reachable)

text \<open>What the transport does to the server is an event the server can expect, or nothing.\<close>

lemma server_events:
  assumes "net_inv caps L H n" and "net_enabled n e"
  shows "k_server (net_step E L H e n) = k_server n
    \<or> (\<exists>e'. server_enabled (k_server n) e' \<and> k_server (net_step E L H e n) = server_step L H e' (k_server n))"
proof -
  have ok: "links_ok n" "subs_ok n" "conns_ok n" using assms(1) by (simp_all add: net_inv_def net_ok_def)
  have known: "s_user (k_server n) c = None \<longleftrightarrow> k_conns n c = None" for c using ok(3) by (simp add: conns_ok_def clients_def)
  show ?thesis
  proof (cases e)
    case (Handshake c fd p)
    have "ss_fd ss \<noteq> fd" if "s_sessions (k_server n) a = Some ss" for a ss
    proof -
      have "snd (clients (k_server n)) a = Some (ss_conn ss, ss_fd ss)" using that by (simp add: clients_def client_of_def)
      then have "k_conns n (ss_conn ss) = Some (ss_fd ss)" using ok(3) by (simp add: conns_ok_def)
      then show ?thesis using assms(2) by (auto simp: Handshake)
    qed
    then have "server_enabled (k_server n) (Connect c fd)" using assms(2) known by (simp add: Handshake)
    moreover have "k_server (net_step E L H e n) = server_step L H (Connect c fd) (k_server n)"
      by (simp add: Handshake ws_handshake_def Let_def)
    ultimately show ?thesis by blast
  next
    case (FrameReceived c f)
    show ?thesis
    proof (cases f)
      case (Some g)
      have "server_enabled (k_server n) (Receive_frame c g)" using assms(2) known by (simp add: FrameReceived)
      moreover have "k_server (net_step E L H e n) = server_step L H (Receive_frame c g) (k_server n)"
        by (simp add: FrameReceived Some ws_frame_received_def)
      ultimately show ?thesis by blast
    qed (simp add: FrameReceived ws_frame_received_def)
  next
    case (SessionEnded c)
    have "server_enabled (k_server n) (Disconnect c)" using assms(2) known by (simp add: SessionEnded)
    moreover have "k_server (net_step E L H e n) = server_step L H (Disconnect c) (k_server n)"
      by (simp add: SessionEnded free_conn_def event_unsubscribe_def Let_def)
    ultimately show ?thesis by blast
  next
    case (ServerEvent e')
    then have "server_enabled (k_server n) e'" using assms(2) by (cases e') simp_all
    then show ?thesis using ServerEvent by auto
  qed simp_all
qed

lemma net_inv_step:
  assumes lib: "events_documented E" and inv: "net_inv caps L H n" and on: "net_enabled n e"
  shows "net_inv caps L H (net_step E L H e n)"
proof -
  have "server_reachable caps L H (k_server (net_step E L H e n))"
    using server_events [OF inv on, of E] inv by (auto simp: net_inv_def intro: reach_step)
  moreover have "net_ok n" using inv by (simp add: net_inv_def)
  then have "net_ok (net_step E L H e n)"
    using on net_server_ok [OF inv]
    by (cases e) (auto simp: ok_sta_connected ok_ip_assigned [OF lib] ok_sta_disconnected [OF lib] ok_handshake [OF lib] ok_free_conn [OF lib] ws_frame_received_def
        clients_frame clients_internal intro!: ok_server split: option.split simp del: net_enabled.simps(1))
  ultimately show ?thesis by (simp add: net_inv_def)
qed

lemma net_inv_init: "net_inv caps L H (net_init caps)"
proof -
  have "server_reachable caps L H (k_server (net_init caps))" by (simp add: net_init_def reach_init)
  moreover have "clients (ws_server_init caps) = (\<lambda>_. None, \<lambda>_. None)" by (simp add: clients_def client_of_def ws_server_init_def)
  then have "net_ok (net_init caps)" by (auto simp: net_ok_def net_init_def links_ok_def subs_ok_def conns_ok_def)
  ultimately show ?thesis by (simp add: net_inv_def)
qed

interpretation network: loop_invariant "net_init caps" net_enabled "net_step E L H" "\<lambda>n. events_documented E \<longrightarrow> net_inv caps L H n"
  for E caps L H
  by unfold_locales (auto intro: net_inv_init net_inv_step)

abbreviation net_reachable :: "event_lib \<Rightarrow> (nat \<Rightarrow> nat) \<Rightarrow> cjson_lib \<Rightarrow> hal \<Rightarrow> net \<Rightarrow> bool" where
  "net_reachable E caps L H \<equiv> reachable (net_init caps) net_enabled (net_step E L H)"


text \<open>One station with one connection.\<close>

definition one_station :: net where
  "one_station = net_step plain_events plain_cjson always (IpAssigned 7 (1, 2)) (net_init (\<lambda>_. 10))"

definition one_client :: net where
  "one_client = net_step plain_events plain_cjson always (Handshake 1 54 (V4 (1, 2))) one_station"

lemma one_client_reachable: "net_reachable plain_events (\<lambda>_. 10) plain_cjson always one_station" "net_reachable plain_events (\<lambda>_. 10) plain_cjson always one_client"
proof -
  show one: "net_reachable plain_events (\<lambda>_. 10) plain_cjson always one_station"
    unfolding one_station_def by (rule reach_step [OF reach_init]) simp
  show "net_reachable plain_events (\<lambda>_. 10) plain_cjson always one_client"
    unfolding one_client_def by (rule reach_step [OF one])
      (simp add: one_station_def ip_assigned_def change_link_def net_init_def LINKS_MAX_AMOUNT_def upt_rec)
qed

lemma one_station_links:
  "k_active one_station = [0]" "k_free one_station = [1, 2, 3]" "k_link one_station 0 = \<lparr>l_ip = (1, 2), l_mac = 7, l_event = []\<rparr>"
  "k_conns one_station = (\<lambda>_. None)" "k_closing one_station = []"
  by (simp_all add: one_station_def ip_assigned_def change_link_def net_init_def LINKS_MAX_AMOUNT_def upt_rec)

lemma one_client_links:
  "k_active one_client = [0]" "k_link one_client 0 = \<lparr>l_ip = (1, 2), l_mac = 7, l_event = [1]\<rparr>" "k_conns one_client = [1 \<mapsto> 54]" "k_closing one_client = []"
  by (simp_all add: one_client_def ws_handshake_def socket_link_subscribe_def peer_ip4_def link_ip_match_def change_link_def one_station_links plain_events_def)


text \<open>C18. The transport keeps what the call server relies on. In every reachable state of stations, connections and server together, the server is in a state that it can reach alone, and what an
  event does to the server is one of its own events, delivered when it can be, or nothing: a connection is announced once, under a descriptor no other connection has, and only a known one sends
  frames or ends.\<close>

theorem transport_serves:
  assumes "events_documented E" and "net_reachable E caps L H n"
  shows "server_reachable caps L H (k_server n)
    \<and> (\<forall>e. net_enabled n e \<longrightarrow> k_server (net_step E L H e n) = k_server n
        \<or> (\<exists>e'. server_enabled (k_server n) e' \<and> k_server (net_step E L H e n) = server_step L H e' (k_server n)))"
proof -
  have inv: "net_inv caps L H n" using network.inv_reachable [OF assms(2)] assms(1) by simp
  then show ?thesis using server_events [OF inv] by (auto simp: net_inv_def)
qed

theorem transport_serves_witness: "server_reachable (\<lambda>_. 10) plain_cjson always (k_server one_client)"
  using transport_serves [OF plain_events_documented one_client_reachable(2)] by blast

lemma station_found:
  assumes "links_ok n" and "i \<in> set (k_active n)"
  shows "find (link_mac_match n (l_mac (k_link n i))) (k_active n) = Some i"
proof (cases "find (link_mac_match n (l_mac (k_link n i))) (k_active n)")
  case None
  then show ?thesis using no_mac assms(2) by blast
next
  case (Some j)
  then have "j \<in> set (k_active n)" "l_mac (k_link n j) = l_mac (k_link n i)" using found_mac by blast+
  then show ?thesis using Some assms by (auto simp: links_ok_def distinct_map inj_on_def)
qed

text \<open>C19. A station that leaves takes its connections along. When a station is gone, the gateway asks for the end of exactly the connections that are subscribed to its link, each once, the link becomes free without subscribers, and the other links, the connections and the server stay as they are. And a client that connects from the address of a station is
  among them, if no other active link has the address.\<close>

theorem station_gone_closes:
  assumes "events_documented E" and "net_reachable E caps L H n" and "i \<in> set (k_active n)"
  shows "(let n' = net_step E L H (StaDisconnected (l_mac (k_link n i))) n in
        mset (drop (length (k_closing n)) (k_closing n')) = image_mset (\<lambda>c. the (k_conns n c)) (mset (l_event (k_link n i)))
      \<and> k_free n' = k_free n @ [i] \<and> k_active n' = removeAll i (k_active n) \<and> k_link n' = (k_link n)(i := (k_link n i)\<lparr>l_event := []\<rparr>)
      \<and> k_conns n' = k_conns n \<and> k_server n' = k_server n)
    \<and> (net_enabled n (Handshake c fd (V4 (l_ip (k_link n i)))) \<and> (\<forall>j \<in> set (k_active n). l_ip (k_link n j) = l_ip (k_link n i) \<longrightarrow> j = i) \<longrightarrow>
        fd \<in> set (k_closing (net_step E L H (StaDisconnected (l_mac (k_link n i))) (net_step E L H (Handshake c fd (V4 (l_ip (k_link n i)))) n))))"
proof -
  have ok: "net_ok n" using network.inv_reachable [OF assms(2)] assms(1) by (simp add: net_inv_def)
  then have parts: "links_ok n" "subs_ok n" by (simp_all add: net_ok_def)
  have "mset (map (\<lambda>c. the (k_conns n c)) (ev_called E (l_event (k_link n i)))) = image_mset (\<lambda>c. the (k_conns n c)) (mset (l_event (k_link n i)))"
    by (simp add: eventsD(5) [OF assms(1)])
  moreover have "fd \<in> set (k_closing (net_step E L H (StaDisconnected (l_mac (k_link n i))) (net_step E L H (Handshake c fd (V4 (l_ip (k_link n i)))) n)))"
    if new: "net_enabled n (Handshake c fd (V4 (l_ip (k_link n i))))" and only: "\<forall>j \<in> set (k_active n). l_ip (k_link n j) = l_ip (k_link n i) \<longrightarrow> j = i"
  proof -
    let ?m = "net_step E L H (Handshake c fd (V4 (l_ip (k_link n i)))) n"
    have "find (link_ip_match n (l_ip (k_link n i))) (k_active n) = Some i"
      using only assms(3) by (cases "find (link_ip_match n (l_ip (k_link n i))) (k_active n)") (auto simp: find_None_iff find_Some_iff link_ip_match_def)
    moreover have "link_ip_match (n\<lparr>k_conns := X\<rparr>) = link_ip_match n" for X by (simp add: fun_eq_iff link_ip_match_def)
    ultimately have m: "k_active ?m = k_active n" "k_link ?m i = (k_link n i)\<lparr>l_event := ev_subscribe E c (l_event (k_link n i))\<rparr>" "k_conns ?m c = Some fd"
      by (simp_all add: ws_handshake_def socket_link_subscribe_def peer_ip4_def change_link_def Let_def)
    have "net_ok ?m" using ok_handshake [OF assms(1) ok new] by simp
    moreover from this have "find (link_mac_match ?m (l_mac (k_link n i))) (k_active ?m) = Some i"
      using station_found [of ?m i] assms(3) m(1,2) by (simp add: net_ok_def del: net_step.simps)
    ultimately have "sta_disconnected E (l_mac (k_link n i)) ?m = ?m\<lparr>k_link := (k_link ?m)(i := (k_link ?m i)\<lparr>l_event := []\<rparr>),
       k_closing := k_closing ?m @ map (\<lambda>c. the (k_conns ?m c)) (ev_called E (l_event (k_link ?m i))), k_active := removeAll i (k_active ?m), k_free := k_free ?m @ [i]\<rparr>"
      by (rule sta_gone_form [OF assms(1)])
    then show ?thesis by (simp only: net_step.simps(3)) (simp add: m(2,3) eventsD [OF assms(1)] del: net_step.simps)
  qed
  ultimately show ?thesis
    using sta_gone_form [OF assms(1) ok station_found [OF parts(1) assms(3)]] by (simp add: Let_def)
qed

theorem station_gone_closes_witness:
  "k_closing (net_step plain_events plain_cjson always (StaDisconnected 7) one_client) = [54]
   \<and> 54 \<in> set (k_closing (net_step plain_events plain_cjson always (StaDisconnected 7) (net_step plain_events plain_cjson always (Handshake 1 54 (V4 (1, 2))) one_station)))"
  using station_gone_closes [OF plain_events_documented one_client_reachable(2), of 0 2 55] station_gone_closes [OF plain_events_documented one_client_reachable(1), of 0 1 54]
  by (auto simp: one_client_links one_station_links Let_def simp del: net_step.simps)

end
