(* ===== verification/System_Config.thy ===== *)
theory System_Config
  imports Cjson_Lib
begin

section \<open>System functions and stored settings\<close>

text \<open>
  The handlers of src/main/apih_sys.c (echo, and the settings of the station) and src/main/nvs_config.c: the settings of the access point
  and the station in the non-volatile storage of ESP-IDF, which is a parameter, and what \<open>load_config\<close> makes of them at the start. Texts of C are lists of bytes
  without the terminating 0; \<open>strn_cpy\<close> of CodeLibrary is a parameter. The storage works when it is written (\<open>ESP_ERROR_CHECK\<close> restarts the device otherwise).
\<close>

subsection \<open>The storage\<close>

record 'n nvs =
  nv_exists :: "'n \<Rightarrow> bool"
  nv_get :: "string \<Rightarrow> nat \<Rightarrow> 'n \<Rightarrow> jsstr option"
  nv_set :: "string \<Rightarrow> jsstr \<Rightarrow> 'n \<Rightarrow> 'n"

text \<open>\<open>nvs_get_str\<close> fails for a key that is not set and for a value that does not fit with its end; opening for reading fails while nothing
  was ever set.\<close>

definition nvs_documented :: "'n nvs \<Rightarrow> bool" where
  "nvs_documented N \<longleftrightarrow>
     (\<forall>k v n. nv_exists N (nv_set N k v n))
   \<and> (\<forall>k v n len. nv_get N k len (nv_set N k v n) = (if length v < len then Some v else None))
   \<and> (\<forall>k k' v n len. k' \<noteq> k \<longrightarrow> nv_get N k' len (nv_set N k v n) = nv_get N k' len n)
   \<and> (\<forall>k n len. \<not> nv_exists N n \<longrightarrow> nv_get N k len n = None)"

subsection \<open>The settings\<close>

record wifi_app =
  ap_ssid :: jsstr
  ap_ssid_len :: nat
  ap_pass :: jsstr
  ap_max :: nat
  ap_auth :: nat
  sta_ssid :: jsstr
  sta_pass :: jsstr

text \<open>The static context of the program at the start, and the settings of the build.\<close>

definition blank_app :: wifi_app where
  "blank_app = \<lparr>ap_ssid = [], ap_ssid_len = 0, ap_pass = [], ap_max = 0, ap_auth = 0, sta_ssid = [], sta_pass = []\<rparr>"

record kconfig =
  def_ap_ssid :: jsstr
  def_ap_pass :: jsstr
  def_sta_ssid :: jsstr
  def_sta_pass :: jsstr

definition SSID_SIZE :: nat where
  "SSID_SIZE = 32"

definition PASS_SIZE :: nat where
  "PASS_SIZE = 64"

definition WIFI_AUTH_WPA2_PSK :: nat where
  "WIFI_AUTH_WPA2_PSK = 3"

definition strlcpy :: "nat \<Rightarrow> jsstr \<Rightarrow> jsstr" where
  "strlcpy n s = take (n - 1) s"

definition save_wifi_sta_config :: "'n nvs \<Rightarrow> jsstr \<Rightarrow> jsstr \<Rightarrow> 'n \<Rightarrow> 'n" where
  "save_wifi_sta_config N ssid pass n = nv_set N ''sta_pass'' pass (nv_set N ''sta_ssid'' ssid n)"

definition save_wifi_ap_config :: "'n nvs \<Rightarrow> jsstr \<Rightarrow> jsstr \<Rightarrow> 'n \<Rightarrow> 'n" where
  "save_wifi_ap_config N ssid pass n = nv_set N ''ap_pass'' pass (nv_set N ''ap_ssid'' ssid n)"

text \<open>\<open>sizeof\<close> of a text counts its end.\<close>

definition load_config_default :: "kconfig \<Rightarrow> wifi_app \<Rightarrow> wifi_app" where
  "load_config_default K app =
     (let ssid_len = min (length (def_ap_ssid K) + 1) SSID_SIZE; pass_len = min (length (def_ap_pass K) + 1) PASS_SIZE
      in app\<lparr>ap_ssid_len := ssid_len, ap_ssid := strlcpy ssid_len (def_ap_ssid K), ap_pass := strlcpy pass_len (def_ap_pass K),
           ap_max := 4, ap_auth := WIFI_AUTH_WPA2_PSK,
           sta_ssid := strlcpy SSID_SIZE (def_sta_ssid K), sta_pass := strlcpy PASS_SIZE (def_sta_pass K)\<rparr>)"

definition load_config :: "'n nvs \<Rightarrow> kconfig \<Rightarrow> 'n \<Rightarrow> wifi_app \<Rightarrow> wifi_app" where
  "load_config N K n app =
     (if \<not> nv_exists N n then load_config_default K app
      else
        (let app = app\<lparr>ap_ssid_len := 0\<rparr>;
             app = (case nv_get N ''ap_ssid'' SSID_SIZE n of Some s \<Rightarrow> app\<lparr>ap_ssid := s, ap_ssid_len := length s + 1\<rparr> | None \<Rightarrow> app);
             app = app\<lparr>ap_pass := (case nv_get N ''ap_pass'' PASS_SIZE n of Some s \<Rightarrow> s | None \<Rightarrow> [])\<rparr>
         in app\<lparr>sta_ssid := (case nv_get N ''sta_ssid'' SSID_SIZE n of Some s \<Rightarrow> s | None \<Rightarrow> strlcpy SSID_SIZE (def_sta_ssid K)),
                sta_pass := (case nv_get N ''sta_pass'' PASS_SIZE n of Some s \<Rightarrow> s | None \<Rightarrow> strlcpy PASS_SIZE (def_sta_pass K))\<rparr>))"

subsection \<open>The handlers\<close>

definition STATUS_COMPLETE :: "32 word" where
  "STATUS_COMPLETE = 0"

definition STATUS_BAD_ARG :: "32 word" where
  "STATUS_BAD_ARG = 0x80000003"

definition STATUS_NO_MEM :: "32 word" where
  "STATUS_NO_MEM = 0x80000006"

datatype sys_out = SendJson jsstr | SendStatus "32 word" | WifiSetConfig jsstr jsstr | WifiConnect

definition bApiHandlerEcho :: "nat \<Rightarrow> jsstr option \<Rightarrow> sys_out list" where
  "bApiHandlerEcho pending data =
     (if pending = 0 then [] else [SendJson (case data of None \<Rightarrow> lit ''\"null\"'' | Some d \<Rightarrow> d)])"

definition json_string_value :: "cjson_lib \<Rightarrow> string \<Rightarrow> json \<Rightarrow> jsstr option" where
  "json_string_value L name j = (case c_item L name j of Some (JStr s) \<Rightarrow> Some s | _ \<Rightarrow> None)"

definition api_handler_sta ::
  "cjson_lib \<Rightarrow> (nat \<Rightarrow> jsstr \<Rightarrow> jsstr) \<Rightarrow> 'n nvs \<Rightarrow> nat \<Rightarrow> jsstr option \<Rightarrow> wifi_app \<Rightarrow> 'n \<Rightarrow> sys_out list \<times> wifi_app \<times> 'n" where
  "api_handler_sta L cpy N pending arg app n =
     (if pending = 0 then ([], app, n)
      else case arg of
        None \<Rightarrow> ([SendJson (lit ''{\"SSID\":\"'' @ sta_ssid app @ lit ''\",\"PASS\":\"'' @ sta_pass app @ lit ''\"}''), SendStatus STATUS_COMPLETE], app, n)
      | Some a \<Rightarrow> (case c_parse L a of
          None \<Rightarrow> ([SendStatus STATUS_NO_MEM], app, n)
        | Some j \<Rightarrow> (case (json_string_value L ''SSID'' j, json_string_value L ''PASS'' j) of
            (Some ssid, Some pass) \<Rightarrow>
              (let app = app\<lparr>sta_ssid := cpy SSID_SIZE ssid, sta_pass := cpy PASS_SIZE pass\<rparr>
               in ([WifiSetConfig (sta_ssid app) (sta_pass app), WifiConnect, SendStatus STATUS_COMPLETE], app,
                   save_wifi_sta_config N (sta_ssid app) (sta_pass app) n))
          | _ \<Rightarrow> ([SendStatus STATUS_BAD_ARG], app, n))))"

subsection \<open>Properties\<close>

lemma nvsD:
  assumes "nvs_documented N"
  shows "nv_exists N (nv_set N k v n)" "nv_get N k len (nv_set N k v n) = (if length v < len then Some v else None)"
    "k' \<noteq> k \<Longrightarrow> nv_get N k' len (nv_set N k v n) = nv_get N k' len n" "\<not> nv_exists N n \<Longrightarrow> nv_get N k len n = None"
  using assms unfolding nvs_documented_def by blast+

lemma saved_station:
  assumes "nvs_documented N"
  shows "sta_ssid (load_config N K (save_wifi_sta_config N ssid pass n) app) = (if length ssid < 32 then ssid else strlcpy 32 (def_sta_ssid K))"
    and "sta_pass (load_config N K (save_wifi_sta_config N ssid pass n) app) = (if length pass < 64 then pass else strlcpy 64 (def_sta_pass K))"
  by (simp_all add: load_config_def save_wifi_sta_config_def nvsD [OF assms] SSID_SIZE_def PASS_SIZE_def Let_def)

text \<open>A storage that is a map, and settings of the build.\<close>

definition plain_nvs :: "(string \<Rightarrow> jsstr option) nvs" where
  "plain_nvs = \<lparr>nv_exists = (\<lambda>n. n \<noteq> (\<lambda>_. None)),
     nv_get = (\<lambda>k len n. case n k of Some v \<Rightarrow> if length v < len then Some v else None | None \<Rightarrow> None), nv_set = (\<lambda>k v n. n(k \<mapsto> v))\<rparr>"

lemma plain_nvs_documented: "nvs_documented plain_nvs"
  by (auto simp: nvs_documented_def plain_nvs_def fun_eq_iff)

definition demo_kconfig :: kconfig where
  "demo_kconfig = \<lparr>def_ap_ssid = lit ''TestNet'', def_ap_pass = lit ''12345678'', def_sta_ssid = [], def_sta_pass = []\<rparr>"



text \<open>C39. Settings of the station take the access point away. On a device without stored settings the access point starts with the name, the password and the protection of the build, though
  with the end of the name counted as a part of it; once the settings of a station are stored, it starts without a name, without a password, open, and for no station.\<close>

theorem station_settings_end_access_point:
  assumes "nvs_documented N" and "\<not> nv_exists N n" and "length (def_ap_ssid K) < 32" and "length (def_ap_pass K) < 64"
  shows "(let app = load_config N K n blank_app in ap_ssid app = def_ap_ssid K \<and> ap_ssid_len app = Suc (length (def_ap_ssid K))
        \<and> ap_pass app = def_ap_pass K \<and> ap_auth app = WIFI_AUTH_WPA2_PSK \<and> ap_max app = 4)
    \<and> (let app = load_config N K (save_wifi_sta_config N ssid pass n) blank_app in
        ap_ssid app = [] \<and> ap_ssid_len app = 0 \<and> ap_pass app = [] \<and> ap_auth app = 0 \<and> ap_max app = 0)"
proof -
  have "nv_exists N (save_wifi_sta_config N ssid pass n)" "nv_get N ''ap_ssid'' len (save_wifi_sta_config N ssid pass n) = None"
    "nv_get N ''ap_pass'' len (save_wifi_sta_config N ssid pass n) = None" for len
    by (simp_all add: save_wifi_sta_config_def nvsD(1,3) [OF assms(1)] nvsD(4) [OF assms(1,2)])
  then show ?thesis
    using assms(2-4) by (simp add: load_config_def load_config_default_def blank_app_def strlcpy_def SSID_SIZE_def PASS_SIZE_def Let_def)
qed

theorem station_settings_end_access_point_witness:
  "ap_ssid (load_config plain_nvs demo_kconfig Map.empty blank_app) = lit ''TestNet''
   \<and> ap_ssid (load_config plain_nvs demo_kconfig (save_wifi_sta_config plain_nvs (lit ''home'') [] Map.empty) blank_app) = []"
proof -
  have "\<not> nv_exists plain_nvs Map.empty" "length (def_ap_ssid demo_kconfig) < 32" "length (def_ap_pass demo_kconfig) < 64" "def_ap_ssid demo_kconfig = lit ''TestNet''"
    by (simp_all add: plain_nvs_def demo_kconfig_def) (simp_all add: lit_def)
  then show ?thesis using station_settings_end_access_point [OF plain_nvs_documented, of Map.empty demo_kconfig "lit ''home''" "[]"] by (simp add: Let_def)
qed

end
