(* ===== verification/List_Page.thy ===== *)
theory List_Page
  imports Page_Base Server_Safety
begin

section \<open>The file manager page\<close>

text \<open>
  The inline script of src/main/flash_data/list.html: a page that asks the gateway for its files over the WebSocket, shows a tile for each, sends the file
  the user chooses, and asks for the deletion of the tile the user selects. The style and the console are left out.
\<close>

record tile =
  ti_icon :: nat
  ti_file :: json
  ti_selected :: bool

record list_page = "unit browser" +
  fm_ws :: "nat option"
  fm_tiles :: "tile list"
  fm_chosen :: "json option"
  fm_alerts :: "jsstr list"

record list_env = engine +
  l_host :: jsstr

text \<open>Vyberite fail dlya udaleniya.\<close>

definition ru_choose_file :: jsstr where
  "ru_choose_file = [1042, 1099, 1073, 1077, 1088, 1080, 1090, 1077, 32, 1092, 1072, 1081, 1083, 32, 1076, 1083, 1103, 32, 1091, 1076, 1072, 1083, 1077, 1085,
     1080, 1103]"

text \<open>The code points of the icons; what follows the last dot of the name, or the whole name.\<close>

definition last_part :: "jsstr \<Rightarrow> jsstr" where
  "last_part s = rev (takeWhile (\<lambda>c. c \<noteq> 46) (rev s))"

definition getFileIcon :: "jsstr \<Rightarrow> nat" where
  "getFileIcon fileName = (let extension = last_part fileName in
     if extension \<in> {lit ''jpg'', lit ''png'', lit ''gif''} then 0x1F5BC
     else if extension = lit ''txt'' then 0x1F4C4
     else if extension = lit ''pdf'' then 0x1F4D1
     else if extension = lit ''zip'' then 0x1F4E6
     else 0x1F4C1)"

text \<open>\<open>getFileIcon(file.name)\<close>: only a text can be split.\<close>

definition icon_of :: "json \<Rightarrow> jsexn + nat" where
  "icon_of file = (case get_prop ''name'' file of
       Inl e \<Rightarrow> Inl e
     | Inr (Some (JStr s)) \<Rightarrow> Inr (getFileIcon s)
     | Inr _ \<Rightarrow> Inl TypeError)"

definition add_tile :: "json \<Rightarrow> list_page stmt" where
  "add_tile file = with_val (\<lambda>_. icon_of file) (\<lambda>icon.
     [assign (\<lambda>w. w\<lparr>fm_tiles := fm_tiles w @ [\<lparr>ti_icon = icon, ti_file = file, ti_selected = False\<rparr>]\<rparr>)])"

definition displayFiles :: "json option \<Rightarrow> list_page stmt" where
  "displayFiles files = block
     [assign (\<lambda>w. w\<lparr>fm_tiles := []\<rparr>),
      case files of Some (JArr fs) \<Rightarrow> block (map add_tile fs) | _ \<Rightarrow> throw TypeError]"

definition list_message :: "ws_data \<Rightarrow> list_page stmt" where
  "list_message data = (case json_parse (data_text data) of
       None \<Rightarrow> throw SyntaxError
     | Some d \<Rightarrow> with_val (\<lambda>_. get_prop ''action'' d) (\<lambda>action.
        [ifthen (\<lambda>_. action = Some (JStr (lit ''list_files'')))
          [with_val (\<lambda>_. get_prop ''files'' d) (\<lambda>files. [displayFiles files])]]))"

definition list_send :: "json \<Rightarrow> list_page stmt" where
  "list_send req w = (case fm_ws w of None \<Rightarrow> (Some TypeError, w) | Some i \<Rightarrow> sock_send i (stringify id req) w)"

definition list_request :: json where
  "list_request = JObj [(lit ''action'', JStr (lit ''list_files''))]"

text \<open>A buffer has no members that JSON shows.\<close>

definition upload_request :: "jsstr \<Rightarrow> json" where
  "upload_request name = JObj [(lit ''action'', JStr (lit ''upload_file'')), (lit ''name'', JStr name), (lit ''data'', JObj [])]"

definition delete_request :: "json option \<Rightarrow> json" where
  "delete_request name = JObj ((lit ''action'', JStr (lit ''delete_file'')) # (case name of Some v \<Rightarrow> [(lit ''name'', v)] | None \<Rightarrow> []))"

definition connectWebSocket :: "'z list_env_scheme \<Rightarrow> list_page stmt" where
  "connectWebSocket E w =
     (let url = lit ''ws://'' @ l_host E @ lit '':81/ws''
      in if url_ok E url
         then (None, w\<lparr>socks := socks w @ [\<lparr>s_url = url, s_ready = CONNECTING, s_sent = []\<rparr>], fm_ws := Some (length (socks w))\<rparr>)
         else (Some SyntaxError, w))"

definition delete_click :: "list_page stmt" where
  "delete_click w = (case fm_chosen w of
       Some f \<Rightarrow> if truthy id (Some f)
         then block [with_val (\<lambda>_. get_prop ''name'' f) (\<lambda>name. [list_send (delete_request name)]), assign (\<lambda>w. w\<lparr>fm_chosen := None\<rparr>)] w
         else (None, w\<lparr>fm_alerts := fm_alerts w @ [ru_choose_file]\<rparr>)
     | None \<Rightarrow> (None, w\<lparr>fm_alerts := fm_alerts w @ [ru_choose_file]\<rparr>))"

definition tile_click :: "nat \<Rightarrow> list_page \<Rightarrow> list_page" where
  "tile_click k w = w\<lparr>fm_chosen := Some (ti_file (fm_tiles w ! k)),
     fm_tiles := (fm_tiles w)[k := (fm_tiles w ! k)\<lparr>ti_selected := \<not> ti_selected (fm_tiles w ! k)\<rparr>]\<rparr>"

text \<open>The page, and its events: \<open>ListFile\<close> is the end of the reading of a chosen file.\<close>

definition list_load :: "'z list_env_scheme \<Rightarrow> list_page" where
  "list_load E = report (connectWebSocket E) \<lparr>socks = [], timers = [], next_timer = 1, doc = (\<lambda>_. []), listeners = [], console = [], uncaught = [],
     fm_ws = None, fm_tiles = [], fm_chosen = None, fm_alerts = []\<rparr>"

datatype list_event = ListOpen nat | ListMessage nat ws_data | ListClosed nat | ListFile jsstr | ListDelete | ListTile nat

fun list_enabled :: "list_page \<Rightarrow> list_event \<Rightarrow> bool" where
  "list_enabled w (ListOpen i) \<longleftrightarrow> i < length (socks w) \<and> ready_at (socks w) i = CONNECTING"
| "list_enabled w (ListMessage i data) \<longleftrightarrow> i < length (socks w) \<and> ready_at (socks w) i = OPEN"
| "list_enabled w (ListClosed i) \<longleftrightarrow> i < length (socks w) \<and> ready_at (socks w) i \<noteq> CLOSED"
| "list_enabled w (ListTile k) \<longleftrightarrow> k < length (fm_tiles w)"
| "list_enabled w _ \<longleftrightarrow> True"

fun list_step :: "list_event \<Rightarrow> list_page \<Rightarrow> list_page" where
  "list_step (ListOpen i) w = report (list_send list_request) (ready_now i OPEN w)"
| "list_step (ListMessage i data) w = report (list_message data) w"
| "list_step (ListClosed i) w = ready_now i CLOSED w"
| "list_step (ListFile name) w = report (list_send (upload_request name)) w"
| "list_step ListDelete w = report delete_click w"
| "list_step (ListTile k) w = tile_click k w"

subsection \<open>The page and the gateway\<close>

text \<open>Runs in which the messages are responses of the gateway and the names of chosen files are plain.\<close>

definition gateway_says :: "ws_data \<Rightarrow> bool" where
  "gateway_says data \<longleftrightarrow> (\<exists>fid sid v. json_parse (data_text data) = Some (response_object fid sid v))"

fun list_served :: "list_page \<Rightarrow> list_event \<Rightarrow> bool" where
  "list_served w (ListMessage i data) \<longleftrightarrow> list_enabled w (ListMessage i data) \<and> gateway_says data"
| "list_served w (ListFile name) \<longleftrightarrow> json_plain name"
| "list_served w e \<longleftrightarrow> list_enabled w e"

definition list_frames :: "jsstr set" where
  "list_frames = insert (stringify id list_request) (stringify id ` upload_request ` Collect json_plain)"

definition list_inv :: "list_page \<Rightarrow> bool" where
  "list_inv w \<longleftrightarrow> fm_tiles w = [] \<and> fm_chosen w = None \<and> (\<forall>i. set (sent_at (socks w) i) \<subseteq> list_frames)"

lemma response_ignored: "gateway_says data \<Longrightarrow> list_message data w = (None, w)"
  by (auto simp: gateway_says_def list_message_def stmt_defs get_prop_def response_object_def lit_def)

lemma send_inv:
  assumes "list_inv w" and "stringify id req \<in> list_frames"
  shows "list_inv (report (list_send req) w)"
  using assms
  by (auto simp: list_inv_def report_def list_send_def sock_send_def sent_at_def upd_at_def nth_list_update split: option.splits ready.splits if_splits prod.splits)

lemma ready_inv [simp]: "list_inv (ready_now i r w) = list_inv w"
proof -
  have "sent_at (upd_at i (s_ready_update f) ss) j = sent_at ss j" for f ss j
    by (simp add: sent_at_def upd_at_def nth_list_update)
  then show ?thesis by (simp add: list_inv_def ready_now_def)
qed

interpretation list_loop: loop_invariant "list_load E" list_served list_step list_inv for E
proof unfold_locales
  show "list_inv (list_load E)"
    by (auto simp: list_inv_def list_load_def report_def connectWebSocket_def sent_at_def Let_def)
next
  fix w e
  assume inv: "list_inv w" and "list_served w e"
  show "list_inv (list_step e w)"
  proof (cases e)
    case (ListOpen i)
    show ?thesis unfolding ListOpen list_step.simps by (rule send_inv) (simp_all add: inv list_frames_def)
  next
    case (ListFile name)
    then show ?thesis using inv \<open>list_served w e\<close> by (simp add: send_inv list_frames_def)
  next
    case (ListClosed i)
    then show ?thesis using inv by simp
  qed (use inv \<open>list_served w e\<close> in \<open>auto simp: report_def response_ignored list_inv_def delete_click_def\<close>)
qed

lemma frame_parts:
  assumes "cjson_documented L" and "v = list_request \<or> (\<exists>name. json_plain name \<and> v = upload_request name)"
  shows "json_wf v \<and> ascii_json v \<and> c_item L ''FID'' v = None"
proof (cases "v = list_request")
  case True
  then show ?thesis by (simp add: list_request_def json_plain_def cjson_item [OF assms(1)] lower_def lit_def)
next
  case False
  then obtain name where "json_plain name" and v: "v = upload_request name" using assms(2) by blast
  then show ?thesis by (simp add: upload_request_def json_plain_def cjson_item [OF assms(1)] lower_def lit_def)
qed

lemma no_function:
  assumes "cjson_documented L" and "f \<in> list_frames"
  shows "ws_server_on_text L H conn f s = s"
proof -
  obtain v where f: "f = stringify id v" and "v = list_request \<or> (\<exists>name. json_plain name \<and> v = upload_request name)"
    using assms(2) unfolding list_frames_def by blast
  note parts = frame_parts [OF assms(1) this(2)]
  have "c_parse L f = Some v" unfolding f using parts by (intro cjson_parse [OF assms(1)]) blast+
  moreover have "read_fid L v = 0" using parts by (simp add: read_fid_def)
  ultimately show ?thesis by (simp add: ws_server_on_text_def split: option.split)
qed

text \<open>C40. The file manager never shows a file. Whatever the user does, in every reachable state of the page in which the messages are responses of the gateway and the names of chosen files are plain text there is no tile and no file is
  chosen, and the gateway takes no notice of any frame the page has sent: it neither changes anything nor answers.\<close>

theorem file_manager_stays_empty:
  assumes "cjson_documented L" and "reachable (list_load E) list_served list_step w" and "f \<in> set (sent_at (socks w) i)"
  shows "fm_tiles w = [] \<and> fm_chosen w = None \<and> ws_server_on_text L H conn f s = s"
proof -
  have inv: "list_inv w" by (rule list_loop.inv_reachable [OF assms(2)])
  then have "f \<in> list_frames" using assms(3) by (auto simp: list_inv_def)
  then show ?thesis using inv no_function [OF assms(1)] by (simp add: list_inv_def)
qed

definition demo_list_env :: list_env where
  "demo_list_env = \<lparr>url_ok = (\<lambda>_. True), exn_text = (\<lambda>_. []), num_str = id, max_args = 65536, str_num = id, below = (\<lambda>_. 0), trunc = (\<lambda>_. 0),
     big_fixed = (\<lambda>_. []), l_host = lit ''192.168.4.1''\<rparr>"

theorem file_manager_stays_empty_witness:
  "ws_server_on_text plain_cjson always 1 (stringify id list_request) booted = booted
   \<and> stringify id list_request \<in> set (sent_at (socks (list_step (ListOpen 0) (list_load demo_list_env))) 0)"
proof -
  have sent: "stringify id list_request \<in> set (sent_at (socks (list_step (ListOpen 0) (list_load demo_list_env))) 0)"
    by (simp add: list_load_def connectWebSocket_def demo_list_env_def report_def ready_now_def list_send_def sock_send_def ready_at_def sent_at_def upd_at_def Let_def
        del: stringify.simps)
  have "reachable (list_load demo_list_env) list_served list_step (list_step (ListOpen 0) (list_load demo_list_env))"
    by (rule reach_step [OF reach_init]) (simp add: list_load_def connectWebSocket_def demo_list_env_def report_def ready_at_def Let_def)
  from file_manager_stays_empty [OF plain_cjson_documented this sent] sent show ?thesis by blast
qed

end
