(* ===== verification/Spec2Isabelle.thy ===== *)
theory Spec2Isabelle
  imports Terminal_Safety Server_Delivery Server_Keepalive Frame_Parser Meter_Properties Drive_Properties File_Properties
    Transport_Properties System_Config List_Page
begin

text \<open>
  A verification of the wireless gateway: its pages, its call server, its serial ports and Modbus, its file server, and
  the stations that connect to it.

  The program. The repository is an ESP32 gateway between serial lines and browsers. Its firmware
  (src/main, src/ws_server, in C) serves pages (src/main/flash_data) and answers calls on a WebSocket:
  a text frame with a function number FID, a call number SID, FLAGS and an argument ARG, all JSON. The
  pages are the JavaScript side: the web terminal (terminal/script.js, a class of its own), the page of a
  power meter (index.html), the pages of two frequency converters (innovert.html, innovert_isd.html), a
  file manager (list.html), and the form that uploads a file (src/main/upload_script.html).
  A request becomes a call of the call server; its worker forwards the call to the queue of the
  peripheral task that serves the function, serial or Modbus, and the task puts its answer on the worker's queue. An
  answer without a number goes to every call that waits for the function, one with a number to the call.
  Below the server, the transport makes a connection of each WebSocket and ends it when its station leaves.

  The ground. Gateway_Prelude: strings as UTF-16 code units, exceptions as values, statements and blocks with
  try and catch, and the contracts: \<open>codec\<close> and \<open>codec_chain\<close> for encoders and decoders,
  \<open>loop_invariant\<close> for event loops.
  Js_Base64, Js_Utf8, Js_Json, Js_Json_Laws, Js_Number, Js_Convert: the functions of the JavaScript library that
  the scripts call (btoa, atob, TextEncoder, TextDecoder, JSON.stringify, JSON.parse, parseInt, Math.random with
  the rounding of double precision, decimal text), executable, the encoders with their round trips as
  interpretations of \<open>codec\<close>.
  Browser: sockets with the states of the WebSocket standard, timers, document, console, and the
  member access, truth and string conversion of parsed values.

  The terminal. Terminal_Texts, Terminal: the class ESP32Terminal. The record \<open>world\<close> has one field per field of
  the object (socket, isConnected, isRegistered, packetCount, echoEnabled, subscriptionSid, txSid,
  resubscribeTimer) on top of the browser's; each method and each callback is a block of statements
  under its own name, in the order of the source, exceptions included.
  Terminal_Run: the page of terminal/index.html and its event loop, one event per listener, socket
  callback and timer. \<open>enabled\<close> says when the platform may deliver an event; nothing else is assumed
  of the user, the server or the network.
  Terminal_Forms: every method as one equation per branch. Terminal_Invariants: the invariants of the
  event loop. Terminal_Protocol: what each frame says to its receiver, and the errors. Terminal_Server:
  what the gateway's frames are to the terminal. Terminal_Link: an automaton of four variables that the
  page implements. Terminal_Calm: runs with one connection at a time. Terminal_Safety: properties of
  the reachable states.

  The other pages. Page_Base: what their scripts have in common, with the contract \<open>state_frame\<close> for statements that
  keep a part of the state. Page_Server, Page_Modbus: a frame of such a page as the gateway reads it, and the Modbus
  requests. Meter_Page and Meter_Run: the script of index.html (record \<open>meter\<close>); Meter_Forms, Meter_Calm,
  Meter_Properties: its properties. Drive_Tables: the tables of registers of both converters (\<open>idd_regs\<close>, \<open>isd_regs\<close>);
  Drive_Page and Drive_Run: their script (record \<open>drive\<close>); Drive_Values, Drive_Forms, Drive_Calm, Drive_Properties: its
  properties. List_Page: the script of list.html, with its property.

  The gateway.
  Hal_Queue: the queues of src/ws_server/src/ws_hal_freertos.c, with the contract \<open>bounded_fifo\<close>.
  Cjson_Lib: cJSON as a parameter, its documented behaviour, and cJSON_ParseInt of
  src/json/cJSON_helpers.c. Server_Frames: the text of the frames of _bApiCallSendJson and
  bApiCallSendStatus, with its length and buffer.
  Server_State, Server_Calls, Server_Worker: src/ws_server/src/ws_server.c. The record \<open>server\<close> has the
  sessions, the active calls (pxWsApiCall) and the waiting ones (pxWsApiWaitingForResponse), the handlers, the queue of each
  function, the worker's queue and what was sent. Server_State has the operations that send, break calls,
  register functions and connect or disconnect a client; Server_Calls has ws_server_on_text and
  ws_server_on_frame; Server_Worker has the three parts of vWsApiCallWorkerStep: the walk that pings
  and frees (\<open>serve_pass\<close>), the walk that forwards (\<open>forward_pass\<close>, whose cursor is the position in the
  list, for a walk may remove other calls), and the answers of the tasks (\<open>drain\<close>, \<open>handle_message\<close>).
  Server_Invariants: the critical sections as the events of a loop, an interpretation of
  \<open>loop_invariant\<close>. Server_Safety, Server_Progress, Server_Answers, Server_Delivery, Server_Keepalive:
  the properties. Frame_Parser: WsFrame_Parse of src/main/ws_frame_parser.c against the server.
  Serial_Port: src/main/uart.c and src/main/apih_uart.c, one definition per handler, and the receive
  buffer of a port. Serial_Properties: their properties. Modbus_Port: src/main/apih_modbus.c, from the request
  to the answer, with the buffer the answer is written to. Modbus_Properties: its properties.
  Transport: the links of src/main/connection.c and the connections of src/main/ws_transport_httpd.c as one state
  \<open>net\<close> with the server in it. Transport_Properties: an interpretation of \<open>loop_invariant\<close>, and the properties.
  File_Server, File_Properties: src/main/web_file_server.c with the upload page. System_Config:
  src/main/apih_sys.c and src/main/nvs_config.c. This theory: gateway and terminal together.

  What the lemmas show. End to end: typed text leaves the serial line as its UTF-8 bytes, serial
  bytes are shown as their text, a registration registers (C1 to C3). The pages with the gateway: a poll of the meter reads
  its registers, which are shown as their numbers, and writes arrive (C5, C6, C9, C11); a converter page subscribes to every register once,
  always shows what came in, and writes what the user sees (C7, C8, C10, C12, C13, C21).
  Files: what is uploaded is served, an upload leaves a whole file or none, a listed file is the one deleted (C14 to C16).
  Stations and connections: the table of links, the transport as a client of the call server, and the end of a link (C17 to C19);
  stored settings (C20).
  The terminal: every frame is one of the two commands with an identifier in range (C26), serial data is shown (C22); the page implements
  the link automaton (C27); with one connection at a time the flags are exact and no exception escapes (C28).
  The call server: freed memory is never read, numbers stay in range and queues within their bounds (C4);
  who gets an answer (C23, C29), new calls are told and deletions are exact (C24, C25); a request has one effect, the one the parser
  describes (C32, C34); the loops of the worker end (C33). Modbus: every request gets one answer and frees the port if the
  clock goes on, and the answer fits its buffer (C30, C31). The round trip of a serial configuration (C35).
  And the inputs for which the code does not do what it means to (C36 to C40). The other theorems of the property theories state
  more of the same kind, for example what one walk does with each call, response texts, errors, and further runs that go wrong.

  Parameters. What differs between engines and browsers are the records \<open>platform\<close>, \<open>engine\<close>, \<open>meter_env\<close>, \<open>drive_env\<close> and \<open>list_env\<close>: accepted URLs, exception
  messages, the text of numbers that are no small integers, clock texts, and the number of arguments a call takes.
  Random numbers and failures of the fit add-on come with the event. Libraries outside
  the repository are records of functions: \<open>cjson_lib\<close>, \<open>b64_lib\<close>, \<open>mb_lib\<close> and \<open>event_lib\<close> (Base64, Modbus and events of the
  CodeLibrary submodule; of Modbus nothing is assumed), \<open>uart_lib\<close> (the driver of ESP-IDF), \<open>vfs\<close> (the file system) and
  \<open>nvs\<close> (the storage of settings), with what the code relies on in \<open>cjson_documented\<close>,
  \<open>b64_documented\<close>, \<open>uart_documented\<close>, \<open>events_documented\<close>, \<open>vfs_documented\<close> and \<open>nvs_documented\<close>, and an instance of each that satisfies it. \<open>hal\<close> answers for the
  operating system and the transport: clock, mutex within a time limit, and whether a frame is accepted;
  every answer may differ from the one before.
  Bounds. There is no fuel: every recursion is structural or has a measure, except the loop that waits for
  Modbus, which is a \<open>while_option\<close> and is shown to end when the clock reaches every deadline; a loop that waits for what may never come
  (an upload) is \<open>None\<close> there, and shown to end when enough comes. Words of C are 32 words, so
  that clocks and numbers wrap as they do there.

  Simplifications. An address of the call server's heap is never used twice; reading a freed one sets \<open>s_fault\<close>. Memory
  suffices. A mutex makes what it guards one step. The log, the reference counts of response
  buffers and bApiCallGetId, which only reads, are left out; that a handler runs is recorded. Linked lists of CodeLibrary are lists.

  Not modelled. xterm.js and its fit add-on are third-party code; the calls into them are recorded.
  The style of the pages is kept only where the scripts change it, and the drawing of the gauges is not. The start of the HTTP
  server (src/main/web_server.c, file_system_helpers.c), of Wi-Fi and Ethernet (the rest of src/main/connection.c), of the
  application (src/main/app.c) and of the drivers consists of calls into ESP-IDF; src/protocol_examples_common is its example code, and the TFTP server
  is adapted third-party code. src/low_speed_periph and src/ws_api are stubs; src/devices and src/tests are simulators and tests.
\<close>

section \<open>The gateway and the terminal together\<close>

text \<open>
  The texts of Server_Frames, as the gateway sends them, delivered to the page of Terminal_Run. The
  gateway encodes serial data with \<open>base64_encode\<close> of a library that is not part of the repository;
  it is the parameter \<open>b64\<close>, of which only the standard encoding (RFC 4648) is assumed.
\<close>

definition serial_response :: "(nat list \<Rightarrow> jsstr) \<Rightarrow> u32 \<Rightarrow> nat list \<Rightarrow> jsstr" where
  "serial_response b64 sid bs = response_text FID_UART_RX sid (34 # b64 bs @ [34])"

definition status_response :: "32 word \<Rightarrow> jsstr" where
  "status_response sid = response_text FID_UART_RX sid (status_json STATUS_DELIVERED)"

lemma serial_response_data:
  assumes "b64 bs = btoa_bytes bs" and "bytes_ok bs" and "bs \<noteq> []"
  shows "frame_message E (Text (serial_response b64 sid bs)) = Data (JStr (btoa_bytes bs))"
proof -
  have "serial_response b64 sid bs = response_text FID_UART_RX sid (stringify id (JStr (btoa_bytes bs)))"
    using assms by (simp add: serial_response_def quote_json_def quote_body_plain btoa_json_plain)
  then show ?thesis using assms(3) serial_frame [of "btoa_bytes bs" E sid id] by simp
qed

lemma serial_response_step:
  assumes "b64 bs = btoa_bytes bs" and "bytes_ok bs" and "bs \<noteq> []" and "isRegistered w"
    and "echo_on w \<Longrightarrow> send_error (socket w) (socks w) = None"
  shows "shown (step E (SockMessage i (Text (serial_response b64 sid bs)) now) w) = shown w @ [text_decode bs]"
proof -
  have parse: "\<exists>v. json_parse (data_text (Text (serial_response b64 sid bs))) = Some v
      \<and> classify (num_str E) v = Data (JStr (btoa_bytes bs))"
    using serial_response_data [of b64 bs E sid, OF assms(1-3)] by (auto simp: frame_message_def split: option.splits)
  have "uart_text E (JStr (btoa_bytes bs)) = Inr (text_decode bs)"
    using assms(2) by (simp add: uart_text_def atob_def atob_btoa)
  with parse assms(4,5) show ?thesis
    by (auto simp: report_def handleWebSocketMessage_form processUARTData_form show_data_def count_packet_def
        shown_def echo_on_def Let_def)
qed

text \<open>C22. Serial data reaches the screen. What the gateway reads from the serial line and sends as a
  response of function \<open>0x00001021\<close> in Base64, a registered terminal writes as the text of these bytes,
  and exactly once; bytes that are the UTF-8 of a text come out as that text.\<close>

theorem serial_data_reaches_screen:
  assumes "\<forall>bs. bytes_ok bs \<longrightarrow> b64 bs = btoa_bytes bs"
    and "bytes_ok bs" and "bs \<noteq> []" and "isRegistered w" and "online w i"
  shows "shown (step E (SockMessage i (Text (serial_response b64 sid bs)) now) w) = shown w @ [text_decode bs]
    \<and> (\<forall>s. plain_text s \<and> bs = text_encode s \<longrightarrow>
        shown (step E (SockMessage i (Text (serial_response b64 sid bs)) now) w) = shown w @ [s])"
proof -
  have "shown (step E (SockMessage i (Text (serial_response b64 sid bs)) now) w) = shown w @ [text_decode bs]"
    by (rule serial_response_step) (use assms in simp_all)
  then show ?thesis by (auto simp: text_round_trip)
qed

theorem serial_data_reaches_screen_witness:
  "shown (step demo_platform (SockMessage 0 (Text (serial_response btoa_bytes 7 (lit ''ls''))) []) (demo_online\<lparr>isRegistered := True\<rparr>))
     = shown (demo_online\<lparr>isRegistered := True\<rparr>) @ [lit ''ls'']"
proof -
  have "bytes_ok (lit ''ls'')" "lit ''ls'' \<noteq> []" by (simp_all add: lit_def)
  moreover have "text_decode (lit ''ls'') = lit ''ls''"
    by (rule text_decode_ascii) (simp add: lit_def)
  moreover have "online (demo_online\<lparr>isRegistered := True\<rparr>) 0"
    using demo_online_simps(1) by (simp add: online_def)
  ultimately show ?thesis
    using serial_data_reaches_screen [of btoa_bytes "lit ''ls''" "demo_online\<lparr>isRegistered := True\<rparr>" 0 demo_platform 7 "[]"]
    by auto
qed

text \<open>The handshake. When the gateway answers the subscription of a connected terminal with the status
  of a delivered call, the terminal is registered whatever the identifier, the retry it had armed is
  no longer pending, and a retry that fires all the same does nothing.\<close>

theorem handshake_completes:
  assumes "resubscribeTimer w = Some t"
  shows "let w' = step E (SockMessage i (Text (status_response sid)) now) w in
      isRegistered w' \<and> packetCount w' = Suc (packetCount w)
    \<and> (\<forall>cb. \<not> pending w' cb t) \<and> socks w' = socks w
    \<and> retry_registration E r1 r2 w' = (None, w')"
proof -
  have "frame_message E (Text (status_response sid)) = Confirmation"
    by (simp add: status_response_def confirmation_frame)
  then have "step E (SockMessage i (Text (status_response sid)) now) w = confirm (count_packet now w)"
    by (auto simp: report_def handleWebSocketMessage_form frame_message_def split: option.splits)
  then show ?thesis
    using assms by (simp add: confirm_def count_packet_def pending_def list_ex_iff retry_registration_form)
qed

theorem handshake_completes_witness:
  "isRegistered (step demo_platform (SockMessage 0 (Text (status_response 1)) []) connected_page)"
proof -
  have "resubscribeTimer connected_page = Some 2"
    by (simp add: connected_page_def hello_def run_forms)
  from handshake_completes [OF this, of demo_platform 0 1 "[]" "(0, 53)" "(0, 53)"] show ?thesis
    by (simp add: Let_def)
qed

text \<open>Other functions are none of its business. A response of any other function, whatever its argument,
  is counted and has no other effect on the terminal.\<close>

theorem other_functions_ignored:
  assumes "fid \<noteq> FID_UART_RX" and "json_wf v"
  shows "step E (SockMessage i (Text (response_text fid sid (stringify ns v))) now) w = count_packet now w"
  using other_function [OF assms, of E sid ns]
  by (auto simp: report_def handleWebSocketMessage_form frame_message_def classify_def
      split: option.splits message.splits)

theorem other_functions_ignored_witness:
  "step demo_platform (SockMessage 0 (Text (response_text FID_UART_TX 7 (stringify id (JObj [(lit ''written'', JNat 2)])))) []) demo_online
     = count_packet [] demo_online"
  by (rule other_functions_ignored) (simp_all add: FID_UART_TX_def FID_UART_RX_def JNat_def safe_int_def safe_unsigned_def digit_def)


subsection \<open>The terminal's frames at the gateway\<close>

lemma register_frame_request: "register_frame E sid = stringify (num_str E) (request_object FID_UART_RX 4 sid)"
  unfolding register_frame_def request_object_def hex_string_rx ..

text \<open>The call a frame with typed text becomes, and what of it is forwarded.\<close>

definition data_call :: "nat \<Rightarrow> bool \<Rightarrow> nat \<Rightarrow> jsstr \<Rightarrow> call" where
  "data_call a hlr sid t = (request_call FID_UART_TX a hlr 0 sid)\<lparr>call_data := Some (34 # payload t @ [34])\<rparr>"

lemma data_frame_call:
  assumes "cjson_documented L" and "sid < 65536" and "plain_text t" and "s_user s conn = Some a"
    and "ws_get_fid_queue FID_UART_TX s \<noteq> None"
  shows "ws_server_on_text L H conn (data_frame E sid (JStr (payload t))) s
    = s\<lparr>s_calls := s_calls s @ [data_call a (FID_UART_TX \<in> set (s_handlers s)) sid t]\<rparr>"
proof -
  let ?v = "JStr (payload t)"
  let ?o = "JObj [(lit ''FID'', hex_string FID_UART_TX), (lit ''SID'', JNat sid), (lit ''FLAGS'', JNat 0), (lit ''ARG'', ?v)]"
  have frame: "data_frame E sid ?v = stringify (num_str E) ?o"
    unfolding data_frame_def hex_string_tx ..
  have plain: "json_plain (payload t)"
    using assms(3) by (simp add: payload_def btoa_json_plain plain_text_bytes)
  have "json_wf ?o" "ascii_json ?o"
    using assms(2) plain by (simp_all add: JNat_wf ascii_names ascii_JNat hex_string_tx)
       (simp add: json_plain_def lit_def)
  then have parse: "c_parse L (stringify (num_str E) ?o) = Some ?o" by (rule cjson_parse [OF assms(1)])
  have "c_item L ''FID'' ?o = Some (hex_string FID_UART_TX)" by (simp add: cjson_item [OF assms(1)] lower_def lit_def)
  then have fid: "read_fid L ?o = FID_UART_TX" by (simp add: read_fid_def read_fid_hex)
  have items: "number_item L ''SID'' ?o = Some (int sid)" "number_item L ''FLAGS'' ?o = Some 0" "c_item L ''ARG'' ?o = Some ?v"
    using assms(2) cjson_int [OF assms(1), of 0]
    by (simp_all add: number_item_def cjson_item [OF assms(1)] lower_def lit_def JNat_def cjson_int [OF assms(1)])
  have print: "c_print L ?v = 34 # payload t @ [34]"
    using print_b64 [OF assms(1) plain_text_bytes [OF assms(3)]] by (simp add: payload_def)
  have rdl: "c_item L ''RDL'' ?v = None" by (simp add: cjson_no_item [OF assms(1)])
  have ne: "stringify (num_str E) ?o \<noteq> []" by simp
  have new: "(new_call L H a ?o)\<lparr>call_id := and (word_of_int (int sid)) 0xFFFF, call_handler := hlr\<rparr> = data_call a hlr sid t" for hlr
    by (simp add: new_call_def data_call_def request_call_def fid items arg_data_def arg_delay_def print rdl number_of_sid [OF assms(2)])
  show ?thesis
    unfolding frame new [symmetric]
    by (rule on_text_known [OF assms(4) ne parse fid _ items(2,1) assms(5)]) simp
qed

text \<open>The gateway understands the terminal. The registration frame of a connected client becomes one new
  long-term call of the receive function under the subscription identifier, without an argument; a data frame
  becomes one new one-shot call of the transmit function under the sending identifier, whose argument is the
  quoted Base64 of the typed text; neither is answered with an error. Of cJSON only documented behaviour is assumed.\<close>

theorem gateway_takes_terminal_frames:
  assumes "cjson_documented L" and "sid < 65536" and "s_user s conn = Some a" and "plain_text t"
    and "ws_get_fid_queue FID_UART_RX s \<noteq> None" and "ws_get_fid_queue FID_UART_TX s \<noteq> None"
  shows "ws_server_on_text L H conn (register_frame E sid) s = s\<lparr>s_calls := s_calls s @
      [\<lparr>call_session = Some a, call_data = None, call_id = word_of_nat sid, call_handler = (FID_UART_RX \<in> set (s_handlers s)),
        call_fid = FID_UART_RX, call_pending = 1, call_flags = or FLAG_NEW FLAG_LONG_TERM, call_poll = 0, call_next = 0\<rparr>]\<rparr>
    \<and> ws_server_on_text L H conn (data_frame E sid (JStr (payload t))) s = s\<lparr>s_calls := s_calls s @
      [\<lparr>call_session = Some a, call_data = Some (34 # payload t @ [34]), call_id = word_of_nat sid,
        call_handler = (FID_UART_TX \<in> set (s_handlers s)), call_fid = FID_UART_TX, call_pending = 1, call_flags = FLAG_NEW,
        call_poll = 0, call_next = 0\<rparr>]\<rparr>"
proof -
  have "ws_server_on_text L H conn (register_frame E sid) s =
      s\<lparr>s_calls := s_calls s @ [request_call FID_UART_RX a (FID_UART_RX \<in> set (s_handlers s)) 4 sid]\<rparr>"
    unfolding register_frame_request by (rule plain_request [OF assms(1,2) _ _ _ assms(3,5)]) simp_all
  then show ?thesis
    using data_frame_call [OF assms(1,2,4,3,6), of H E]
    by (simp add: request_call_def data_call_def FLAG_LONG_TERM_def)
qed

theorem gateway_takes_terminal_frames_witness:
  "map call_data (s_calls (ws_server_on_text plain_cjson always 1 (data_frame demo_platform 7 (JStr (payload (lit ''ls'')))) booted))
    = [Some (34 # payload (lit ''ls'') @ [34])]"
proof -
  have "s_user booted 1 = Some 0" "ws_get_fid_queue FID_UART_RX booted \<noteq> None" "ws_get_fid_queue FID_UART_TX booted \<noteq> None"
    by (simp_all add: booted_eq ws_get_fid_queue_def)
  moreover have "plain_text (lit ''ls'')" by simp
  ultimately show ?thesis
    using gateway_takes_terminal_frames [OF plain_cjson_documented, of 7 booted 1 0 "lit ''ls''" always demo_platform]
    by (simp add: booted_facts del: One_nat_def)
qed

subsection \<open>From end to end\<close>

lemma forward_single:
  assumes "s_calls s = [c]" and "answerable H (s_sessions s) c conn" and "has_flag FLAG_NEW c" and "\<not> has_flag FLAG_TO_DELETE c"
    and "ws_get_fid_queue (call_fid c) s = Some q" and "length (q_items (s_queues s q)) < q_cap (s_queues s q)"
  shows "forward_pass H s = s\<lparr>s_out := s_out s @ [(conn, status_frame c STATUS_DELIVERED)], s_time := Suc (s_time s),
     s_queues := (s_queues s)(q := (s_queues s q)\<lparr>q_items := q_items (s_queues s q) @ [request_of c]\<rparr>),
     s_waiting := s_waiting s @ [waiting_form c], s_calls := []\<rparr>"
proof -
  have "\<not> asks_clock c" "\<not> not_due H c s" using assms(3) by (simp_all add: asks_clock_def not_due_def)
  with forward_branches [OF assms(2,4) _ refl, of "[]" "[]"] assms(1,3,5,6) show ?thesis
    by (simp add: forward_pass_def)
qed

text \<open>A client that the gateway can reach, with nothing else to do and room in the queue of a function.\<close>

definition idle_for :: "hal \<Rightarrow> u32 \<Rightarrow> nat \<Rightarrow> nat \<Rightarrow> nat \<Rightarrow> server \<Rightarrow> bool" where
  "idle_for H fid conn a q s \<longleftrightarrow> s_user s conn = Some a \<and> s_calls s = [] \<and> (\<forall>n. h_accepts H n conn)
     \<and> ws_get_fid_queue fid s = Some q \<and> length (q_items (s_queues s q)) < q_cap (s_queues s q)"

lemma idle_answerable:
  assumes "server_ok s" and "idle_for H fid conn a q s" and "call_session c = Some a"
  shows "answerable H (s_sessions s) c conn"
  using assms by (auto simp: idle_for_def answerable_def call_conn_def server_inv_def dest: sessions_okD(1))

text \<open>C3. Registration from end to end. When the gateway, idle and with room in the serial task's queue, gets the
  registration frame of a connected terminal and its worker walks the calls, one request is queued for the
  serial task, the client's call waits for its data, and exactly one frame is sent, to this client; and that
  frame registers the terminal that receives it.\<close>

theorem registration_end_to_end:
  assumes "cjson_documented L" and "sid < 65536" and "server_reachable caps L' H' s" and "idle_for H FID_UART_RX conn a q s"
  shows "let s' = forward_pass H (ws_server_on_text L H conn (register_frame E sid) s);
             c = waiting_form (request_call FID_UART_RX a (FID_UART_RX \<in> set (s_handlers s)) 4 sid) in
      s_out s' = s_out s @ [(conn, text_frame (status_response (word_of_nat sid)))]
    \<and> q_items (s_queues s' q) = q_items (s_queues s q) @ [\<lparr>m_fid = FID_UART_RX, m_id = word_of_nat sid, m_data = None\<rparr>]
    \<and> s_waiting s' = s_waiting s @ [c] \<and> fid_match FID_UART_RX c \<and> call_conn (s_sessions s') c = Some conn
    \<and> isRegistered (step E (SockMessage i (Text (status_response (word_of_nat sid))) now) w)"
proof -
  let ?c = "request_call FID_UART_RX a (FID_UART_RX \<in> set (s_handlers s)) 4 sid"
  let ?s = "s\<lparr>s_calls := [?c]\<rparr>"
  have ok: "server_ok s" by (rule serving.inv_reachable [OF assms(3)])
  have user: "s_user s conn = Some a" "ws_get_fid_queue FID_UART_RX s \<noteq> None" using assms(4) by (simp_all add: idle_for_def)
  have "ws_server_on_text L H conn (register_frame E sid) s = ?s"
    unfolding register_frame_request
    using plain_request [OF assms(1,2) _ _ _ user, of 4 H "num_str E"] assms(4) by (simp add: idle_for_def)
  moreover have ans: "answerable H (s_sessions s) ?c conn"
    by (rule idle_answerable [OF ok assms(4)]) (simp add: request_call_def)
  have flags: "has_flag FLAG_NEW ?c" "\<not> has_flag FLAG_TO_DELETE ?c" "call_fid ?c = FID_UART_RX"
    by (simp_all add: request_call_def has_flag_def FLAG_NEW_def FLAG_TO_DELETE_def)
  have "forward_pass H ?s = ?s\<lparr>s_out := s_out s @ [(conn, status_frame ?c STATUS_DELIVERED)], s_time := Suc (s_time s),
     s_queues := (s_queues s)(q := (s_queues s q)\<lparr>q_items := q_items (s_queues s q) @ [request_of ?c]\<rparr>),
     s_waiting := s_waiting s @ [waiting_form ?c], s_calls := []\<rparr>"
    using forward_single [of ?s ?c H conn q] ans flags assms(4) by (simp add: idle_for_def ws_get_fid_queue_def)
  moreover have "status_frame ?c STATUS_DELIVERED = text_frame (status_response (word_of_nat sid))"
    "request_of ?c = \<lparr>m_fid = FID_UART_RX, m_id = word_of_nat sid, m_data = None\<rparr>"
    by (simp_all add: status_frame_def status_response_def request_of_def request_call_def)
  moreover have "fid_match FID_UART_RX (waiting_form ?c)" "call_conn ses (waiting_form ?c) = call_conn ses ?c" for ses
    by (simp_all add: fid_match_def waiting_form_def call_conn_def request_call_def Let_def)
  moreover have "isRegistered (step E (SockMessage i (Text (status_response (word_of_nat sid))) now) w)"
  proof -
    have "frame_message E (Text (status_response (word_of_nat sid))) = Confirmation"
      by (simp add: status_response_def confirmation_frame)
    then have "step E (SockMessage i (Text (status_response (word_of_nat sid))) now) w = confirm (count_packet now w)"
      by (auto simp: report_def handleWebSocketMessage_form frame_message_def split: option.splits)
    then show ?thesis by (simp add: confirm_def)
  qed
  ultimately show ?thesis
    using ans by (simp add: answerable_def Let_def)
qed

lemma booted_idle: "idle_for always FID_UART_RX 1 0 0 booted" "idle_for always FID_UART_TX 1 0 0 booted"
  by (simp_all add: idle_for_def booted_eq ws_get_fid_queue_def ws_server_init_def)

theorem registration_end_to_end_witness:
  "s_out (forward_pass always (ws_server_on_text plain_cjson always 1 (register_frame demo_platform 7) booted))
     = [(1, text_frame (status_response 7))]
   \<and> isRegistered (step demo_platform (SockMessage 0 (Text (status_response 7)) []) demo_online)"
  using registration_end_to_end [OF plain_cjson_documented _ booted_reachable booted_idle(1), of 7 demo_platform 0 "[]" demo_online]
  by (simp add: Let_def booted_facts del: One_nat_def)

text \<open>C2. Serial data from end to end. What has come in on the serial line when the serial task handles a poll is sent by the
  worker, in one frame under its own call number, to each connected client that waits for it; and a registered terminal
  that gets this frame writes exactly the text of these bytes, once.\<close>

theorem serial_data_end_to_end:
  assumes "cjson_documented L" and "b64_documented B" and "server_reachable caps L' H' s" and "accepting H"
    and "sb_bytes (sp_buffer st 1) = bs" and "bytes_ok bs" and "bs \<noteq> []"
    and "c \<in> set (s_waiting s)" and "fid_match FID_UART_RX c" and "call_conn (s_sessions s) c = Some conn"
    and "isRegistered w" and "online w i"
  shows "\<exists>r f. fst (handle_msg L U B \<lparr>m_fid = FID_UART_RX, m_id = n, m_data = d\<rparr> st) = Some r
    \<and> f = serial_response btoa_bytes (call_id c) bs
    \<and> (conn, text_frame f) \<in> set (drop (length (s_out s)) (s_out (handle_message H r s)))
    \<and> length (filter (\<lambda>c. fid_match FID_UART_RX c) (s_waiting s)) = length (drop (length (s_out s)) (s_out (handle_message H r s)))
    \<and> shown (step E (SockMessage i (Text f) now) w) = shown w @ [text_decode bs]"
proof -
  let ?r = "\<lparr>m_fid = FID_UART_RX, m_id = 0, m_data = Some (34 # btoa_bytes bs @ [34])\<rparr>"
  have r: "fst (handle_msg L U B \<lparr>m_fid = FID_UART_RX, m_id = n, m_data = d\<rparr> st) = Some ?r"
    using poll_takes_everything [OF assms(1,2) uart_fids(1) assms(5,6), of U n d] assms(7) by simp
  have out: "s_out (handle_message H ?r s) = s_out s @ answer_frames (s_sessions s) ?r (filter (fid_match FID_UART_RX) (s_waiting s))"
    using broadcast_all [OF assms(3,4), of ?r] by simp
  have "answer_frame (s_sessions s) (34 # btoa_bytes bs @ [34]) c = (conn, text_frame (serial_response btoa_bytes (call_id c) bs))"
    using assms(9,10) by (simp add: answer_frame_def serial_response_def fid_match_def)
  then have "(conn, text_frame (serial_response btoa_bytes (call_id c) bs))
      \<in> set (answer_frames (s_sessions s) ?r (filter (fid_match FID_UART_RX) (s_waiting s)))"
    using assms(8,9) by (force simp: answer_frames_def)
  moreover have "shown (step E (SockMessage i (Text (serial_response btoa_bytes (call_id c) bs)) now) w) = shown w @ [text_decode bs]"
    by (rule serial_response_step) (use assms in simp_all)
  ultimately show ?thesis
    using r out by (auto simp: answer_frames_def)
qed

theorem serial_data_end_to_end_witness:
  "\<exists>r. fst (handle_msg plain_cjson plain_uart plain_b64 \<lparr>m_fid = FID_UART_RX, m_id = 7, m_data = None\<rparr>
      (demo_serial\<lparr>sp_buffer := (\<lambda>_. empty_buffer\<lparr>sb_bytes := lit ''ls''\<rparr>)\<rparr>)) = Some r
    \<and> (1, text_frame (serial_response btoa_bytes 7 (lit ''ls''))) \<in> set (drop (length (s_out subscribed)) (s_out (handle_message always r subscribed)))
    \<and> shown (step demo_platform (SockMessage 0 (Text (serial_response btoa_bytes 7 (lit ''ls''))) []) (demo_online\<lparr>isRegistered := True\<rparr>))
        = shown (demo_online\<lparr>isRegistered := True\<rparr>) @ [text_decode (lit ''ls'')]"
proof -
  have "bytes_ok (lit ''ls'')" "lit ''ls'' \<noteq> []" by (simp_all add: lit_def)
  moreover have "online (demo_online\<lparr>isRegistered := True\<rparr>) 0"
    using demo_online_simps(1) by (simp add: online_def)
  moreover have "waiting_7 \<in> set (s_waiting subscribed)" "call_conn (s_sessions subscribed) waiting_7 = Some 1"
    using waiting_7_facts by (simp_all add: subscribed_eq)
  ultimately show ?thesis
    using serial_data_end_to_end [OF plain_cjson_documented plain_b64_documented subscribed_reachable accepting_always,
        of "demo_serial\<lparr>sp_buffer := (\<lambda>_. empty_buffer\<lparr>sb_bytes := lit ''ls''\<rparr>)\<rparr>" "lit ''ls''" waiting_7 1
          "demo_online\<lparr>isRegistered := True\<rparr>" 0 plain_uart 7 None demo_platform "[]"] waiting_7_facts
    by auto
qed

text \<open>C1. Typed text from end to end. The frame a terminal sends for a typed text makes the idle gateway, whose serial task has
  nothing else to do, report the call as delivered and write exactly the UTF-8 bytes of this text to the second
  serial port; the answer with their number is put on the worker's queue under the terminal's sending identifier.\<close>

theorem typed_text_end_to_end:
  assumes "cjson_documented L" and "b64_documented B" and "uart_documented U" and "sid < 65536" and "plain_text t"
    and "t \<noteq> []" and "length (text_encode t) < 65536" and "server_reachable caps L' H' s"
    and "idle_for H FID_UART_TX conn a q s" and "q_items (s_queues s q) = []"
  shows "let s1 = forward_pass H (ws_server_on_text L H conn (data_frame E sid (JStr (payload t))) s);
             (s2, st') = uart_task_step L U B q (s1, st) in
      s_out s2 = s_out s @ [(conn, text_frame (response_text FID_UART_TX (word_of_nat sid) (status_json STATUS_DELIVERED)))]
    \<and> u_tx (sp_port st' 1) = u_tx (sp_port st 1) @ text_encode t
    \<and> s_worker s2 = queue_offer (uart_response L (word_of_nat sid) FID_UART_TX
        (Some (JObj [(lit ''written'', JNat (length (text_encode t)))]))) (s_worker s)"
proof -
  let ?c = "data_call a (FID_UART_TX \<in> set (s_handlers s)) sid t"
  let ?s = "s\<lparr>s_calls := [?c]\<rparr>"
  have ok: "server_ok s" by (rule serving.inv_reachable [OF assms(8)])
  have user: "s_user s conn = Some a" "ws_get_fid_queue FID_UART_TX s \<noteq> None" using assms(9) by (simp_all add: idle_for_def)
  have read: "ws_server_on_text L H conn (data_frame E sid (JStr (payload t))) s = ?s"
    using data_frame_call [OF assms(1,4,5) user, of H E] assms(9) by (simp add: idle_for_def)
  have ans: "answerable H (s_sessions s) ?c conn"
    by (rule idle_answerable [OF ok assms(9)]) (simp add: data_call_def request_call_def)
  have flags: "has_flag FLAG_NEW ?c" "\<not> has_flag FLAG_TO_DELETE ?c" "call_fid ?c = FID_UART_TX" "\<not> has_flag FLAG_LONG_TERM ?c"
    by (simp_all add: data_call_def request_call_def has_flag_def FLAG_NEW_def FLAG_TO_DELETE_def FLAG_LONG_TERM_def)
  have fwd: "forward_pass H ?s = ?s\<lparr>s_out := s_out s @ [(conn, status_frame ?c STATUS_DELIVERED)], s_time := Suc (s_time s),
     s_queues := (s_queues s)(q := (s_queues s q)\<lparr>q_items := [request_of ?c]\<rparr>),
     s_waiting := s_waiting s @ [waiting_form ?c], s_calls := []\<rparr>"
    using forward_single [of ?s ?c H conn q] ans flags(1-3) assms(9,10) by (simp add: idle_for_def ws_get_fid_queue_def)
  have req: "request_of ?c = \<lparr>m_fid = FID_UART_TX, m_id = word_of_nat sid, m_data = Some (34 # btoa_bytes (text_encode t) @ [34])\<rparr>"
    using flags(4) by (simp add: request_of_def) (simp add: data_call_def request_call_def payload_def)
  have frame: "status_frame ?c STATUS_DELIVERED
      = text_frame (response_text FID_UART_TX (word_of_nat sid) (status_json STATUS_DELIVERED))"
    by (simp add: status_frame_def data_call_def request_call_def)
  have "text_encode t \<noteq> []"
  proof
    assume "text_encode t = []"
    moreover have "plain_text []" "text_encode [] = []" by (simp_all add: plain_text_def text_encode_def)
    ultimately show False
      using text_round_trip [OF assms(5)] text_round_trip [of "[]"] assms(6) by simp
  qed
  note written = typed_bytes_are_written [OF assms(1-3) uart_fids(2) plain_text_bytes [OF assms(5)] this assms(7)]
  show ?thesis
    unfolding read fwd req frame
    by (simp add: uart_task_step_def queue_receive_def written Let_def)
qed

theorem typed_text_end_to_end_witness:
  "u_tx (sp_port (snd (uart_task_step plain_cjson plain_uart plain_b64 0
      (forward_pass always (ws_server_on_text plain_cjson always 1 (data_frame demo_platform 7 (JStr (payload (lit ''ls'')))) booted),
       demo_serial))) 1) = text_encode (lit ''ls'')"
proof -
  have t: "plain_text (lit ''ls'')" "lit ''ls'' \<noteq> []" "length (text_encode (lit ''ls'')) < 65536"
    "q_items (s_queues booted 0) = []" "(7::nat) < 65536"
    by (simp_all add: booted_eq ws_server_init_def) (simp add: lit_def)
  have "u_tx (sp_port demo_serial 1) = []" by (simp add: demo_serial_def demo_port_def)
  then show ?thesis
    using typed_text_end_to_end [OF plain_cjson_documented plain_b64_documented plain_uart_documented t(5,1,2,3)
        booted_reachable booted_idle(2) t(4), of demo_platform demo_serial]
    by (simp only: Let_def case_prod_unfold append_Nil)
qed

end
